(* ===== verification/Prelude.thy ===== *)
theory Prelude
  imports Main "HOL-Library.Char_ord" "HOL-Library.Sublist"
begin

text \<open>
  Shared vocabulary of the development: results with errors, computations over a state that can
  raise, Python's string methods on \<open>string\<close>, insertion-ordered dictionaries and decimal numerals.

  Strings are HOL strings: lists of 8-bit characters.  A Python \<open>str\<close> that holds characters
  outside ASCII is represented by its UTF-8 bytes; \<open>str.lower\<close> and the character classes below
  act on the ASCII letters only, as the code applies them to identifiers, header names, image
  names and quantities.
\<close>

section \<open>Theorem collections\<close>

named_theorems res_simps \<open>rewriting of results and effects\<close>
named_theorems str_simps \<open>rewriting of string operations\<close>
named_theorems dict_simps \<open>rewriting of dictionaries\<close>

section \<open>Results: a value or an error\<close>

definition bindE :: "'e + 'a \<Rightarrow> ('a \<Rightarrow> 'e + 'b) \<Rightarrow> 'e + 'b" where
  "bindE m f = (case m of Inl e \<Rightarrow> Inl e | Inr x \<Rightarrow> f x)"

lemma bindE_simps [simp, res_simps]:
  "bindE (Inl e) f = Inl e"
  "bindE (Inr x) f = f x"
  by (simp_all add: bindE_def)

lemma bindE_Inr_iff [res_simps]:
  "bindE m f = Inr y \<longleftrightarrow> (\<exists>x. m = Inr x \<and> f x = Inr y)"
  by (cases m) auto

lemma bindE_Inl_iff [res_simps]:
  "bindE m f = Inl e \<longleftrightarrow> m = Inl e \<or> (\<exists>x. m = Inr x \<and> f x = Inl e)"
  by (cases m) auto

lemma bindE_assoc: "bindE (bindE m f) g = bindE m (\<lambda>x. bindE (f x) g)"
  by (cases m) simp_all

lemma bindE_return [simp]: "bindE m Inr = m"
  by (cases m) simp_all

lemma bindE_cong [fundef_cong]:
  "m = m' \<Longrightarrow> (\<And>x. m' = Inr x \<Longrightarrow> f x = f' x) \<Longrightarrow> bindE m f = bindE m' f'"
  by (cases m') simp_all

text \<open>A loop that collects results and stops at the first error, as a comprehension does.\<close>

fun mapE :: "('a \<Rightarrow> 'e + 'b) \<Rightarrow> 'a list \<Rightarrow> 'e + 'b list" where
  "mapE f [] = Inr []"
| "mapE f (x # xs) = bindE (f x) (\<lambda>y. bindE (mapE f xs) (\<lambda>ys. Inr (y # ys)))"

text \<open>A loop that threads an accumulator and stops at the first error.\<close>

fun foldE :: "('b \<Rightarrow> 'a \<Rightarrow> 'e + 'b) \<Rightarrow> 'b \<Rightarrow> 'a list \<Rightarrow> 'e + 'b" where
  "foldE f a [] = Inr a"
| "foldE f a (x # xs) = bindE (f a x) (\<lambda>b. foldE f b xs)"

lemma mapE_Inr_length: "mapE f xs = Inr ys \<Longrightarrow> length ys = length xs"
  by (induction xs arbitrary: ys) (auto simp: bindE_Inr_iff)

lemma mapE_total [simp]: "mapE (\<lambda>x. Inr (f x)) xs = Inr (map f xs)"
  by (induction xs) simp_all

lemma mapE_Inr_set:
  "mapE f xs = Inr ys \<Longrightarrow> y \<in> set ys \<Longrightarrow> \<exists>x \<in> set xs. f x = Inr y"
  by (induction xs arbitrary: ys) (auto simp: bindE_Inr_iff)

lemma foldE_append:
  "foldE f a (xs @ ys) = bindE (foldE f a xs) (\<lambda>b. foldE f b ys)"
  by (induction xs arbitrary: a) (simp_all add: bindE_assoc)

lemma foldE_invariant:
  assumes "foldE f a xs = Inr b" and "P a"
    and "\<And>a x b. x \<in> set xs \<Longrightarrow> P a \<Longrightarrow> f a x = Inr b \<Longrightarrow> P b"
  shows "P b"
  using assms by (induction xs arbitrary: a) (auto simp: bindE_Inr_iff)

text \<open>An invariant of a loop that speaks about the elements it has been through.\<close>

lemma foldE_prefix_invariant:
  assumes run: "foldE f a xs = Inr b" and init: "P [] a"
    and step: "\<And>ys x zs a b. xs = ys @ x # zs \<Longrightarrow> P ys a \<Longrightarrow> f a x = Inr b \<Longrightarrow> P (ys @ [x]) b"
  shows "P xs b"
proof -
  have "P (ys @ zs) b" if "foldE f a zs = Inr b" "P ys a" "xs = ys @ zs" for ys zs a
    using that
  proof (induction zs arbitrary: ys a)
    case (Cons z zs)
    then obtain c where c: "f a z = Inr c" "foldE f c zs = Inr b" by (auto simp: bindE_Inr_iff)
    with Cons.prems have "P (ys @ [z]) c" by (intro step) auto
    with Cons.IH [of c "ys @ [z]"] c Cons.prems show ?case by simp
  qed simp
  from this [of a xs "[]"] run init show ?thesis by simp
qed

lemma foldE_map: "foldE f a (map g xs) = foldE (\<lambda>b x. f b (g x)) a xs"
  by (induction xs arbitrary: a) (simp_all cong: bindE_cong)

section \<open>Computations over a state that can raise\<close>

type_synonym ('w, 'e, 'a) comp = "'w \<Rightarrow> ('e + 'a) \<times> 'w"

definition ret :: "'a \<Rightarrow> ('w, 'e, 'a) comp" where
  "ret x = (\<lambda>w. (Inr x, w))"

definition raise :: "'e \<Rightarrow> ('w, 'e, 'a) comp" where
  "raise e = (\<lambda>w. (Inl e, w))"

definition bindC :: "('w, 'e, 'a) comp \<Rightarrow> ('a \<Rightarrow> ('w, 'e, 'b) comp) \<Rightarrow> ('w, 'e, 'b) comp" where
  "bindC m f = (\<lambda>w. case m w of (Inl e, w') \<Rightarrow> (Inl e, w') | (Inr x, w') \<Rightarrow> f x w')"

definition thenC :: "('w, 'e, 'a) comp \<Rightarrow> ('w, 'e, 'b) comp \<Rightarrow> ('w, 'e, 'b) comp" where
  "thenC m k = bindC m (\<lambda>_. k)"

text \<open>\<open>try: m except e: h e\<close>.\<close>

definition catchC :: "('w, 'e, 'a) comp \<Rightarrow> ('e \<Rightarrow> ('w, 'e, 'a) comp) \<Rightarrow> ('w, 'e, 'a) comp" where
  "catchC m h = (\<lambda>w. case m w of (Inl e, w') \<Rightarrow> h e w' | (Inr x, w') \<Rightarrow> (Inr x, w'))"

text \<open>A result used inside a computation.\<close>

definition liftE :: "'e + 'a \<Rightarrow> ('w, 'e, 'a) comp" where
  "liftE r = (\<lambda>w. (r, w))"

lemma comp_simps [simp, res_simps]:
  "ret x w = (Inr x, w)"
  "raise e w = (Inl e, w)"
  "liftE r w = (r, w)"
  by (simp_all add: ret_def raise_def liftE_def)

lemma bindC_eval [res_simps]:
  "m w = (Inr x, w') \<Longrightarrow> bindC m f w = f x w'"
  "m w = (Inl e, w') \<Longrightarrow> bindC m f w = (Inl e, w')"
  by (simp_all add: bindC_def)

lemma catchC_eval [res_simps]:
  "m w = (Inr x, w') \<Longrightarrow> catchC m h w = (Inr x, w')"
  "m w = (Inl e, w') \<Longrightarrow> catchC m h w = h e w'"
  by (simp_all add: catchC_def)

lemma bindC_Inr_iff:
  "bindC m f w = (Inr y, w'') \<longleftrightarrow> (\<exists>x w'. m w = (Inr x, w') \<and> f x w' = (Inr y, w''))"
  by (auto simp: bindC_def split: prod.splits sum.splits)

lemma bindC_ret [simp]: "bindC (ret x) f = f x"
  by (simp add: bindC_def ret_def)

lemma bindC_liftE [simp]:
  "bindC (liftE (Inr x)) f = f x"
  "bindC (liftE (Inl e)) f = raise e"
  by (simp_all add: bindC_def liftE_def raise_def)

text \<open>A computation that leaves the state alone, whatever it returns.\<close>

definition reads_only :: "('w, 'e, 'a) comp \<Rightarrow> bool" where
  "reads_only m \<longleftrightarrow> (\<forall>w. snd (m w) = w)"

lemma reads_onlyD: "reads_only m \<Longrightarrow> m w = (r, w') \<Longrightarrow> w' = w"
  by (metis reads_only_def snd_conv)

lemma reads_only_intros [intro]:
  "reads_only (ret x)" "reads_only (raise e)" "reads_only (liftE r)"
  by (simp_all add: reads_only_def)

lemma reads_only_bindC [intro]:
  "reads_only m \<Longrightarrow> (\<And>x. reads_only (f x)) \<Longrightarrow> reads_only (bindC m f)"
  unfolding reads_only_def bindC_def by (auto split: prod.splits sum.splits) (metis snd_conv)+

lemma reads_only_catchC [intro]:
  "reads_only m \<Longrightarrow> (\<And>e. reads_only (h e)) \<Longrightarrow> reads_only (catchC m h)"
  unfolding reads_only_def catchC_def by (auto split: prod.splits sum.splits) (metis snd_conv)+

section \<open>Characters and strings\<close>

definition code :: "char \<Rightarrow> nat" where
  "code c = of_char c"

definition is_digit :: "char \<Rightarrow> bool" where
  "is_digit c \<longleftrightarrow> 48 \<le> code c \<and> code c \<le> 57"

definition is_upper :: "char \<Rightarrow> bool" where
  "is_upper c \<longleftrightarrow> 65 \<le> code c \<and> code c \<le> 90"

definition is_lower :: "char \<Rightarrow> bool" where
  "is_lower c \<longleftrightarrow> 97 \<le> code c \<and> code c \<le> 122"

definition is_letter :: "char \<Rightarrow> bool" where
  "is_letter c \<longleftrightarrow> is_upper c \<or> is_lower c"

definition is_ascii :: "char \<Rightarrow> bool" where
  "is_ascii c \<longleftrightarrow> code c < 128"

definition lower_char :: "char \<Rightarrow> char" where
  "lower_char c = (if is_upper c then char_of (code c + 32) else c)"

definition lower :: "string \<Rightarrow> string" where
  "lower s = map lower_char s"

lemma code_char_of [simp]: "n < 256 \<Longrightarrow> code (char_of n) = n"
  by (simp add: code_def)

lemma code_lt [simp]: "code c < 256"
  by (simp add: code_def)

lemma code_eq_iff: "code c = code d \<longleftrightarrow> c = d"
  by (simp add: code_def)

lemma code_lower_char: "code (lower_char c) = (if is_upper c then code c + 32 else code c)"
  by (auto simp: lower_char_def is_upper_def)

lemma lower_char_not_upper [simp]: "\<not> is_upper (lower_char c)"
  by (auto simp: is_upper_def code_lower_char)

lemma lower_char_idem [simp]: "lower_char (lower_char c) = lower_char c"
  using lower_char_not_upper [of c] by (simp add: lower_char_def [of "lower_char c"])

lemma lower_idem [simp]: "lower (lower s) = lower s"
  by (simp add: lower_def)

lemma length_lower [simp]: "length (lower s) = length s"
  by (simp add: lower_def)

lemma lower_Nil [simp]: "lower [] = []" and lower_Cons [simp]: "lower (c # s) = lower_char c # lower s"
  by (simp_all add: lower_def)

lemma lower_append: "lower (s @ t) = lower s @ lower t"
  by (simp add: lower_def)

lemma lower_take: "lower (take n s) = take n (lower s)"
  by (simp add: lower_def take_map)

lemma is_lower_lower_char: "is_letter c \<Longrightarrow> is_lower (lower_char c)"
  by (auto simp: is_letter_def is_lower_def code_lower_char is_upper_def)

lemma is_digit_lower_char [simp]: "is_digit (lower_char c) = is_digit c"
  by (auto simp: is_digit_def code_lower_char is_upper_def)

text \<open>Python's \<open>startswith\<close>, \<open>endswith\<close>, \<open>lstrip\<close>, \<open>rstrip\<close>, \<open>strip\<close>, \<open>split\<close>, \<open>join\<close>.\<close>

fun startswith :: "string \<Rightarrow> string \<Rightarrow> bool" where
  "startswith s [] = True"
| "startswith [] (p # ps) = False"
| "startswith (c # cs) (p # ps) = (c = p \<and> startswith cs ps)"

definition endswith :: "string \<Rightarrow> string \<Rightarrow> bool" where
  "endswith s p = startswith (rev s) (rev p)"

lemma startswith_iff_prefix: "startswith s p = prefix p s"
  by (induction s p rule: startswith.induct) auto

lemma startswith_append [simp]: "startswith (p @ s) p"
  by (simp add: startswith_iff_prefix)

definition lstrip :: "(char \<Rightarrow> bool) \<Rightarrow> string \<Rightarrow> string" where
  "lstrip P s = dropWhile P s"

definition rstrip :: "(char \<Rightarrow> bool) \<Rightarrow> string \<Rightarrow> string" where
  "rstrip P s = rev (dropWhile P (rev s))"

definition strip :: "(char \<Rightarrow> bool) \<Rightarrow> string \<Rightarrow> string" where
  "strip P s = rstrip P (lstrip P s)"

definition is_space :: "char \<Rightarrow> bool" where
  "is_space c \<longleftrightarrow> code c \<in> {9, 10, 11, 12, 13, 28, 29, 30, 31, 32}"

fun splits :: "char \<Rightarrow> string \<Rightarrow> string list" where
  "splits d [] = [[]]"
| "splits d (c # cs) =
     (if c = d then [] # splits d cs
      else (case splits d cs of [] \<Rightarrow> [[c]] | w # ws \<Rightarrow> (c # w) # ws))"

fun join :: "string \<Rightarrow> string list \<Rightarrow> string" where
  "join d [] = []"
| "join d [w] = w"
| "join d (w # ws) = w @ d @ join d ws"

lemma splits_nonempty [simp]: "splits d s \<noteq> []"
  by (induction s) (auto split: list.splits)

lemma join_splits: "join [d] (splits d s) = s"
proof (induction s)
  case Nil
  then show ?case by simp
next
  case (Cons c s)
  obtain w ws where ws: "splits d s = w # ws"
    by (cases "splits d s") auto
  then show ?case using Cons by (cases ws) auto
qed

lemma splits_no_sep: "w \<in> set (splits d s) \<Longrightarrow> d \<notin> set w"
  by (induction s arbitrary: w) (auto split: if_splits list.splits)

lemma splits_id [str_simps]: "d \<notin> set s \<Longrightarrow> splits d s = [s]"
  by (induction s) auto

lemma splits_append_sep [str_simps]: "d \<notin> set s \<Longrightarrow> splits d (s @ d # t) = s # splits d t"
  by (induction s) auto

section \<open>Decimal numerals\<close>

definition digit_char :: "nat \<Rightarrow> char" where
  "digit_char n = char_of (48 + n)"

definition digit_val :: "char \<Rightarrow> nat" where
  "digit_val c = code c - 48"

fun show_nat :: "nat \<Rightarrow> string" where
  "show_nat n = (if n < 10 then [digit_char n] else show_nat (n div 10) @ [digit_char (n mod 10)])"

declare show_nat.simps [simp del]

definition show_int :: "int \<Rightarrow> string" where
  "show_int i = (if i < 0 then ''-'' @ show_nat (nat (- i)) else show_nat (nat i))"

definition parse_digits :: "string \<Rightarrow> nat" where
  "parse_digits s = foldl (\<lambda>n c. 10 * n + digit_val c) 0 s"

lemma digit_char_facts [simp]:
  "n < 10 \<Longrightarrow> is_digit (digit_char n)"
  "n < 10 \<Longrightarrow> digit_val (digit_char n) = n"
  by (simp_all add: digit_char_def is_digit_def digit_val_def)

lemma show_nat_digits: "list_all is_digit (show_nat n)"
proof (induction n rule: show_nat.induct)
  case (1 n)
  then show ?case by (cases "n < 10") (simp_all add: show_nat.simps [of n])
qed

lemma show_nat_nonempty [simp]: "show_nat n \<noteq> []"
  by (simp add: show_nat.simps [of n])

lemma parse_digits_append:
  "parse_digits (s @ [c]) = 10 * parse_digits s + digit_val c"
  by (simp add: parse_digits_def)

lemma parse_show_nat [simp]: "parse_digits (show_nat n) = n"
proof (induction n rule: show_nat.induct)
  case (1 n)
  show ?case
  proof (cases "n < 10")
    case True
    then show ?thesis by (simp add: show_nat.simps [of n] parse_digits_def)
  next
    case False
    with 1 show ?thesis
      by (simp add: show_nat.simps [of n] parse_digits_append)
  qed
qed

lemma strip_digits:
  assumes "list_all is_digit s"
  shows "strip is_space s = s"
proof -
  have ns: "\<not> is_space x" if "is_digit x" for x using that by (auto simp: is_digit_def is_space_def)
  have "dropWhile is_space s = s" using assms ns by (cases s) auto
  moreover have "dropWhile is_space (rev s) = rev s"
    using assms ns by (cases "rev s") (auto simp: list_all_iff dest: arg_cong [where f = set])
  ultimately show ?thesis by (simp add: strip_def lstrip_def rstrip_def)
qed

lemma show_nat_inj: "show_nat m = show_nat n \<longleftrightarrow> m = n"
  by (metis parse_show_nat)

section \<open>Insertion-ordered dictionaries\<close>

text \<open>
  A Python \<open>dict\<close> keeps its keys in insertion order: an association list.  Storing to a key that
  is present keeps its place.
\<close>

type_synonym ('k, 'v) dict = "('k \<times> 'v) list"

definition dget :: "('k, 'v) dict \<Rightarrow> 'k \<Rightarrow> 'v option" where
  "dget d k = map_of d k"

fun dset :: "'k \<Rightarrow> 'v \<Rightarrow> ('k, 'v) dict \<Rightarrow> ('k, 'v) dict" where
  "dset k v [] = [(k, v)]"
| "dset k v ((k', v') # d) = (if k' = k then (k, v) # d else (k', v') # dset k v d)"

text \<open>\<open>{**d, **e}\<close> and \<open>d.update(e)\<close>.\<close>

definition dmerge :: "('k, 'v) dict \<Rightarrow> ('k, 'v) dict \<Rightarrow> ('k, 'v) dict" where
  "dmerge d e = fold (\<lambda>(k, v). dset k v) e d"

lemma dget_Nil [simp]: "dget [] k = None"
  by (simp add: dget_def)

lemma dget_Cons [simp]: "dget ((k', v) # d) k = (if k' = k then Some v else dget d k)"
  by (simp add: dget_def)

lemma dget_dset [simp, dict_simps]: "dget (dset k v d) k' = (if k' = k then Some v else dget d k')"
  by (induction d) auto

lemma dset_keys: "map fst (dset k v d) = (if k \<in> fst ` set d then map fst d else map fst d @ [k])"
  by (induction d) (auto, force)

lemma distinct_dset: "distinct (map fst d) \<Longrightarrow> distinct (map fst (dset k v d))"
  by (auto simp: dset_keys)

lemma dget_dmerge: "distinct (map fst e) \<Longrightarrow>
  dget (dmerge d e) k = (case dget e k of Some v \<Rightarrow> Some v | None \<Rightarrow> dget d k)"
proof (induction e arbitrary: d)
  case Nil
  then show ?case by (simp add: dmerge_def)
next
  case (Cons kv e)
  obtain k0 v0 where kv: "kv = (k0, v0)" by (cases kv)
  have "k0 \<notin> fst ` set e" using Cons.prems kv by simp
  then have none: "dget e k0 = None" by (simp add: dget_def map_of_eq_None_iff)
  have "dget (dmerge d (kv # e)) k = dget (dmerge (dset k0 v0 d) e) k"
    by (simp add: dmerge_def kv)
  also have "\<dots> = (case dget e k of Some v \<Rightarrow> Some v | None \<Rightarrow> dget (dset k0 v0 d) k)"
    using Cons by simp
  finally show ?case using none by (auto simp: kv split: option.splits)
qed

lemma dget_append: "dget (d @ e) k = (case dget d k of Some v \<Rightarrow> Some v | None \<Rightarrow> dget e k)"
  by (induction d) auto

end
