(* ===== verification/Exceptions.thy ===== *)
theory Exceptions
  imports Prelude
begin

text \<open>
  The exception classes of the service (\<open>renku_notebooks/errors\<close>): the class hierarchy, the
  class attributes that each \<open>@dataclass\<close> declares, how a generated \<open>__init__\<close> fills an instance
  from them, and the datatype of everything the modelled code can raise.
\<close>

section \<open>The class hierarchy\<close>

datatype error_class =
    GenericError
  | UserInputError | MissingResourceError | AuthenticationError | InvalidPatchArgumentError
  | ImageParseError | InvalidCloudStorageUrl | OverriddenEnvironmentVariableError
  | InvalidComputeResourceError | InvalidCloudStorageConfiguration
  | ProgrammingError | ConfigurationError | FilteringResourcesError
  | DuplicateEnvironmentVariableError
  | IntermittentError | DeleteServerError | CannotStartServerError | JSCacheError
  | RetryTimeoutError | PatchServerError | PVDisabledError | AnonymousUserPatchError

text \<open>The parent class in each \<open>class C(P)\<close> header; the parent of \<open>GenericError\<close> is not modelled.\<close>

fun parent :: "error_class \<Rightarrow> error_class option" where
  "parent GenericError = None"
| "parent UserInputError = Some GenericError"
| "parent ProgrammingError = Some GenericError"
| "parent IntermittentError = Some GenericError"
| "parent MissingResourceError = Some UserInputError"
| "parent AuthenticationError = Some UserInputError"
| "parent InvalidPatchArgumentError = Some UserInputError"
| "parent ImageParseError = Some UserInputError"
| "parent InvalidCloudStorageUrl = Some UserInputError"
| "parent OverriddenEnvironmentVariableError = Some UserInputError"
| "parent InvalidComputeResourceError = Some UserInputError"
| "parent InvalidCloudStorageConfiguration = Some UserInputError"
| "parent ConfigurationError = Some ProgrammingError"
| "parent FilteringResourcesError = Some ProgrammingError"
| "parent DuplicateEnvironmentVariableError = Some ProgrammingError"
| "parent _ = Some IntermittentError"

fun depth :: "error_class \<Rightarrow> nat" where
  "depth GenericError = 0"
| "depth UserInputError = 1"
| "depth ProgrammingError = 1"
| "depth IntermittentError = 1"
| "depth _ = 2"

lemma depth_parent: "parent c = Some p \<Longrightarrow> depth p < depth c"
  by (cases c) auto

text \<open>The method resolution order, nearest class first.\<close>

function mro :: "error_class \<Rightarrow> error_class list" where
  "mro c = c # (case parent c of None \<Rightarrow> [] | Some p \<Rightarrow> mro p)"
  by pat_completeness auto
termination
  by (relation "measure depth") (auto dest: depth_parent)

declare mro.simps [simp del]

lemma mro_eq: "mro c = (case parent c of None \<Rightarrow> [c]
    | Some p \<Rightarrow> c # (case parent p of None \<Rightarrow> [p] | Some q \<Rightarrow> p # mro q))"
  by (simp add: mro.simps [of c] split: option.splits) (simp add: mro.simps split: option.splits)

definition is_subclass :: "error_class \<Rightarrow> error_class \<Rightarrow> bool" where
  "is_subclass c d \<longleftrightarrow> d \<in> set (mro c)"

section \<open>Class attributes\<close>

text \<open>The values that a class body assigns; \<open>None\<close> where the class does not assign the attribute.\<close>

fun own_message :: "error_class \<Rightarrow> string option" where
  "own_message GenericError = Some ''Something went wrong.''"
| "own_message UserInputError = Some ''Invalid user input.''"
| "own_message AuthenticationError =
     Some ''Accessing the requested resource requires authentication, please log in.''"
| "own_message ImageParseError = Some ''The provided image name cannot be parsed.''"
| "own_message InvalidCloudStorageUrl =
     Some ''The url for the cloud storage endpoint is not valid.''"
| "own_message InvalidComputeResourceError =
     Some ''The specified server options or resources are invalid or cannot be accessed.''"
| "own_message InvalidCloudStorageConfiguration =
     Some ''The provided cloud storage configuration isn't valid.''"
| "own_message ProgrammingError = Some ''You have found a bug''"
| "own_message ConfigurationError = Some ''There seems to to be a misconfiguration in Renku.''"
| "own_message IntermittentError =
     Some ''We seem to be experiencing some technical difficulties, please try again later.''"
| "own_message DeleteServerError =
     Some ''The server cannot be deleted, most likely due to problems with the underlying infrastructure.''"
| "own_message CannotStartServerError =
     Some ''Cannot start the server, most likely due to problems with the underlying infrastructure.''"
| "own_message JSCacheError = Some ''The jupyter server cache produced and unexpected error.''"
| "own_message RetryTimeoutError = Some ''Retrying the request timed out.''"
| "own_message PatchServerError = Some ''The server cannot be patched.''"
| "own_message PVDisabledError = Some ''Persistent Volumes aren't enabled in the config.''"
| "own_message AnonymousUserPatchError = Some ''Cannot patch sessions of anonymous users.''"
| "own_message _ = None"

fun own_code :: "error_class \<Rightarrow> int option" where
  "own_code GenericError = Some 2000"
| "own_code UserInputError = Some 1000"
| "own_code MissingResourceError = Some (1000 + 404)"
| "own_code AuthenticationError = Some (1000 + 401)"
| "own_code InvalidPatchArgumentError = Some (1000 + 400)"
| "own_code ImageParseError = Some (1000 + 2)"
| "own_code InvalidCloudStorageUrl = Some (1000 + 3)"
| "own_code OverriddenEnvironmentVariableError = Some (1000 + 4)"
| "own_code InvalidComputeResourceError = Some (1000 + 5)"
| "own_code InvalidCloudStorageConfiguration = Some (1000 + 6)"
| "own_code ProgrammingError = Some 2000"
| "own_code ConfigurationError = Some (2000 + 1)"
| "own_code FilteringResourcesError = Some (2000 + 2)"
| "own_code DuplicateEnvironmentVariableError = Some (2000 + 3)"
| "own_code IntermittentError = Some 3000"
| "own_code DeleteServerError = Some (3000 + 1)"
| "own_code CannotStartServerError = Some (3000 + 2)"
| "own_code JSCacheError = Some (3000 + 3)"
| "own_code RetryTimeoutError = Some (3000 + 4)"
| "own_code PatchServerError = Some (3000 + 5)"
| "own_code PVDisabledError = Some (3000 + 6)"
| "own_code AnonymousUserPatchError = Some (3000 + 7)"

text \<open>\<open>detail: Optional[str]\<close>: the inner option is Python's \<open>None\<close>.\<close>

fun own_detail :: "error_class \<Rightarrow> string option option" where
  "own_detail GenericError = Some None"
| "own_detail ProgrammingError = Some (Some ''Please report this to the Renku maintainers.'')"
| "own_detail ConfigurationError = Some (Some ''Please contact your administrator.'')"
| "own_detail IntermittentError =
     Some (Some ''If this problem persists please contact your administrator.'')"
| "own_detail _ = None"

fun own_status :: "error_class \<Rightarrow> int option" where
  "own_status GenericError = Some 500"
| "own_status UserInputError = Some 422"
| "own_status MissingResourceError = Some 404"
| "own_status AuthenticationError = Some 401"
| "own_status InvalidPatchArgumentError = Some 400"
| "own_status ProgrammingError = Some 500"
| "own_status IntermittentError = Some 500"
| "own_status AnonymousUserPatchError = Some 422"
| "own_status _ = None"

text \<open>Which classes carry the \<open>@dataclass\<close> decorator: every one but \<open>RetryTimeoutError\<close>.\<close>

fun is_dataclass :: "error_class \<Rightarrow> bool" where
  "is_dataclass RetryTimeoutError = False"
| "is_dataclass _ = True"

section \<open>Instances\<close>

fun lookup_attr :: "(error_class \<Rightarrow> 'a option) \<Rightarrow> 'a \<Rightarrow> error_class list \<Rightarrow> 'a" where
  "lookup_attr own d [] = d"
| "lookup_attr own d (c # cs) = (case own c of Some v \<Rightarrow> v | None \<Rightarrow> lookup_attr own d cs)"

text \<open>
  \<open>dataclass\<close> generates \<open>__init__\<close> from the annotated fields, with the class attribute as each
  field's default; a class without the decorator inherits \<open>__init__\<close>, with its defaults, from the
  nearest decorated class of its resolution order.
\<close>

definition init_defaults :: "error_class \<Rightarrow> error_class list" where
  "init_defaults c = dropWhile (\<lambda>d. \<not> is_dataclass d) (mro c)"

record api_error =
  err_class :: error_class
  err_message :: string
  err_code :: int
  err_detail :: "string option"
  err_status :: int

text \<open>
  \<open>C(message=..., detail=...)\<close>: an argument that is not given takes the default (the outer
  \<open>None\<close> of the model's arguments).
\<close>

definition new_error :: "error_class \<Rightarrow> string option \<Rightarrow> string option option \<Rightarrow> api_error" where
  "new_error c m d =
     (let ds = init_defaults c in
      \<lparr>err_class = c,
       err_message = (case m of Some t \<Rightarrow> t | None \<Rightarrow> lookup_attr own_message [] ds),
       err_code = lookup_attr own_code 0 ds,
       err_detail = (case d of Some t \<Rightarrow> t | None \<Rightarrow> lookup_attr own_detail None ds),
       err_status = lookup_attr own_status 0 ds\<rparr>)"

section \<open>Everything the code can raise\<close>

text \<open>
  \<open>Api\<close>: an error class of the service. \<open>K8sApi\<close>: the Kubernetes client's \<open>ApiException\<close> with
  its status. \<open>Validation\<close>: marshmallow's \<open>ValidationError\<close>. The rest are Python's own.
\<close>

datatype exc =
    Api api_error
  | K8sApi int
  | Validation string
  | RequestsError string
  | KeyError string
  | AttributeError string
  | TypeError string
  | ValueError string
  | IndexError
  | StopIteration
  | RuntimeError string
  | NotImplementedError

type_synonym 'a res = "exc + 'a"
type_synonym ('w, 'a) eff = "('w, exc, 'a) comp"

abbreviation api :: "error_class \<Rightarrow> string \<Rightarrow> exc" where
  "api c m \<equiv> Api (new_error c (Some m) None)"

abbreviation api_default :: "error_class \<Rightarrow> exc" where
  "api_default c \<equiv> Api (new_error c None None)"

abbreviation api_detail :: "error_class \<Rightarrow> string \<Rightarrow> string \<Rightarrow> exc" where
  "api_detail c m d \<equiv> Api (new_error c (Some m) (Some (Some d)))"

text \<open>\<open>isinstance(e, C)\<close> for the classes of the service.\<close>

fun isinstance :: "exc \<Rightarrow> error_class \<Rightarrow> bool" where
  "isinstance (Api e) c = is_subclass (err_class e) c"
| "isinstance _ c = False"

section \<open>Facts\<close>

lemma err_class_new_error [simp]: "err_class (new_error c m d) = c"
  by (simp add: new_error_def Let_def)

lemma err_message_new_error [simp]: "err_message (new_error c (Some m) d) = m"
  by (simp add: new_error_def Let_def)

lemma isinstance_api [simp]: "isinstance (Api (new_error c m d)) k = is_subclass c k"
  by simp

lemmas attr_simps = new_error_def Let_def init_defaults_def is_subclass_def mro_eq

text \<open>The group a code belongs to, as \<open>errors/__init__.py\<close> documents the three groups.\<close>

definition code_group :: "int \<Rightarrow> error_class option" where
  "code_group n =
     (if 1000 \<le> n \<and> n \<le> 1999 then Some UserInputError
      else if 2000 \<le> n \<and> n \<le> 2999 then Some ProgrammingError
      else if 3000 \<le> n \<and> n \<le> 3999 then Some IntermittentError
      else None)"

text \<open>
  Every error class below one of the three documented groups produces instances whose code
  lies in the range its group documents (user errors 1000-1999, programming errors 2000-2999,
  intermittent errors 3000-3999).
\<close>

theorem error_code_in_group:
  assumes "g \<in> {UserInputError, ProgrammingError, IntermittentError}" and "is_subclass c g"
  shows "code_group (err_code (new_error c m d)) = Some g"
  using assms by (cases c) (auto simp: attr_simps code_group_def)

theorem error_code_in_group_witness:
  "code_group (err_code (new_error PatchServerError None None)) = Some IntermittentError"
  by (rule error_code_in_group) (simp_all add: attr_simps)

text \<open>
  Two different error classes of the service never share an error code, with one exception:
  the code 3004 that \<open>RetryTimeoutError\<close> declares is never sent, because the class lacks the
  \<open>@dataclass\<close> decorator and its instances take the code 3000 of \<open>IntermittentError\<close>; and
  \<open>GenericError\<close> and \<open>ProgrammingError\<close> share the code 2000.
\<close>

theorem error_codes_shared:
  "err_code (new_error c m d) = err_code (new_error c' m' d') \<longleftrightarrow>
     c = c' \<or> {c, c'} = {GenericError, ProgrammingError}
     \<or> {c, c'} = {RetryTimeoutError, IntermittentError}"
  by (cases c; cases c') (simp_all add: attr_simps doubleton_eq_iff)

end
