(* ===== verification/Pyfloat.thy ===== *)
theory Pyfloat
  imports Complex_Main Prelude
begin

text \<open>
  Python numbers: unbounded integers, and floats as IEEE-754 doubles.  A float is the rational
  number it denotes; \<open>fl\<close> rounds an exact result to the nearest number with a 53-bit significand,
  ties to even, as the hardware does after each operation.  The exponent is not bounded: the
  model does not produce infinities, subnormal numbers or NaN, which the quantities handled by
  the service (cores, bytes, gigabytes, seconds) stay far away from.
\<close>

section \<open>Rounding half to even\<close>

definition round_half_even :: "rat \<Rightarrow> int" where
  "round_half_even x =
     (let f = \<lfloor>x\<rfloor>; d = x - of_int f in
      if d < 1 / 2 then f else if 1 / 2 < d then f + 1 else if even f then f else f + 1)"

lemma round_half_even_of_int [simp]: "round_half_even (of_int n) = n"
  by (simp add: round_half_even_def Let_def)

lemma round_half_even_bounds:
  "of_int (round_half_even x) \<le> x + 1 / 2" "x - 1 / 2 \<le> of_int (round_half_even x)"
proof -
  have f: "of_int \<lfloor>x\<rfloor> \<le> x" "x < of_int \<lfloor>x\<rfloor> + 1"
    by (rule of_int_floor_le) (rule floor_correct [THEN conjunct2, unfolded of_int_add of_int_1])
  show "of_int (round_half_even x) \<le> x + 1 / 2" "x - 1 / 2 \<le> of_int (round_half_even x)"
    using f unfolding round_half_even_def Let_def by (auto split: if_splits) linarith+
qed

lemma round_half_even_mono: "x \<le> y \<Longrightarrow> round_half_even x \<le> round_half_even y"
proof -
  assume "x \<le> y"
  then have fle: "\<lfloor>x\<rfloor> \<le> \<lfloor>y\<rfloor>" by (rule floor_mono)
  show ?thesis
  proof (cases "\<lfloor>x\<rfloor> = \<lfloor>y\<rfloor>")
    case True
    with \<open>x \<le> y\<close> show ?thesis by (auto simp: round_half_even_def Let_def)
  next
    case False
    with fle show ?thesis by (auto simp: round_half_even_def Let_def)
  qed
qed

lemma round_half_even_ge0: "0 \<le> x \<Longrightarrow> 0 \<le> round_half_even x"
  using round_half_even_mono [of 0 x] round_half_even_of_int [of 0] by simp

section \<open>Doubles\<close>

text \<open>\<open>2 ^ e\<close> for an integer exponent.\<close>

definition pow2 :: "int \<Rightarrow> rat" where
  "pow2 e = (if 0 \<le> e then 2 ^ nat e else 1 / 2 ^ nat (- e))"

lemma pow2_pos [simp]: "0 < pow2 e"
  by (simp add: pow2_def)

lemma pow2_powi: "pow2 e = 2 powi e"
  by (simp add: pow2_def power_int_def power_one_over inverse_eq_divide)

lemma pow2_Suc: "pow2 (e + 1) = 2 * pow2 e"
  by (simp add: pow2_powi power_int_add)

lemma pow2_mono: "a \<le> b \<Longrightarrow> pow2 a \<le> pow2 b"
  by (simp add: pow2_powi power_int_increasing)

lemma pow2_nat: "pow2 (int n) = 2 ^ n"
  by (simp add: pow2_def)

lemma pow2_add: "pow2 (a + b) = pow2 a * pow2 b"
  by (simp add: pow2_powi power_int_add)

text \<open>The number of times a natural number can be halved before it is 0 or 1.\<close>

fun ilog2 :: "nat \<Rightarrow> nat" where
  "ilog2 n = (if n < 2 then 0 else Suc (ilog2 (n div 2)))"

declare ilog2.simps [simp del]

lemma ilog2_bounds: "0 < n \<Longrightarrow> 2 ^ ilog2 n \<le> n \<and> n < 2 ^ Suc (ilog2 n)"
proof (induction n rule: ilog2.induct)
  case (1 n)
  show ?case
  proof (cases "n < 2")
    case True
    with 1 show ?thesis by (simp add: ilog2.simps [of n])
  next
    case False
    with 1 have "2 ^ ilog2 (n div 2) \<le> n div 2 \<and> n div 2 < 2 ^ Suc (ilog2 (n div 2))" by simp
    with False show ?thesis by (simp add: ilog2.simps [of n]) linarith
  qed
qed

text \<open>The binary exponent of a positive rational: the \<open>e\<close> with \<open>2 ^ e \<le> x < 2 ^ (e + 1)\<close>.\<close>

definition exponent :: "rat \<Rightarrow> int" where
  "exponent x =
     (let (n, d) = quotient_of x; e = int (ilog2 (nat n)) - int (ilog2 (nat d)) in
      if pow2 e \<le> x then e else e - 1)"

lemma exponent_bounds:
  assumes "0 < x"
  shows "pow2 (exponent x) \<le> x \<and> x < pow2 (exponent x + 1)"
proof -
  obtain n d where q: "quotient_of x = (n, d)" by (cases "quotient_of x")
  have d: "0 < d" and x: "x = of_int n / of_int d"
    using quotient_of_denom_pos [OF q] quotient_of_div [OF q] by auto
  have n: "0 < n" using assms x d by (simp add: zero_less_divide_iff)
  define a b where "a = ilog2 (nat n)" and "b = ilog2 (nat d)"
  have an: "2 ^ a \<le> nat n" "nat n < 2 ^ Suc a" and bd: "2 ^ b \<le> nat d" "nat d < 2 ^ Suc b"
    using ilog2_bounds [of "nat n"] ilog2_bounds [of "nat d"] n d by (simp_all add: a_def b_def)
  have nr: "(of_int n :: rat) = of_nat (nat n)" and dr: "(of_int d :: rat) = of_nat (nat d)"
    using n d by simp_all
  have n1: "(2::rat) ^ a \<le> of_int n" and n2: "of_int n < (2::rat) ^ Suc a"
    unfolding nr using an by (metis of_nat_le_iff of_nat_numeral of_nat_power)
      (metis an(2) of_nat_less_iff of_nat_numeral of_nat_power)
  have d1: "(2::rat) ^ b \<le> of_int d" and d2: "of_int d < (2::rat) ^ Suc b"
    unfolding dr using bd by (metis of_nat_le_iff of_nat_numeral of_nat_power)
      (metis bd(2) of_nat_less_iff of_nat_numeral of_nat_power)
  have dpos: "(0::rat) < of_int d" using d by simp
  let ?e = "int a - int b"
  have pe: "pow2 ?e * 2 ^ b = 2 ^ a"
    using pow2_add [of ?e "int b"] by (simp add: pow2_nat)
  have up: "x < pow2 (?e + 1)"
  proof -
    have "of_int n < 2 * (2::rat) ^ a" using n2 by simp
    also have "\<dots> = 2 * pow2 ?e * 2 ^ b" by (simp add: pe [symmetric])
    also have "\<dots> \<le> 2 * pow2 ?e * of_int d" using d1 by simp
    finally show ?thesis using dpos by (simp add: x pow2_Suc divide_less_eq)
  qed
  have lo: "pow2 (?e - 1) \<le> x"
  proof -
    have h: "pow2 ?e = 2 * pow2 (?e - 1)" using pow2_Suc [of "?e - 1"] by simp
    have "pow2 (?e - 1) * of_int d \<le> pow2 (?e - 1) * 2 ^ Suc b"
      using d2 less_imp_le [OF pow2_pos] by (intro mult_left_mono) auto
    also have "\<dots> = pow2 ?e * 2 ^ b" using h by simp
    also have "\<dots> \<le> of_int n" using pe n1 by simp
    finally show ?thesis using dpos by (simp add: x le_divide_eq)
  qed
  have "exponent x = (if pow2 ?e \<le> x then ?e else ?e - 1)"
    by (simp add: exponent_def q a_def b_def)
  then show ?thesis using up lo by auto
qed

definition fl :: "rat \<Rightarrow> rat" where
  "fl x =
     (if x = 0 then 0
      else (let ulp = pow2 (exponent \<bar>x\<bar> - 52) in of_int (round_half_even (x / ulp)) * ulp))"

text \<open>Rounding does not change what 53 bits hold; in particular no integer up to \<open>2 ^ 53\<close>.\<close>

lemma fl_0 [simp]: "fl 0 = 0"
  by (simp add: fl_def)

lemma fl_exact:
  assumes "x = of_int m * pow2 (exponent \<bar>x\<bar> - 52)"
  shows "fl x = x"
proof (cases "x = 0")
  case False
  let ?u = "pow2 (exponent \<bar>x\<bar> - 52)"
  have "x / ?u = of_int m"
    using assms pow2_pos [of "exponent \<bar>x\<bar> - 52"] by (metis less_irrefl nonzero_mult_div_cancel_right)
  then have "fl x = of_int (round_half_even (of_int m)) * ?u"
    using False by (simp add: fl_def Let_def)
  with assms show ?thesis by simp
qed simp

lemma exponent_unique:
  assumes "0 < x" "pow2 e \<le> x" "x < pow2 (e + 1)"
  shows "exponent x = e"
proof (rule antisym)
  have b: "pow2 (exponent x) \<le> x" "x < pow2 (exponent x + 1)"
    using exponent_bounds [OF assms(1)] by simp_all
  show "exponent x \<le> e"
  proof (rule ccontr)
    assume "\<not> exponent x \<le> e"
    then have "pow2 (e + 1) \<le> pow2 (exponent x)" by (intro pow2_mono) simp
    with b assms show False by simp
  qed
  show "e \<le> exponent x"
  proof (rule ccontr)
    assume "\<not> e \<le> exponent x"
    then have "pow2 (exponent x + 1) \<le> pow2 e" by (intro pow2_mono) simp
    with b assms show False by simp
  qed
qed

lemma exponent_le: "0 < x \<Longrightarrow> x < pow2 (e + 1) \<Longrightarrow> exponent x \<le> e"
proof (rule ccontr)
  assume x: "0 < x" "x < pow2 (e + 1)" and "\<not> exponent x \<le> e"
  then have "pow2 (e + 1) \<le> pow2 (exponent x)" by (intro pow2_mono) simp
  with x exponent_bounds [OF x(1)] show False by simp
qed

lemma fl_of_int_exact:
  assumes "\<bar>n\<bar> \<le> 2 ^ 53"
  shows "fl (of_int n) = of_int n"
proof (cases "\<bar>n\<bar> = 2 ^ 53 \<or> n = 0")
  case True
  have abs: "\<bar>of_int n\<bar> = (2 :: rat) ^ 53" if "\<bar>n\<bar> = 2 ^ 53"
    using that by (metis of_int_abs of_int_numeral of_int_power)
  have ex: "exponent ((2 :: rat) ^ 53) = 53"
    by (rule exponent_unique) (simp_all add: pow2_def)
  show ?thesis
  proof (cases "n = 0")
    case False
    with True have n: "\<bar>n\<bar> = 2 ^ 53" by simp
    have "n = sgn n * 2 ^ 53" using n by (metis abs_sgn mult.commute sgn_mult_abs)
    then have "of_int n = (of_int (sgn n * 2 ^ 52) * 2 :: rat)"
      by (metis (no_types) of_int_mult of_int_numeral mult.assoc power_Suc2 eval_nat_numeral(3))
    moreover have "pow2 (exponent \<bar>of_int n\<bar> - 52) = 2"
      unfolding abs [OF n] ex by (simp add: pow2_def)
    ultimately show ?thesis by (intro fl_exact [where m = "sgn n * 2 ^ 52"]) simp
  qed simp
next
  case False
  with assms have lt: "\<bar>n\<bar> < 2 ^ 53" and nz: "n \<noteq> 0" by simp_all
  have "\<bar>of_int n\<bar> < (2 :: rat) ^ 53"
    using lt by (metis of_int_abs of_int_less_iff of_int_numeral of_int_power)
  then have "exponent \<bar>of_int n\<bar> \<le> 52"
    using nz by (intro exponent_le) (simp_all add: pow2_def)
  then show ?thesis
    by (intro fl_exact [where m = "n * 2 ^ nat (52 - exponent \<bar>of_int n\<bar>)"]) (simp add: pow2_def)
qed

lemma fl_nonneg: "0 \<le> x \<Longrightarrow> 0 \<le> fl x"
  by (simp add: fl_def Let_def round_half_even_ge0 less_imp_le)

lemma fl_numeral [simp]: "numeral k \<le> (2 ^ 53 :: int) \<Longrightarrow> fl (numeral k) = numeral k"
  using fl_of_int_exact [of "numeral k"] by simp

lemma fl_1 [simp]: "fl 1 = 1"
  using fl_of_int_exact [of 1] by simp

lemma round_half_even_minus: "round_half_even (- x) = - round_half_even x"
proof (cases "x = of_int \<lfloor>x\<rfloor>")
  case True
  then show ?thesis by (metis of_int_minus round_half_even_of_int)
next
  case False
  define f where "f = \<lfloor>x\<rfloor>"
  have "of_int f \<le> x" "x < of_int f + 1"
    unfolding f_def using floor_correct [of x] by simp_all
  moreover have "of_int f \<noteq> x" using False unfolding f_def by metis
  ultimately have f: "of_int f < x" "x < of_int f + 1" by simp_all
  then have "\<lfloor>- x\<rfloor> = - f - 1" by (intro floor_unique) simp_all
  moreover have "\<lfloor>x\<rfloor> = f" by (simp add: f_def)
  ultimately show ?thesis using f
    by (auto simp: round_half_even_def Let_def)
qed

lemma fl_minus: "fl (- x) = - fl x"
  by (simp add: fl_def Let_def round_half_even_minus)

lemma fl_nonpos: "x \<le> 0 \<Longrightarrow> fl x \<le> 0"
  using fl_nonneg [of "- x"] by (simp add: fl_minus)

text \<open>Rounding keeps the sign and never rounds a number that is not zero to zero.\<close>

lemma round_half_even_ge: "of_int n \<le> x \<Longrightarrow> n \<le> round_half_even x"
  using round_half_even_mono [of "of_int n" x] by simp

lemma fl_pos: "0 < x \<Longrightarrow> 0 < fl x"
proof -
  assume x: "0 < x"
  let ?u = "pow2 (exponent x - 52)"
  have "pow2 (exponent x) = 2 ^ 52 * ?u"
    using pow2_add [of 52 "exponent x - 52"] by (simp add: pow2_def)
  then have "of_int (2 ^ 52) \<le> x / ?u"
    using exponent_bounds [OF x] by (simp add: le_divide_eq)
  then have "(2 ^ 52 :: int) \<le> round_half_even (x / ?u)" by (rule round_half_even_ge)
  then have "0 < round_half_even (x / ?u)" by (rule less_le_trans [rotated]) simp
  with x show ?thesis by (simp add: fl_def Let_def)
qed

lemma fl_ge0_iff [simp]: "0 \<le> fl x \<longleftrightarrow> 0 \<le> x"
  using fl_nonneg [of x] fl_pos [of "- x"] by (auto simp: fl_minus not_le [symmetric])

lemma fl_gt0_iff [simp]: "0 < fl x \<longleftrightarrow> 0 < x"
  using fl_pos [of x] fl_nonpos [of x] by (auto simp: not_le [symmetric])

text \<open>Rounding is monotone on the numbers from 0 up, and rounding twice is rounding once.\<close>

lemma fl_between:
  assumes x: "0 < x"
  shows "pow2 (exponent x) \<le> fl x" "fl x \<le> pow2 (exponent x + 1)"
proof -
  define e u where "e = exponent x" and "u = pow2 (exponent x - 52)"
  have u: "0 < u" by (simp add: u_def)
  have e0: "pow2 e = 2 ^ 52 * u" and e1: "pow2 (e + 1) = 2 ^ 53 * u"
    using pow2_add [of 52 "e - 52"] pow2_add [of 53 "e - 52"] pow2_nat [of 52] pow2_nat [of 53]
    by (simp_all add: u_def e_def add.commute)
  have b: "pow2 e \<le> x" "x < pow2 (e + 1)"
    using exponent_bounds [OF x] by (simp_all add: e_def)
  have "of_int (2 ^ 52) \<le> x / u" using b(1) u by (simp add: e0 le_divide_eq)
  then have lo: "2 ^ 52 \<le> round_half_even (x / u)" by (rule round_half_even_ge)
  have "x / u \<le> of_int (2 ^ 53)" using b(2) u by (simp add: e1 divide_le_eq)
  then have hi: "round_half_even (x / u) \<le> 2 ^ 53"
    using round_half_even_mono [of "x / u" "of_int (2 ^ 53)"]
    by (simp only: round_half_even_of_int)
  have fx: "fl x = of_int (round_half_even (x / u)) * u"
    using x by (simp add: fl_def u_def Let_def)
  have lo': "(2::rat) ^ 52 \<le> of_int (round_half_even (x / u))"
    using lo by (metis of_int_le_iff of_int_numeral of_int_power)
  have hi': "of_int (round_half_even (x / u)) \<le> (2::rat) ^ 53"
    using hi by (metis of_int_le_iff of_int_numeral of_int_power)
  show "pow2 (exponent x) \<le> fl x"
    using mult_right_mono [OF lo'] u by (simp add: fx e_def [symmetric] e0)
  show "fl x \<le> pow2 (exponent x + 1)"
    using mult_right_mono [OF hi'] u by (simp add: fx e_def [symmetric] e1)
qed

lemma fl_mono_pos:
  assumes "0 < x" "x \<le> y"
  shows "fl x \<le> fl y"
proof (cases "exponent x = exponent y")
  case True
  have "round_half_even (x / u) \<le> round_half_even (y / u)" if "0 < u" for u
    using assms that by (intro round_half_even_mono divide_right_mono) simp_all
  then show ?thesis using assms True by (simp add: fl_def Let_def)
next
  case False
  have "exponent x \<le> exponent y"
    using assms exponent_bounds [of y] by (intro exponent_le) simp_all
  with False have "pow2 (exponent x + 1) \<le> pow2 (exponent y)" by (intro pow2_mono) simp
  then show ?thesis using fl_between [of x] fl_between [of y] assms by simp
qed

lemma fl_mono:
  assumes "x \<le> y"
  shows "fl x \<le> fl y"
proof -
  consider "0 < x" | "x \<le> 0" "0 \<le> y" | "y < 0" by linarith
  then show ?thesis
  proof cases
    case 1
    then show ?thesis using assms by (rule fl_mono_pos)
  next
    case 2
    have "fl x \<le> 0" using 2(1) by (rule fl_nonpos)
    also have "0 \<le> fl y" using 2(2) by (rule fl_nonneg)
    finally show ?thesis .
  next
    case 3
    then show ?thesis using fl_mono_pos [of "- y" "- x"] assms by (simp add: fl_minus)
  qed
qed

lemma fl_idem_pos:
  assumes x: "0 < x"
  shows "fl (fl x) = fl x"
proof (cases "fl x = pow2 (exponent x + 1)")
  case True
  have "exponent (fl x) = exponent x + 1"
    using True pow2_Suc [of "exponent x + 1"] by (intro exponent_unique) simp_all
  moreover have "pow2 (exponent x + 1) = of_int (2 ^ 52) * pow2 (exponent x + 1 - 52)"
    using pow2_add [of 52 "exponent x + 1 - 52"] pow2_nat [of 52] by (simp add: add.commute)
  ultimately show ?thesis
    using True fl_pos [OF x] by (intro fl_exact [where m = "2 ^ 52"]) (simp add: abs_of_pos)
next
  case False
  then have "exponent (fl x) = exponent x"
    using fl_between [OF x] fl_pos [OF x] by (intro exponent_unique) simp_all
  then show ?thesis
    using x fl_pos [OF x]
    by (intro fl_exact [where m = "round_half_even (x / pow2 (exponent x - 52))"])
      (simp add: fl_def Let_def)
qed

lemma fl_idem [simp]: "fl (fl x) = fl x"
proof (cases "0 < x")
  case False
  then show ?thesis using fl_idem_pos [of "- x"] by (cases "x = 0") (simp_all add: fl_minus)
qed (rule fl_idem_pos)

section \<open>Python numbers\<close>

text \<open>An \<open>int\<close> or a \<open>float\<close>. A value \<open>PFloat q\<close> that the code computes satisfies \<open>fl q = q\<close>.\<close>

datatype pynum = PInt int | PFloat rat

text \<open>The exact value: Python compares an \<open>int\<close> with a \<open>float\<close> exactly.\<close>

fun val :: "pynum \<Rightarrow> rat" where
  "val (PInt i) = of_int i"
| "val (PFloat q) = q"

definition to_float :: "pynum \<Rightarrow> pynum" where
  "to_float n = PFloat (fl (val n))"

fun pn_sub :: "pynum \<Rightarrow> pynum \<Rightarrow> pynum" where
  "pn_sub (PInt a) (PInt b) = PInt (a - b)"
| "pn_sub a b = PFloat (fl (val (to_float a) - val (to_float b)))"

fun pn_mul :: "pynum \<Rightarrow> pynum \<Rightarrow> pynum" where
  "pn_mul (PInt a) (PInt b) = PInt (a * b)"
| "pn_mul a b = PFloat (fl (val (to_float a) * val (to_float b)))"

text \<open>
  \<open>a / b\<close> for a divisor that is a literal of the code, never zero. The quotient of two integers
  is correctly rounded from the exact quotient.
\<close>

fun pn_div :: "pynum \<Rightarrow> pynum \<Rightarrow> pynum" where
  "pn_div (PInt a) (PInt b) = PFloat (fl (of_int a / of_int b))"
| "pn_div a b = PFloat (fl (val (to_float a) / val (to_float b)))"

text \<open>\<open>round(x)\<close> with one argument: always an \<open>int\<close>, ties to even.\<close>

definition pn_round :: "pynum \<Rightarrow> int" where
  "pn_round n = round_half_even (val n)"

text \<open>\<open>int(x)\<close>: truncation towards zero.\<close>

definition pn_trunc :: "pynum \<Rightarrow> int" where
  "pn_trunc n = (if val n < 0 then \<lceil>val n\<rceil> else \<lfloor>val n\<rfloor>)"

abbreviation pn_le :: "pynum \<Rightarrow> pynum \<Rightarrow> bool" where
  "pn_le a b \<equiv> val a \<le> val b"

abbreviation pn_lt :: "pynum \<Rightarrow> pynum \<Rightarrow> bool" where
  "pn_lt a b \<equiv> val a < val b"

text \<open>A number that a variable of the program can hold.\<close>

fun wf_num :: "pynum \<Rightarrow> bool" where
  "wf_num (PInt i) = True"
| "wf_num (PFloat q) = (fl q = q)"

text \<open>Integers small enough to be converted to a float without rounding.\<close>

fun small_num :: "pynum \<Rightarrow> bool" where
  "small_num (PInt i) = (\<bar>i\<bar> \<le> 2 ^ 53)"
| "small_num (PFloat q) = (fl q = q)"

lemma val_to_float_small: "small_num n \<Longrightarrow> val (to_float n) = val n"
  by (cases n) (simp_all add: to_float_def fl_of_int_exact)

text \<open>The sign of a difference is the comparison of its operands.\<close>

lemma pn_sub_ge0_iff:
  "small_num a \<Longrightarrow> small_num b \<Longrightarrow> 0 \<le> val (pn_sub a b) \<longleftrightarrow> val b \<le> val a"
  by (cases a; cases b) (simp_all add: val_to_float_small [unfolded val.simps] to_float_def fl_of_int_exact)

end
