(* ===== verification/Json.thy ===== *)
theory Json
  imports Exceptions Pyfloat
begin

text \<open>
  JSON documents, as the service sends them to Kubernetes and reads them back: Python's \<open>None\<close>,
  \<open>bool\<close>, \<open>int\<close>, \<open>float\<close>, \<open>str\<close>, \<open>list\<close> and \<open>dict\<close> with string keys in insertion order, and
  the accesses the code makes to them, each with the exception it raises on a value of another
  type.
\<close>

section \<open>Documents\<close>

datatype json =
    JNull
  | JBool bool
  | JInt int
  | JFloat rat
  | JStr string
  | JArr "json list"
  | JObj "(string \<times> json) list"

abbreviation jempty :: json where
  "jempty \<equiv> JObj []"

text \<open>An optional string: \<open>None\<close> becomes \<open>null\<close>.\<close>

fun jopt :: "string option \<Rightarrow> json" where
  "jopt None = JNull"
| "jopt (Some s) = JStr s"

fun jnum :: "pynum \<Rightarrow> json" where
  "jnum (PInt i) = JInt i"
| "jnum (PFloat q) = JFloat q"

text \<open>\<open>str(b).lower()\<close> for a \<open>bool\<close>.\<close>

definition bool_lower :: "bool \<Rightarrow> string" where
  "bool_lower b = (if b then ''true'' else ''false'')"

text \<open>Truth value testing: \<open>if x:\<close>.\<close>

fun truthy :: "json \<Rightarrow> bool" where
  "truthy JNull = False"
| "truthy (JBool b) = b"
| "truthy (JInt i) = (i \<noteq> 0)"
| "truthy (JFloat q) = (q \<noteq> 0)"
| "truthy (JStr s) = (s \<noteq> [])"
| "truthy (JArr xs) = (xs \<noteq> [])"
| "truthy (JObj kvs) = (kvs \<noteq> [])"

section \<open>Access\<close>

text \<open>\<open>x.get(k, d)\<close>: only a \<open>dict\<close> has the method.\<close>

fun jget :: "json \<Rightarrow> string \<Rightarrow> json \<Rightarrow> json res" where
  "jget (JObj kvs) k d = Inr (case dget kvs k of Some v \<Rightarrow> v | None \<Rightarrow> d)"
| "jget _ k d = Inl (AttributeError ''get'')"

text \<open>\<open>x.get(k1, {}).get(k2, {})...get(kn, d)\<close>.\<close>

fun jpath :: "json \<Rightarrow> string list \<Rightarrow> json \<Rightarrow> json res" where
  "jpath x [] d = Inr x"
| "jpath x [k] d = jget x k d"
| "jpath x (k # ks) d = bindE (jget x k jempty) (\<lambda>y. jpath y ks d)"

text \<open>\<open>x[k]\<close> with a string key.\<close>

fun jitem :: "json \<Rightarrow> string \<Rightarrow> json res" where
  "jitem (JObj kvs) k = (case dget kvs k of Some v \<Rightarrow> Inr v | None \<Rightarrow> Inl (KeyError k))"
| "jitem (JArr _) k = Inl (TypeError ''list indices must be integers or slices, not str'')"
| "jitem (JStr _) k = Inl (TypeError ''string indices must be integers'')"
| "jitem _ k = Inl (TypeError ''not subscriptable'')"

text \<open>\<open>x[k1][k2]...[kn]\<close>.\<close>

fun jitems :: "json \<Rightarrow> string list \<Rightarrow> json res" where
  "jitems x [] = Inr x"
| "jitems x (k # ks) = bindE (jitem x k) (\<lambda>y. jitems y ks)"

text \<open>
  Iteration. Iterating a \<open>dict\<close> gives its keys, iterating a \<open>str\<close> its characters; other scalars
  are not iterable.
\<close>

fun jiter :: "json \<Rightarrow> json list res" where
  "jiter (JArr xs) = Inr xs"
| "jiter (JObj kvs) = Inr (map (\<lambda>(k, _). JStr k) kvs)"
| "jiter (JStr s) = Inr (map (\<lambda>c. JStr [c]) s)"
| "jiter _ = Inl (TypeError ''not iterable'')"

text \<open>\<open>x.keys()\<close>, \<open>x.items()\<close>.\<close>

fun jkeys :: "json \<Rightarrow> string list res" where
  "jkeys (JObj kvs) = Inr (map fst kvs)"
| "jkeys _ = Inl (AttributeError ''keys'')"

text \<open>\<open>x.lower()\<close>, \<open>x.endswith(...)\<close> and other methods of \<open>str\<close>.\<close>

fun jstr :: "json \<Rightarrow> string res" where
  "jstr (JStr s) = Inr s"
| "jstr _ = Inl (AttributeError ''str method'')"

section \<open>Facts\<close>

lemma jget_JObj [simp]: "jget (JObj kvs) k d = Inr (case dget kvs k of Some v \<Rightarrow> v | None \<Rightarrow> d)"
  by simp

lemma jpath_Cons2: "ks \<noteq> [] \<Longrightarrow> jpath x (k # ks) d = bindE (jget x k jempty) (\<lambda>y. jpath y ks d)"
  by (cases ks) simp_all

lemma jitem_Inr_iff: "jitem x k = Inr v \<longleftrightarrow> (\<exists>kvs. x = JObj kvs \<and> dget kvs k = Some v)"
  by (cases x) (auto split: option.splits)

lemma jget_Inr_iff:
  "jget x k d = Inr v \<longleftrightarrow> (\<exists>kvs. x = JObj kvs \<and> v = (case dget kvs k of Some u \<Rightarrow> u | None \<Rightarrow> d))"
  by (cases x) auto

lemma truthy_jopt: "truthy (jopt s) \<longleftrightarrow> (\<exists>t. s = Some t \<and> t \<noteq> [])"
  by (cases s) auto

end
