(* ===== verification/ErrorResponses.thy ===== *)
theory ErrorResponses
  imports Json
begin

text \<open>
  The error responses of the API: the flattening of nested validation messages
  (\<open>api/schemas/utils.py\<close>), the two error schemas (\<open>api/schemas/errors.py\<close>) and the application's
  central exception handler (\<open>errors/utils.py\<close>).
\<close>

section \<open>Flattening nested dictionaries\<close>

fun weight :: "(string \<times> json) list \<Rightarrow> nat" where
  "weight [] = 0"
| "weight ((_, v) # d) = Suc (size v) + weight d"

lemma weight_nested: "weight (map (\<lambda>(x, y). (f x, y)) kvs) \<le> size_list (size_prod (\<lambda>_. 0) size) kvs"
  by (induction kvs) auto

text \<open>
  \<open>flatten_dict\<close>: a value that is a dictionary is replaced by its items, under the outer key joined
  with the inner key, or under the outer key alone when the inner key is one to skip.
\<close>

function flatten_dict :: "(string \<times> json) list \<Rightarrow> string \<Rightarrow> string list \<Rightarrow> (string \<times> json) list" where
  "flatten_dict [] sep skip = []"
| "flatten_dict ((k, v) # d) sep skip =
     (case v of
        JObj kvs \<Rightarrow>
          flatten_dict (map (\<lambda>(x, y). (if x \<notin> set skip then k @ sep @ x else k, y)) kvs) sep skip
          @ flatten_dict d sep skip
      | _ \<Rightarrow> (k, v) # flatten_dict d sep skip)"
  by pat_completeness auto
termination
  by (relation "measure (\<lambda>(d, _, _). weight d)")
    (auto intro!: le_imp_less_Suc le_SucI trans_le_add1 weight_nested [THEN order_trans])

text \<open>The leaves of a document with the keys that lead to them, and the key a leaf is listed under.\<close>

fun leaves :: "json \<Rightarrow> (string list \<times> json) list" where
  "leaves (JObj kvs) = concat (map (\<lambda>(k, v). map (\<lambda>(p, l). (k # p, l)) (leaves v)) kvs)"
| "leaves v = [([], v)]"

definition leaf_key :: "string \<Rightarrow> string list \<Rightarrow> string \<Rightarrow> string list \<Rightarrow> string" where
  "leaf_key sep skip k p = foldl (\<lambda>a x. if x \<notin> set skip then a @ sep @ x else a) k p"

lemma leaf_key_Cons:
  "leaf_key sep skip k (x # p) = leaf_key sep skip (if x \<notin> set skip then k @ sep @ x else k) p"
  by (simp add: leaf_key_def)

text \<open>
  Flattening lists exactly the leaves of the nested dictionaries, in document order, each under
  the keys on its path joined by the separator without the skipped ones; in particular it
  terminates on every document and its result holds no dictionary.
\<close>

theorem flatten_dict_leaves:
  "flatten_dict d sep skip =
     concat (map (\<lambda>(k, v). map (\<lambda>(p, l). (leaf_key sep skip k p, l)) (leaves v)) d)
   \<and> (\<nexists>k kvs. (k, JObj kvs) \<in> set (flatten_dict d sep skip))"
proof -
  have eq: "flatten_dict d sep skip =
     concat (map (\<lambda>(k, v). map (\<lambda>(p, l). (leaf_key sep skip k p, l)) (leaves v)) d)"
  proof (induction d sep skip rule: flatten_dict.induct)
    case (1 sep skip)
    then show ?case by simp
  next
    case (2 k v d sep skip)
    show ?case
    proof (cases v)
      case (JObj kvs)
      then show ?thesis
        using 2 by (simp add: map_concat comp_def case_prod_unfold leaf_key_Cons)
    qed (use 2 in \<open>simp_all add: leaf_key_def\<close>)
  qed
  have leaf: "(p, JObj kvs) \<notin> set (leaves v)" for p kvs v
    by (induction v arbitrary: p rule: leaves.induct) auto
  show ?thesis by (intro conjI eq) (auto simp: eq leaf)
qed

section \<open>The error schemas\<close>

text \<open>\<open>ErrorResponse\<close>: the nested schema dumps its fields in order; a missing \<open>detail\<close> is \<open>None\<close>.\<close>

definition error_response :: "string \<Rightarrow> string option \<Rightarrow> int \<Rightarrow> json" where
  "error_response message detail c =
     JObj [(''error'', JObj [(''message'', JStr message), (''detail'', jopt detail), (''code'', JInt c)])]"

text \<open>\<open>ErrorResponseFromGenericError.extract_fields\<close>.\<close>

definition dump_generic_error :: "api_error \<Rightarrow> json" where
  "dump_generic_error err = error_response (err_message err) (err_detail err) (err_code err)"

text \<open>
  A werkzeug exception: \<open>data\<close> is what the request parser attaches to a failed validation;
  \<open>None\<close> when the exception has no such attribute.
\<close>

record http_error =
  http_code :: int
  http_description :: string
  http_detail :: "string option"
  http_data :: "json option"

definition status_code_map :: "(int \<times> int) list" where
  "status_code_map =
     [(400, 1400), (401, 1401), (403, 1403), (404, 1404), (405, 1405), (406, 1406), (408, 3408),
      (409, 3409), (410, 3410), (411, 1411), (412, 1412), (413, 1413), (414, 1414), (415, 1415),
      (416, 1416), (417, 1417), (418, 1418), (422, 1422), (423, 3423), (424, 3424), (428, 3428),
      (429, 1429), (431, 1431), (451, 1451), (500, 2500), (501, 2501), (502, 2502), (503, 3503),
      (504, 3504), (505, 1505)]"

text \<open>\<open>' '.join(errors)\<close>: every element must be a string.\<close>

definition join_errors :: "json \<Rightarrow> string res" where
  "join_errors errors =
     bindE (jiter errors) (\<lambda>xs. bindE (mapE (\<lambda>x. case x of JStr s \<Rightarrow> Inr s
         | _ \<Rightarrow> Inl (TypeError ''sequence item: expected str instance'')) xs)
       (\<lambda>ss. Inr (join '' '' ss)))"

definition field_message :: "string \<times> json \<Rightarrow> string res" where
  "field_message fe =
     bindE (join_errors (snd fe))
       (\<lambda>t. Inr (''Field '' @ [CHR 0x27] @ fst fe @ [CHR 0x27] @ '' has errors: '' @ t))"

text \<open>
  \<open>ErrorResponseFromWerkzeug.extract_fields\<close>. The messages of a failed validation replace the
  detail.
\<close>

definition dump_http_error :: "http_error \<Rightarrow> json res" where
  "dump_http_error err =
     (let c = (case map_of status_code_map (http_code err) of Some n \<Rightarrow> n | None \<Rightarrow> 2500) in
      if http_code err = 422 then
        (case http_data err of
           None \<Rightarrow> Inl (AttributeError ''data'')
         | Some data \<Rightarrow>
             bindE (jpath data [''messages'', ''json''] JNull) (\<lambda>messages.
               if messages = JNull
               then Inr (error_response (http_description err) (http_detail err) c)
               else (case messages of
                   JObj kvs \<Rightarrow>
                     bindE (mapE field_message (flatten_dict kvs ''.'' [''_schema'']))
                       (\<lambda>ms. Inr (error_response (http_description err) (Some (join '' '' ms)) c))
                 | _ \<Rightarrow> Inl (AttributeError ''items''))))
      else Inr (error_response (http_description err) (http_detail err) c))"

section \<open>The exception handler\<close>

datatype app_exception = HTTPException http_error | Other exc

text \<open>\<open>handle_exception\<close>: the body and the status of the response.\<close>

definition handle_exception :: "app_exception \<Rightarrow> (json \<times> int) res" where
  "handle_exception e =
     (case e of
        HTTPException h \<Rightarrow> bindE (dump_http_error h) (\<lambda>body. Inr (body, http_code h))
      | Other (Api err) \<Rightarrow> Inr (dump_generic_error err, err_status err)
      | Other _ \<Rightarrow> Inr (dump_generic_error (new_error GenericError None None), 500))"

definition response_code :: "json \<Rightarrow> int res" where
  "response_code body = bindE (jitems body [''error'', ''code''])
     (\<lambda>v. case v of JInt n \<Rightarrow> Inr n | _ \<Rightarrow> Inl (TypeError ''code''))"

lemma response_code_error_response [simp]: "response_code (error_response m d c) = Inr c"
  by (simp add: response_code_def error_response_def)

lemma status_code_map_sound:
  "map_of status_code_map s = Some n \<Longrightarrow> n - s \<in> {1000, 2000, 3000}"
  by (auto simp: status_code_map_def split: if_splits)

text \<open>
  Whatever the code raises, unless a failed validation carries malformed messages, the handler
  produces a JSON error body and a status: an error of the service keeps its own code and status, an
  HTTP exception keeps its status and gets the code of its status plus 1000, 2000 or 3000 (2500 when
  the status is not in the table), and everything else becomes the generic error, code 2000, with
  status 500.
\<close>

theorem handle_exception_response:
  "(\<forall>err. handle_exception (Other (Api err)) = Inr (dump_generic_error err, err_status err)
      \<and> response_code (dump_generic_error err) = Inr (err_code err))
   \<and> (\<forall>e. (\<forall>err. e \<noteq> Api err) \<longrightarrow> (\<exists>body. handle_exception (Other e) = Inr (body, 500)
      \<and> response_code body = Inr 2000))
   \<and> (\<forall>h :: http_error. http_code h \<noteq> 422 \<longrightarrow> (\<exists>body c. handle_exception (HTTPException h) = Inr (body, http_code h)
      \<and> response_code body = Inr c \<and> (c = 2500 \<or> c - http_code h \<in> {1000, 2000, 3000})))"
proof (intro conjI allI impI)
  fix e assume "\<forall>err. e \<noteq> Api err"
  then show "\<exists>body. handle_exception (Other e) = Inr (body, 500) \<and> response_code body = Inr 2000"
    by (cases e) (simp_all add: handle_exception_def dump_generic_error_def attr_simps)
next
  fix h :: http_error assume n: "http_code h \<noteq> 422"
  show "\<exists>body c. handle_exception (HTTPException h) = Inr (body, http_code h)
      \<and> response_code body = Inr c \<and> (c = 2500 \<or> c - http_code h \<in> {1000, 2000, 3000})"
  proof (cases "map_of status_code_map (http_code h)")
    case None
    with n show ?thesis by (simp add: handle_exception_def dump_http_error_def Let_def)
  next
    case (Some c)
    with n status_code_map_sound [OF Some] show ?thesis
      by (simp add: handle_exception_def dump_http_error_def Let_def)
  qed
qed (simp_all add: handle_exception_def dump_generic_error_def)

theorem handle_exception_response_witness:
  "\<exists>body. handle_exception (Other (KeyError ''uid'')) = Inr (body, 500) \<and> response_code body = Inr 2000"
  using handle_exception_response by blast

text \<open>
  A request that fails validation is answered with status 422, code 1422 and one sentence per
  invalid field, nested fields named by their dotted path and schema-level messages under the field
  that holds them.
\<close>

theorem validation_error_response:
  fixes h :: http_error
  assumes "http_code h = 422" and "http_data h = Some (JObj [(''messages'', JObj [(''json'', JObj kvs)])])"
    and "mapE field_message (flatten_dict kvs ''.'' [''_schema'']) = Inr ms"
  shows "handle_exception (HTTPException h) =
    Inr (error_response (http_description h) (Some (join '' '' ms)) 1422, 422)"
  using assms by (simp add: handle_exception_def dump_http_error_def status_code_map_def)

theorem validation_error_response_witness:
  "handle_exception (HTTPException \<lparr>http_code = 422, http_description = ''bad'', http_detail = None,
      http_data = Some (JObj [(''messages'', JObj [(''json'',
        JObj [(''a'', JObj [(''b'', JArr [JStr ''x'']), (''_schema'', JArr [JStr ''y''])])])])])\<rparr>) =
   Inr (error_response ''bad'' (Some (join '' ''
     [''Field '' @ [CHR 0x27] @ ''a.b'' @ [CHR 0x27] @ '' has errors: x'',
      ''Field '' @ [CHR 0x27] @ ''a'' @ [CHR 0x27] @ '' has errors: y''])) 1422, 422)"
  using validation_error_response [where h = "\<lparr>http_code = 422, http_description = ''bad'',
      http_detail = None, http_data = Some (JObj [(''messages'', JObj [(''json'',
        JObj [(''a'', JObj [(''b'', JArr [JStr ''x'']), (''_schema'', JArr [JStr ''y''])])])])])\<rparr>"]
  by (simp add: field_message_def join_errors_def)

end
