(* ===== verification/Retries.thy ===== *)
theory Retries
  imports Json
begin

text \<open>
  \<open>util/retries.py\<close>: calling a function again, with waits that grow by a factor, until its result
  needs no retry or the number of attempts is used up.  \<open>time.sleep\<close> is an effect on the world.
\<close>

definition pn_power :: "pynum \<Rightarrow> nat \<Rightarrow> pynum" where
  "pn_power b i = (case b of PInt n \<Rightarrow> PInt (n ^ i) | PFloat q \<Rightarrow> PFloat (fl (q ^ i)))"

text \<open>\<open>initial_wait_ms * (multiplier**i) / 1000\<close>.\<close>

definition wait_seconds :: "int \<Rightarrow> pynum \<Rightarrow> nat \<Rightarrow> pynum" where
  "wait_seconds initial_wait_ms multiplier i =
     pn_div (pn_mul (PInt initial_wait_ms) (pn_power multiplier i)) (PInt 1000)"

text \<open>\<open>RetryTimeoutError(...)\<close> passes its text as the first positional argument, the message.\<close>

definition retry_timeout :: "string \<Rightarrow> nat \<Rightarrow> exc" where
  "retry_timeout name num_retries =
     api RetryTimeoutError (''Retrying the function '' @ name @ '' timed out after '' @
       show_nat num_retries @ '' retries.'')"

text \<open>The loop \<open>for i in range(num_retries)\<close>, from its \<open>i\<close>th round with \<open>left\<close> rounds left.\<close>

fun retry_loop ::
  "(pynum \<Rightarrow> ('w, unit) eff) \<Rightarrow> (nat \<Rightarrow> pynum) \<Rightarrow> ('a \<Rightarrow> bool) \<Rightarrow> ('w, 'a) eff \<Rightarrow> exc \<Rightarrow> nat \<Rightarrow> nat
   \<Rightarrow> ('w, 'a) eff" where
  "retry_loop sleep wait should_retry func timeout i 0 = raise timeout"
| "retry_loop sleep wait should_retry func timeout i (Suc left) =
     bindC func (\<lambda>res.
       if \<not> should_retry res then ret res
       else bindC (sleep (wait i)) (\<lambda>_. retry_loop sleep wait should_retry func timeout (Suc i) left))"

definition retry_with_exponential_backoff ::
  "(pynum \<Rightarrow> ('w, unit) eff) \<Rightarrow> ('a \<Rightarrow> bool) \<Rightarrow> nat \<Rightarrow> int \<Rightarrow> pynum \<Rightarrow> string \<Rightarrow> ('w, 'a) eff \<Rightarrow> ('w, 'a) eff" where
  "retry_with_exponential_backoff sleep should_retry num_retries initial_wait_ms multiplier name func =
     retry_loop sleep (wait_seconds initial_wait_ms multiplier) should_retry func
       (retry_timeout name num_retries) 0 num_retries"

text \<open>The defaults of the decorator: ten attempts, 20 ms, doubled every time.\<close>

definition retry_default ::
  "(pynum \<Rightarrow> ('w, unit) eff) \<Rightarrow> ('a \<Rightarrow> bool) \<Rightarrow> string \<Rightarrow> ('w, 'a) eff \<Rightarrow> ('w, 'a) eff" where
  "retry_default sleep should_retry =
     retry_with_exponential_backoff sleep should_retry 10 20 (PFloat 2)"

section \<open>What the loop does\<close>

text \<open>
  The world after \<open>k\<close> attempts from round \<open>i\<close> on whose results all asked for a retry, each followed
  by its wait; \<open>None\<close> when one of them did not or something was raised.
\<close>

fun failed_attempts ::
  "(pynum \<Rightarrow> ('w, unit) eff) \<Rightarrow> (nat \<Rightarrow> pynum) \<Rightarrow> ('a \<Rightarrow> bool) \<Rightarrow> ('w, 'a) eff \<Rightarrow> nat \<Rightarrow> nat \<Rightarrow> 'w \<Rightarrow> 'w option" where
  "failed_attempts sleep wait should_retry func i 0 w = Some w"
| "failed_attempts sleep wait should_retry func i (Suc k) w =
     (case func w of
        (Inl e, _) \<Rightarrow> None
      | (Inr x, w1) \<Rightarrow>
          if \<not> should_retry x then None
          else (case sleep (wait i) w1 of
                  (Inl e, _) \<Rightarrow> None
                | (Inr _, w2) \<Rightarrow> failed_attempts sleep wait should_retry func (Suc i) k w2))"

lemma retry_loop_failed:
  assumes "failed_attempts sleep wait should_retry func i k w = Some w'" and "k \<le> n"
  shows "retry_loop sleep wait should_retry func timeout i n w
    = retry_loop sleep wait should_retry func timeout (i + k) (n - k) w'"
  using assms
proof (induction k arbitrary: i n w)
  case 0
  then show ?case by simp
next
  case (Suc k)
  then obtain m where n: "n = Suc m" by (cases n) auto
  from Suc.prems obtain x w1 y w2 where f: "func w = (Inr x, w1)" "should_retry x"
    and s: "sleep (wait i) w1 = (Inr y, w2)"
    and r: "failed_attempts sleep wait should_retry func (Suc i) k w2 = Some w'"
    by (auto split: prod.splits sum.splits if_splits)
  have "retry_loop sleep wait should_retry func timeout i n w
    = retry_loop sleep wait should_retry func timeout (Suc i) m w2"
    using f s by (simp add: n bindC_eval)
  with Suc.IH [OF r, of m] Suc.prems(2) n show ?case by simp
qed

lemma retry_loop_result:
  "retry_loop sleep wait should_retry func timeout i n w = (Inr x, w') \<Longrightarrow> \<not> should_retry x"
  by (induction n arbitrary: i w) (auto simp: bindC_Inr_iff split: if_splits)

lemma retry_loop_last:
  "retry_loop sleep wait should_retry func timeout i n w = (Inr x, w') \<Longrightarrow> \<exists>w1. func w1 = (Inr x, w')"
  by (induction n arbitrary: i w) (auto simp: bindC_Inr_iff split: if_splits)

lemma retry_default_last:
  "retry_default sleep should_retry name func w = (Inr x, w') \<Longrightarrow> \<exists>w1. func w1 = (Inr x, w')"
  unfolding retry_default_def retry_with_exponential_backoff_def by (rule retry_loop_last)

lemma retry_default_result:
  "retry_default sleep should_retry name func w = (Inr x, w') \<Longrightarrow> \<not> should_retry x"
  unfolding retry_default_def retry_with_exponential_backoff_def by (rule retry_loop_result)

text \<open>
  Retrying stops at the first result that needs no retry: if the first \<open>k\<close> attempts ask for a
  retry, with the waits between them, and the next one, still among the allowed attempts, does not,
  its result and world are the outcome; and if every allowed attempt asks for a retry the outcome
  is a timeout error after exactly that many attempts and waits.
\<close>

theorem retry_outcome:
  assumes "failed_attempts sleep (wait_seconds ms mult) should_retry func 0 k w = Some wk"
  shows "(k < n \<and> func wk = (Inr x, w') \<and> \<not> should_retry x \<longrightarrow>
       retry_with_exponential_backoff sleep should_retry n ms mult name func w = (Inr x, w'))
    \<and> (k = n \<longrightarrow>
       retry_with_exponential_backoff sleep should_retry n ms mult name func w
         = (Inl (retry_timeout name n), wk))"
proof (intro conjI impI)
  assume h: "k < n \<and> func wk = (Inr x, w') \<and> \<not> should_retry x"
  then obtain m where m: "n - k = Suc m" by (cases "n - k") auto
  with h retry_loop_failed [OF assms, of n "retry_timeout name n"]
  show "retry_with_exponential_backoff sleep should_retry n ms mult name func w = (Inr x, w')"
    by (simp add: retry_with_exponential_backoff_def bindC_eval)
next
  assume "k = n"
  with retry_loop_failed [OF assms, of n "retry_timeout name n"]
  show "retry_with_exponential_backoff sleep should_retry n ms mult name func w
      = (Inl (retry_timeout name n), wk)"
    by (simp add: retry_with_exponential_backoff_def)
qed

text \<open>A server that appears at the third read; the world counts the reads and the waits.\<close>

definition example_read :: "(nat \<times> rat, nat option) eff" where
  "example_read = (\<lambda>(n, t). (Inr (if n < 2 then None else Some n), (Suc n, t)))"

definition example_sleep :: "pynum \<Rightarrow> (nat \<times> rat, unit) eff" where
  "example_sleep s = (\<lambda>(n, t). (Inr (), (n, t + 1)))"

theorem retry_outcome_witness:
  "retry_with_exponential_backoff example_sleep (\<lambda>x. x = None) 10 20 (PFloat 2) ''get_server''
     example_read (0, 0) = (Inr (Some 2), (3, 2))"
proof -
  have "failed_attempts example_sleep (wait_seconds 20 (PFloat 2)) (\<lambda>x. x = None) example_read 0 2 (0, 0) = Some (2, 2)"
    by (simp add: example_read_def example_sleep_def numeral_2_eq_2)
  from retry_outcome [OF this, THEN conjunct1, rule_format, of 10 "Some 2" "(3, 2)" "''get_server''"]
  show ?thesis by (simp add: example_read_def)
qed

end
