(* ===== verification/Regex.thy ===== *)
theory Regex
  imports Prelude
begin

text \<open>
  The fragment of Python's \<open>re\<close> that the service uses: character classes, their greedy
  repetition, options, sequences, alternatives, named groups, the anchors and one-character
  lookarounds.  The matcher is the backtracking one: it lists every way to match, in the order
  in which backtracking would try them, and \<open>re_match\<close> takes the first.  Only character classes
  are repeated in the modelled patterns, so matching is structural on the pattern.
\<close>

section \<open>Patterns and the matcher\<close>

datatype rx =
    Eps
  | One "char \<Rightarrow> bool"                \<comment> \<open>\<open>[...]\<close>\<close>
  | Rep nat "char \<Rightarrow> bool"            \<comment> \<open>\<open>[...]{n,}\<close>, greedy; \<open>*\<close> is \<open>Rep 0\<close>\<close>
  | Opt "char \<Rightarrow> bool"                \<comment> \<open>\<open>[...]?\<close>, greedy\<close>
  | Seq rx rx
  | Alt rx rx
  | Group string rx                 \<comment> \<open>\<open>(?P<name>...)\<close>\<close>
  | Bol                             \<comment> \<open>\<open>^\<close>, also \<open>(?<=^)\<close>\<close>
  | Eol                             \<comment> \<open>\<open>$\<close>, also \<open>(?=$)\<close>\<close>
  | Ahead "char \<Rightarrow> bool"              \<comment> \<open>\<open>(?=[...])\<close>\<close>
  | Behind "char \<Rightarrow> bool"             \<comment> \<open>\<open>(?<=[...])\<close>\<close>
  | NotBehind "char \<Rightarrow> bool"          \<comment> \<open>\<open>(?<![...])\<close>\<close>

fun seqs :: "rx list \<Rightarrow> rx" where
  "seqs [] = Eps"
| "seqs [r] = r"
| "seqs (r # rs) = Seq r (seqs rs)"

text \<open>
  A position is the text before it (nearest character first), the text after it, and the groups
  captured so far.
\<close>

type_synonym pos = "string \<times> string \<times> (string, string) dict"

definition advance :: "nat \<Rightarrow> pos \<Rightarrow> pos" where
  "advance n p = (case p of (b, a, c) \<Rightarrow> (rev (take n a) @ b, drop n a, c))"

text \<open>\<open>$\<close> matches at the end and before a line break that ends the text.\<close>

definition at_end :: "string \<Rightarrow> bool" where
  "at_end a \<longleftrightarrow> a = [] \<or> map code a = [10]"

text \<open>\<open>k, k - 1, ..., n\<close>.\<close>

definition down_from :: "nat \<Rightarrow> nat \<Rightarrow> nat list" where
  "down_from n k = rev [n..<Suc k]"

fun mt :: "rx \<Rightarrow> pos \<Rightarrow> pos list" where
  "mt Eps p = [p]"
| "mt (One P) (b, a, c) = (case a of [] \<Rightarrow> [] | x # xs \<Rightarrow> if P x then [(x # b, xs, c)] else [])"
| "mt (Rep n P) (b, a, c) =
     map (\<lambda>k. advance k (b, a, c)) (down_from n (length (takeWhile P a)))"
| "mt (Opt P) (b, a, c) =
     (case a of [] \<Rightarrow> [] | x # xs \<Rightarrow> if P x then [(x # b, xs, c)] else []) @ [(b, a, c)]"
| "mt (Seq r s) p = concat (map (mt s) (mt r p))"
| "mt (Alt r s) p = mt r p @ mt s p"
| "mt (Group n r) (b, a, c) =
     map (\<lambda>(b', a', c'). (b', a', dset n (take (length a - length a') a) c')) (mt r (b, a, c))"
| "mt Bol (b, a, c) = (if b = [] then [(b, a, c)] else [])"
| "mt Eol (b, a, c) = (if at_end a then [(b, a, c)] else [])"
| "mt (Ahead P) (b, a, c) = (case a of [] \<Rightarrow> [] | x # _ \<Rightarrow> if P x then [(b, a, c)] else [])"
| "mt (Behind P) (b, a, c) = (case b of [] \<Rightarrow> [] | x # _ \<Rightarrow> if P x then [(b, a, c)] else [])"
| "mt (NotBehind P) (b, a, c) =
     (case b of [] \<Rightarrow> [(b, a, c)] | x # _ \<Rightarrow> if P x then [] else [(b, a, c)])"

text \<open>\<open>re.match\<close>: the groups of the first way to match at the start of the text.\<close>

definition re_match :: "rx \<Rightarrow> string \<Rightarrow> (string, string) dict option" where
  "re_match r s = (case mt r ([], s, []) of [] \<Rightarrow> None | (_, _, c) # _ \<Rightarrow> Some c)"

text \<open>\<open>match.group(name)\<close> for a group that took part in the match.\<close>

definition group :: "(string, string) dict \<Rightarrow> string \<Rightarrow> string" where
  "group c n = (case dget c n of Some s \<Rightarrow> s | None \<Rightarrow> [])"

section \<open>What the matcher finds\<close>

named_theorems rx_iff \<open>membership in the matcher's results\<close>

lemma set_down_from: "set (down_from n k) = {i. n \<le> i \<and> i \<le> k}"
  by (auto simp: down_from_def)

lemma take_all_prefix: "k \<le> length (takeWhile P a) \<Longrightarrow> list_all P (take k a)"
proof -
  assume k: "k \<le> length (takeWhile P a)"
  have "take k a = take k (takeWhile P a)"
    using k by (metis append_take_drop_id takeWhile_dropWhile_id take_append append_Nil2
        diff_is_0_eq take0)
  then show ?thesis by (metis in_set_takeD list_all_iff set_takeWhileD)
qed

lemma all_prefix_takeWhile: "list_all P w \<Longrightarrow> length w \<le> length (takeWhile P (w @ a))"
  by (induction w) auto

lemma mt_Rep_iff [rx_iff]:
  "(b', a', c') \<in> set (mt (Rep n P) (b, a, c)) \<longleftrightarrow>
     (\<exists>w. a = w @ a' \<and> b' = rev w @ b \<and> c' = c \<and> list_all P w \<and> n \<le> length w)"
proof
  assume "(b', a', c') \<in> set (mt (Rep n P) (b, a, c))"
  then obtain k where k: "n \<le> k" "k \<le> length (takeWhile P a)"
    and eq: "b' = rev (take k a) @ b" "a' = drop k a" "c' = c"
    by (auto simp: set_down_from advance_def)
  have "k \<le> length a" using k length_takeWhile_le [of P a] by linarith
  then show "\<exists>w. a = w @ a' \<and> b' = rev w @ b \<and> c' = c \<and> list_all P w \<and> n \<le> length w"
    using k eq take_all_prefix [OF k(2)] by (intro exI [where x = "take k a"]) auto
next
  assume "\<exists>w. a = w @ a' \<and> b' = rev w @ b \<and> c' = c \<and> list_all P w \<and> n \<le> length w"
  then obtain w where w: "a = w @ a'" "b' = rev w @ b" "c' = c" "list_all P w" "n \<le> length w"
    by blast
  then have "length w \<le> length (takeWhile P a)" by (simp add: all_prefix_takeWhile)
  then show "(b', a', c') \<in> set (mt (Rep n P) (b, a, c))"
    using w by (auto simp: set_down_from advance_def image_iff intro!: bexI [where x = "length w"])
qed

lemma mt_One_iff [rx_iff]:
  "(b', a', c') \<in> set (mt (One P) (b, a, c)) \<longleftrightarrow>
     (\<exists>x. a = x # a' \<and> P x \<and> b' = x # b \<and> c' = c)"
  by (auto split: list.splits)

lemma mt_Opt_iff [rx_iff]:
  "(b', a', c') \<in> set (mt (Opt P) (b, a, c)) \<longleftrightarrow>
     (\<exists>x. a = x # a' \<and> P x \<and> b' = x # b \<and> c' = c) \<or> (b', a', c') = (b, a, c)"
  by (auto split: list.splits)

lemma mt_Seq_iff [rx_iff]:
  "(b', a', c') \<in> set (mt (Seq r s) p) \<longleftrightarrow>
     (\<exists>b1 a1 c1. (b1, a1, c1) \<in> set (mt r p) \<and> (b', a', c') \<in> set (mt s (b1, a1, c1)))"
  by auto

lemma mt_Alt_iff [rx_iff]: "q \<in> set (mt (Alt r s) p) \<longleftrightarrow> q \<in> set (mt r p) \<or> q \<in> set (mt s p)"
  by simp

lemma mt_Group_iff [rx_iff]:
  "(b', a', c') \<in> set (mt (Group n r) (b, a, c)) \<longleftrightarrow>
     (\<exists>c1. (b', a', c1) \<in> set (mt r (b, a, c)) \<and> c' = dset n (take (length a - length a') a) c1)"
  by force

lemma mt_Eps_iff [rx_iff]: "q \<in> set (mt Eps p) \<longleftrightarrow> q = p"
  by simp

lemma mt_anchor_iff [rx_iff]:
  "q \<in> set (mt Bol (b, a, c)) \<longleftrightarrow> b = [] \<and> q = (b, a, c)"
  "q \<in> set (mt Eol (b, a, c)) \<longleftrightarrow> at_end a \<and> q = (b, a, c)"
  by auto

lemma mt_look_iff [rx_iff]:
  "q \<in> set (mt (Ahead P) (b, a, c)) \<longleftrightarrow> (\<exists>x xs. a = x # xs \<and> P x) \<and> q = (b, a, c)"
  "q \<in> set (mt (Behind P) (b, a, c)) \<longleftrightarrow> (\<exists>x xs. b = x # xs \<and> P x) \<and> q = (b, a, c)"
  "q \<in> set (mt (NotBehind P) (b, a, c)) \<longleftrightarrow> \<not> (\<exists>x xs. b = x # xs \<and> P x) \<and> q = (b, a, c)"
  by (auto split: list.splits)

text \<open>Introduction rules, for building one way to match from left to right.\<close>

named_theorems rx_intro \<open>building a way to match\<close>

lemma mt_SeqI [rx_intro]: "q \<in> set (mt r p) \<Longrightarrow> q' \<in> set (mt s q) \<Longrightarrow> q' \<in> set (mt (Seq r s) p)"
  by auto

lemma mt_RepI [rx_intro]:
  "list_all P w \<Longrightarrow> n \<le> length w \<Longrightarrow> (rev w @ b, a, c) \<in> set (mt (Rep n P) (b, w @ a, c))"
  unfolding mt_Rep_iff by auto

lemma mt_GroupI [rx_intro]:
  "(b', a', c1) \<in> set (mt r (b, w @ a', c)) \<Longrightarrow>
     (b', a', dset n w c1) \<in> set (mt (Group n r) (b, w @ a', c))"
  unfolding mt_Group_iff by (intro exI [of _ c1]) simp

lemma mt_BolI [rx_intro]: "([], a, c) \<in> set (mt Bol ([], a, c))"
  by simp

lemma mt_EolI [rx_intro]: "at_end a \<Longrightarrow> (b, a, c) \<in> set (mt Eol (b, a, c))"
  by simp

lemma mt_AheadI [rx_intro]: "P x \<Longrightarrow> (b, x # xs, c) \<in> set (mt (Ahead P) (b, x # xs, c))"
  by simp

lemma mt_BehindI [rx_intro]: "b \<noteq> [] \<Longrightarrow> P (hd b) \<Longrightarrow> (b, a, c) \<in> set (mt (Behind P) (b, a, c))"
  by (cases b) simp_all

lemma mt_NotBehindI [rx_intro]: "([], a, c) \<in> set (mt (NotBehind P) ([], a, c))"
  by simp

lemma mt_OneI [rx_intro]: "P x \<Longrightarrow> (x # b, a, c) \<in> set (mt (One P) (b, x # a, c))"
  by simp

declare mt.simps [simp del]

text \<open>A pattern matches exactly when the list of ways is not empty.\<close>

lemma re_match_SomeE:
  assumes "re_match r s = Some c"
  obtains b a where "(b, a, c) \<in> set (mt r ([], s, []))"
  using assms by (auto simp: re_match_def split: list.splits)

lemma re_match_None_iff: "re_match r s = None \<longleftrightarrow> set (mt r ([], s, [])) = {}"
  by (auto simp: re_match_def split: list.splits)

text \<open>When every way to match captures the same groups, the order of backtracking is irrelevant.\<close>

lemma re_match_unique:
  assumes "(b, a, c) \<in> set (mt r ([], s, []))"
    and "\<And>b' a' c'. (b', a', c') \<in> set (mt r ([], s, [])) \<Longrightarrow> c' = c"
  shows "re_match r s = Some c"
proof (cases "mt r ([], s, [])")
  case Nil
  with assms(1) show ?thesis by simp
next
  case (Cons p ps)
  obtain b' a' c' where p: "p = (b', a', c')" by (cases p)
  with Cons have "(b', a', c') \<in> set (mt r ([], s, []))" by simp
  then have "c' = c" by (rule assms(2))
  with Cons p show ?thesis by (simp add: re_match_def)
qed

lemma at_end_Nil [simp]: "at_end []"
  by (simp add: at_end_def)

lemma at_end_Cons: "at_end (x # xs) \<longleftrightarrow> code x = 10 \<and> xs = []"
  by (auto simp: at_end_def)

end
