(* ===== verification/CustomFields.thy ===== *)
theory CustomFields
  imports Regex Json
begin

text \<open>
  The quantity fields of the API schemas (\<open>api/schemas/custom_fields.py\<close>): cpu in cores, sizes in
  bytes with Kubernetes unit suffixes, whole GPUs, and case-insensitive strings.  The patterns are
  the source's, in the regular expressions of theory \<open>Regex\<close>; numbers are Python's.
\<close>

section \<open>Python's conversions between numbers and text\<close>

text \<open>
  \<open>float(s)\<close> for a text of digits with at most one point, the only texts the patterns let through:
  \<open>None\<close> stands for the \<open>ValueError\<close> of a text without a digit.
\<close>

definition is_dot :: "char \<Rightarrow> bool" where
  "is_dot c \<longleftrightarrow> c = CHR ''.''"

definition decimal_value :: "string \<Rightarrow> rat" where
  "decimal_value s =
     (let i = takeWhile is_digit s; f = drop (Suc (length i)) s in
      of_nat (parse_digits (i @ f)) / 10 ^ length f)"

definition py_float :: "string \<Rightarrow> rat option" where
  "py_float s = (if list_ex is_digit s then Some (fl (decimal_value s)) else None)"

text \<open>\<open>f'{x:.{d}f}'\<close> for a number that is not negative.\<close>

definition pad_left :: "nat \<Rightarrow> string \<Rightarrow> string" where
  "pad_left n s = replicate (n - length s) CHR ''0'' @ s"

definition fmt_fixed :: "nat \<Rightarrow> rat \<Rightarrow> string" where
  "fmt_fixed d x =
     (let n = nat (round_half_even (x * 10 ^ d)); s = pad_left (Suc d) (show_nat n) in
      if d = 0 then s else take (length s - d) s @ ''.'' @ drop (length s - d) s)"

text \<open>
  \<open>str(x)\<close> of a float: the shortest decimal that reads back as \<open>x\<close>, in positional notation for
  exponents from -4 to 15 and in scientific notation otherwise.
\<close>

fun ilog10 :: "nat \<Rightarrow> nat" where
  "ilog10 n = (if n < 10 then 0 else Suc (ilog10 (n div 10)))"

declare ilog10.simps [simp del]

definition pow10 :: "int \<Rightarrow> rat" where
  "pow10 e = (if 0 \<le> e then 10 ^ nat e else 1 / 10 ^ nat (- e))"

definition exponent10 :: "rat \<Rightarrow> int" where
  "exponent10 x =
     (let (n, d) = quotient_of x; e = int (ilog10 (nat n)) - int (ilog10 (nat d)) in
      if pow10 (e + 1) \<le> x then e + 1 else if pow10 e \<le> x then e else e - 1)"

text \<open>The \<open>n\<close> significant digits nearest to a positive \<open>x\<close>, with the exponent of the first.\<close>

definition sig_digits :: "rat \<Rightarrow> nat \<Rightarrow> nat \<times> int" where
  "sig_digits x n =
     (let e = exponent10 x; m = nat (round_half_even (x / pow10 (e - int n + 1))) in
      if m = 10 ^ n then (10 ^ (n - 1), e + 1) else (m, e))"

definition reads_back :: "rat \<Rightarrow> nat \<Rightarrow> bool" where
  "reads_back x n = (case sig_digits x n of (m, e) \<Rightarrow> fl (of_nat m * pow10 (e - int n + 1)) = x)"

definition shortest :: "rat \<Rightarrow> nat" where
  "shortest x = (case filter (reads_back x) [1..<17] of [] \<Rightarrow> 17 | n # _ \<Rightarrow> n)"

definition repr_pos :: "rat \<Rightarrow> string" where
  "repr_pos x =
     (let n = shortest x; (m, e) = sig_digits x n; ds = show_nat m in
      if -4 \<le> e \<and> e < 0 then ''0.'' @ replicate (nat (- e - 1)) CHR ''0'' @ ds
      else if 0 \<le> e \<and> e < 16 then
        (let k = Suc (nat e) in
         if length ds \<le> k then ds @ replicate (k - length ds) CHR ''0'' @ ''.0''
         else take k ds @ ''.'' @ drop k ds)
      else
        (if length ds = 1 then ds else take 1 ds @ ''.'' @ drop 1 ds) @ ''e'' @
        (if e < 0 then ''-'' else ''+'') @ pad_left 2 (show_nat (nat \<bar>e\<bar>)))"

definition float_repr :: "rat \<Rightarrow> string" where
  "float_repr x =
     (if x = 0 then ''0.0'' else if x < 0 then ''-'' @ repr_pos (- x) else repr_pos x)"

text \<open>
  \<open>str(v)\<close> of a value of a request or a manifest.  The text of a list or dict starts with a bracket,
  which no pattern below accepts; its contents are not modelled.
\<close>

fun py_str :: "json \<Rightarrow> string" where
  "py_str JNull = ''None''"
| "py_str (JBool b) = (if b then ''True'' else ''False'')"
| "py_str (JInt i) = show_int i"
| "py_str (JFloat q) = float_repr q"
| "py_str (JStr s) = s"
| "py_str (JArr _) = ''[...]''"
| "py_str (JObj _) = ''{...}''"

section \<open>The patterns\<close>

text \<open>\<open>([0-9]*\.?[0-9]*)\<close>.\<close>

definition number_rx :: rx where
  "number_rx = Seq (Rep 0 is_digit) (Seq (Opt is_dot) (Rep 0 is_digit))"

text \<open>\<open>^(?<!-)([0-9]*\.?[0-9]*)(m?)$\<close>.\<close>

definition cpu_rx :: rx where
  "cpu_rx = seqs [Bol, NotBehind (\<lambda>c. c = CHR ''-''), Group ''1'' number_rx,
     Group ''2'' (Opt (\<lambda>c. c = CHR ''m'')), Eol]"

definition unit_char :: "char \<Rightarrow> bool" where
  "unit_char c \<longleftrightarrow> c \<in> set ''EPTGMKeptgmkbBi''"

definition num_char :: "char \<Rightarrow> bool" where
  "num_char c \<longleftrightarrow> is_digit c \<or> is_dot c"

text \<open>\<open>^(?<!-)([0-9]*\.?[0-9]*)((?<=[0-9.])[EPTGMKeptgmkbBi]*)$\<close>.\<close>

definition byte_size_rx :: rx where
  "byte_size_rx = seqs [Bol, NotBehind (\<lambda>c. c = CHR ''-''), Group ''1'' number_rx,
     Group ''2'' (Seq (Behind num_char) (Rep 0 unit_char)), Eol]"

text \<open>\<open>^(?<!-)([0-9]*\.?[0-9]*)$\<close>.\<close>

definition gpu_rx :: rx where
  "gpu_rx = seqs [Bol, NotBehind (\<lambda>c. c = CHR ''-''), Group ''1'' number_rx, Eol]"

section \<open>The fields\<close>

definition not_a_number :: "json \<Rightarrow> bool" where
  "not_a_number v = (case v of JInt _ \<Rightarrow> False | JFloat _ \<Rightarrow> False | JBool _ \<Rightarrow> False | _ \<Rightarrow> True)"

text \<open>A \<open>bool\<close> is an \<open>int\<close> in Python.\<close>

fun num_of :: "json \<Rightarrow> pynum" where
  "num_of (JInt i) = PInt i"
| "num_of (JFloat q) = PFloat q"
| "num_of (JBool b) = PInt (if b then 1 else 0)"
| "num_of _ = PInt 0"

definition cpu_serialize :: "json \<Rightarrow> json res" where
  "cpu_serialize v =
     (if not_a_number v then Inl (Validation ''Invalid value during serialization'')
      else if val (num_of v) < 0 then Inl (Validation ''Invalid value during serialization, must be greater than zero.'')
      else Inr v)"

definition cpu_deserialize :: "json \<Rightarrow> pynum res" where
  "cpu_deserialize v =
     (case re_match cpu_rx (py_str v) of
        None \<Rightarrow> Inl (Validation ''Unexpected format for cpu'')
      | Some m \<Rightarrow>
          (case py_float (group m ''1'') of
             None \<Rightarrow> Inl (Validation ''Cannot convert to float as fractional cores.'')
           | Some num \<Rightarrow>
               Inr (if group m ''2'' = ''m'' then pn_div (PFloat num) (PInt 1000) else PFloat num)))"

definition to_bytes_conversion :: "(string, int) dict" where
  "to_bytes_conversion =
     [(''b'', 1), (''kb'', 1000), (''mb'', 1000 ^ 2), (''gb'', 1000 ^ 3), (''tb'', 1000 ^ 4),
      (''pb'', 1000 ^ 5), (''eb'', 1000 ^ 6), (''k'', 1000), (''m'', 1000 ^ 2), (''g'', 1000 ^ 3),
      (''t'', 1000 ^ 4), (''p'', 1000 ^ 5), (''e'', 1000 ^ 6), (''ki'', 1024), (''mi'', 1024 ^ 2),
      (''gi'', 1024 ^ 3), (''ti'', 1024 ^ 4), (''pi'', 1024 ^ 5), (''ei'', 1024 ^ 6)]"

definition byte_size_serialize :: "json \<Rightarrow> string res" where
  "byte_size_serialize v =
     (if not_a_number v then Inl (Validation ''Invalid value during serialization'')
      else if val (num_of v) < 0 then Inl (Validation ''Invalid value during serialization, must be greater than zero.'')
      else (let g = val (pn_div (num_of v) (PInt 1000000000)) in
        if g - of_int \<lfloor>g\<rfloor> > 0 then Inr (fmt_fixed 2 g @ ''G'') else Inr (fmt_fixed 0 g @ ''G'')))"

definition byte_size_deserialize :: "json \<Rightarrow> int res" where
  "byte_size_deserialize v =
     (case re_match byte_size_rx (py_str v) of
        None \<Rightarrow> Inl (Validation ''Unexpected format for memory'')
      | Some m \<Rightarrow>
          (let unit = group m ''2''; unit_lowercase = lower unit in
           if length unit \<noteq> 0 \<and> dget to_bytes_conversion unit_lowercase = None
           then Inl (Validation ''Cannot recognize unit for memory or disk space.'')
           else
             (let factor = (case dget to_bytes_conversion unit_lowercase of Some f \<Rightarrow> f | None \<Rightarrow> 1) in
              case py_float (group m ''1'') of
                None \<Rightarrow> Inl (Validation ''Cannot convert to float.'')
              | Some num \<Rightarrow> Inr (pn_round (pn_mul (PFloat num) (PInt factor))))))"

definition gpu_serialize :: "json \<Rightarrow> int res" where
  "gpu_serialize v =
     (if not_a_number v then Inl (Validation ''Invalid value during GPU amount serialization'')
      else
        (case num_of v of
           PFloat q \<Rightarrow>
             (if q - of_int \<lfloor>q\<rfloor> \<noteq> 0
              then Inl (Validation ''Invalid value during GPU amount serialization, must not be decimal number'')
              else if pn_trunc (PFloat q) < 0
              then Inl (Validation ''Invalid value during GPU amount serialization, must be greater than or equal to zero'')
              else Inr (pn_trunc (PFloat q)))
         | PInt i \<Rightarrow>
             (if i < 0
              then Inl (Validation ''Invalid value during GPU amount serialization, must be greater than or equal to zero'')
              else Inr i)))"

definition gpu_deserialize :: "json \<Rightarrow> int res" where
  "gpu_deserialize v =
     (case re_match gpu_rx (py_str v) of
        None \<Rightarrow> Inl (Validation ''Unexpected format for GPUs'')
      | Some m \<Rightarrow>
          (case py_float (group m ''1'') of
             None \<Rightarrow> Inl (Validation ''Cannot convert GPUs to integer.'')
           | Some num \<Rightarrow>
               (if num - of_int \<lfloor>num\<rfloor> \<noteq> 0
                then Inl (Validation ''Invalid value during GPU amount deserialization, must not be decimal number'')
                else Inr (pn_trunc (PFloat num)))))"

text \<open>
  \<open>LowercaseString\<close>: \<open>super\<close> is marshmallow's \<open>fields.String\<close> method of the same name.
\<close>

definition lowercase_string :: "(json \<Rightarrow> json res) \<Rightarrow> json \<Rightarrow> string res" where
  "lowercase_string super v =
     bindE (super v) (\<lambda>u. case u of JStr s \<Rightarrow> Inr (lower s)
       | _ \<Rightarrow> Inl (Validation ''The value is not type string''))"

section \<open>What the patterns accept\<close>

definition num_shape :: "string \<Rightarrow> bool" where
  "num_shape w \<longleftrightarrow> (\<exists>i f. list_all is_digit i \<and> list_all is_digit f \<and> (w = i @ f \<or> w = i @ CHR ''.'' # f))"

lemma number_rx_dest:
  assumes "(b', a', c') \<in> set (mt number_rx (b, a, c))"
  shows "\<exists>w. num_shape w \<and> a = w @ a' \<and> b' = rev w @ b \<and> c' = c"
proof -
  obtain b1 a1 c1 b2 a2 c2 where
    r: "(b1, a1, c1) \<in> set (mt (Rep 0 is_digit) (b, a, c))"
       "(b2, a2, c2) \<in> set (mt (Opt is_dot) (b1, a1, c1))"
       "(b', a', c') \<in> set (mt (Rep 0 is_digit) (b2, a2, c2))"
    using assms unfolding number_rx_def mt_Seq_iff by blast
  from r(1) obtain i where i: "a = i @ a1" "b1 = rev i @ b" "c1 = c" "list_all is_digit i"
    unfolding mt_Rep_iff by blast
  from r(3) obtain f where f: "a2 = f @ a'" "b' = rev f @ b2" "c' = c2" "list_all is_digit f"
    unfolding mt_Rep_iff by blast
  from r(2) consider (dot) "a1 = CHR ''.'' # a2" "b2 = CHR ''.'' # b1" "c2 = c1"
    | (none) "b2 = b1" "a2 = a1" "c2 = c1"
    unfolding mt_Opt_iff is_dot_def by blast
  then show ?thesis
  proof cases
    case dot
    with i f have "num_shape (i @ CHR ''.'' # f)" unfolding num_shape_def by blast
    then show ?thesis using dot i f by (intro exI [of _ "i @ CHR ''.'' # f"]) simp
  next
    case none
    with i f have "num_shape (i @ f)" unfolding num_shape_def by blast
    then show ?thesis using none i f by (intro exI [of _ "i @ f"]) simp
  qed
qed

lemma number_rx_intro [rx_intro]:
  assumes "num_shape w"
  shows "(rev w @ b, a, c) \<in> set (mt number_rx (b, w @ a, c))"
proof -
  obtain i f where d: "list_all is_digit i" "list_all is_digit f"
    and shape: "w = i @ f \<or> w = i @ CHR ''.'' # f"
    using assms unfolding num_shape_def by blast
  have 1: "(rev i @ b, x @ f @ a, c) \<in> set (mt (Rep 0 is_digit) (b, i @ x @ f @ a, c))" for x
    using d(1) by (rule mt_RepI) simp
  have 3: "(rev f @ b2, a, c) \<in> set (mt (Rep 0 is_digit) (b2, f @ a, c))" for b2
    using d(2) by (rule mt_RepI) simp
  from shape show ?thesis
  proof
    assume s: "w = i @ f"
    have "(rev i @ b, f @ a, c) \<in> set (mt (Opt is_dot) (rev i @ b, f @ a, c))"
      unfolding mt_Opt_iff by simp
    from mt_SeqI [OF 1 [of "[]", simplified] mt_SeqI [OF this 3]] show ?thesis
      by (simp add: number_rx_def s)
  next
    assume s: "w = i @ CHR ''.'' # f"
    have "(CHR ''.'' # rev i @ b, f @ a, c) \<in> set (mt (Opt is_dot) (rev i @ b, CHR ''.'' # f @ a, c))"
      unfolding mt_Opt_iff is_dot_def by simp
    from mt_SeqI [OF 1 [of "''.''", simplified] mt_SeqI [OF this 3]] show ?thesis
      by (simp add: number_rx_def s)
  qed
qed

lemma number_rx_iff [rx_iff]:
  "(b', a', c') \<in> set (mt number_rx (b, a, c)) \<longleftrightarrow>
     (\<exists>w. num_shape w \<and> a = w @ a' \<and> b' = rev w @ b \<and> c' = c)"
  using number_rx_dest number_rx_intro by blast

lemma num_shape_chars: "num_shape w \<Longrightarrow> list_all num_char w"
  by (auto simp: num_shape_def num_char_def is_dot_def list_all_iff)

lemma num_shape_digits [simp]: "list_all is_digit w \<Longrightarrow> num_shape w"
  unfolding num_shape_def by (intro exI [of _ w] exI [of _ "[]"]) simp

lemma num_shape_last:
  "num_shape w \<Longrightarrow> (\<exists>x xs. rev w = x # xs \<and> num_char x) \<longleftrightarrow> w \<noteq> []"
  using num_shape_chars [of w] by (cases w rule: rev_cases) (auto simp: list_all_append)

lemma num_shape_hd_rev: "num_shape w \<Longrightarrow> w \<noteq> [] \<Longrightarrow> num_char (hd (rev w))"
  using num_shape_chars [of w] by (cases w rule: rev_cases) (auto simp: list_all_append)

lemma byte_size_rx_dest:
  "(b', a', c') \<in> set (mt byte_size_rx ([], s, [])) \<Longrightarrow>
     \<exists>w u. num_shape w \<and> w \<noteq> [] \<and> list_all unit_char u \<and> at_end a' \<and> s = w @ u @ a' \<and>
        c' = [(''1'', w), (''2'', u)]"
  unfolding byte_size_rx_def seqs.simps rx_iff by (auto simp: num_shape_last)

lemma byte_size_rx_intro:
  assumes "num_shape w" "w \<noteq> []" "list_all unit_char u" "at_end a"
  shows "(rev u @ rev w, a, [(''1'', w), (''2'', u)]) \<in> set (mt byte_size_rx ([], w @ u @ a, []))"
proof -
  have g2: "(rev u @ rev w, a, dset ''2'' u [(''1'', w)])
      \<in> set (mt (Group ''2'' (Seq (Behind num_char) (Rep 0 unit_char))) (rev w, u @ a, [(''1'', w)]))"
    using assms num_shape_hd_rev [of w]
    by (intro mt_GroupI mt_SeqI [OF mt_BehindI mt_RepI]) simp_all
  have g1: "(rev w @ [], u @ a, dset ''1'' w []) \<in> set (mt (Group ''1'' number_rx) ([], w @ u @ a, []))"
    by (intro mt_GroupI number_rx_intro assms)
  show ?thesis
    unfolding byte_size_rx_def seqs.simps
    using g1 g2 by (intro mt_SeqI [OF mt_BolI] mt_SeqI [OF mt_NotBehindI])
      (rule mt_SeqI, simp, rule mt_SeqI, simp, rule mt_EolI, rule assms(4))
qed

lemma unit_not_num: "unit_char c \<Longrightarrow> \<not> num_char c"
  by (auto simp: unit_char_def num_char_def is_digit_def is_dot_def code_def)

lemma takeWhile_num:
  assumes "list_all num_char w" "list_all unit_char u" "at_end a"
  shows "takeWhile num_char (w @ u @ a) = w" "takeWhile unit_char (u @ a) = u"
proof -
  have a: "takeWhile num_char a = []" "takeWhile unit_char a = []"
    using assms(3) by (cases a; auto simp: at_end_Cons num_char_def is_digit_def is_dot_def
        unit_char_def code_def)+
  have u: "takeWhile num_char (u @ a) = []"
    using assms(2) a unit_not_num by (cases u) auto
  show "takeWhile num_char (w @ u @ a) = w"
    using assms(1) u by (induction w) auto
  show "takeWhile unit_char (u @ a) = u"
    using assms(2) a by (induction u) auto
qed

text \<open>There is at most one way to read a size.\<close>

lemma byte_size_match:
  assumes "num_shape w" "w \<noteq> []" "list_all unit_char u" "at_end a"
  shows "re_match byte_size_rx (w @ u @ a) = Some [(''1'', w), (''2'', u)]"
proof (rule re_match_unique [OF byte_size_rx_intro [OF assms]])
  fix b' a' c'
  assume "(b', a', c') \<in> set (mt byte_size_rx ([], w @ u @ a, []))"
  then obtain w' u' where d: "num_shape w'" "list_all unit_char u'" "at_end a'"
    and eq: "w @ u @ a = w' @ u' @ a'" and c': "c' = [(''1'', w'), (''2'', u')]"
    by (blast dest: byte_size_rx_dest)
  have "w = w'"
    using takeWhile_num(1) [OF num_shape_chars [OF assms(1)] assms(3,4)]
      takeWhile_num(1) [OF num_shape_chars [OF d(1)] d(2,3)] eq by simp
  moreover from this eq have "u @ a = u' @ a'" by simp
  then have "u = u'"
    using takeWhile_num(2) [OF num_shape_chars [OF assms(1)] assms(3,4)]
      takeWhile_num(2) [OF num_shape_chars [OF d(1)] d(2,3)] by simp
  ultimately show "c' = [(''1'', w), (''2'', u)]" by (simp add: c')
qed

lemma byte_size_match_SomeD:
  assumes "re_match byte_size_rx s = Some c"
  shows "\<exists>w u a. num_shape w \<and> w \<noteq> [] \<and> list_all unit_char u \<and> at_end a \<and> s = w @ u @ a \<and>
    c = [(''1'', w), (''2'', u)]"
  using assms by (elim re_match_SomeE) (blast dest: byte_size_rx_dest)

section \<open>Numbers read by the fields\<close>

lemma decimal_value_nonneg: "0 \<le> decimal_value s"
  by (simp add: decimal_value_def Let_def)

lemma py_float_nonneg: "py_float s = Some q \<Longrightarrow> 0 \<le> q"
  by (auto simp: py_float_def decimal_value_nonneg split: if_splits)

lemma takeWhile_digits: "list_all is_digit w \<Longrightarrow> takeWhile is_digit w = w"
  by (induction w) auto

lemma py_float_digits:
  assumes "list_all is_digit w" "w \<noteq> []" "parse_digits w \<le> 2 ^ 53"
  shows "py_float w = Some (of_nat (parse_digits w))"
proof -
  have "decimal_value w = of_int (int (parse_digits w))"
    by (simp add: decimal_value_def Let_def takeWhile_digits [OF assms(1)])
  moreover have "fl (of_int (int (parse_digits w))) = of_int (int (parse_digits w))"
    using assms(3) by (intro fl_of_int_exact) (simp add: nat_le_numeral_power_cancel_iff [symmetric])
  moreover have "list_ex is_digit w" using assms by (cases w) auto
  ultimately show ?thesis by (simp add: py_float_def)
qed

lemma conversion_factor_pos: "dget to_bytes_conversion u = Some f \<Longrightarrow> 1 \<le> f"
  by (auto simp: to_bytes_conversion_def split: if_splits)

definition unit_factor :: "string \<Rightarrow> int option" where
  "unit_factor u = (if u = [] then Some 1 else dget to_bytes_conversion (lower u))"

lemma byte_size_deserialize_match:
  assumes "num_shape w" "w \<noteq> []" "list_all unit_char u" "at_end a"
  shows "byte_size_deserialize (JStr (w @ u @ a)) =
    (case unit_factor u of
       None \<Rightarrow> Inl (Validation ''Cannot recognize unit for memory or disk space.'')
     | Some f \<Rightarrow> (case py_float w of
          None \<Rightarrow> Inl (Validation ''Cannot convert to float.'')
        | Some num \<Rightarrow> Inr (pn_round (pn_mul (PFloat num) (PInt f)))))"
proof -
  have "dget to_bytes_conversion [] = None" by (simp add: to_bytes_conversion_def)
  then show ?thesis
    by (auto simp: byte_size_deserialize_def byte_size_match [OF assms] group_def Let_def
        unit_factor_def lower_def split: option.splits)
qed

lemma byte_size_exact:
  assumes "list_all is_digit w" "w \<noteq> []" "list_all unit_char u" "unit_factor u = Some f"
    and "int (parse_digits w) * f \<le> 2 ^ 53"
  shows "byte_size_deserialize (JStr (w @ u)) = Inr (int (parse_digits w) * f)"
proof -
  let ?n = "int (parse_digits w)"
  have f: "1 \<le> f"
    using assms(4) conversion_factor_pos by (auto simp: unit_factor_def split: if_splits)
  then have "?n * 1 \<le> ?n * f" by (intro mult_left_mono) simp_all
  with assms(5) have n: "?n \<le> 2 ^ 53" by linarith
  then have pf: "py_float w = Some (of_int ?n)"
    using py_float_digits [OF assms(1,2)] by (simp add: nat_le_numeral_power_cancel_iff [symmetric])
  have val: "val (pn_mul (PFloat (of_int ?n)) (PInt f)) = of_int (?n * f)"
  proof (cases "?n = 0")
    case False
    then have "1 * f \<le> ?n * f" using f by (intro mult_right_mono) simp_all
    with assms(5) f have "\<bar>f\<bar> \<le> 2 ^ 53" by linarith
    moreover have "\<bar>?n * f\<bar> \<le> 2 ^ 53" using assms(5) f by simp
    ultimately show ?thesis
      using n fl_of_int_exact [of f] fl_of_int_exact [of ?n] fl_of_int_exact [of "?n * f"]
      by (simp add: to_float_def)
  qed (simp add: to_float_def)
  have "pn_round (pn_mul (PFloat (of_int ?n)) (PInt f)) = ?n * f"
    unfolding pn_round_def val by (rule round_half_even_of_int)
  then show ?thesis
    using byte_size_deserialize_match [of w u "[]"] assms pf by (simp del: pn_mul.simps)
qed

text \<open>
  A size written as a decimal integer with a known unit is read exactly: for every run of digits
  \<open>w\<close> and unit \<open>u\<close> (none, or one of the table's in the letter cases the pattern accepts), the field
  returns the integer times the unit's factor, as long as the product is at most \<open>2 ^ 53\<close>, the
  largest range in which the float arithmetic of the field is exact.
\<close>

theorem byte_size_deserialize_exact:
  assumes "list_all is_digit w" "w \<noteq> []" "list_all unit_char u" "unit_factor u = Some f"
    and "int (parse_digits w) * f \<le> 2 ^ 53"
  shows "byte_size_deserialize (JStr (w @ u)) = Inr (int (parse_digits w) * f)"
  using assms by (rule byte_size_exact)

theorem byte_size_deserialize_exact_witness:
  "byte_size_deserialize (JStr (''500'' @ ''G'')) = Inr (int (parse_digits ''500'') * 1000 ^ 3)"
  by (rule byte_size_deserialize_exact) code_simp+

lemma fmt_fixed_0: "fmt_fixed 0 (of_nat n) = show_nat n"
proof -
  have "round_half_even (of_nat n) = int n" using round_half_even_of_int [of "int n"] by simp
  moreover have "Suc 0 - length (show_nat n) = 0"
    by (metis Suc_leI diff_is_0_eq length_greater_0_conv show_nat_nonempty)
  ultimately show ?thesis by (simp add: fmt_fixed_def pad_left_def Let_def)
qed

text \<open>
  C39. Sizes survive a round trip: a whole number of gigabytes up to \<open>2 ^ 53\<close> bytes, serialized for a
  response (\<open>nG\<close>), is read back as the same number of bytes.
\<close>

theorem byte_size_roundtrip:
  assumes "n * 10 ^ 9 \<le> (2 :: nat) ^ 53"
  shows "byte_size_serialize (JInt (int n * 10 ^ 9)) = Inr (show_nat n @ ''G'')
    \<and> byte_size_deserialize (JStr (show_nat n @ ''G'')) = Inr (int n * 10 ^ 9)"
proof
  have n: "int n * 10 ^ 9 \<le> 2 ^ 53" using assms by simp
  have "fl (of_int (int n)) = of_int (int n)"
    using n by (intro fl_of_int_exact) simp
  then have g: "val (pn_div (PInt (int n * 10 ^ 9)) (PInt 1000000000)) = of_nat n" by simp
  show "byte_size_serialize (JInt (int n * 10 ^ 9)) = Inr (show_nat n @ ''G'')"
    unfolding byte_size_serialize_def num_of.simps g
    by (simp add: not_a_number_def fmt_fixed_0 Let_def del: pn_div.simps)
  have "unit_factor ''G'' = Some (1000 ^ 3)" "list_all unit_char ''G''" by code_simp+
  then show "byte_size_deserialize (JStr (show_nat n @ ''G'')) = Inr (int n * 10 ^ 9)"
    using byte_size_exact [of "show_nat n" "''G''" "1000 ^ 3"] n
    by (simp add: show_nat_digits)
qed

theorem byte_size_roundtrip_witness:
  "byte_size_serialize (JInt (int 16 * 10 ^ 9)) = Inr (show_nat 16 @ ''G'')
    \<and> byte_size_deserialize (JStr (show_nat 16 @ ''G'')) = Inr (int 16 * 10 ^ 9)"
  by (rule byte_size_roundtrip) simp

text \<open>
  A size text is accepted exactly when it is a decimal number with a digit, then a known unit or
  none, then at most one line break; everything else is a validation error.
\<close>

theorem byte_size_accepts_iff:
  "(\<exists>n. byte_size_deserialize (JStr s) = Inr n) \<longleftrightarrow>
     (\<exists>w u a. s = w @ u @ a \<and> num_shape w \<and> list_ex is_digit w \<and> list_all unit_char u \<and>
        (\<exists>f. unit_factor u = Some f) \<and> at_end a)" (is "?l \<longleftrightarrow> ?r")
proof
  assume ?l
  then obtain c where "re_match byte_size_rx s = Some c"
    by (auto simp: byte_size_deserialize_def split: option.splits)
  then obtain w u a where d: "num_shape w" "w \<noteq> []" "list_all unit_char u" "at_end a"
    and s: "s = w @ u @ a" by (blast dest: byte_size_match_SomeD)
  with \<open>?l\<close> have "list_ex is_digit w \<and> (\<exists>f. unit_factor u = Some f)"
    by (auto simp: byte_size_deserialize_match [OF d] py_float_def split: option.splits if_splits)
  with d s show ?r by blast
next
  assume ?r
  then obtain w u a f where d: "num_shape w" "list_all unit_char u" "at_end a"
    and s: "s = w @ u @ a" "list_ex is_digit w" "unit_factor u = Some f" by blast
  from s have "w \<noteq> []" by auto
  with d s show ?l by (simp add: byte_size_deserialize_match py_float_def)
qed

lemma cpu_rx_dest:
  "(b', a', c') \<in> set (mt cpu_rx ([], s, [])) \<Longrightarrow>
     \<exists>w u. num_shape w \<and> (u = [] \<or> u = ''m'') \<and> at_end a' \<and> s = w @ u @ a' \<and>
        c' = [(''1'', w), (''2'', u)]"
  unfolding cpu_rx_def seqs.simps rx_iff by auto

lemma gpu_rx_dest:
  "(b', a', c') \<in> set (mt gpu_rx ([], s, [])) \<Longrightarrow>
     \<exists>w. num_shape w \<and> at_end a' \<and> s = w @ a' \<and> c' = [(''1'', w)]"
  unfolding gpu_rx_def seqs.simps rx_iff by auto

lemma no_minus:
  assumes "num_shape w" "list_all unit_char u \<or> u = ''m''" "at_end a"
  shows "CHR ''-'' \<notin> set (w @ u @ a)"
proof -
  have m: "\<not> num_char CHR ''-''" "\<not> unit_char CHR ''-''" "\<not> at_end ''-''" by code_simp+
  have w: "CHR ''-'' \<notin> set w"
    using num_shape_chars [OF assms(1)] m(1) by (auto simp: list_all_iff)
  have u: "CHR ''-'' \<notin> set u" using assms(2) m(2) by (auto simp: list_all_iff)
  have a: "CHR ''-'' \<notin> set a" using assms(3) by (cases a) (auto simp: at_end_Cons code_def)
  from w u a show ?thesis by simp
qed

lemma minus_no_match:
  assumes "CHR ''-'' \<in> set s"
  shows "re_match cpu_rx s = None" "re_match byte_size_rx s = None" "re_match gpu_rx s = None"
proof -
  show "re_match cpu_rx s = None"
  proof (rule ccontr)
    assume "re_match cpu_rx s \<noteq> None"
    then obtain c where "re_match cpu_rx s = Some c" by blast
    then obtain w u a where "num_shape w" "u = [] \<or> u = ''m''" "at_end a" "s = w @ u @ a"
      by (elim re_match_SomeE) (blast dest: cpu_rx_dest)
    with no_minus [of w u a] assms show False by auto
  qed
  show "re_match byte_size_rx s = None"
  proof (rule ccontr)
    assume "re_match byte_size_rx s \<noteq> None"
    then obtain w u a where "num_shape w" "list_all unit_char u" "at_end a" "s = w @ u @ a"
      by (blast dest: byte_size_match_SomeD)
    with no_minus [of w u a] assms show False by auto
  qed
  show "re_match gpu_rx s = None"
  proof (rule ccontr)
    assume "re_match gpu_rx s \<noteq> None"
    then obtain c where "re_match gpu_rx s = Some c" by blast
    then obtain w a where "num_shape w" "at_end a" "s = w @ a"
      by (elim re_match_SomeE) (blast dest: gpu_rx_dest)
    with no_minus [of w "[]" a] assms show False by auto
  qed
qed

text \<open>
  No field reads a negative quantity: a value whose text holds a minus sign anywhere, as that of
  every negative integer does, is a validation error for cpu, sizes and GPUs alike, and whatever the
  fields do return is not negative.
\<close>

theorem quantities_not_negative:
  "(CHR ''-'' \<in> set (py_str v) \<longrightarrow> (\<exists>e1 e2 e3. cpu_deserialize v = Inl (Validation e1) \<and>
      byte_size_deserialize v = Inl (Validation e2) \<and> gpu_deserialize v = Inl (Validation e3)))
   \<and> (\<forall>q. cpu_deserialize v = Inr q \<longrightarrow> 0 \<le> val q)
   \<and> (\<forall>n. byte_size_deserialize v = Inr n \<longrightarrow> 0 \<le> n)
   \<and> (\<forall>n. gpu_deserialize v = Inr n \<longrightarrow> 0 \<le> n)"
proof (intro conjI allI impI)
  assume "CHR ''-'' \<in> set (py_str v)"
  then show "\<exists>e1 e2 e3. cpu_deserialize v = Inl (Validation e1) \<and>
     byte_size_deserialize v = Inl (Validation e2) \<and> gpu_deserialize v = Inl (Validation e3)"
    by (simp add: cpu_deserialize_def byte_size_deserialize_def gpu_deserialize_def minus_no_match)
next
  fix q assume "cpu_deserialize v = Inr q"
  then show "0 \<le> val q"
    by (auto simp: cpu_deserialize_def to_float_def dest: py_float_nonneg
        split: option.splits if_splits)
next
  fix n
  have f: "0 \<le> f" if "dget to_bytes_conversion u = Some f" for u f
    using conversion_factor_pos [OF that] by simp
  have m: "0 \<le> pn_round (pn_mul (PFloat x) (PInt f))" if "0 \<le> x" "0 \<le> f" for x f
    using that by (simp add: pn_round_def to_float_def round_half_even_ge0)
  assume "byte_size_deserialize v = Inr n"
  then show "0 \<le> n"
    using f m by (auto simp: byte_size_deserialize_def Let_def simp del: pn_mul.simps
        dest!: py_float_nonneg split: option.splits if_splits)
next
  fix n assume "gpu_deserialize v = Inr n"
  then show "0 \<le> n"
    by (auto simp: gpu_deserialize_def pn_trunc_def dest: py_float_nonneg
        split: option.splits if_splits)
qed

theorem quantities_not_negative_witness:
  "(\<exists>e1 e2 e3. cpu_deserialize (JInt (-3)) = Inl (Validation e1) \<and>
     byte_size_deserialize (JInt (-3)) = Inl (Validation e2) \<and>
     gpu_deserialize (JInt (-3)) = Inl (Validation e3)) \<and>
   gpu_deserialize (JStr ''3'') = Inr 3 \<and> (0::int) \<le> 3"
proof -
  have "CHR ''-'' \<in> set (py_str (JInt (-3)))" by (simp add: show_int_def)
  moreover have "gpu_deserialize (JStr ''3'') = Inr 3" by code_simp
  ultimately show ?thesis
    using quantities_not_negative [of "JInt (-3)"] quantities_not_negative [of "JStr ''3''"]
    by blast
qed

end
