(* ===== verification/Md5.thy ===== *)
theory Md5
  imports Prelude "HOL-Library.Word"
begin

text \<open>
  \<open>hashlib.md5(...).hexdigest()\<close> (RFC 1321), which the session names use: 32-bit words that wrap
  around, the four rounds as one table-driven step, and the digest in lowercase hexadecimal.
\<close>

unbundle bit_operations_syntax

section \<open>The compression function\<close>

type_synonym md5_state = "32 word \<times> 32 word \<times> 32 word \<times> 32 word"

definition rotl :: "nat \<Rightarrow> 32 word \<Rightarrow> 32 word" where
  "rotl n w = push_bit n w OR drop_bit (32 - n) w"

definition md5_shifts :: "nat list" where
  "md5_shifts =
     concat (replicate 4 [7, 12, 17, 22]) @ concat (replicate 4 [5, 9, 14, 20]) @
     concat (replicate 4 [4, 11, 16, 23]) @ concat (replicate 4 [6, 10, 15, 21])"

text \<open>\<open>floor (2 ^ 32 * abs (sin (i + 1)))\<close>.\<close>

definition md5_constants :: "32 word list" where
  "md5_constants =
    [0xd76aa478, 0xe8c7b756, 0x242070db, 0xc1bdceee, 0xf57c0faf, 0x4787c62a, 0xa8304613, 0xfd469501,
     0x698098d8, 0x8b44f7af, 0xffff5bb1, 0x895cd7be, 0x6b901122, 0xfd987193, 0xa679438e, 0x49b40821,
     0xf61e2562, 0xc040b340, 0x265e5a51, 0xe9b6c7aa, 0xd62f105d, 0x02441453, 0xd8a1e681, 0xe7d3fbc8,
     0x21e1cde6, 0xc33707d6, 0xf4d50d87, 0x455a14ed, 0xa9e3e905, 0xfcefa3f8, 0x676f02d9, 0x8d2a4c8a,
     0xfffa3942, 0x8771f681, 0x6d9d6122, 0xfde5380c, 0xa4beea44, 0x4bdecfa9, 0xf6bb4b60, 0xbebfbc70,
     0x289b7ec6, 0xeaa127fa, 0xd4ef3085, 0x04881d05, 0xd9d4d039, 0xe6db99e5, 0x1fa27cf8, 0xc4ac5665,
     0xf4292244, 0x432aff97, 0xab9423a7, 0xfc93a039, 0x655b59c3, 0x8f0ccc92, 0xffeff47d, 0x85845dd1,
     0x6fa87e4f, 0xfe2ce6e0, 0xa3014314, 0x4e0811a1, 0xf7537e82, 0xbd3af235, 0x2ad7d2bb, 0xeb86d391]"

definition md5_step :: "32 word list \<Rightarrow> md5_state \<Rightarrow> nat \<Rightarrow> md5_state" where
  "md5_step m st i =
     (case st of (a, b, c, d) \<Rightarrow>
        let (f, g) =
          (if i < 16 then ((b AND c) OR (NOT b AND d), i)
           else if i < 32 then ((d AND b) OR (NOT d AND c), (5 * i + 1) mod 16)
           else if i < 48 then (b XOR c XOR d, (3 * i + 5) mod 16)
           else (c XOR (b OR NOT d), 7 * i mod 16))
        in (d, b + rotl (md5_shifts ! i) (f + a + md5_constants ! i + m ! g), b, c))"

definition md5_block :: "md5_state \<Rightarrow> 32 word list \<Rightarrow> md5_state" where
  "md5_block st m =
     (case (st, foldl (md5_step m) st [0..<64]) of
        ((a, b, c, d), (a', b', c', d')) \<Rightarrow> (a + a', b + b', c + c', d + d'))"

section \<open>Padding and bytes\<close>

fun le_bytes :: "nat \<Rightarrow> nat \<Rightarrow> nat list" where
  "le_bytes 0 n = []"
| "le_bytes (Suc k) n = (n mod 256) # le_bytes k (n div 256)"

fun le_words :: "nat list \<Rightarrow> 32 word list" where
  "le_words (a # b # c # d # r) =
     of_nat (a + 256 * b + 65536 * c + 16777216 * d) # le_words r"
| "le_words _ = []"

definition md5_pad :: "nat list \<Rightarrow> nat list" where
  "md5_pad bs =
     bs @ [128] @ replicate ((119 - length bs mod 64) mod 64) 0 @ le_bytes 8 (8 * length bs)"

fun blocks_of :: "nat \<Rightarrow> 'a list \<Rightarrow> 'a list list" where
  "blocks_of n xs = (if xs = [] \<or> n = 0 then [] else take n xs # blocks_of n (drop n xs))"

declare blocks_of.simps [simp del]

definition md5_digest :: "nat list \<Rightarrow> nat list" where
  "md5_digest bs =
     (case foldl md5_block (0x67452301, 0xefcdab89, 0x98badcfe, 0x10325476)
             (blocks_of 16 (le_words (md5_pad bs))) of
        (a, b, c, d) \<Rightarrow> concat (map (\<lambda>w. le_bytes 4 (unat w)) [a, b, c, d]))"

definition hex_digit :: "nat \<Rightarrow> char" where
  "hex_digit n = char_of (if n < 10 then 48 + n else 87 + n)"

definition md5_hexdigest :: "string \<Rightarrow> string" where
  "md5_hexdigest s =
     concat (map (\<lambda>b. [hex_digit (b div 16), hex_digit (b mod 16)]) (md5_digest (map code s)))"

section \<open>Shape of the digest\<close>

definition is_hex :: "char \<Rightarrow> bool" where
  "is_hex c \<longleftrightarrow> is_digit c \<or> (97 \<le> code c \<and> code c \<le> 102)"

lemma length_le_bytes [simp]: "length (le_bytes k n) = k"
  by (induction k arbitrary: n) simp_all

lemma le_bytes_lt: "b \<in> set (le_bytes k n) \<Longrightarrow> b < 256"
  by (induction k arbitrary: n) auto

lemma length_md5_digest: "length (md5_digest bs) = 16"
  by (simp add: md5_digest_def split: prod.splits)

lemma md5_digest_lt: "b \<in> set (md5_digest bs) \<Longrightarrow> b < 256"
  by (auto simp: md5_digest_def le_bytes_lt split: prod.splits)

lemma is_hex_digit [simp]: "n < 16 \<Longrightarrow> is_hex (hex_digit n)"
  by (auto simp: is_hex_def hex_digit_def is_digit_def)

lemma length_md5_hexdigest [simp]: "length (md5_hexdigest s) = 32"
proof -
  have "length (concat (map (\<lambda>b. [hex_digit (b div 16), hex_digit (b mod 16)]) bs)) = 2 * length bs" for bs
    by (induction bs) simp_all
  then show ?thesis by (simp add: md5_hexdigest_def length_md5_digest)
qed

lemma md5_hexdigest_hex: "list_all is_hex (md5_hexdigest s)"
  by (auto simp: md5_hexdigest_def list_all_iff less_mult_imp_div_less dest!: md5_digest_lt)

lemma lower_hex: "is_hex c \<Longrightarrow> lower_char c = c"
  by (auto simp: lower_char_def is_hex_def is_digit_def is_upper_def)

lemma lower_md5_hexdigest [simp]: "lower (md5_hexdigest s) = md5_hexdigest s"
  using md5_hexdigest_hex [of s] by (simp add: lower_def list_all_iff lower_hex map_idI)

end
