(* ===== verification/KubernetesUtil.thy ===== *)
theory KubernetesUtil
  imports Md5 Json
begin

text \<open>
  The Kubernetes helpers (\<open>util/kubernetes_.py\<close>): filtering resources by annotations, the names of
  sessions, and lookups of environment variables and container patches.  \<open>escapism.escape\<close> is a
  parameter \<open>escape\<close> of the names.
\<close>

section \<open>Filtering\<close>

definition filter_resource :: "(string, json) dict \<Rightarrow> json \<Rightarrow> bool res" where
  "filter_resource annotations resource =
     bindE (mapE (\<lambda>(annotation_name, v).
         bindE (jitems resource [''metadata'', ''annotations'']) (\<lambda>a.
         bindE (jget a annotation_name JNull) (\<lambda>x. Inr (x = v)))) annotations) (\<lambda>res.
     Inr (if res = [] then True else list_all id res))"

fun filter_resources_by_annotations :: "json list \<Rightarrow> (string, json) dict \<Rightarrow> json list res" where
  "filter_resources_by_annotations [] annotations = Inr []"
| "filter_resources_by_annotations (r # rs) annotations =
     bindE (filter_resource annotations r) (\<lambda>b.
     bindE (filter_resources_by_annotations rs annotations) (\<lambda>ys.
     Inr (if b then r # ys else ys)))"

section \<open>Session names\<close>

definition make_server_name_prefix :: "string \<Rightarrow> string res" where
  "make_server_name_prefix safe_username =
     (case lower safe_username of
        [] \<Rightarrow> Inl IndexError
      | c # cs \<Rightarrow>
          Inr ((if \<not> is_letter c \<or> \<not> is_ascii c then ''n'' else []) @ c # cs))"

definition renku_1_make_server_name ::
  "(string \<Rightarrow> string) \<Rightarrow> string \<Rightarrow> string \<Rightarrow> string \<Rightarrow> string \<Rightarrow> string \<Rightarrow> string res" where
  "renku_1_make_server_name escape safe_username namespace project branch commit_sha =
     (let server_string_for_hashing =
            safe_username @ ''-'' @ namespace @ ''-'' @ project @ ''-'' @ branch @ ''-'' @ commit_sha;
          server_hash = lower (md5_hexdigest server_string_for_hashing)
      in bindE (make_server_name_prefix safe_username) (\<lambda>prefix.
         Inr (take 12 prefix @ ''-'' @ lower (take 20 (escape project)) @ ''-'' @ take 8 server_hash)))"

definition renku_2_make_server_name :: "string \<Rightarrow> string \<Rightarrow> string \<Rightarrow> string res" where
  "renku_2_make_server_name safe_username project_id launcher_id =
     (let server_string_for_hashing = safe_username @ ''-'' @ project_id @ ''-'' @ launcher_id;
          server_hash = lower (md5_hexdigest server_string_for_hashing)
      in bindE (make_server_name_prefix safe_username) (\<lambda>prefix.
         Inr (take 12 prefix @ ''-renku-2-'' @ take 21 server_hash)))"

section \<open>Containers\<close>

text \<open>The attributes of \<open>V1EnvVar\<close> and \<open>V1Container\<close> that the service reads.\<close>

record env_var =
  ev_name :: string
  ev_value :: "string option"
  ev_value_from :: json

record container =
  ct_name :: string
  ct_env :: "env_var list option"

datatype env_val = EnvValue string | EnvSource json

fun index_of :: "('a \<Rightarrow> bool) \<Rightarrow> 'a list \<Rightarrow> (nat \<times> 'a) option" where
  "index_of P [] = None"
| "index_of P (x # xs) = (if P x then Some (0, x) else map_option (\<lambda>(i, y). (Suc i, y)) (index_of P xs))"

definition find_env_var :: "container \<Rightarrow> string \<Rightarrow> (nat \<times> env_val) option res" where
  "find_env_var c env_name =
     (case ct_env c of
        None \<Rightarrow> Inl (TypeError ''NoneType is not iterable'')
      | Some env \<Rightarrow>
          Inr (map_option (\<lambda>(i, e). (i, case ev_value e of Some v \<Rightarrow> EnvValue v | None \<Rightarrow> EnvSource (ev_value_from e)))
            (index_of (\<lambda>e. ev_name e = env_name) env)))"

definition containers_path :: string where
  "containers_path = ''/statefulset/spec/template/spec/containers/-''"

definition is_container_patch :: "string \<Rightarrow> json \<Rightarrow> bool res" where
  "is_container_patch container_name p =
     bindE (jget p ''op'' JNull) (\<lambda>op.
     if op \<noteq> JStr ''add'' then Inr False
     else bindE (jget p ''path'' JNull) (\<lambda>path.
       if path \<noteq> JStr containers_path then Inr False
       else bindE (jget p ''value'' jempty) (\<lambda>v.
            bindE (jget v ''name'' JNull) (\<lambda>n. Inr (n = JStr container_name)))))"

fun find_inner :: "string \<Rightarrow> json list \<Rightarrow> json option res" where
  "find_inner container_name [] = Inr None"
| "find_inner container_name (p # ps) =
     bindE (is_container_patch container_name p) (\<lambda>b.
       if b then Inr (Some p) else find_inner container_name ps)"

fun find_container :: "json list \<Rightarrow> string \<Rightarrow> json option res" where
  "find_container [] container_name = Inr None"
| "find_container (patch_obj # ps) container_name =
     bindE (bindE (bindE (jget patch_obj ''patch'' (JArr [])) jiter) (find_inner container_name)) (\<lambda>found.
       case found of Some p \<Rightarrow> Inr (Some p) | None \<Rightarrow> find_container ps container_name)"

lemma index_of_Some_iff:
  "index_of P xs = Some (i, x) \<longleftrightarrow>
     i < length xs \<and> xs ! i = x \<and> P x \<and> (\<forall>j < i. \<not> P (xs ! j))"
proof (induction xs arbitrary: i)
  case (Cons y ys)
  show ?case
  proof (cases i)
    case 0
    then show ?thesis by auto
  next
    case (Suc k)
    have all: "(\<forall>j < Suc k. \<not> P ((y # ys) ! j)) \<longleftrightarrow> \<not> P y \<and> (\<forall>j < k. \<not> P (ys ! j))"
      by (auto simp: less_Suc_eq_0_disj)
    show ?thesis unfolding Suc all using Cons.IH [of k] by auto
  qed
qed simp

lemma index_of_None_iff: "index_of P xs = None \<longleftrightarrow> (\<forall>x \<in> set xs. \<not> P x)"
  by (induction xs) auto

section \<open>The names are valid\<close>

text \<open>
  What Kubernetes asks of the name of a service (a DNS-1035 label): at most 63 lowercase letters,
  digits and hyphens, a letter first and no hyphen last.
\<close>

definition label_char :: "char \<Rightarrow> bool" where
  "label_char c \<longleftrightarrow> is_lower c \<or> is_digit c \<or> c = CHR ''-''"

definition dns_label :: "string \<Rightarrow> bool" where
  "dns_label s \<longleftrightarrow> s \<noteq> [] \<and> length s \<le> 63 \<and> is_lower (hd s)
     \<and> last s \<noteq> CHR ''-'' \<and> list_all label_char s"

text \<open>The characters \<open>escapism.escape\<close> with \<open>-\<close> as its escape character can produce.\<close>

definition escaped_char :: "char \<Rightarrow> bool" where
  "escaped_char c \<longleftrightarrow> is_letter c \<or> is_digit c \<or> c = CHR ''-''"

lemma code_hyphen: "code CHR ''-'' = 45" by (simp add: code_def)

lemma label_char_lower [simp]: "escaped_char c \<Longrightarrow> label_char (lower_char c)"
  using is_lower_lower_char [of c]
  by (cases "is_letter c")
    (auto simp: label_char_def escaped_char_def lower_char_def is_letter_def is_upper_def
      is_lower_def is_digit_def code_hyphen)

lemma label_char_lower_all: "list_all escaped_char s \<Longrightarrow> list_all label_char (lower s)"
  by (auto simp: list_all_iff lower_def)

lemma list_all_take: "list_all P xs \<Longrightarrow> list_all P (take n xs)"
  by (auto simp: list_all_iff dest: in_set_takeD)

lemma label_char_hex: "is_hex c \<Longrightarrow> label_char c"
  by (auto simp: is_hex_def label_char_def is_lower_def)

lemma hash_part:
  "list_all label_char (take n (md5_hexdigest s))"
  "0 < n \<Longrightarrow> n \<le> 32 \<Longrightarrow> last (take n (md5_hexdigest s)) \<noteq> CHR ''-''"
proof -
  have hex: "list_all is_hex (take n (md5_hexdigest s))"
    by (rule list_all_take) (rule md5_hexdigest_hex)
  then show "list_all label_char (take n (md5_hexdigest s))"
    by (auto simp: list_all_iff label_char_hex)
  assume n: "0 < n" "n \<le> 32"
  then have "length (take n (md5_hexdigest s)) = n" by simp
  with n have "take n (md5_hexdigest s) \<noteq> []" by (metis length_0_conv less_irrefl)
  then have "is_hex (last (take n (md5_hexdigest s)))"
    using hex last_in_set by (metis list_all_iff)
  then show "last (take n (md5_hexdigest s)) \<noteq> CHR ''-''"
    by (auto simp: is_hex_def is_digit_def code_hyphen)
qed

lemma prefix_part:
  assumes "u \<noteq> []" "list_all escaped_char u"
  obtains p where "make_server_name_prefix u = Inr p" "p \<noteq> []" "is_lower (hd p)" "list_all label_char p"
proof -
  obtain c cs where u: "u = c # cs" using assms(1) by (cases u) auto
  have all: "list_all label_char (lower u)" by (rule label_char_lower_all) (rule assms(2))
  have n: "label_char CHR ''n''" "is_lower CHR ''n''"
    by (simp_all add: label_char_def is_lower_def code_def)
  have c: "is_letter (lower_char c) \<Longrightarrow> is_lower (lower_char c)"
    using lower_char_not_upper [of c] by (simp add: is_letter_def)
  show ?thesis
    by (rule that) (use all c n in \<open>auto simp: u make_server_name_prefix_def\<close>)
qed

lemma dns_label_parts:
  assumes "p \<noteq> []" "is_lower (hd p)" "list_all label_char p" "list_all label_char m"
    "h \<noteq> []" "list_all label_char h" "last h \<noteq> CHR ''-''"
    "length m + length h \<le> 51"
  shows "dns_label (take 12 p @ m @ h)"
  using assms list_all_take [OF assms(3), of 12]
  by (cases p) (auto simp: dns_label_def)

text \<open>
  The name of a Renku 1 session exists for every user name that is not empty, is at most 42
  characters long as the comments of the code promise, and is a valid Kubernetes label, whatever
  the project, branch and commit are.
\<close>

theorem renku_1_server_name_valid:
  assumes "\<And>s. list_all escaped_char (escape s)" and "u \<noteq> []" and "list_all escaped_char u"
  shows "\<exists>name. renku_1_make_server_name escape u ns project branch sha = Inr name
    \<and> dns_label name \<and> length name \<le> 42"
proof -
  obtain p where p: "make_server_name_prefix u = Inr p" "p \<noteq> []" "is_lower (hd p)" "list_all label_char p"
    using prefix_part [OF assms(2,3)] .
  let ?m = "''-'' @ lower (take 20 (escape project)) @ ''-''"
  let ?h = "take 8 (md5_hexdigest (u @ ''-'' @ ns @ ''-'' @ project @ ''-'' @ branch @ ''-'' @ sha))"
  have m: "list_all label_char ?m"
    using label_char_lower_all [OF list_all_take [OF assms(1)]] by (simp add: label_char_def)
  have len: "length ?h = 8" "length ?m \<le> 22" by simp_all
  then have ne: "?h \<noteq> []" by (metis length_0_conv zero_neq_numeral)
  have "dns_label (take 12 p @ ?m @ ?h)"
    using len by (intro dns_label_parts p m ne hash_part) simp_all
  moreover have "length (take 12 p @ ?m @ ?h) \<le> 42" using len by simp
  ultimately show ?thesis by (simp add: renku_1_make_server_name_def Let_def p(1))
qed

text \<open>An escape function with the behaviour of \<open>escapism.escape\<close> for the witnesses.\<close>

definition example_escape :: "string \<Rightarrow> string" where
  "example_escape s =
     concat (map (\<lambda>c. if is_letter c \<or> is_digit c then [c]
       else [CHR ''-'', hex_digit (code c div 16), hex_digit (code c mod 16)]) s)"

lemma escaped_hex: "n < 16 \<Longrightarrow> escaped_char (hex_digit n)"
  using is_hex_digit [of n] by (auto simp: is_hex_def escaped_char_def is_letter_def is_lower_def)

lemma example_escape_chars: "list_all escaped_char (example_escape s)"
proof -
  have "code c div 16 < 16" for c by (rule less_mult_imp_div_less) simp
  then show ?thesis
    by (auto simp: example_escape_def list_all_iff escaped_hex) (auto simp: escaped_char_def)
qed

theorem renku_1_server_name_valid_witness:
  "\<exists>name. renku_1_make_server_name example_escape ''7jane-2edoe'' ''group'' ''My.Project'' ''master'' ''abcdef0''
      = Inr name \<and> dns_label name \<and> length name \<le> 42"
  by (rule renku_1_server_name_valid) (rule example_escape_chars, simp, code_simp)

text \<open>
  The same holds for the name of a Renku 2 session, whatever the ids of the project and the
  launcher are.
\<close>

theorem renku_2_server_name_valid:
  assumes "u \<noteq> []" and "list_all escaped_char u"
  shows "\<exists>name. renku_2_make_server_name u project_id launcher_id = Inr name
    \<and> dns_label name \<and> length name \<le> 42"
proof -
  obtain p where p: "make_server_name_prefix u = Inr p" "p \<noteq> []" "is_lower (hd p)" "list_all label_char p"
    using prefix_part [OF assms] .
  let ?h = "take 21 (md5_hexdigest (u @ ''-'' @ project_id @ ''-'' @ launcher_id))"
  have m: "list_all label_char ''-renku-2-''" by code_simp
  have len: "length ?h = 21" by simp
  then have ne: "?h \<noteq> []" by (metis length_0_conv zero_neq_numeral)
  have "dns_label (take 12 p @ ''-renku-2-'' @ ?h)"
    using len by (intro dns_label_parts p m ne hash_part) simp_all
  moreover have "length (take 12 p @ ''-renku-2-'' @ ?h) \<le> 42" using len by simp
  ultimately show ?thesis by (simp add: renku_2_make_server_name_def Let_def p(1))
qed

theorem renku_2_server_name_valid_witness:
  "\<exists>name. renku_2_make_server_name ''7jane-2edoe'' ''01J5'' ''01J6'' = Inr name
    \<and> dns_label name \<and> length name \<le> 42"
  by (rule renku_2_server_name_valid) (simp, code_simp)

text \<open>
  The name of a Renku 1 session does not identify the session: the hashed text joins its
  parts with hyphens that the parts may contain, and the name keeps 20 characters of the project.
  Two projects of one namespace whose escaped names agree on 20 characters, the second named after
  the first with a suffix after a hyphen, get the same name for suitable branches.
\<close>

theorem renku_1_server_name_collision:
  assumes "take 20 (escape (project @ ''-'' @ tail_part)) = take 20 (escape project)"
  shows "renku_1_make_server_name escape u ns (project @ ''-'' @ tail_part) branch sha
    = renku_1_make_server_name escape u ns project (tail_part @ ''-'' @ branch) sha"
  using assms by (simp add: renku_1_make_server_name_def Let_def)

theorem renku_1_server_name_collision_witness:
  "renku_1_make_server_name example_escape ''jane'' ''group'' (''abcdefghijklmnopqrst'' @ ''-'' @ ''dev'') ''master'' ''abcdef0''
    = renku_1_make_server_name example_escape ''jane'' ''group'' ''abcdefghijklmnopqrst'' (''dev'' @ ''-'' @ ''master'') ''abcdef0''"
  by (rule renku_1_server_name_collision) code_simp

section \<open>Lookups\<close>

lemma find_env_var_Some:
  assumes "find_env_var c n = Inr (Some (i, v))"
  shows "\<exists>env. ct_env c = Some env \<and> i < length env \<and> ev_name (env ! i) = n
    \<and> (\<forall>j < i. ev_name (env ! j) \<noteq> n)"
  using assms by (auto simp: find_env_var_def index_of_Some_iff split: option.splits)

end
