(* ===== verification/Http.thy ===== *)
theory Http
  imports Json
begin

text \<open>
  HTTP as the service uses it through the \<open>requests\<close> package: a request, a response, and the user
  on whose behalf requests are made (\<open>api/classes/user.py\<close>).  The package itself is a parameter of
  the definitions that send requests: a function from requests to effects on an arbitrary world.
\<close>

section \<open>Requests and responses\<close>

record http_request =
  hr_method :: string
  hr_url :: string
  hr_headers :: "(string, string) dict option"
  hr_params :: "(string, json) dict option"
  hr_json :: "json option"

text \<open>\<open>resp_body\<close> is what \<open>res.json()\<close> returns, or raises on a body that is not JSON.\<close>

record http_response =
  resp_status :: int
  resp_headers :: "(string, string) dict"
  resp_body :: "json res"

type_synonym 'w http = "http_request \<Rightarrow> ('w, http_response) eff"

definition http_get ::
  "'w http \<Rightarrow> string \<Rightarrow> (string, string) dict option \<Rightarrow> (string, json) dict option
   \<Rightarrow> ('w, http_response) eff" where
  "http_get http url headers params =
     http \<lparr>hr_method = ''GET'', hr_url = url, hr_headers = headers, hr_params = params, hr_json = None\<rparr>"

definition http_post ::
  "'w http \<Rightarrow> string \<Rightarrow> (string, string) dict option \<Rightarrow> json \<Rightarrow> ('w, http_response) eff" where
  "http_post http url headers body =
     http \<lparr>hr_method = ''POST'', hr_url = url, hr_headers = headers, hr_params = None, hr_json = Some body\<rparr>"

text \<open>An HTTP service whose replies do not depend on a world and that changes nothing: for examples.\<close>

definition fixed_http :: "(string \<Rightarrow> http_response) \<Rightarrow> unit http" where
  "fixed_http reply rq = ret (reply (hr_url rq))"

definition ok_json :: "json \<Rightarrow> http_response" where
  "ok_json j = \<lparr>resp_status = 200, resp_headers = [], resp_body = Inr j\<rparr>"

section \<open>URLs\<close>

text \<open>
  The parts of \<open>urllib.parse\<close> the service uses: the path of an absolute URL, and joining an
  absolute path to a base URL with a scheme and a host.
\<close>

definition split_scheme :: "string \<Rightarrow> string \<times> string" where
  "split_scheme url =
     (let s = takeWhile (\<lambda>c. c \<noteq> CHR '':'') url; r = drop (length s) url in
      if startswith r ''://'' then (s, drop 3 r) else ([], url))"

definition ends_host :: "char \<Rightarrow> bool" where
  "ends_host c \<longleftrightarrow> c \<in> set ''/?#''"

definition url_netloc :: "string \<Rightarrow> string" where
  "url_netloc url = takeWhile (\<lambda>c. \<not> ends_host c) (snd (split_scheme url))"

definition url_path :: "string \<Rightarrow> string" where
  "url_path url =
     takeWhile (\<lambda>c. c \<notin> set ''?#'') (dropWhile (\<lambda>c. \<not> ends_host c) (snd (split_scheme url)))"

text \<open>\<open>urljoin\<close> removes \<open>.\<close> and \<open>..\<close> segments of the path.\<close>

fun resolve_segments :: "string list \<Rightarrow> string list \<Rightarrow> string list" where
  "resolve_segments acc [] = rev acc"
| "resolve_segments acc (s # ss) =
     (if s = ''..'' then resolve_segments (drop 1 acc) ss
      else if s = ''.'' then resolve_segments acc ss
      else resolve_segments (s # acc) ss)"

definition urljoin_path :: "string \<Rightarrow> string \<Rightarrow> string" where
  "urljoin_path base path =
     (let segs = splits CHR ''/'' path; rs = resolve_segments [] segs;
          p = join ''/'' (if last segs \<in> {''.'', ''..''} then rs @ [[]] else rs)
      in fst (split_scheme base) @ ''://'' @ url_netloc base @ (if p = [] then ''/'' else p))"

section \<open>The user\<close>

text \<open>
  The attributes of \<open>RegisteredUser\<close> and \<open>AnonymousUser\<close> after construction. \<open>user_anonymous\<close> is the
  property that tells the two classes apart.
\<close>

record user =
  user_anonymous :: bool
  user_authenticated :: bool
  user_username :: string
  user_safe_username :: string
  user_id :: string
  user_full_name :: "string option"
  user_email :: "string option"
  user_oidc_issuer :: "string option"
  user_access_token :: "string option"
  user_refresh_token :: "string option"
  user_git_url :: string
  user_git_token :: "string option"
  user_git_token_expires_at :: int

end
