(* ===== verification/Codec.thy ===== *)
theory Codec
  imports CustomFields
begin

text \<open>
  The encodings of the standard library that the service applies to credentials, Docker
  configurations and annotations: \<open>base64\<close> and \<open>json\<close>.  Texts are UTF-8 bytes throughout.
\<close>

section \<open>Base 64\<close>

definition b64_char :: "nat \<Rightarrow> char" where
  "b64_char n = char_of (if n < 26 then 65 + n else if n < 52 then 71 + n
     else if n < 62 then n - 4 else if n = 62 then 43 else 47)"

definition b64_val :: "char \<Rightarrow> nat option" where
  "b64_val c =
     (if is_upper c then Some (code c - 65) else if is_lower c then Some (code c - 71)
      else if is_digit c then Some (code c + 4)
      else if c = CHR ''+'' then Some 62 else if c = CHR ''/'' then Some 63 else None)"

fun b64encode :: "nat list \<Rightarrow> string" where
  "b64encode [] = []"
| "b64encode [a] = [b64_char (a div 4), b64_char (a mod 4 * 16), CHR ''='', CHR ''='']"
| "b64encode [a, b] =
     [b64_char (a div 4), b64_char (a mod 4 * 16 + b div 16), b64_char (b mod 16 * 4), CHR ''='']"
| "b64encode (a # b # c # r) =
     [b64_char (a div 4), b64_char (a mod 4 * 16 + b div 16), b64_char (b mod 16 * 4 + c div 64),
      b64_char (c mod 64)] @ b64encode r"

text \<open>
  \<open>b64decode\<close> without validation, as a loop over the characters with the position in a group of
  four, the bits left over and the padding seen: other characters are skipped, complete padding
  ends the input, and an incomplete group is an error.
\<close>

fun b64_loop :: "nat \<Rightarrow> nat \<Rightarrow> nat \<Rightarrow> string \<Rightarrow> nat list res" where
  "b64_loop quad_pos leftchar pads [] =
     (if quad_pos = 0 then Inr [] else Inl (ValueError ''Incorrect padding''))"
| "b64_loop quad_pos leftchar pads (c # cs) =
     (if c = CHR ''='' then
        (if 2 \<le> quad_pos \<and> 4 \<le> quad_pos + Suc pads then Inr []
         else b64_loop quad_pos leftchar (if 2 \<le> quad_pos then Suc pads else pads) cs)
      else (case b64_val c of
          None \<Rightarrow> b64_loop quad_pos leftchar pads cs
        | Some v \<Rightarrow>
            if quad_pos = 0 then b64_loop 1 v 0 cs
            else if quad_pos = 1 then
              bindE (b64_loop 2 (v mod 16) 0 cs) (\<lambda>bs. Inr ((leftchar * 4 + v div 16) # bs))
            else if quad_pos = 2 then
              bindE (b64_loop 3 (v mod 4) 0 cs) (\<lambda>bs. Inr ((leftchar * 16 + v div 4) # bs))
            else bindE (b64_loop 0 0 0 cs) (\<lambda>bs. Inr ((leftchar * 64 + v) # bs))))"

definition b64decode :: "string \<Rightarrow> nat list res" where
  "b64decode = b64_loop 0 0 0"

lemma code_b64_char:
  "n < 64 \<Longrightarrow> code (b64_char n) = (if n < 26 then 65 + n else if n < 52 then 71 + n
     else if n < 62 then n - 4 else if n = 62 then 43 else 47)"
  by (simp add: b64_char_def)

lemma char_codes: "code CHR ''+'' = 43" "code CHR ''/'' = 47" "code CHR ''='' = 61"
  by (simp_all add: code_def)

lemma b64_val_code:
  "b64_val c =
     (let n = code c in
      if 65 \<le> n \<and> n \<le> 90 then Some (n - 65) else if 97 \<le> n \<and> n \<le> 122 then Some (n - 71)
      else if 48 \<le> n \<and> n \<le> 57 then Some (n + 4)
      else if n = 43 then Some 62 else if n = 47 then Some 63 else None)"
  by (simp add: b64_val_def Let_def is_upper_def is_lower_def is_digit_def
      code_eq_iff [symmetric] char_codes)

lemma b64_val_char [simp]: "n < 64 \<Longrightarrow> b64_val (b64_char n) = Some n"
  by (simp add: b64_val_code Let_def code_b64_char) presburger

lemma b64_char_pad [simp]: "n < 64 \<Longrightarrow> b64_char n \<noteq> CHR ''=''"
  by (simp add: code_eq_iff [symmetric] char_codes code_b64_char) presburger

lemma b64_group:
  fixes a b c :: nat
  assumes "a < 256" "b < 256" "c < 256"
  shows "a div 4 < 64" "a mod 4 * 16 < 64" "a mod 4 * 16 + b div 16 < 64" "b mod 16 * 4 < 64"
    "b mod 16 * 4 + c div 64 < 64" "c mod 64 < 64"
    "a div 4 * 4 + (a mod 4 * 16) div 16 = a"
    "a div 4 * 4 + (a mod 4 * 16 + b div 16) div 16 = a"
    "(a mod 4 * 16 + b div 16) mod 16 = b div 16"
    "b div 16 * 16 + (b mod 16 * 4) div 4 = b"
    "b div 16 * 16 + (b mod 16 * 4 + c div 64) div 4 = b"
    "(b mod 16 * 4 + c div 64) mod 4 = c div 64"
    "c div 64 * 64 + c mod 64 = c" "b div 16 mod 16 = b div 16"
proof -
  have d: "a div 4 < 64" "b div 16 < 16" "c div 64 < 4"
    by (rule less_mult_imp_div_less, use assms in simp)+
  have m: "a mod 4 < 4" "b mod 16 < 16" by simp_all
  show "a div 4 < 64" "a mod 4 * 16 < 64" "a mod 4 * 16 + b div 16 < 64" "b mod 16 * 4 < 64"
    "b mod 16 * 4 + c div 64 < 64" "c mod 64 < 64"
    using d m by linarith+
  show "a div 4 * 4 + (a mod 4 * 16) div 16 = a"
    "a div 4 * 4 + (a mod 4 * 16 + b div 16) div 16 = a"
    "(a mod 4 * 16 + b div 16) mod 16 = b div 16"
    "b div 16 * 16 + (b mod 16 * 4) div 4 = b"
    "b div 16 * 16 + (b mod 16 * 4 + c div 64) div 4 = b"
    "(b mod 16 * 4 + c div 64) mod 4 = c div 64"
    "c div 64 * 64 + c mod 64 = c" "b div 16 mod 16 = b div 16"
    using d by simp_all
qed

lemma b64_loop_encode:
  "list_all (\<lambda>b. b < 256) bs \<Longrightarrow> b64_loop 0 0 0 (b64encode bs) = Inr bs"
proof (induction bs rule: b64encode.induct)
  case (2 a)
  then show ?case using b64_group [of a 0 0] by simp
next
  case (3 a b)
  then show ?case using b64_group [of a b 0] by simp
next
  case (4 a b c r)
  then show ?case using b64_group [of a b c] by simp
qed simp

lemma b64_roundtrip: "list_all (\<lambda>b. b < 256) bs \<Longrightarrow> b64decode (b64encode bs) = Inr bs"
  by (simp add: b64decode_def b64_loop_encode)

section \<open>UTF-8\<close>

text \<open>Code points and bytes; \<open>utf8_points\<close> decodes what \<open>utf8_bytes\<close> encodes.\<close>

definition utf8_bytes :: "nat \<Rightarrow> nat list" where
  "utf8_bytes n =
     (if n < 128 then [n]
      else if n < 2048 then [192 + n div 64, 128 + n mod 64]
      else if n < 65536 then [224 + n div 4096, 128 + n div 64 mod 64, 128 + n mod 64]
      else [240 + n div 262144, 128 + n div 4096 mod 64, 128 + n div 64 mod 64, 128 + n mod 64])"

fun utf8_points :: "nat list \<Rightarrow> nat list" where
  "utf8_points [] = []"
| "utf8_points (a # r) =
     (if a < 128 then a # utf8_points r
      else (case r of
          [] \<Rightarrow> [a]
        | b # r1 \<Rightarrow>
            if a < 224 then ((a - 192) * 64 + (b - 128)) # utf8_points r1
            else (case r1 of
                [] \<Rightarrow> [a, b]
              | c # r2 \<Rightarrow>
                  if a < 240 then ((a - 224) * 4096 + (b - 128) * 64 + (c - 128)) # utf8_points r2
                  else (case r2 of
                      [] \<Rightarrow> [a, b, c]
                    | d # r3 \<Rightarrow>
                        ((a - 240) * 262144 + (b - 128) * 4096 + (c - 128) * 64 + (d - 128))
                          # utf8_points r3))))"

section \<open>JSON texts\<close>

text \<open>\<open>json.dumps\<close> with its defaults: ASCII output, separators \<open>', '\<close> and \<open>': '\<close>.\<close>

definition hex4 :: "nat \<Rightarrow> string" where
  "hex4 n = map (\<lambda>d. char_of (if d < 10 then 48 + d else 87 + d))
     [n div 4096 mod 16, n div 256 mod 16, n div 16 mod 16, n mod 16]"

definition backslash :: char where "backslash = char_of (92 :: nat)"
definition dquote :: char where "dquote = char_of (34 :: nat)"

definition escape_point :: "nat \<Rightarrow> string" where
  "escape_point n =
     (if n = 34 then [backslash, dquote] else if n = 92 then [backslash, backslash]
      else if n = 10 then [backslash, CHR ''n''] else if n = 13 then [backslash, CHR ''r'']
      else if n = 9 then [backslash, CHR ''t''] else if n = 12 then [backslash, CHR ''f'']
      else if n = 8 then [backslash, CHR ''b'']
      else if 32 \<le> n \<and> n < 128 then [char_of n]
      else if n < 65536 then backslash # CHR ''u'' # hex4 n
      else backslash # CHR ''u'' # hex4 (55296 + (n - 65536) div 1024) @
           backslash # CHR ''u'' # hex4 (56320 + (n - 65536) mod 1024))"

definition dumps_str :: "string \<Rightarrow> string" where
  "dumps_str s = dquote # concat (map escape_point (utf8_points (map code s))) @ [dquote]"

fun json_dumps :: "json \<Rightarrow> string" where
  "json_dumps JNull = ''null''"
| "json_dumps (JBool b) = (if b then ''true'' else ''false'')"
| "json_dumps (JInt i) = show_int i"
| "json_dumps (JFloat q) = float_repr q"
| "json_dumps (JStr s) = dumps_str s"
| "json_dumps (JArr xs) = ''['' @ join '', '' (map json_dumps xs) @ '']''"
| "json_dumps (JObj kvs) =
     ''{'' @ join '', '' (map (\<lambda>(k, v). dumps_str k @ '': '' @ json_dumps v) kvs) @ ''}''"

text \<open>
  \<open>json.loads\<close>, a recursive descent over the text.  Nesting is bounded by the text's length, which
  is the fuel.  The constants \<open>NaN\<close> and \<open>Infinity\<close> are not accepted.
\<close>

definition json_error :: exc where
  "json_error = ValueError ''JSONDecodeError''"

definition json_space :: "char \<Rightarrow> bool" where
  "json_space c \<longleftrightarrow> code c \<in> {9, 10, 13, 32}"

definition skip :: "string \<Rightarrow> string" where
  "skip s = dropWhile json_space s"

definition hex_value :: "char \<Rightarrow> nat option" where
  "hex_value c =
     (if is_digit c then Some (code c - 48)
      else if 97 \<le> code c \<and> code c \<le> 102 then Some (code c - 87)
      else if 65 \<le> code c \<and> code c \<le> 70 then Some (code c - 55) else None)"

fun hex4_value :: "string \<Rightarrow> (nat \<times> string) option" where
  "hex4_value (a # b # c # d # r) =
     (case (hex_value a, hex_value b, hex_value c, hex_value d) of
        (Some x, Some y, Some z, Some w) \<Rightarrow> Some (x * 4096 + y * 256 + z * 16 + w, r)
      | _ \<Rightarrow> None)"
| "hex4_value _ = None"

lemma hex4_value_shorter: "hex4_value s = Some (n, r) \<Longrightarrow> length r < length s"
  by (induction s rule: hex4_value.induct) (auto split: option.splits prod.splits)

text \<open>An escape after its backslash: the code point and the rest of the text.\<close>

definition unescape :: "string \<Rightarrow> (nat \<times> string) option" where
  "unescape s =
     (case s of
        [] \<Rightarrow> None
      | e # r \<Rightarrow>
          if e = dquote then Some (34, r) else if e = backslash then Some (92, r)
          else if e = CHR ''/'' then Some (47, r) else if e = CHR ''b'' then Some (8, r)
          else if e = CHR ''f'' then Some (12, r) else if e = CHR ''n'' then Some (10, r)
          else if e = CHR ''r'' then Some (13, r) else if e = CHR ''t'' then Some (9, r)
          else if e = CHR ''u'' then
            (case hex4_value r of
               None \<Rightarrow> None
             | Some (hi, r1) \<Rightarrow>
                 if 55296 \<le> hi \<and> hi < 56320 \<and> startswith r1 [backslash, CHR ''u''] then
                   (case hex4_value (drop 2 r1) of
                      None \<Rightarrow> None
                    | Some (lo, r2) \<Rightarrow>
                        if 56320 \<le> lo \<and> lo < 57344
                        then Some (65536 + (hi - 55296) * 1024 + (lo - 56320), r2)
                        else Some (hi, r1))
                 else Some (hi, r1))
          else None)"

lemma unescape_shorter: "unescape s = Some (n, r) \<Longrightarrow> length r < length s"
  by (auto simp: unescape_def dest!: hex4_value_shorter split: list.splits if_splits option.splits prod.splits)

function scan_str :: "string \<Rightarrow> (string \<times> string) option" where
  "scan_str [] = None"
| "scan_str (c # cs) =
     (if c = dquote then Some ([], cs)
      else if code c < 32 then None
      else if c = backslash then
        (case unescape cs of
           None \<Rightarrow> None
         | Some (n, r) \<Rightarrow> map_option (\<lambda>(t, r'). (map char_of (utf8_bytes n) @ t, r')) (scan_str r))
      else map_option (\<lambda>(t, r). (c # t, r)) (scan_str cs))"
  by pat_completeness auto
termination
  by (relation "measure length") (auto dest: unescape_shorter)

definition scan_number :: "string \<Rightarrow> (json \<times> string) option" where
  "scan_number s =
     (let neg = startswith s ''-''; a = (if neg then drop 1 s else s);
          i = (if startswith a ''0'' then ''0'' else takeWhile is_digit a); r = drop (length i) a;
          f = (if startswith r ''.'' then takeWhile is_digit (drop 1 r) else []);
          r1 = (if f = [] then r else drop (Suc (length f)) r);
          has_e = (r1 \<noteq> [] \<and> (hd r1 = CHR ''e'' \<or> hd r1 = CHR ''E''));
          x = (if has_e then drop 1 r1 else []);
          sg = (x \<noteq> [] \<and> (hd x = CHR ''+'' \<or> hd x = CHR ''-''));
          es = takeWhile is_digit (if sg then drop 1 x else x);
          r2 = (if es = [] then r1 else drop (length es) (if sg then drop 1 x else x));
          ev = (if sg \<and> hd x = CHR ''-'' then - int (parse_digits es) else int (parse_digits es));
          m = of_nat (parse_digits (i @ f)) * pow10 (ev - int (length f));
          sign = (if neg then - 1 else 1)
      in if i = [] then None
         else if f = [] \<and> es = [] then Some (JInt (sign * int (parse_digits i)), r2)
         else Some (JFloat (of_int sign * fl m), r2))"

fun scan_value :: "nat \<Rightarrow> string \<Rightarrow> (json \<times> string) option"
  and scan_items :: "nat \<Rightarrow> string \<Rightarrow> (json list \<times> string) option"
  and scan_members :: "nat \<Rightarrow> (string, json) dict \<Rightarrow> string \<Rightarrow> ((string, json) dict \<times> string) option"
where
  "scan_value 0 s = None"
| "scan_value (Suc n) s =
     (case s of
        [] \<Rightarrow> None
      | c # cs \<Rightarrow>
          if c = dquote then map_option (\<lambda>(t, r). (JStr t, r)) (scan_str cs)
          else if c = CHR ''['' then
            (case skip cs of
               [] \<Rightarrow> None
             | d # ds \<Rightarrow> if d = CHR '']'' then Some (JArr [], ds)
                 else map_option (\<lambda>(xs, r). (JArr xs, r)) (scan_items n (d # ds)))
          else if c = CHR ''{'' then
            (case skip cs of
               [] \<Rightarrow> None
             | d # ds \<Rightarrow> if d = CHR ''}'' then Some (JObj [], ds)
                 else map_option (\<lambda>(kvs, r). (JObj kvs, r)) (scan_members n [] (d # ds)))
          else if startswith s ''null'' then Some (JNull, drop 4 s)
          else if startswith s ''true'' then Some (JBool True, drop 4 s)
          else if startswith s ''false'' then Some (JBool False, drop 5 s)
          else scan_number s)"
| "scan_items 0 s = None"
| "scan_items (Suc n) s =
     (case scan_value n s of
        None \<Rightarrow> None
      | Some (v, r) \<Rightarrow>
          (case skip r of
             [] \<Rightarrow> None
           | c # cs \<Rightarrow>
               if c = CHR '']'' then Some ([v], cs)
               else if c = CHR '','' then map_option (\<lambda>(xs, r'). (v # xs, r')) (scan_items n (skip cs))
               else None))"
| "scan_members 0 d s = None"
| "scan_members (Suc n) d s =
     (case s of
        [] \<Rightarrow> None
      | q # qs \<Rightarrow>
          if q \<noteq> dquote then None
          else (case scan_str qs of
              None \<Rightarrow> None
            | Some (k, r) \<Rightarrow>
                (case skip r of
                   [] \<Rightarrow> None
                 | c # cs \<Rightarrow>
                     if c \<noteq> CHR '':'' then None
                     else (case scan_value n (skip cs) of
                         None \<Rightarrow> None
                       | Some (v, r1) \<Rightarrow>
                           (case skip r1 of
                              [] \<Rightarrow> None
                            | e # es \<Rightarrow>
                                if e = CHR ''}'' then Some (dset k v d, es)
                                else if e = CHR '','' then scan_members n (dset k v d) (skip es)
                                else None)))))"

definition json_loads :: "string \<Rightarrow> json res" where
  "json_loads s =
     (case scan_value (Suc (length s)) (skip s) of
        Some (v, r) \<Rightarrow> if skip r = [] then Inr v else Inl json_error
      | None \<Rightarrow> Inl json_error)"

text \<open>The two encodings together: \<open>json.loads(base64.b64decode(s).decode())\<close> and back.\<close>

definition b64_json_loads :: "string \<Rightarrow> json res" where
  "b64_json_loads s = bindE (b64decode s) (\<lambda>bs. json_loads (map char_of bs))"

definition b64_json_dumps :: "json \<Rightarrow> string" where
  "b64_json_dumps j = b64encode (map code (json_dumps j))"

end
