(* ===== verification/K8sClient.thy ===== *)
theory K8sClient
  imports KubernetesUtil Retries Http Codec
begin

text \<open>
  The abstraction over Kubernetes and the cache of session objects (\<open>api/classes/k8s_client.py\<close>):
  one client per namespace, the cache, and the client that combines them and decides who may see
  and change a session.  The Kubernetes API is a record of operations on an arbitrary world; each
  may raise \<open>K8sApi status\<close>.
\<close>

section \<open>The Kubernetes API of one namespace\<close>

record statefulset =
  sts_containers :: "container list"
  sts_init_containers :: "container list option"

text \<open>The \<open>data\<close> of a \<open>V1Secret\<close>.\<close>

type_synonym secret = "(string, string) dict"

text \<open>
  A \<open>NamespacedK8sClient\<close>: its namespace and the calls it makes to \<open>CustomObjectsApi\<close> for the
  group, version and plural it is configured with, to \<open>AppsV1Api\<close> and to \<open>CoreV1Api\<close>.
  \<open>patch_json\<close> is the client whose content type is \<open>application/json-patch+json\<close>.
\<close>

record 'w ns_client =
  namespace :: string
  get_object :: "string \<Rightarrow> ('w, json) eff"
  list_objects :: "string option \<Rightarrow> ('w, json) eff"
  create_object :: "json \<Rightarrow> ('w, json) eff"
  patch_json :: "string \<Rightarrow> json \<Rightarrow> ('w, json) eff"
  patch_merge :: "string \<Rightarrow> json \<Rightarrow> ('w, json) eff"
  delete_object :: "string \<Rightarrow> int option \<Rightarrow> ('w, json) eff"
  read_statefulset :: "string \<Rightarrow> ('w, statefulset) eff"
  patch_statefulset_api :: "string \<Rightarrow> json \<Rightarrow> ('w, json) eff"
  read_secret :: "string \<Rightarrow> ('w, secret) eff"
  patch_secret :: "string \<Rightarrow> json \<Rightarrow> ('w, unit) eff"
  read_pod_log :: "string \<Rightarrow> string \<Rightarrow> int option \<Rightarrow> ('w, string) eff"

text \<open>\<open>except ApiException as err\<close>.\<close>

definition catch_api :: "('w, 'a) eff \<Rightarrow> (int \<Rightarrow> ('w, 'a) eff) \<Rightarrow> ('w, 'a) eff" where
  "catch_api m h = catchC m (\<lambda>e. case e of K8sApi st \<Rightarrow> h st | _ \<Rightarrow> raise e)"

lemma reads_only_catch_api [intro]:
  "reads_only m \<Longrightarrow> (\<And>st. reads_only (h st)) \<Longrightarrow> reads_only (catch_api m h)"
  unfolding catch_api_def by (rule reads_only_catchC) (auto split: exc.splits)

section \<open>\<open>NamespacedK8sClient\<close>\<close>

definition get_container_logs ::
  "'w ns_client \<Rightarrow> string \<Rightarrow> string \<Rightarrow> int option \<Rightarrow> ('w, string option) eff" where
  "get_container_logs c pod_name container_name max_log_lines =
     catch_api (bindC (read_pod_log c pod_name container_name max_log_lines) (\<lambda>l. ret (Some l)))
       (\<lambda>status.
         if status \<in> {400, 404} then ret None
         else raise (api IntermittentError
           (''Logs cannot be read for pod '' @ pod_name @ '', container '' @ container_name @ ''.'')))"

fun pod_logs_loop ::
  "'w ns_client \<Rightarrow> string \<Rightarrow> int option \<Rightarrow> (string, string) dict \<Rightarrow> string list \<Rightarrow> ('w, (string, string) dict) eff" where
  "pod_logs_loop c name max_log_lines output [] = ret output"
| "pod_logs_loop c name max_log_lines output (container # cs) =
     bindC (get_container_logs c name container max_log_lines) (\<lambda>logs.
       pod_logs_loop c name max_log_lines
         (case logs of
            Some l \<Rightarrow> if l \<noteq> [] then dset container l output else output
          | None \<Rightarrow> output) cs)"

definition get_pod_logs ::
  "'w ns_client \<Rightarrow> string \<Rightarrow> string list \<Rightarrow> int option \<Rightarrow> ('w, (string, string) dict) eff" where
  "get_pod_logs c name containers max_log_lines = pod_logs_loop c name max_log_lines [] containers"

definition ns_get_secret :: "'w ns_client \<Rightarrow> string \<Rightarrow> ('w, secret option) eff" where
  "ns_get_secret c name =
     catch_api (bindC (read_secret c name) (\<lambda>s. ret (Some s))) (\<lambda>_. ret None)"

definition ns_get_server :: "'w ns_client \<Rightarrow> string \<Rightarrow> ('w, json option) eff" where
  "ns_get_server c name =
     catch_api (bindC (get_object c name) (\<lambda>js. ret (Some js)))
       (\<lambda>status.
         if status \<notin> {400, 404} then
           raise (api IntermittentError (''Cannot get server '' @ name @ '' from the k8s API.''))
         else ret None)"

definition ns_create_server ::
  "(pynum \<Rightarrow> ('w, unit) eff) \<Rightarrow> 'w ns_client \<Rightarrow> json \<Rightarrow> ('w, json option) eff" where
  "ns_create_server sleep c manifest =
     bindC (liftE (jpath manifest [''metadata'', ''name''] JNull)) (\<lambda>server_name.
     bindC (catch_api (create_object c manifest) (\<lambda>_.
         raise (api CannotStartServerError (''Cannot start the session '' @ py_str server_name)))) (\<lambda>_.
     retry_default sleep (\<lambda>x. x = None) ''get_server'' (ns_get_server c (py_str server_name))))"

definition ns_patch_server :: "'w ns_client \<Rightarrow> string \<Rightarrow> json \<Rightarrow> ('w, json) eff" where
  "ns_patch_server c server_name patch =
     catch_api ((case patch of JArr _ \<Rightarrow> patch_json c | _ \<Rightarrow> patch_merge c) server_name patch)
       (\<lambda>_. raise (api_default PatchServerError))"

definition ns_patch_statefulset :: "'w ns_client \<Rightarrow> string \<Rightarrow> json \<Rightarrow> ('w, json option) eff" where
  "ns_patch_statefulset c server_name patch =
     catch_api (bindC (patch_statefulset_api c server_name patch) (\<lambda>ss. ret (Some ss)))
       (\<lambda>status. if status = 404 then ret None else raise (K8sApi status))"

definition ns_delete_server :: "'w ns_client \<Rightarrow> string \<Rightarrow> bool \<Rightarrow> ('w, json) eff" where
  "ns_delete_server c server_name forced =
     catch_api (delete_object c server_name (if forced then Some 0 else None))
       (\<lambda>_. raise (api_default DeleteServerError))"

definition ns_list_servers :: "'w ns_client \<Rightarrow> string option \<Rightarrow> ('w, json) eff" where
  "ns_list_servers c label_selector =
     bindC (catch_api (bindC (list_objects c label_selector) (\<lambda>jss. ret (Some jss)))
         (\<lambda>status.
           if status \<notin> {400, 404} then
             raise (api IntermittentError (''Cannot list servers from the k8s API with selector '' @
               (case label_selector of None \<Rightarrow> ''None'' | Some s \<Rightarrow> s) @ ''.''))
           else ret None)) (\<lambda>jss.
     case jss of None \<Rightarrow> ret (JArr []) | Some j \<Rightarrow> liftE (jget j ''items'' (JArr [])))"

section \<open>Tokens of a running session\<close>

record renku_tokens =
  rt_access_token :: "string option"
  rt_refresh_token :: "string option"

record gitlab_token =
  gt_expires_at :: int
  gt_access_token :: "string option"

definition docker_config :: "string \<Rightarrow> gitlab_token \<Rightarrow> json \<Rightarrow> json" where
  "docker_config hostname token old_email =
     JObj [(''auths'', JObj [(hostname,
       JObj [(''Username'', JStr ''oauth2''), (''Password'', jopt (gt_access_token token)),
             (''Email'', old_email)])])]"

definition image_pull_secret_patch :: "secret \<Rightarrow> gitlab_token \<Rightarrow> json res" where
  "image_pull_secret_patch sec token =
     (case dget sec ''.dockerconfigjson'' of
        None \<Rightarrow> Inl (KeyError ''.dockerconfigjson'')
      | Some d \<Rightarrow>
          bindE (b64_json_loads d) (\<lambda>old_docker_config.
          bindE (bindE (jitem old_docker_config ''auths'') jkeys) (\<lambda>hosts.
          case hosts of
            hostname # _ \<Rightarrow>
              if hostname = [] then
                Inl (api_detail ProgrammingError
                  ''Failed to refresh the access credentials in the image pull secret.''
                  ''Please contact a Renku administrator.'')
              else
                bindE (jitems old_docker_config [''auths'', hostname, ''Email'']) (\<lambda>old_email.
                Inr (JArr [JObj [(''op'', JStr ''replace''), (''path'', JStr ''/data/.dockerconfigjson''),
                  (''value'', JStr (b64_json_dumps (docker_config hostname token old_email)))]]))
          | [] \<Rightarrow>
              Inl (api_detail ProgrammingError
                ''Failed to refresh the access credentials in the image pull secret.''
                ''Please contact a Renku administrator.''))))"

definition ns_patch_image_pull_secret :: "'w ns_client \<Rightarrow> string \<Rightarrow> gitlab_token \<Rightarrow> ('w, unit) eff" where
  "ns_patch_image_pull_secret c server_name token =
     (let secret_name = server_name @ ''-image-secret'' in
      bindC (catch_api (bindC (read_secret c secret_name) (\<lambda>s. ret (Some s)))
          (\<lambda>status. if status = 404 then ret None else raise (K8sApi status))) (\<lambda>sec.
      case sec of
        None \<Rightarrow> ret ()
      | Some s \<Rightarrow> bindC (liftE (image_pull_secret_patch s token)) (\<lambda>patch. patch_secret c secret_name patch)))"

text \<open>\<open>next(((i, c) for i, c in enumerate(cs) if c.name == name), (None, None))\<close> and its variable.\<close>

definition named_container :: "string \<Rightarrow> container list \<Rightarrow> (nat \<times> container) option" where
  "named_container name cs = index_of (\<lambda>c. ct_name c = name) cs"

definition env_index :: "(nat \<times> container) option \<Rightarrow> string \<Rightarrow> (nat \<times> nat) option res" where
  "env_index found env_name =
     (case found of
        None \<Rightarrow> Inr None
      | Some (i, c) \<Rightarrow>
          bindE (find_env_var c env_name) (\<lambda>e. Inr (map_option (\<lambda>(j, _). (i, j)) e)))"

definition token_patch :: "string \<Rightarrow> nat \<times> nat \<Rightarrow> string option \<Rightarrow> json" where
  "token_patch kind ij v =
     JObj [(''op'', JStr ''replace''),
       (''path'', JStr (''/spec/template/spec/'' @ kind @ ''/'' @ show_nat (fst ij) @
          ''/env/'' @ show_nat (snd ij) @ ''/value'')),
       (''value'', jopt v)]"

definition opt_patch :: "string \<Rightarrow> (nat \<times> nat) option \<Rightarrow> string option \<Rightarrow> json list" where
  "opt_patch kind ij v = (case ij of None \<Rightarrow> [] | Some p \<Rightarrow> [token_patch kind p v])"

definition get_statefulset_token_patches :: "statefulset \<Rightarrow> renku_tokens \<Rightarrow> json list res" where
  "get_statefulset_token_patches sts tokens =
     (case sts_init_containers sts of
        None \<Rightarrow> Inl (TypeError ''NoneType is not iterable'')
      | Some init_containers \<Rightarrow>
          let git_proxy = named_container ''git-proxy'' (sts_containers sts);
              git_clone = named_container ''git-clone'' init_containers;
              secrets = named_container ''init-user-secrets'' init_containers
          in bindE (env_index git_proxy ''GIT_PROXY_RENKU_ACCESS_TOKEN'') (\<lambda>a.
             bindE (env_index git_proxy ''GIT_PROXY_RENKU_REFRESH_TOKEN'') (\<lambda>r.
             bindE (env_index git_clone ''GIT_CLONE_USER__RENKU_TOKEN'') (\<lambda>g.
             bindE (env_index secrets ''RENKU_ACCESS_TOKEN'') (\<lambda>s.
             Inr (opt_patch ''containers'' a (rt_access_token tokens) @
                  opt_patch ''containers'' r (rt_refresh_token tokens) @
                  opt_patch ''initContainers'' g (rt_access_token tokens) @
                  opt_patch ''initContainers'' s (rt_access_token tokens)))))))"

definition ns_patch_statefulset_tokens :: "'w ns_client \<Rightarrow> string \<Rightarrow> renku_tokens \<Rightarrow> ('w, unit) eff" where
  "ns_patch_statefulset_tokens c name tokens =
     bindC (catch_api (bindC (read_statefulset c name) (\<lambda>s. ret (Some s)))
         (\<lambda>status. if status = 404 then ret None else raise (K8sApi status))) (\<lambda>sts.
     case sts of
       None \<Rightarrow> ret ()
     | Some s \<Rightarrow>
         bindC (liftE (get_statefulset_token_patches s tokens)) (\<lambda>patches.
           if patches = [] then ret ()
           else bindC (patch_statefulset_api c name (JArr patches)) (\<lambda>_. ret ())))"

section \<open>\<open>JsServerCache\<close>\<close>

record 'w js_cache =
  cache_http :: "'w http"
  cache_url :: string

text \<open>\<open>except requests.RequestException\<close>; \<open>raise_for_status\<close> raises for the codes 400 to 599.\<close>

definition catch_requests :: "('w, 'a) eff \<Rightarrow> ('w, 'a) eff \<Rightarrow> ('w, 'a) eff" where
  "catch_requests m h = catchC m (\<lambda>e. case e of RequestsError _ \<Rightarrow> h | _ \<Rightarrow> raise e)"

definition is_http_error :: "http_response \<Rightarrow> bool" where
  "is_http_error r \<longleftrightarrow> 400 \<le> resp_status r \<and> resp_status r < 600"

definition cache_unavailable :: exc where
  "cache_unavailable = api JSCacheError ''The jupyter server cache is not available''"

text \<open>
  \<open>err\<close> in the message of the code is the text of the \<open>HTTPError\<close>, of which the model keeps the
  status.
\<close>

definition cache_list_servers :: "'w js_cache \<Rightarrow> string \<Rightarrow> ('w, json) eff" where
  "cache_list_servers c safe_username =
     bindC (catch_requests
         (http_get (cache_http c) (urljoin_path (cache_url c) (''/users/'' @ safe_username @ ''/servers'')) None None)
         (raise cache_unavailable)) (\<lambda>res.
     if is_http_error res then
       raise (api JSCacheError (''The JSCache produced an unexpected status code: '' @ show_int (resp_status res)))
     else liftE (resp_body res))"

text \<open>\<open>len(output)\<close> and \<open>output[0]\<close>.\<close>

fun jlen :: "json \<Rightarrow> nat res" where
  "jlen (JArr xs) = Inr (length xs)"
| "jlen (JObj kvs) = Inr (length kvs)"
| "jlen (JStr s) = Inr (length s)"
| "jlen _ = Inl (TypeError ''object has no len()'')"

fun jfirst :: "json \<Rightarrow> json res" where
  "jfirst (JArr (x # xs)) = Inr x"
| "jfirst (JArr []) = Inl IndexError"
| "jfirst (JStr (c # cs)) = Inr (JStr [c])"
| "jfirst (JObj _) = Inl (KeyError ''0'')"
| "jfirst _ = Inl (TypeError ''not subscriptable'')"

definition cached_server :: "string \<Rightarrow> json \<Rightarrow> json option res" where
  "cached_server name output =
     bindE (jlen output) (\<lambda>n.
       if n = 0 then Inr None
       else if 1 < n then
         Inl (api ProgrammingError (''Expected to find 1 server when getting server '' @ name @
           '', found '' @ show_nat n @ ''.''))
       else bindE (jfirst output) (\<lambda>s. Inr (Some s)))"

definition cache_get_server :: "'w js_cache \<Rightarrow> string \<Rightarrow> ('w, json option) eff" where
  "cache_get_server c name =
     bindC (catch_requests
         (http_get (cache_http c) (urljoin_path (cache_url c) (''/servers/'' @ name)) None None)
         (raise cache_unavailable)) (\<lambda>res.
     if resp_status res \<noteq> 200 then
       raise (api JSCacheError (''The JSCache produced an unexpected status code: '' @ show_int (resp_status res)))
     else bindC (liftE (resp_body res)) (\<lambda>output. liftE (cached_server name output)))"

section \<open>\<open>K8sClient\<close>\<close>

record 'w k8s_client =
  js_cache_of :: "'w js_cache"
  renku_ns_client :: "'w ns_client"
  username_label :: string
  session_ns_client :: "'w ns_client option"
  bypass_cache_on_failure :: bool
  sleep :: "pynum \<Rightarrow> ('w, unit) eff"

text \<open>The constructor refuses an empty label.\<close>

definition make_k8s_client ::
  "'w js_cache \<Rightarrow> 'w ns_client \<Rightarrow> string \<Rightarrow> 'w ns_client option \<Rightarrow> bool \<Rightarrow> (pynum \<Rightarrow> ('w, unit) eff) \<Rightarrow> 'w k8s_client res" where
  "make_k8s_client js renku label session bypass slp =
     (if label = [] then Inl (api ProgrammingError ''username_label has to be provided to K8sClient'')
      else Inr \<lparr>js_cache_of = js, renku_ns_client = renku, username_label = label,
                session_ns_client = session, bypass_cache_on_failure = bypass, sleep = slp\<rparr>)"

text \<open>\<open>except JSCacheError: if not bypass: raise\<close>.\<close>

definition or_bypass :: "'w k8s_client \<Rightarrow> ('w, 'a) eff \<Rightarrow> ('w, 'a) eff \<Rightarrow> ('w, 'a) eff" where
  "or_bypass k m h =
     catchC m (\<lambda>e. if isinstance e JSCacheError \<and> bypass_cache_on_failure k then h else raise e)"

fun japp :: "json \<Rightarrow> json \<Rightarrow> json res" where
  "japp (JArr xs) (JArr ys) = Inr (JArr (xs @ ys))"
| "japp _ _ = Inl (TypeError ''can only concatenate list'')"

definition list_servers :: "'w k8s_client \<Rightarrow> string \<Rightarrow> ('w, json) eff" where
  "list_servers k safe_username =
     or_bypass k (cache_list_servers (js_cache_of k) safe_username)
       (let label_selector = username_label k @ ''='' @ safe_username in
        bindC (ns_list_servers (renku_ns_client k) (Some label_selector)) (\<lambda>a.
        bindC (case session_ns_client k of
            None \<Rightarrow> ret (JArr [])
          | Some c \<Rightarrow> ns_list_servers c (Some label_selector)) (\<lambda>b.
        liftE (japp a b))))"

text \<open>Reading a session past the cache: \<open>output\<close> of the code as a list.\<close>

definition if_truthy :: "json option \<Rightarrow> json list" where
  "if_truthy r = (case r of Some j \<Rightarrow> if truthy j then [j] else [] | None \<Rightarrow> [])"

definition get_server_from_api :: "'w k8s_client \<Rightarrow> string \<Rightarrow> ('w, json option) eff" where
  "get_server_from_api k name =
     bindC (case session_ns_client k of
         None \<Rightarrow> ret []
       | Some c \<Rightarrow> bindC (ns_get_server c name) (\<lambda>r. ret (if_truthy r))) (\<lambda>out1.
     bindC (ns_get_server (renku_ns_client k) name) (\<lambda>r.
     let output = out1 @ if_truthy r in
       if 1 < length output then
         raise (api ProgrammingError (''Expected less than two results for searching for server '' @
           name @ '', but got '' @ show_nat (length output)))
       else ret (case output of [] \<Rightarrow> None | s # _ \<Rightarrow> Some s)))"

text \<open>\<open>server.get('metadata', {}).get('labels', {}).get(self.username_label)\<close>.\<close>

definition server_owner :: "string \<Rightarrow> json \<Rightarrow> json res" where
  "server_owner label server = jpath server [''metadata'', ''labels'', label] JNull"

definition owned_by :: "string \<Rightarrow> string \<Rightarrow> json option \<Rightarrow> json option res" where
  "owned_by label safe_username server =
     (case server of
        None \<Rightarrow> Inr None
      | Some s \<Rightarrow>
          if truthy s then
            bindE (server_owner label s) (\<lambda>u.
              Inr (if u \<noteq> JStr safe_username then None else Some s))
          else Inr (Some s))"

definition get_server :: "'w k8s_client \<Rightarrow> string \<Rightarrow> string \<Rightarrow> ('w, json option) eff" where
  "get_server k name safe_username =
     bindC (or_bypass k (cache_get_server (js_cache_of k) name) (get_server_from_api k name))
       (\<lambda>server. liftE (owned_by (username_label k) safe_username server))"

text \<open>The client of the namespace that a session says it is in.\<close>

definition with_namespace_of ::
  "'w k8s_client \<Rightarrow> json \<Rightarrow> ('w ns_client \<Rightarrow> ('w, 'a) eff) \<Rightarrow> ('w, 'a) eff" where
  "with_namespace_of k server act =
     bindC (liftE (jpath server [''metadata'', ''namespace''] JNull)) (\<lambda>ns.
       if ns = JStr (namespace (renku_ns_client k)) then act (renku_ns_client k)
       else (case session_ns_client k of
           None \<Rightarrow> raise (AttributeError ''NoneType'')
         | Some c \<Rightarrow> act c))"

definition state_containers :: "json \<Rightarrow> string list res" where
  "state_containers server =
     bindE (bindE (jpath server [''status'', ''containerStates'', ''init''] jempty) jkeys) (\<lambda>i.
     bindE (bindE (jpath server [''status'', ''containerStates'', ''regular''] jempty) jkeys) (\<lambda>r.
     Inr (i @ r)))"

definition get_server_logs ::
  "'w k8s_client \<Rightarrow> string \<Rightarrow> string \<Rightarrow> int option \<Rightarrow> ('w, (string, string) dict) eff" where
  "get_server_logs k server_name safe_username max_log_lines =
     bindC (get_server k server_name safe_username) (\<lambda>server.
     case server of
       None \<Rightarrow> raise (api MissingResourceError (''Cannot find server '' @ server_name @ '' for user '' @
                 safe_username @ '' to read the logs from.''))
     | Some s \<Rightarrow>
         bindC (liftE (state_containers s)) (\<lambda>containers.
         with_namespace_of k s (\<lambda>c.
           get_pod_logs c (server_name @ ''-0'') containers max_log_lines)))"

definition get_secret :: "'w k8s_client \<Rightarrow> string \<Rightarrow> ('w, secret option) eff" where
  "get_secret k name =
     bindC (case session_ns_client k of None \<Rightarrow> ret None | Some c \<Rightarrow> ns_get_secret c name) (\<lambda>s.
     case s of
       Some sec \<Rightarrow> ret (Some sec)
     | None \<Rightarrow> ns_get_secret (renku_ns_client k) name)"

definition preferred_client :: "'w k8s_client \<Rightarrow> 'w ns_client" where
  "preferred_client k = (case session_ns_client k of None \<Rightarrow> renku_ns_client k | Some c \<Rightarrow> c)"

definition create_server :: "'w k8s_client \<Rightarrow> json \<Rightarrow> string \<Rightarrow> ('w, json option) eff" where
  "create_server k manifest safe_username =
     bindC (liftE (jpath manifest [''metadata'', ''name''] JNull)) (\<lambda>server_name.
     bindC (get_server k (py_str server_name) safe_username) (\<lambda>server.
     case server of
       Some s \<Rightarrow>
         if truthy s then ret (Some s)
         else ns_create_server (sleep k) (preferred_client k) manifest
     | None \<Rightarrow> ns_create_server (sleep k) (preferred_client k) manifest))"

text \<open>\<open>if not server: raise MissingResourceError(...)\<close>.\<close>

definition guarded ::
  "('w, json option) eff \<Rightarrow> exc \<Rightarrow> (json \<Rightarrow> ('w, 'a) eff) \<Rightarrow> ('w, 'a) eff" where
  "guarded lookup missing act =
     bindC lookup (\<lambda>server.
       case server of
         None \<Rightarrow> raise missing
       | Some s \<Rightarrow> if truthy s then act s else raise missing)"

definition patch_server :: "'w k8s_client \<Rightarrow> string \<Rightarrow> string \<Rightarrow> json \<Rightarrow> ('w, json) eff" where
  "patch_server k server_name safe_username patch =
     guarded (get_server k server_name safe_username)
       (api MissingResourceError (''Cannot find server '' @ server_name @ '' for user '' @
          safe_username @ '' in order to patch it.''))
       (\<lambda>server. with_namespace_of k server (\<lambda>c. ns_patch_server c server_name patch))"

definition patch_statefulset :: "'w k8s_client \<Rightarrow> string \<Rightarrow> json \<Rightarrow> ('w, json option) eff" where
  "patch_statefulset k server_name patch = ns_patch_statefulset (preferred_client k) server_name patch"

definition delete_server :: "'w k8s_client \<Rightarrow> string \<Rightarrow> string \<Rightarrow> bool \<Rightarrow> ('w, unit) eff" where
  "delete_server k server_name safe_username forced =
     guarded (get_server k server_name safe_username)
       (api MissingResourceError (''Cannot find server '' @ server_name @ '' for user '' @
          safe_username @ '' in order to delete it.''))
       (\<lambda>server. with_namespace_of k server (\<lambda>c.
          bindC (ns_delete_server c server_name forced) (\<lambda>_. ret ())))"

definition patch_tokens :: "'w k8s_client \<Rightarrow> string \<Rightarrow> renku_tokens \<Rightarrow> gitlab_token \<Rightarrow> ('w, unit) eff" where
  "patch_tokens k server_name tokens gitlab =
     bindC (ns_patch_statefulset_tokens (preferred_client k) server_name tokens) (\<lambda>_.
       ns_patch_image_pull_secret (preferred_client k) server_name gitlab)"

definition preferred_namespace :: "'w k8s_client \<Rightarrow> string" where
  "preferred_namespace k = namespace (preferred_client k)"

section \<open>Facts\<close>

lemma or_bypass_Inr_iff:
  "or_bypass k m h w = (Inr x, w') \<longleftrightarrow>
     m w = (Inr x, w') \<or>
     (\<exists>e w1. m w = (Inl e, w1) \<and> isinstance e JSCacheError \<and> bypass_cache_on_failure k
        \<and> h w1 = (Inr x, w'))"
  by (auto simp: or_bypass_def catchC_def split: prod.splits sum.splits)

lemma reads_only_or_bypass [intro]:
  "reads_only m \<Longrightarrow> reads_only h \<Longrightarrow> reads_only (or_bypass k m h)"
  unfolding or_bypass_def by (rule reads_only_catchC) (auto split: if_splits)

lemma owned_by_Some:
  "owned_by label u r = Inr (Some s) \<Longrightarrow> r = Some s \<and> (truthy s \<longrightarrow> server_owner label s = Inr (JStr u))"
  by (cases r) (auto simp: owned_by_def bindE_Inr_iff split: if_splits)

lemma get_server_owner:
  assumes "get_server k name u w = (Inr (Some s), w')" and "truthy s"
  shows "server_owner (username_label k) s = Inr (JStr u)"
proof -
  from assms(1) obtain r where "owned_by (username_label k) u r = Inr (Some s)"
    by (auto simp: get_server_def bindC_Inr_iff)
  with assms(2) show ?thesis by (blast dest: owned_by_Some)
qed

text \<open>The reads of a client leave the world alone.\<close>

definition reads_passive :: "'w k8s_client \<Rightarrow> bool" where
  "reads_passive k \<longleftrightarrow>
     (\<forall>rq. reads_only (cache_http (js_cache_of k) rq)) \<and>
     (\<forall>n. reads_only (get_object (renku_ns_client k) n)) \<and>
     (\<forall>c n. session_ns_client k = Some c \<longrightarrow> reads_only (get_object c n))"

lemma reads_only_ns_get_server:
  "(\<And>n. reads_only (get_object c n)) \<Longrightarrow> reads_only (ns_get_server c name)"
  unfolding ns_get_server_def
  by (intro reads_only_catch_api reads_only_bindC) (auto split: if_splits)

lemma reads_only_cache_get_server:
  assumes "\<And>rq. reads_only (cache_http c rq)"
  shows "reads_only (cache_get_server c name)"
  unfolding cache_get_server_def catch_requests_def http_get_def
  by (intro reads_only_bindC reads_only_catchC assms) (auto split: exc.splits)

lemma reads_only_get_server_from_api:
  assumes "reads_passive k"
  shows "reads_only (get_server_from_api k name)"
proof -
  have r: "reads_only (ns_get_server (renku_ns_client k) name)"
    using assms by (intro reads_only_ns_get_server) (simp add: reads_passive_def)
  have s: "reads_only (ns_get_server c name)" if "session_ns_client k = Some c" for c
    using assms that by (intro reads_only_ns_get_server) (simp add: reads_passive_def)
  show ?thesis
    unfolding get_server_from_api_def Let_def
    by (intro reads_only_bindC r) (auto split: option.splits intro!: reads_only_bindC s)
qed

lemma reads_only_get_server:
  assumes "reads_passive k"
  shows "reads_only (get_server k name u)"
proof -
  have "reads_only (cache_get_server (js_cache_of k) name)"
    using assms by (intro reads_only_cache_get_server) (simp add: reads_passive_def)
  then show ?thesis
    unfolding get_server_def
    by (intro reads_only_bindC reads_only_or_bypass reads_only_get_server_from_api assms) auto
qed

section \<open>Only the owner's sessions\<close>

text \<open>
  The contract between the lookup of a session and the operations on it: what a lookup for a user
  finds carries the user's label, and, where the reads of the world are passive, looking changes
  nothing.
\<close>

locale owned_lookup =
  fixes lookup :: "string \<Rightarrow> string \<Rightarrow> ('w, json option) eff"
    and label :: string and calm :: bool
  assumes owner: "lookup n u w = (Inr (Some s), w') \<Longrightarrow> truthy s \<Longrightarrow> server_owner label s = Inr (JStr u)"
    and quiet: "calm \<Longrightarrow> reads_only (lookup n u)"
begin

lemma guarded_changes:
  assumes "calm" and "guarded (lookup n u) missing act w = (r, w')" and "w' \<noteq> w"
  obtains s where "lookup n u w = (Inr (Some s), w)" "server_owner label s = Inr (JStr u)"
    "act s w = (r, w')"
proof -
  obtain r0 w0 where l: "lookup n u w = (r0, w0)" by (cases "lookup n u w")
  have w0: "w0 = w" using quiet [OF assms(1)] l by (blast dest: reads_onlyD)
  from assms(2,3) l w0 obtain s where s: "r0 = Inr (Some s)" "truthy s" "act s w = (r, w')"
    by (auto simp: guarded_def bindC_def split: sum.splits option.splits if_splits)
  from l s w0 have "lookup n u w = (Inr (Some s), w)" by simp
  with that owner [OF _ s(2)] s(3) show thesis by blast
qed

lemma guarded_missing:
  assumes "lookup n u w = (Inr None, w')"
  shows "guarded (lookup n u) missing act w = (Inl missing, w')"
  using assms by (simp add: guarded_def bindC_eval)

end

interpretation client: owned_lookup "get_server k" "username_label k" "reads_passive k"
  for k :: "'w k8s_client"
  by unfold_locales (fact get_server_owner, fact reads_only_get_server)

text \<open>
  A cluster for the witnesses: one namespace whose objects are the world, and a cache that cannot
  be reached.
\<close>

type_synonym cluster = "(string, json) dict"

definition dremove :: "'k \<Rightarrow> ('k, 'v) dict \<Rightarrow> ('k, 'v) dict" where
  "dremove k d = filter (\<lambda>kv. fst kv \<noteq> k) d"

definition mem_get :: "string \<Rightarrow> (cluster, json) eff" where
  "mem_get n w = (case dget w n of Some j \<Rightarrow> (Inr j, w) | None \<Rightarrow> (Inl (K8sApi 404), w))"

definition mem_create :: "json \<Rightarrow> (cluster, json) eff" where
  "mem_create m w =
     (case jitems m [''metadata'', ''name''] of
        Inr (JStr n) \<Rightarrow> if dget w n = None then (Inr m, dset n m w) else (Inl (K8sApi 409), w)
      | _ \<Rightarrow> (Inl (K8sApi 400), w))"

definition mem_delete :: "string \<Rightarrow> int option \<Rightarrow> (cluster, json) eff" where
  "mem_delete n g w =
     (case dget w n of Some j \<Rightarrow> (Inr j, dremove n w) | None \<Rightarrow> (Inl (K8sApi 404), w))"

definition mem_patch :: "string \<Rightarrow> json \<Rightarrow> (cluster, json) eff" where
  "mem_patch n p w =
     (case dget w n of Some j \<Rightarrow> (Inr j, dset n (JArr [j, p]) w) | None \<Rightarrow> (Inl (K8sApi 404), w))"

definition mem_client :: "string \<Rightarrow> cluster ns_client" where
  "mem_client ns =
     \<lparr>namespace = ns, get_object = mem_get, list_objects = (\<lambda>_. raise (K8sApi 404)),
      create_object = mem_create, patch_json = mem_patch, patch_merge = mem_patch,
      delete_object = mem_delete, read_statefulset = (\<lambda>_. raise (K8sApi 404)),
      patch_statefulset_api = (\<lambda>_ _. raise (K8sApi 404)), read_secret = (\<lambda>_. raise (K8sApi 404)),
      patch_secret = (\<lambda>_ _. raise (K8sApi 404)), read_pod_log = (\<lambda>_ _ _. raise (K8sApi 404))\<rparr>"

definition example_client :: "cluster k8s_client" where
  "example_client =
     \<lparr>js_cache_of = \<lparr>cache_http = (\<lambda>_. raise (RequestsError ''no route to host'')), cache_url = ''http://cache''\<rparr>,
      renku_ns_client = mem_client ''renku'', username_label = ''renku.io/safe-username'',
      session_ns_client = None, bypass_cache_on_failure = True, sleep = (\<lambda>_. ret ())\<rparr>"

definition example_session :: "string \<Rightarrow> string \<Rightarrow> json" where
  "example_session n u = JObj
     [(''metadata'', JObj [(''name'', JStr n), (''namespace'', JStr ''renku''),
        (''labels'', JObj [(''renku.io/safe-username'', JStr u)])])]"

definition example_cluster :: cluster where
  "example_cluster = [(''jane-a'', example_session ''jane-a'' ''jane''), (''joe-b'', example_session ''joe-b'' ''joe'')]"

lemma example_reads_passive: "reads_passive example_client"
  by (auto simp: reads_passive_def example_client_def mem_client_def reads_only_def mem_get_def
      split: option.splits)

text \<open>
  C1. A session that the client hands out for a user, from the cache or past it, carries the
  user's name in the label that the client is configured with.
\<close>

theorem get_server_only_own:
  assumes "get_server k name safe_username w = (Inr (Some server), w')" and "truthy server"
  shows "server_owner (username_label k) server = Inr (JStr safe_username)"
  using assms by (rule client.owner)

theorem get_server_only_own_witness:
  "server_owner (username_label example_client) (example_session ''jane-a'' ''jane'') = Inr (JStr ''jane'')"
proof (rule get_server_only_own)
  show "get_server example_client ''jane-a'' ''jane'' example_cluster
      = (Inr (Some (example_session ''jane-a'' ''jane'')), example_cluster)"
    by code_simp
  show "truthy (example_session ''jane-a'' ''jane'')" by code_simp
qed

text \<open>
  C2. Deleting or patching a session on behalf of a user changes the world only if the lookup
  finds a session of that name whose label is the user's, provided that reading changes nothing:
  no user reaches a session of another one through these operations.
\<close>

theorem changes_only_own:
  assumes "reads_passive k"
    and "delete_server k name u forced w = (r, w') \<or> patch_server k name u patch w = (q, w')"
    and "w' \<noteq> w"
  shows "\<exists>server. get_server k name u w = (Inr (Some server), w)
    \<and> server_owner (username_label k) server = Inr (JStr u)"
  using assms(2)
proof
  assume "delete_server k name u forced w = (r, w')"
  with assms show ?thesis
    unfolding delete_server_def by (blast elim: client.guarded_changes)
next
  assume "patch_server k name u patch w = (q, w')"
  with assms show ?thesis
    unfolding patch_server_def by (blast elim: client.guarded_changes)
qed


theorem changes_only_own_witness:
  "\<exists>server. get_server example_client ''jane-a'' ''jane'' example_cluster = (Inr (Some server), example_cluster)
    \<and> server_owner (username_label example_client) server = Inr (JStr ''jane'')"
proof (rule changes_only_own [OF example_reads_passive])
  show "delete_server example_client ''jane-a'' ''jane'' False example_cluster
      = (Inr (), dremove ''jane-a'' example_cluster)
    \<or> patch_server example_client ''jane-a'' ''jane'' JNull example_cluster
      = (Inr JNull, dremove ''jane-a'' example_cluster)"
    by (rule disjI1) code_simp
  show "dremove ''jane-a'' example_cluster \<noteq> example_cluster" by code_simp
qed

text \<open>
  C11. The cache is transparent: when it holds for a name exactly what the namespaces hold, or
  when it fails and may be bypassed, looking a session up gives the same result, the object of the
  namespaces filtered by its owner.
\<close>

theorem get_server_cache_transparent:
  assumes "get_server_from_api k name w = (Inr found, w)"
    and "(\<exists>e. cache_get_server (js_cache_of k) name w = (Inl e, w) \<and> isinstance e JSCacheError
           \<and> bypass_cache_on_failure k)
       \<or> (\<exists>res. cache_http (js_cache_of k)
             \<lparr>hr_method = ''GET'', hr_url = urljoin_path (cache_url (js_cache_of k)) (''/servers/'' @ name),
              hr_headers = None, hr_params = None, hr_json = None\<rparr> w = (Inr res, w)
           \<and> resp_status res = 200
           \<and> resp_body res = Inr (JArr (case found of None \<Rightarrow> [] | Some s \<Rightarrow> [s])))"
  shows "get_server k name u w = (owned_by (username_label k) u found, w)"
  using assms(2)
proof (elim disjE exE conjE)
  fix e
  assume "cache_get_server (js_cache_of k) name w = (Inl e, w)" "isinstance e JSCacheError"
    "bypass_cache_on_failure k"
  then show ?thesis
    using assms(1) by (simp add: get_server_def bindC_def or_bypass_def catchC_def)
next
  fix res
  assume res: "cache_http (js_cache_of k)
             \<lparr>hr_method = ''GET'', hr_url = urljoin_path (cache_url (js_cache_of k)) (''/servers/'' @ name),
              hr_headers = None, hr_params = None, hr_json = None\<rparr> w = (Inr res, w)"
    "resp_status res = 200" "resp_body res = Inr (JArr (case found of None \<Rightarrow> [] | Some s \<Rightarrow> [s]))"
  then have "cache_get_server (js_cache_of k) name w = (Inr found, w)"
    by (cases found) (simp_all add: cache_get_server_def http_get_def catch_requests_def
        catchC_def bindC_def cached_server_def)
  then show ?thesis by (simp add: get_server_def bindC_def or_bypass_def catchC_def)
qed

theorem get_server_cache_transparent_witness:
  "get_server example_client ''joe-b'' ''jane'' example_cluster
    = (owned_by (username_label example_client) ''jane'' (Some (example_session ''joe-b'' ''joe'')), example_cluster)"
proof (rule get_server_cache_transparent)
  show "get_server_from_api example_client ''joe-b'' example_cluster
      = (Inr (Some (example_session ''joe-b'' ''joe'')), example_cluster)"
    by code_simp
  have "cache_get_server (js_cache_of example_client) ''joe-b'' example_cluster
      = (Inl cache_unavailable, example_cluster)
    \<and> isinstance cache_unavailable JSCacheError \<and> bypass_cache_on_failure example_client"
    by code_simp
  then show "(\<exists>e. cache_get_server (js_cache_of example_client) ''joe-b'' example_cluster = (Inl e, example_cluster)
         \<and> isinstance e JSCacheError \<and> bypass_cache_on_failure example_client)
       \<or> (\<exists>res. cache_http (js_cache_of example_client)
             \<lparr>hr_method = ''GET'', hr_url = urljoin_path (cache_url (js_cache_of example_client)) (''/servers/'' @ ''joe-b''),
              hr_headers = None, hr_params = None, hr_json = None\<rparr> example_cluster = (Inr res, example_cluster)
           \<and> resp_status res = 200
           \<and> resp_body res = Inr (JArr (case Some (example_session ''joe-b'' ''joe'') of None \<Rightarrow> [] | Some s \<Rightarrow> [s])))"
    by blast
qed

section \<open>Creation\<close>

lemma ns_create_server_result:
  assumes "ns_create_server slp c manifest w = (Inr r, w')"
    and "jpath manifest [''metadata'', ''name''] JNull = Inr (JStr name)"
  obtains s w1 where "r = Some s" "ns_get_server c name w1 = (Inr (Some s), w')"
proof -
  from assms obtain w0 where
    d: "retry_default slp (\<lambda>x. x = None) ''get_server'' (ns_get_server c name) w0 = (Inr r, w')"
    by (auto simp: ns_create_server_def bindC_Inr_iff)
  from retry_default_result [OF d] obtain s where "r = Some s" by auto
  moreover from retry_default_last [OF d] obtain w1 where "ns_get_server c name w1 = (Inr r, w')" by blast
  ultimately show thesis using that by simp
qed

text \<open>
  C12. Creating a session never returns nothing: it either returns the session that the user
  already has under that name, as the lookup found it, or the object that the namespace for new
  sessions, asked again until it answers, returns for that name; otherwise it raises.
\<close>

theorem create_server_result:
  assumes "create_server k manifest u w = (Inr r, w')"
    and "jpath manifest [''metadata'', ''name''] JNull = Inr (JStr name)"
  shows "\<exists>s. r = Some s \<and>
    (get_server k name u w = (Inr (Some s), w') \<and> truthy s
     \<or> (\<exists>w1. ns_get_server (preferred_client k) name w1 = (Inr (Some s), w')))"
proof -
  from assms obtain found w1 where g: "get_server k name u w = (Inr found, w1)"
    and cont: "(case found of
       Some s \<Rightarrow> if truthy s then ret (Some s) else ns_create_server (sleep k) (preferred_client k) manifest
     | None \<Rightarrow> ns_create_server (sleep k) (preferred_client k) manifest) w1 = (Inr r, w')"
    by (auto simp: create_server_def bindC_Inr_iff)
  show ?thesis
  proof (cases "\<exists>s. found = Some s \<and> truthy s")
    case True
    with cont g show ?thesis by auto
  next
    case False
    with cont have "ns_create_server (sleep k) (preferred_client k) manifest w1 = (Inr r, w')"
      by (auto split: option.splits)
    then show ?thesis using assms(2) by (elim ns_create_server_result) auto
  qed
qed

theorem create_server_result_witness:
  "\<exists>s. Some (example_session ''jane-c'' ''jane'') = Some s \<and>
    (get_server example_client ''jane-c'' ''jane'' example_cluster
       = (Inr (Some s), example_cluster @ [(''jane-c'', example_session ''jane-c'' ''jane'')]) \<and> truthy s
     \<or> (\<exists>w1. ns_get_server (preferred_client example_client) ''jane-c'' w1
       = (Inr (Some s), example_cluster @ [(''jane-c'', example_session ''jane-c'' ''jane'')])))"
  by (rule create_server_result [where manifest = "example_session ''jane-c'' ''jane''"]) code_simp+

section \<open>Token patches\<close>

text \<open>What the patches have to reach: the list of containers, the container, its variable, the value.\<close>

definition token_targets :: "statefulset \<Rightarrow> renku_tokens \<Rightarrow> (string \<times> container list \<times> string \<times> string \<times> string option) list" where
  "token_targets sts t =
     (let inits = (case sts_init_containers sts of None \<Rightarrow> [] | Some cs \<Rightarrow> cs) in
      [(''containers'', sts_containers sts, ''git-proxy'', ''GIT_PROXY_RENKU_ACCESS_TOKEN'', rt_access_token t),
       (''containers'', sts_containers sts, ''git-proxy'', ''GIT_PROXY_RENKU_REFRESH_TOKEN'', rt_refresh_token t),
       (''initContainers'', inits, ''git-clone'', ''GIT_CLONE_USER__RENKU_TOKEN'', rt_access_token t),
       (''initContainers'', inits, ''init-user-secrets'', ''RENKU_ACCESS_TOKEN'', rt_access_token t)])"

text \<open>\<open>i\<close> is the first container of that name and \<open>j\<close> its first variable of that name.\<close>

definition first_at :: "('a \<Rightarrow> bool) \<Rightarrow> 'a list \<Rightarrow> nat \<Rightarrow> bool" where
  "first_at P xs i \<longleftrightarrow> i < length xs \<and> P (xs ! i) \<and> (\<forall>j < i. \<not> P (xs ! j))"

definition env_at :: "container list \<Rightarrow> string \<Rightarrow> string \<Rightarrow> nat \<Rightarrow> nat \<Rightarrow> bool" where
  "env_at cs cname ename i j \<longleftrightarrow>
     first_at (\<lambda>c. ct_name c = cname) cs i \<and>
     (\<exists>env. ct_env (cs ! i) = Some env \<and> first_at (\<lambda>e. ev_name e = ename) env j)"

lemma index_of_first_at: "index_of P xs = Some (i, x) \<longleftrightarrow> first_at P xs i \<and> x = xs ! i"
  by (auto simp: index_of_Some_iff first_at_def)

lemma first_at_unique: "first_at P xs i \<Longrightarrow> first_at P xs j \<Longrightarrow> i = j"
  unfolding first_at_def by (metis linorder_neqE_nat)

lemma first_at_index_of: "first_at P xs i \<longleftrightarrow> index_of P xs = Some (i, xs ! i)"
  by (simp add: index_of_first_at)

lemma env_at_unique: "env_at cs n e i j \<Longrightarrow> env_at cs n e i' j' \<Longrightarrow> i = i' \<and> j = j'"
  unfolding env_at_def using first_at_unique by (metis option.inject)

lemma env_index_Some:
  assumes "env_index (named_container cname cs) ename = Inr (Some (i, j))"
  shows "env_at cs cname ename i j"
proof -
  from assms obtain c where c: "named_container cname cs = Some (i, c)"
    and f: "\<exists>v. find_env_var c ename = Inr (Some (j, v))"
    by (auto simp: env_index_def bindE_Inr_iff split: option.splits)
  from f obtain env e where "ct_env c = Some env" "index_of (\<lambda>e. ev_name e = ename) env = Some (j, e)"
    by (auto simp: find_env_var_def split: option.splits)
  with c show ?thesis by (auto simp: env_at_def named_container_def index_of_first_at)
qed

lemma env_index_None:
  assumes "env_index (named_container cname cs) ename = Inr None"
  shows "\<not> env_at cs cname ename i j"
proof
  assume "env_at cs cname ename i j"
  then obtain env where c: "named_container cname cs = Some (i, cs ! i)"
    and env: "ct_env (cs ! i) = Some env" "index_of (\<lambda>e. ev_name e = ename) env = Some (j, env ! j)"
    by (auto simp: env_at_def named_container_def first_at_index_of)
  then show False using assms by (simp add: env_index_def find_env_var_def)
qed

lemma set_opt_patch:
  assumes "env_index (named_container cname cs) ename = Inr r"
  shows "p \<in> set (opt_patch kind r v) \<longleftrightarrow> (\<exists>i j. env_at cs cname ename i j \<and> p = token_patch kind (i, j) v)"
proof (cases r)
  case None
  with assms show ?thesis by (simp add: opt_patch_def env_index_None)
next
  case (Some ij)
  obtain a b where ij: "ij = (a, b)" by (cases ij)
  with Some assms have at: "env_at cs cname ename a b" by (simp add: env_index_Some)
  have "p \<in> set (opt_patch kind r v) \<longleftrightarrow> p = token_patch kind (a, b) v"
    by (simp add: Some ij opt_patch_def)
  with at env_at_unique [OF at] show ?thesis by blast
qed

text \<open>
  The patches that refresh the tokens of a session are exactly the replacements of the four
  token variables that are there: every patch points, by its indices, at the first variable of the
  right name of the first container of the right name and carries the matching new token, and no
  such variable is left out.
\<close>

theorem token_patches_exact:
  assumes "get_statefulset_token_patches sts tokens = Inr patches"
  shows "p \<in> set patches \<longleftrightarrow>
    (\<exists>(kind, cs, cname, ename, v) \<in> set (token_targets sts tokens). \<exists>i j.
       env_at cs cname ename i j \<and> p = token_patch kind (i, j) v)"
proof -
  from assms obtain inits a r g s where inits: "sts_init_containers sts = Some inits"
    and e: "env_index (named_container ''git-proxy'' (sts_containers sts)) ''GIT_PROXY_RENKU_ACCESS_TOKEN'' = Inr a"
      "env_index (named_container ''git-proxy'' (sts_containers sts)) ''GIT_PROXY_RENKU_REFRESH_TOKEN'' = Inr r"
      "env_index (named_container ''git-clone'' inits) ''GIT_CLONE_USER__RENKU_TOKEN'' = Inr g"
      "env_index (named_container ''init-user-secrets'' inits) ''RENKU_ACCESS_TOKEN'' = Inr s"
    and p: "patches = opt_patch ''containers'' a (rt_access_token tokens) @
                  opt_patch ''containers'' r (rt_refresh_token tokens) @
                  opt_patch ''initContainers'' g (rt_access_token tokens) @
                  opt_patch ''initContainers'' s (rt_access_token tokens)"
    by (auto simp: get_statefulset_token_patches_def Let_def bindE_Inr_iff split: option.splits)
  show ?thesis
    unfolding p set_append Un_iff set_opt_patch [OF e(1)] set_opt_patch [OF e(2)]
      set_opt_patch [OF e(3)] set_opt_patch [OF e(4)]
    by (simp add: token_targets_def inits)
qed

definition example_statefulset :: statefulset where
  "example_statefulset =
     \<lparr>sts_containers =
        [\<lparr>ct_name = ''jupyter-server'', ct_env = Some []\<rparr>,
         \<lparr>ct_name = ''git-proxy'', ct_env = Some
            [\<lparr>ev_name = ''GIT_PROXY_PORT'', ev_value = Some ''8080'', ev_value_from = JNull\<rparr>,
             \<lparr>ev_name = ''GIT_PROXY_RENKU_ACCESS_TOKEN'', ev_value = Some ''old'', ev_value_from = JNull\<rparr>]\<rparr>],
      sts_init_containers = Some []\<rparr>"

theorem token_patches_exact_witness:
  "token_patch ''containers'' (1, 1) (Some ''new'') \<in> set [token_patch ''containers'' (1, 1) (Some ''new'')] \<longleftrightarrow>
    (\<exists>(kind, cs, cname, ename, v) \<in> set (token_targets example_statefulset
         \<lparr>rt_access_token = Some ''new'', rt_refresh_token = Some ''ref''\<rparr>). \<exists>i j.
       env_at cs cname ename i j \<and> token_patch ''containers'' (1, 1) (Some ''new'') = token_patch kind (i, j) v)"
  by (rule token_patches_exact) code_simp

end
