(* ===== verification/ServerOptions.thy ===== *)
theory ServerOptions
  imports CustomFields "HOL-Library.List_Lexorder"
begin

text \<open>
  The options of a session (\<open>api/schemas/server_options.py\<close>): cpu, memory, GPUs and storage with
  their units, scheduling constraints, the partial order the service compares options with, and the
  conversions from a resource class, from an old-style request and to Kubernetes resources.
\<close>

section \<open>Scheduling constraints\<close>

datatype node_affinity = NodeAffinity (affinity_key: string) (required_during_scheduling: bool)

datatype toleration = Toleration (toleration_key: string)

text \<open>
  Both are sorted on construction of the options, affinities by the pair of key and flag,
  tolerations by key: total orders on the two types, so that \<open>sort\<close> applies.
\<close>

instantiation node_affinity :: linorder
begin

definition less_eq_node_affinity :: "node_affinity \<Rightarrow> node_affinity \<Rightarrow> bool" where
  "a \<le> b \<longleftrightarrow> affinity_key a < affinity_key b
     \<or> affinity_key a = affinity_key b \<and> required_during_scheduling a \<le> required_during_scheduling b"

definition less_node_affinity :: "node_affinity \<Rightarrow> node_affinity \<Rightarrow> bool" where
  "a < b \<longleftrightarrow> affinity_key a < affinity_key b
     \<or> affinity_key a = affinity_key b \<and> required_during_scheduling a < required_during_scheduling b"

instance
  by standard (auto simp: less_eq_node_affinity_def less_node_affinity_def intro: node_affinity.expand)

end

instantiation toleration :: linorder
begin

definition less_eq_toleration :: "toleration \<Rightarrow> toleration \<Rightarrow> bool" where
  "a \<le> b \<longleftrightarrow> toleration_key a \<le> toleration_key b"

definition less_toleration :: "toleration \<Rightarrow> toleration \<Rightarrow> bool" where
  "a < b \<longleftrightarrow> toleration_key a < toleration_key b"

instance
  by standard (auto simp: less_eq_toleration_def less_toleration_def intro: toleration.expand)

end

definition affinity_match_expression :: "node_affinity \<Rightarrow> json" where
  "affinity_match_expression a =
     JObj [(''key'', JStr (affinity_key a)), (''operator'', JStr ''Exists'')]"

definition toleration_match_expression :: "toleration \<Rightarrow> json" where
  "toleration_match_expression t =
     JObj [(''key'', JStr (toleration_key t)), (''operator'', JStr ''Exists'')]"

section \<open>The options\<close>

text \<open>
  \<open>None\<close> in \<open>storage\<close>, \<open>default_url\<close> and \<open>lfs_auto_fetch\<close> is possible only before
  \<open>__post_init__\<close> has run.
\<close>

record server_options =
  so_cpu :: pynum
  so_memory :: pynum
  so_gpu :: pynum
  so_storage :: "pynum option"
  so_default_url :: "string option"
  so_lfs_auto_fetch :: "bool option"
  so_gigabytes :: bool
  so_priority_class :: "string option"
  so_node_affinities :: "node_affinity list"
  so_tolerations :: "toleration list"
  so_resource_class_id :: "int option"
  so_idle_threshold_seconds :: "int option"
  so_hibernation_threshold_seconds :: "int option"

text \<open>\<open>config.server_options.defaults\<close>.\<close>

record options_defaults =
  defaultUrl :: string
  lfs_default :: bool

text \<open>The dataclass's defaults for a constructor call that gives the three required fields.\<close>

definition bare_options :: "pynum \<Rightarrow> pynum \<Rightarrow> pynum \<Rightarrow> server_options" where
  "bare_options c m g =
     \<lparr>so_cpu = c, so_memory = m, so_gpu = g, so_storage = None, so_default_url = None,
      so_lfs_auto_fetch = Some False, so_gigabytes = False, so_priority_class = None,
      so_node_affinities = [], so_tolerations = [], so_resource_class_id = None,
      so_idle_threshold_seconds = None, so_hibernation_threshold_seconds = None\<rparr>"

definition post_init :: "options_defaults \<Rightarrow> server_options \<Rightarrow> server_options" where
  "post_init cfg r =
     r\<lparr>so_default_url := (case so_default_url r of None \<Rightarrow> Some (defaultUrl cfg) | Some u \<Rightarrow> Some u),
       so_lfs_auto_fetch := (case so_lfs_auto_fetch r of None \<Rightarrow> Some (lfs_default cfg) | Some b \<Rightarrow> Some b),
       so_storage := (case so_storage r of
           None \<Rightarrow> Some (PInt (if so_gigabytes r then 1 else 1000000000))
         | Some s \<Rightarrow> Some s),
       so_node_affinities := sort (so_node_affinities r),
       so_tolerations := sort (so_tolerations r)\<rparr>"

text \<open>What the rest of the service relies on in every options object.\<close>

definition wf_options :: "server_options \<Rightarrow> bool" where
  "wf_options r \<longleftrightarrow> so_storage r \<noteq> None \<and> so_default_url r \<noteq> None \<and> so_lfs_auto_fetch r \<noteq> None
     \<and> sorted (so_node_affinities r) \<and> sorted (so_tolerations r)"

lemma wf_post_init [simp, intro]: "wf_options (post_init cfg r)"
  by (simp add: wf_options_def post_init_def split: option.splits)

lemma post_init_sel [simp]:
  "so_cpu (post_init cfg r) = so_cpu r"
  "so_memory (post_init cfg r) = so_memory r"
  "so_gpu (post_init cfg r) = so_gpu r"
  "so_gigabytes (post_init cfg r) = so_gigabytes r"
  "so_priority_class (post_init cfg r) = so_priority_class r"
  "so_resource_class_id (post_init cfg r) = so_resource_class_id r"
  "so_storage r = Some s \<Longrightarrow> so_storage (post_init cfg r) = Some s"
  by (simp_all add: post_init_def)

section \<open>Comparison and subtraction\<close>

definition storage_or_0 :: "server_options \<Rightarrow> pynum" where
  "storage_or_0 r = (case so_storage r of None \<Rightarrow> PInt 0 | Some s \<Rightarrow> s)"

definition compare_options ::
  "(rat \<Rightarrow> rat \<Rightarrow> bool) \<Rightarrow> server_options \<Rightarrow> server_options \<Rightarrow> bool" where
  "compare_options f a b \<longleftrightarrow>
     f (val (so_cpu a)) (val (so_cpu b)) \<and> f (val (so_memory a)) (val (so_memory b)) \<and>
     f (val (so_gpu a)) (val (so_gpu b)) \<and> f (val (storage_or_0 a)) (val (storage_or_0 b))"

definition options_ge :: "server_options \<Rightarrow> server_options \<Rightarrow> bool" where
  "options_ge = compare_options (\<lambda>x y. x \<ge> y)"

definition options_gt :: "server_options \<Rightarrow> server_options \<Rightarrow> bool" where
  "options_gt = compare_options (\<lambda>x y. x > y)"

definition options_lt :: "server_options \<Rightarrow> server_options \<Rightarrow> bool" where
  "options_lt = compare_options (\<lambda>x y. x < y)"

definition options_le :: "server_options \<Rightarrow> server_options \<Rightarrow> bool" where
  "options_le = compare_options (\<lambda>x y. x \<le> y)"

definition options_eq :: "server_options \<Rightarrow> server_options \<Rightarrow> bool" where
  "options_eq a b \<longleftrightarrow> compare_options (=) a b
     \<and> so_default_url a = so_default_url b \<and> so_lfs_auto_fetch a = so_lfs_auto_fetch b
     \<and> so_gigabytes a = so_gigabytes b \<and> so_priority_class a = so_priority_class b"

definition options_sub :: "options_defaults \<Rightarrow> server_options \<Rightarrow> server_options \<Rightarrow> server_options" where
  "options_sub cfg a b = post_init cfg
     ((bare_options (pn_sub (so_cpu a) (so_cpu b)) (pn_sub (so_memory a) (so_memory b))
        (pn_sub (so_gpu a) (so_gpu b)))
      \<lparr>so_storage := Some (pn_sub (storage_or_0 a) (storage_or_0 b))\<rparr>)"

section \<open>Units\<close>

definition giga :: pynum where
  "giga = PInt 1000000000"

definition to_gigabytes :: "options_defaults \<Rightarrow> server_options \<Rightarrow> server_options" where
  "to_gigabytes cfg r =
     (if so_gigabytes r then r
      else post_init cfg
        ((bare_options (so_cpu r) (pn_div (so_memory r) giga) (so_gpu r))
         \<lparr>so_default_url := so_default_url r, so_lfs_auto_fetch := so_lfs_auto_fetch r,
          so_storage := map_option (\<lambda>s. pn_div s giga) (so_storage r), so_gigabytes := True\<rparr>))"

definition set_storage :: "pynum \<Rightarrow> bool \<Rightarrow> server_options \<Rightarrow> server_options" where
  "set_storage storage gb r =
     r\<lparr>so_storage := Some
         (if so_gigabytes r \<and> \<not> gb then PInt (pn_round (pn_div storage giga))
          else if \<not> so_gigabytes r \<and> gb then PInt (pn_round (pn_mul storage giga))
          else storage)\<rparr>"

section \<open>Kubernetes resources\<close>

text \<open>\<open>CPUEnforcement\<close> of \<open>config/dynamic.py\<close>.\<close>

datatype cpu_enforcement = LAX | STRICT | OFF

definition to_k8s_resources :: "cpu_enforcement \<Rightarrow> server_options \<Rightarrow> json" where
  "to_k8s_resources enforce r =
     (let cpu_request = to_float (so_cpu r);
          mem = (if so_gigabytes r then JStr (py_str (jnum (so_memory r)) @ ''G'') else jnum (so_memory r));
          gpu = (if val (so_gpu r) > 0 then [(''nvidia.com/gpu'', JStr (py_str (jnum (so_gpu r))))] else []);
          requests = [(''memory'', mem), (''cpu'', jnum cpu_request)];
          limits = (''memory'', mem) #
            (case enforce of
               LAX \<Rightarrow> [(''cpu'', jnum (pn_mul (PInt 3) cpu_request))]
             | STRICT \<Rightarrow> [(''cpu'', jnum cpu_request)]
             | OFF \<Rightarrow> [])
      in JObj [(''requests'', JObj (dmerge requests gpu)), (''limits'', JObj (dmerge limits gpu))])"

section \<open>Resource classes and requests\<close>

text \<open>
  Numbers of a document used in arithmetic. A text or list there is a \<open>TypeError\<close> in the model;
  Python would repeat it on multiplication and fail at the first comparison.
\<close>

fun jnumber :: "json \<Rightarrow> pynum res" where
  "jnumber (JInt i) = Inr (PInt i)"
| "jnumber (JFloat q) = Inr (PFloat q)"
| "jnumber (JBool b) = Inr (PInt (if b then 1 else 0))"
| "jnumber _ = Inl (TypeError ''number'')"

text \<open>Values stored without being used: an integer or \<open>None\<close>, a text or \<open>None\<close>.\<close>

fun jint_opt :: "json \<Rightarrow> int option res" where
  "jint_opt JNull = Inr None"
| "jint_opt (JInt i) = Inr (Some i)"
| "jint_opt _ = Inl (TypeError ''int'')"

fun jstr_opt :: "json \<Rightarrow> string option res" where
  "jstr_opt JNull = Inr None"
| "jstr_opt (JStr s) = Inr (Some s)"
| "jstr_opt _ = Inl (TypeError ''str'')"

text \<open>\<open>NodeAffinity(**a)\<close>: \<open>key\<close> is required, other keywords than the two fields are refused.\<close>

definition affinity_from_dict :: "json \<Rightarrow> node_affinity res" where
  "affinity_from_dict a =
     bindE (jkeys a) (\<lambda>ks.
       if \<not> set ks \<subseteq> {''key'', ''required_during_scheduling''}
       then Inl (TypeError ''unexpected keyword argument'')
       else
         (case jitem a ''key'' of
            Inr (JStr k) \<Rightarrow>
              bindE (jget a ''required_during_scheduling'' (JBool False))
                (\<lambda>r. Inr (NodeAffinity k (truthy r)))
          | Inr _ \<Rightarrow> Inl (TypeError ''key'')
          | Inl _ \<Rightarrow> Inl (TypeError ''missing argument: key'')))"

definition toleration_from :: "json \<Rightarrow> toleration res" where
  "toleration_from t = (case t of JStr k \<Rightarrow> Inr (Toleration k) | _ \<Rightarrow> Inl (TypeError ''key''))"

definition from_resource_class :: "options_defaults \<Rightarrow> json \<Rightarrow> server_options res" where
  "from_resource_class cfg data =
     bindE (bindE (jitem data ''cpu'') jnumber) (\<lambda>c.
     bindE (bindE (jitem data ''memory'') jnumber) (\<lambda>m.
     bindE (bindE (jitem data ''gpu'') jnumber) (\<lambda>g.
     bindE (bindE (jitem data ''default_storage'') jnumber) (\<lambda>s.
     bindE (bindE (bindE (jget data ''node_affinities'' (JArr [])) jiter) (mapE affinity_from_dict)) (\<lambda>as.
     bindE (bindE (bindE (jget data ''tolerations'' (JArr [])) jiter) (mapE toleration_from)) (\<lambda>ts.
     bindE (bindE (jget data ''id'' JNull) jint_opt) (\<lambda>i.
       Inr (post_init cfg
         ((bare_options c (pn_mul m giga) g)
          \<lparr>so_storage := Some (pn_mul s giga), so_node_affinities := as, so_tolerations := ts,
           so_resource_class_id := i\<rparr>)))))))))"

text \<open>
  The fields of a validated old-style request, after \<open>LaunchNotebookRequestServerOptions\<close> has
  deserialized them and filled its defaults.
\<close>

record options_request =
  rq_defaultUrl :: string
  rq_cpu_request :: pynum
  rq_mem_request :: pynum
  rq_disk_request :: pynum
  rq_lfs_auto_fetch :: bool
  rq_gpu_request :: pynum

definition from_request :: "options_defaults \<Rightarrow> options_request \<Rightarrow> server_options" where
  "from_request cfg data = post_init cfg
     ((bare_options (rq_cpu_request data) (rq_mem_request data) (rq_gpu_request data))
      \<lparr>so_default_url := Some (rq_defaultUrl data),
       so_lfs_auto_fetch := Some (rq_lfs_auto_fetch data),
       so_storage := Some (rq_disk_request data)\<rparr>)"

text \<open>The schema's \<open>load_default\<close> values for the fields a request leaves out.\<close>

definition default_request :: "options_defaults \<Rightarrow> options_request" where
  "default_request cfg =
     \<lparr>rq_defaultUrl = defaultUrl cfg, rq_cpu_request = PInt 0, rq_mem_request = PInt 0,
      rq_disk_request = PInt 1000000000, rq_lfs_auto_fetch = lfs_default cfg,
      rq_gpu_request = PInt 0\<rparr>"

section \<open>What the options keep\<close>

lemma wf_from_request [simp, intro]: "wf_options (from_request cfg data)"
  by (simp add: from_request_def)

lemma wf_options_sub [simp, intro]: "wf_options (options_sub cfg a b)"
  by (simp add: options_sub_def)

lemma wf_set_storage [simp, intro]: "wf_options r \<Longrightarrow> wf_options (set_storage s gb r)"
  by (simp add: wf_options_def set_storage_def)

lemma wf_to_gigabytes [simp, intro]: "wf_options r \<Longrightarrow> wf_options (to_gigabytes cfg r)"
  by (simp add: to_gigabytes_def)

lemma from_resource_class_Inr:
  assumes "from_resource_class cfg data = Inr r"
  obtains c m g where
    "bindE (jitem data ''cpu'') jnumber = Inr c"
    "bindE (jitem data ''memory'') jnumber = Inr m"
    "bindE (jitem data ''gpu'') jnumber = Inr g"
    "so_cpu r = c" "so_memory r = pn_mul m giga" "so_gpu r = g" "wf_options r"
    "so_gigabytes r = False" "so_priority_class r = None"
proof -
  from assms obtain c m g s as ts i where parts:
    "bindE (jitem data ''cpu'') jnumber = Inr c"
    "bindE (jitem data ''memory'') jnumber = Inr m"
    "bindE (jitem data ''gpu'') jnumber = Inr g"
    and r: "r = post_init cfg ((bare_options c (pn_mul m giga) g)
          \<lparr>so_storage := Some (pn_mul s giga), so_node_affinities := as, so_tolerations := ts,
           so_resource_class_id := i\<rparr>)"
    by (fastforce simp: from_resource_class_def bindE_Inr_iff)
  show ?thesis
    by (rule that [OF parts]) (simp_all add: r bare_options_def)
qed

lemma wf_from_resource_class [intro]: "from_resource_class cfg data = Inr r \<Longrightarrow> wf_options r"
  by (erule from_resource_class_Inr)

lemma options_lt_trans: "options_lt a b \<Longrightarrow> options_lt b c \<Longrightarrow> options_lt a c"
  by (auto simp: options_lt_def compare_options_def)

lemma options_lt_irrefl [simp]: "\<not> options_lt a a"
  by (simp add: options_lt_def compare_options_def)

section \<open>Properties of the conversions\<close>

lemma to_k8s_resources_keys:
  "to_k8s_resources e r = JObj [(''requests'', JObj rq), (''limits'', JObj lm)] \<Longrightarrow>
     dget rq ''cpu'' = Some (JFloat (fl (val (so_cpu r)))) \<and>
     dget lm ''memory'' = dget rq ''memory'' \<and> dget rq ''memory'' \<noteq> None \<and>
     dget lm ''nvidia.com/gpu'' = dget rq ''nvidia.com/gpu'' \<and>
     (dget rq ''nvidia.com/gpu'' \<noteq> None \<longleftrightarrow> 0 < val (so_gpu r)) \<and>
     dget lm ''cpu'' = (case e of
         LAX \<Rightarrow> Some (JFloat (fl (3 * fl (val (so_cpu r)))))
       | STRICT \<Rightarrow> Some (JFloat (fl (val (so_cpu r))))
       | OFF \<Rightarrow> None)"
  by (cases "0 < val (so_gpu r)"; cases e)
    (auto simp: to_k8s_resources_def Let_def dget_dmerge to_float_def)

lemma to_k8s_resources_shape:
  "\<exists>rq lm. to_k8s_resources e r = JObj [(''requests'', JObj rq), (''limits'', JObj lm)]"
  by (simp add: to_k8s_resources_def Let_def)

text \<open>
  The Kubernetes resources of any options with a cpu amount that is not negative are
  consistent: requests and limits agree on memory and GPUs, GPUs appear exactly when some are
  asked for, a cpu limit is absent exactly when limits are switched off, and where it is present
  the scheduler's rule \<open>request <= limit\<close> holds, rounding to doubles included.
\<close>

theorem k8s_resources_consistent:
  assumes "0 \<le> val (so_cpu r)"
  shows "\<exists>rq lm q. to_k8s_resources e r = JObj [(''requests'', JObj rq), (''limits'', JObj lm)]
    \<and> dget rq ''cpu'' = Some (JFloat q)
    \<and> dget rq ''memory'' \<noteq> None \<and> dget lm ''memory'' = dget rq ''memory''
    \<and> dget lm ''nvidia.com/gpu'' = dget rq ''nvidia.com/gpu''
    \<and> (dget rq ''nvidia.com/gpu'' \<noteq> None \<longleftrightarrow> 0 < val (so_gpu r))
    \<and> (dget lm ''cpu'' = None \<longleftrightarrow> e = OFF)
    \<and> (e = OFF \<or> (\<exists>l. dget lm ''cpu'' = Some (JFloat l) \<and> q \<le> l))"
proof -
  obtain rq lm where eq: "to_k8s_resources e r = JObj [(''requests'', JObj rq), (''limits'', JObj lm)]"
    using to_k8s_resources_shape by blast
  have "fl (val (so_cpu r)) \<le> 3 * fl (val (so_cpu r))"
    using fl_nonneg [OF assms] by simp
  then have "fl (val (so_cpu r)) \<le> fl (3 * fl (val (so_cpu r)))"
    using fl_mono [of "fl (val (so_cpu r))"] by (simp only: fl_idem)
  then show ?thesis
    using to_k8s_resources_keys [OF eq] eq
    by - (rule exI [of _ rq], rule exI [of _ lm], rule exI [of _ "fl (val (so_cpu r))"],
      cases e; simp)
qed

theorem k8s_resources_consistent_witness:
  "\<exists>rq lm q. to_k8s_resources LAX (bare_options (PInt 2) (PInt 4000000000) (PInt 1))
      = JObj [(''requests'', JObj rq), (''limits'', JObj lm)]
    \<and> dget rq ''cpu'' = Some (JFloat q)
    \<and> dget rq ''memory'' \<noteq> None \<and> dget lm ''memory'' = dget rq ''memory''
    \<and> dget lm ''nvidia.com/gpu'' = dget rq ''nvidia.com/gpu''
    \<and> (dget rq ''nvidia.com/gpu'' \<noteq> None
        \<longleftrightarrow> 0 < val (so_gpu (bare_options (PInt 2) (PInt 4000000000) (PInt 1))))
    \<and> (dget lm ''cpu'' = None \<longleftrightarrow> LAX = OFF)
    \<and> (LAX = OFF \<or> (\<exists>l. dget lm ''cpu'' = Some (JFloat l) \<and> q \<le> l))"
  by (rule k8s_resources_consistent) (simp add: bare_options_def)

text \<open>
  Storage given in gigabytes comes back unchanged: setting a whole number of gigabytes on
  options kept in bytes and converting the options to gigabytes gives the same number, for every
  size a double holds exactly; and the memory of the options is never touched by it.
\<close>

theorem storage_gigabytes_roundtrip:
  assumes "\<not> so_gigabytes r" and "\<bar>s\<bar> \<le> 2 ^ 53"
  shows "map_option val (so_storage (to_gigabytes cfg (set_storage (PInt s) True r))) = Some (of_int s)
    \<and> so_storage (set_storage (PInt s) True r) = Some (PInt (s * 1000000000))
    \<and> so_memory (set_storage (PInt s) True r) = so_memory r"
proof -
  have "fl (of_int (s * 1000000000) / 1000000000) = of_int s"
    using fl_of_int_exact [OF assms(2)] by simp
  then show ?thesis
    using assms(1) round_half_even_of_int [of "s * 1000000000"]
    by (simp add: set_storage_def to_gigabytes_def giga_def post_init_def pn_round_def bare_options_def)
qed

theorem storage_gigabytes_roundtrip_witness:
  "map_option val (so_storage (to_gigabytes \<lparr>defaultUrl = ''/lab'', lfs_default = False\<rparr>
      (set_storage (PInt 8) True (bare_options (PInt 1) (PInt 1000) (PInt 0))))) = Some (of_int 8)
    \<and> so_storage (set_storage (PInt 8) True (bare_options (PInt 1) (PInt 1000) (PInt 0)))
        = Some (PInt (8 * 1000000000))
    \<and> so_memory (set_storage (PInt 8) True (bare_options (PInt 1) (PInt 1000) (PInt 0)))
        = so_memory (bare_options (PInt 1) (PInt 1000) (PInt 0))"
  by (rule storage_gigabytes_roundtrip) (simp_all add: bare_options_def)

end
