(* ===== verification/DataService.thy ===== *)
theory DataService
  imports ServerOptions Http
begin

text \<open>
  The clients of the data service (\<open>api/classes/data_service.py\<close>): \<open>StorageValidator\<close> for cloud
  storage, \<open>CRCValidator\<close> for resource pools and classes, \<open>GitProviderHelper\<close> for git providers,
  and the dummies that replace them.  Documents that the data service sends are JSON values; every
  access can fail as in Python.
\<close>

section \<open>Repositories and providers\<close>

text \<open>\<open>api/classes/repository.py\<close>.\<close>

definition INTERNAL_GITLAB_PROVIDER :: string where
  "INTERNAL_GITLAB_PROVIDER = ''INTERNAL_GITLAB''"

record repository =
  repo_url :: string
  repo_provider :: "string option"
  repo_dirname :: "string option"
  repo_branch :: "string option"
  repo_commit_sha :: "string option"

record git_provider =
  gp_id :: string
  gp_url :: string
  gp_connection_id :: string
  gp_access_token_url :: string

record oauth2_provider =
  op_id :: string
  op_url :: string

record oauth2_connection =
  oc_id :: string
  oc_provider_id :: string
  oc_status :: string

text \<open>A field that has to be a text, where Python would store any value and fail at its first use.\<close>

definition str_item :: "json \<Rightarrow> string \<Rightarrow> string res" where
  "str_item d k = bindE (jitem d k) jstr"

definition repository_from_dict :: "json \<Rightarrow> repository res" where
  "repository_from_dict data =
     bindE (str_item data ''url'') (\<lambda>u.
     bindE (bindE (jget data ''dirname'' JNull) jstr_opt) (\<lambda>d.
     bindE (bindE (jget data ''branch'' JNull) jstr_opt) (\<lambda>b.
     bindE (bindE (jget data ''commit_sha'' JNull) jstr_opt) (\<lambda>c.
       Inr \<lparr>repo_url = u, repo_provider = None, repo_dirname = d, repo_branch = b,
            repo_commit_sha = c\<rparr>))))"

definition provider_from_dict :: "json \<Rightarrow> oauth2_provider res" where
  "provider_from_dict data =
     bindE (str_item data ''id'') (\<lambda>i. bindE (str_item data ''url'') (\<lambda>u.
       Inr \<lparr>op_id = i, op_url = u\<rparr>))"

definition connection_from_dict :: "json \<Rightarrow> oauth2_connection res" where
  "connection_from_dict data =
     bindE (str_item data ''id'') (\<lambda>i. bindE (str_item data ''provider_id'') (\<lambda>p.
     bindE (str_item data ''status'') (\<lambda>s.
       Inr \<lparr>oc_id = i, oc_provider_id = p, oc_status = s\<rparr>)))"

section \<open>Cloud storage\<close>

record cloud_storage_config =
  cs_config :: json
  cs_source_path :: json
  cs_target_path :: json
  cs_readonly :: json
  cs_name :: json
  cs_secrets :: "(json, json) dict"

definition rstrip_slash :: "string \<Rightarrow> string" where
  "rstrip_slash = rstrip (\<lambda>c. c = CHR ''/'')"

definition unexpected_response :: exc where
  "unexpected_response =
     api IntermittentError ''The data service sent an unexpected response, please try again later''"

text \<open>\<open>{s['secret_id']: s['name'] for s in ...}\<close>.\<close>

definition secrets_dict :: "json \<Rightarrow> (json, json) dict res" where
  "secrets_dict ss =
     bindE (jiter ss) (foldE (\<lambda>d s.
       bindE (jitem s ''secret_id'') (\<lambda>i. bindE (jitem s ''name'') (\<lambda>n. Inr (dset i n d)))) [])"

definition storage_config :: "json \<Rightarrow> json \<Rightarrow> (json, json) dict \<Rightarrow> cloud_storage_config res" where
  "storage_config storage name secrets =
     bindE (jitem storage ''configuration'') (\<lambda>c.
     bindE (jitem storage ''source_path'') (\<lambda>s.
     bindE (jitem storage ''target_path'') (\<lambda>t.
     bindE (jget storage ''readonly'' (JBool True)) (\<lambda>r.
       Inr \<lparr>cs_config = c, cs_source_path = s, cs_target_path = t, cs_readonly = r,
            cs_name = name, cs_secrets = secrets\<rparr>))))"

definition storage_headers :: "user option \<Rightarrow> (string, string) dict option" where
  "storage_headers u =
     (case u of
        None \<Rightarrow> None
      | Some usr \<Rightarrow>
          (case (user_access_token usr, user_git_token usr) of
             (Some a, Some g) \<Rightarrow>
               Some [(''Authorization'', ''bearer '' @ a), (''Gitlab-Access-Token'', g)]
           | _ \<Rightarrow> None))"

definition get_data_connector_by_id ::
  "'w http \<Rightarrow> user option \<Rightarrow> string \<Rightarrow> string \<Rightarrow> (string, string) dict option
   \<Rightarrow> ('w, cloud_storage_config) eff" where
  "get_data_connector_by_id http u data_connector_id request_url headers =
     bindC (http_get http request_url headers None) (\<lambda>res.
     if resp_status res = 404 then
       raise (api MissingResourceError (''Couldn't find data connector with id '' @ data_connector_id))
     else if resp_status res = 401 \<or> resp_status res = 403 then
       raise (api AuthenticationError ''User is not authorized to access this data connector.'')
     else if resp_status res \<noteq> 200 then raise unexpected_response
     else
       bindC (liftE (resp_body res)) (\<lambda>data_connector.
       bindC (liftE (jitem data_connector ''storage'')) (\<lambda>storage.
       bindC
         (if u \<noteq> None \<and> headers \<noteq> None then
            bindC (http_get http (request_url @ ''/secrets'') headers None) (\<lambda>res2.
            if resp_status res2 = 404 then
              raise (api MissingResourceError
                (''Couldn't find secrets for data connector with id '' @ data_connector_id))
            else if resp_status res2 = 401 \<or> resp_status res2 = 403 then
              raise (api AuthenticationError ''User is not authorized to access this data connector.'')
            else if resp_status res2 \<noteq> 200 then raise unexpected_response
            else liftE (bindE (resp_body res2) secrets_dict))
          else ret []) (\<lambda>secrets.
       liftE
         (bindE (jitem data_connector ''name'') (\<lambda>n. storage_config storage n secrets))))))"

definition get_storage_by_id ::
  "'w http \<Rightarrow> string \<Rightarrow> user option \<Rightarrow> string \<Rightarrow> string \<Rightarrow> ('w, cloud_storage_config) eff" where
  "get_storage_by_id http data_service_url u endpoint storage_id =
     (let headers = storage_headers u;
          endpoint = strip (\<lambda>c. c = CHR ''/'') endpoint;
          request_url = rstrip_slash data_service_url @ ''/'' @ endpoint @ ''/'' @ storage_id
      in if endpoint = ''data_connectors'' then
           get_data_connector_by_id http u storage_id request_url headers
         else
           bindC (http_get http request_url headers None) (\<lambda>res.
           if resp_status res = 404 then
             raise (api MissingResourceError (''Couldn't find cloud storage with id '' @ storage_id))
           else if resp_status res = 401 then
             raise (api AuthenticationError
               ''User is not authorized to access this storage on this project.'')
           else if resp_status res \<noteq> 200 then raise unexpected_response
           else liftE
             (bindE (resp_body res) (\<lambda>response.
              bindE (jitem response ''storage'') (\<lambda>storage.
              bindE (bindE (jkeys response) (\<lambda>ks.
                  if ''secrets'' \<in> set ks then bindE (jitem response ''secrets'') secrets_dict
                  else Inr [])) (\<lambda>secrets.
              bindE (jitem storage ''name'') (\<lambda>n. storage_config storage n secrets)))))))"

definition validate_storage_configuration ::
  "'w http \<Rightarrow> string \<Rightarrow> json \<Rightarrow> ('w, unit) eff" where
  "validate_storage_configuration http data_service_url configuration =
     bindC (http_post http (rstrip_slash data_service_url @ ''/storage_schema/validate'') None configuration)
       (\<lambda>res.
         if resp_status res = 422 then
           bindC (liftE (resp_body res)) (\<lambda>j.
             raise (api InvalidCloudStorageConfiguration
               (''The provided cloud storage configuration isn't valid: '' @ py_str j)))
         else if resp_status res \<noteq> 204 then raise unexpected_response
         else ret ())"

definition obscure_password_fields_for_storage ::
  "'w http \<Rightarrow> string \<Rightarrow> json \<Rightarrow> ('w, json) eff" where
  "obscure_password_fields_for_storage http data_service_url configuration =
     bindC (http_post http (rstrip_slash data_service_url @ ''/storage_schema/obscure'') None configuration)
       (\<lambda>res.
         bindC (liftE (resp_body res)) (\<lambda>j.
           if resp_status res \<noteq> 200 then
             raise (api InvalidCloudStorageConfiguration
               (''Couldn't obscure password fields for configuration: '' @ py_str j))
           else ret j))"

text \<open>\<open>DummyStorageValidator\<close>.\<close>

definition dummy_get_storage_by_id :: "user option \<Rightarrow> string \<Rightarrow> string \<Rightarrow> ('w, cloud_storage_config) eff" where
  "dummy_get_storage_by_id u endpoint storage_id = raise NotImplementedError"

definition dummy_validate_storage_configuration :: "json \<Rightarrow> ('w, unit) eff" where
  "dummy_validate_storage_configuration configuration = raise NotImplementedError"

section \<open>Resource pools and classes\<close>

definition round_gigabytes :: "pynum \<Rightarrow> pynum" where
  "round_gigabytes n = PInt (pn_round (pn_div n giga))"

text \<open>The query for the pools that match old-style options.\<close>

definition pool_params :: "server_options \<Rightarrow> (string, json) dict res" where
  "pool_params s =
     (case (so_storage s, so_gigabytes s) of
        (None, False) \<Rightarrow> Inl (TypeError ''unsupported operand type(s) for /'')
      | (st, gb) \<Rightarrow>
          Inr [(''cpu'', jnum (so_cpu s)), (''gpu'', jnum (so_gpu s)),
               (''memory'', jnum (if gb then so_memory s else round_gigabytes (so_memory s))),
               (''max_storage'',
                  (case st of None \<Rightarrow> JNull | Some v \<Rightarrow> jnum (if gb then v else round_gigabytes v)))])"

definition get_resource_pools ::
  "'w http \<Rightarrow> string \<Rightarrow> user option \<Rightarrow> server_options option \<Rightarrow> ('w, json) eff" where
  "get_resource_pools http crc_url u server_options =
     bindC (liftE (case server_options of
         None \<Rightarrow> Inr None
       | Some s \<Rightarrow> bindE (pool_params s) (\<lambda>p. Inr (Some p)))) (\<lambda>params.
     bindC (http_get http (rstrip_slash crc_url @ ''/resource_pools'')
         (case u of
            None \<Rightarrow> None
          | Some usr \<Rightarrow> map_option (\<lambda>t. [(''Authorization'', ''bearer '' @ t)]) (user_access_token usr))
         params) (\<lambda>res.
     if resp_status res \<noteq> 200 then
       raise (api IntermittentError
         (''The compute resource access control service sent '' @
          ''an unexpected response, please try again later''))
     else liftE (resp_body res)))"

text \<open>\<open>cls['id'] == class_id\<close>: Python compares numbers by value.\<close>

fun json_eq_int :: "json \<Rightarrow> int \<Rightarrow> bool" where
  "json_eq_int (JInt i) n = (i = n)"
| "json_eq_int (JFloat q) n = (q = of_int n)"
| "json_eq_int (JBool b) n = ((if b then 1 else 0) = n)"
| "json_eq_int _ n = False"

text \<open>The inner loop over the classes of one pool, left by \<open>break\<close> at the first class found.\<close>

fun find_class :: "int \<Rightarrow> json list \<Rightarrow> json option res" where
  "find_class class_id [] = Inr None"
| "find_class class_id (c # cs) =
     bindE (jitem c ''id'') (\<lambda>i. if json_eq_int i class_id then Inr (Some c) else find_class class_id cs)"

definition pool_class_list :: "json \<Rightarrow> json list res" where
  "pool_class_list rp = bindE (jitem rp ''classes'') jiter"

text \<open>
  The outer loop is not left by the \<open>break\<close>: a later pool that holds a class with the same id
  replaces the pool and the class found before.
\<close>

definition locate_class :: "int \<Rightarrow> json list \<Rightarrow> (json \<times> json) option res" where
  "locate_class class_id =
     foldE (\<lambda>found rp. bindE (pool_class_list rp) (\<lambda>cs. bindE (find_class class_id cs) (\<lambda>m.
       Inr (case m of None \<Rightarrow> found | Some c \<Rightarrow> Some (rp, c))))) None"

text \<open>\<open>quota.get('id')\<close> where the quota is a dict, and the priority class unchanged otherwise.\<close>

definition with_quota :: "json \<Rightarrow> server_options \<Rightarrow> server_options res" where
  "with_quota quota r =
     (case quota of
        JObj q \<Rightarrow> bindE (bindE (jget quota ''id'' JNull) jstr_opt) (\<lambda>i. Inr (r\<lparr>so_priority_class := i\<rparr>))
      | _ \<Rightarrow> Inr r)"

definition class_storage :: "json \<Rightarrow> pynum option \<Rightarrow> pynum res" where
  "class_storage res_class storage =
     bindE (case storage of
         None \<Rightarrow> bindE (jget res_class ''default_storage'' (JInt 1)) jnumber
       | Some s \<Rightarrow> Inr s) (\<lambda>s.
     if val s < 1 then
       Inl (api InvalidComputeResourceError ''Storage requests have to be greater than or equal to 1GB.'')
     else
       bindE (bindE (jget res_class ''max_storage'' JNull) jnumber) (\<lambda>m.
         if val m < val s then
           Inl (api InvalidComputeResourceError ''The requested storage surpasses the maximum value allowed.'')
         else Inr s))"

definition class_options ::
  "options_defaults \<Rightarrow> json \<Rightarrow> json \<Rightarrow> pynum \<Rightarrow> server_options res" where
  "class_options cfg pool res_class storage =
     bindE (from_resource_class cfg res_class) (\<lambda>options.
     bindE (bindE (jget pool ''idle_threshold'' JNull) jint_opt) (\<lambda>it.
     bindE (bindE (jget pool ''hibernation_threshold'' JNull) jint_opt) (\<lambda>ht.
     bindE (jget pool ''quota'' JNull) (\<lambda>quota.
       with_quota quota
         (set_storage storage True
           (options\<lparr>so_idle_threshold_seconds := it, so_hibernation_threshold_seconds := ht\<rparr>))))))"

definition validated_class :: "options_defaults \<Rightarrow> int \<Rightarrow> pynum option \<Rightarrow> json \<Rightarrow> server_options res" where
  "validated_class cfg class_id storage resource_pools =
     bindE (bindE (jiter resource_pools) (locate_class class_id)) (\<lambda>found.
     case found of
       None \<Rightarrow>
         Inl (api InvalidComputeResourceError
           (''The resource class ID '' @ show_int class_id @ '' does not exist.''))
     | Some (pool, res_class) \<Rightarrow>
         bindE (class_storage res_class storage) (class_options cfg pool res_class))"

definition validate_class_storage ::
  "'w http \<Rightarrow> string \<Rightarrow> options_defaults \<Rightarrow> user option \<Rightarrow> int \<Rightarrow> pynum option
   \<Rightarrow> ('w, server_options) eff" where
  "validate_class_storage http crc_url cfg u class_id storage =
     bindC (get_resource_pools http crc_url u None)
       (\<lambda>resource_pools. liftE (validated_class cfg class_id storage resource_pools))"

definition filterE :: "('a \<Rightarrow> bool res) \<Rightarrow> 'a list \<Rightarrow> 'a list res" where
  "filterE p xs =
     bindE (mapE (\<lambda>x. bindE (p x) (\<lambda>b. Inr (x, b))) xs) (\<lambda>ps. Inr (map fst (filter snd ps)))"

definition is_default :: "json \<Rightarrow> bool res" where
  "is_default x = bindE (jget x ''default'' (JBool False)) (\<lambda>b. Inr (truthy b))"

definition default_class_of :: "json \<Rightarrow> json res" where
  "default_class_of pools =
     bindE (bindE (jiter pools) (filterE is_default)) (\<lambda>default_pools.
     case default_pools of
       [] \<Rightarrow> Inl (api ConfigurationError ''Cannot find the default resource pool.'')
     | default_pool # _ \<Rightarrow>
         bindE (bindE (bindE (jget default_pool ''classes'' (JArr [])) jiter) (filterE is_default))
           (\<lambda>default_classes.
             case default_classes of
               [] \<Rightarrow> Inl (api ConfigurationError ''Cannot find the default resource class.'')
             | c # _ \<Rightarrow> Inr c))"

definition get_default_class :: "'w http \<Rightarrow> string \<Rightarrow> ('w, json) eff" where
  "get_default_class http crc_url =
     bindC (get_resource_pools http crc_url None None) (\<lambda>pools. liftE (default_class_of pools))"

text \<open>
  \<open>find_acceptable_class\<close>.  The fields that \<open>zero_diff\<close> has beside its amounts are not read by the
  comparison.
\<close>

definition zero_diff :: "options_defaults \<Rightarrow> server_options" where
  "zero_diff cfg = post_init cfg
     ((bare_options (PInt 0) (PInt 0) (PInt 0))\<lparr>so_storage := Some (PInt 0)\<rparr>)"

type_synonym best = "(server_options \<times> server_options) option"

definition consider_class ::
  "options_defaults \<Rightarrow> server_options \<Rightarrow> json \<Rightarrow> best \<Rightarrow> json \<Rightarrow> best res" where
  "consider_class cfg requested quota best resource_class =
     bindE (bindE (from_resource_class cfg resource_class) (with_quota quota)) (\<lambda>mdl.
     let diff = options_sub cfg mdl requested in
     if options_ge diff (zero_diff cfg)
        \<and> (case best of None \<Rightarrow> True | Some (best_diff, _) \<Rightarrow> options_lt diff best_diff)
     then bindE (jitem resource_class ''matching'') (\<lambda>b.
       Inr (if truthy b then Some (diff, mdl) else best))
     else Inr best)"

definition consider_pool ::
  "options_defaults \<Rightarrow> server_options \<Rightarrow> best \<Rightarrow> json \<Rightarrow> best res" where
  "consider_pool cfg requested best pool =
     bindE (jget pool ''quota'' JNull) (\<lambda>quota.
     bindE (pool_class_list pool) (\<lambda>cs. foldE (consider_class cfg requested quota) best cs))"

definition acceptable_class :: "options_defaults \<Rightarrow> server_options \<Rightarrow> json \<Rightarrow> server_options option res" where
  "acceptable_class cfg requested resource_pools =
     bindE (bindE (jiter resource_pools) (foldE (consider_pool cfg requested) None))
       (\<lambda>best. Inr (map_option snd best))"

definition find_acceptable_class ::
  "'w http \<Rightarrow> string \<Rightarrow> options_defaults \<Rightarrow> user option \<Rightarrow> server_options
   \<Rightarrow> ('w, server_options option) eff" where
  "find_acceptable_class http crc_url cfg u requested =
     bindC (get_resource_pools http crc_url u (Some requested))
       (\<lambda>resource_pools. liftE (acceptable_class cfg requested resource_pools))"

text \<open>\<open>DummyCRCValidator\<close>.\<close>

definition dummy_options :: "options_defaults \<Rightarrow> server_options" where
  "dummy_options cfg = post_init cfg
     ((bare_options (PFloat (1 / 2)) (PInt 1) (PInt 0))
      \<lparr>so_storage := Some (PInt 1), so_default_url := Some ''/lab'', so_lfs_auto_fetch := Some False,
       so_gigabytes := True\<rparr>)"

definition dummy_validate_class_storage ::
  "options_defaults \<Rightarrow> user option \<Rightarrow> int \<Rightarrow> pynum option \<Rightarrow> ('w, server_options) eff" where
  "dummy_validate_class_storage cfg u class_id storage = ret (dummy_options cfg)"

definition dummy_get_default_class :: "('w, json) eff" where
  "dummy_get_default_class = ret (JObj
     [(''name'', JStr ''resource class''), (''cpu'', JFloat (fl (1 / 10))), (''memory'', JInt 1),
      (''gpu'', JInt 0), (''max_storage'', JInt 100), (''default_storage'', JInt 1),
      (''id'', JInt 1), (''default'', JBool True)])"

definition dummy_find_acceptable_class ::
  "options_defaults \<Rightarrow> user option \<Rightarrow> server_options \<Rightarrow> ('w, server_options option) eff" where
  "dummy_find_acceptable_class cfg u requested = ret (Some (dummy_options cfg))"

section \<open>Git providers\<close>

definition get_oauth2_connections ::
  "'w http \<Rightarrow> string \<Rightarrow> user option \<Rightarrow> ('w, oauth2_connection list) eff" where
  "get_oauth2_connections http service_url u =
     (case u of
        None \<Rightarrow> ret []
      | Some usr \<Rightarrow>
          (case user_access_token usr of
             None \<Rightarrow> ret []
           | Some t \<Rightarrow>
               bindC (http_get http (rstrip_slash service_url @ ''/oauth2/connections'')
                   (Some [(''Authorization'', ''bearer '' @ t)]) None) (\<lambda>res.
               if resp_status res \<noteq> 200 then raise unexpected_response
               else liftE
                 (bindE (bindE (resp_body res) jiter) (\<lambda>cs.
                  bindE (filterE (\<lambda>c. bindE (jitem c ''status'') (\<lambda>s. Inr (s = JStr ''connected''))) cs)
                    (mapE connection_from_dict))))))"

definition get_oauth2_provider :: "'w http \<Rightarrow> string \<Rightarrow> string \<Rightarrow> ('w, oauth2_provider) eff" where
  "get_oauth2_provider http service_url provider_id =
     bindC (http_get http (rstrip_slash service_url @ ''/oauth2/providers/'' @ provider_id) None None)
       (\<lambda>res.
         if resp_status res \<noteq> 200 then raise unexpected_response
         else liftE (bindE (resp_body res) provider_from_dict))"

definition access_token_url_of :: "string \<Rightarrow> string \<Rightarrow> string \<Rightarrow> string" where
  "access_token_url_of service_url renku_url connection_id =
     urljoin_path (rstrip_slash renku_url)
       (url_path (rstrip_slash service_url @ ''/oauth2/connections/'' @ connection_id @ ''/token''))"

text \<open>The loop over the connections, with the dict \<open>providers\<close> as its state.\<close>

fun add_providers ::
  "'w http \<Rightarrow> string \<Rightarrow> string \<Rightarrow> (string, git_provider) dict \<Rightarrow> oauth2_connection list
   \<Rightarrow> ('w, (string, git_provider) dict) eff" where
  "add_providers http service_url renku_url providers [] = ret providers"
| "add_providers http service_url renku_url providers (c # cs) =
     (if dget providers (oc_provider_id c) \<noteq> None then
        add_providers http service_url renku_url providers cs
      else
        bindC (get_oauth2_provider http service_url (oc_provider_id c)) (\<lambda>provider.
          add_providers http service_url renku_url
            (dset (oc_provider_id c)
              \<lparr>gp_id = oc_provider_id c, gp_url = op_url provider, gp_connection_id = oc_id c,
               gp_access_token_url = access_token_url_of service_url renku_url (oc_id c)\<rparr>
              providers) cs))"

definition internal_gitlab :: "string \<Rightarrow> string \<Rightarrow> git_provider" where
  "internal_gitlab renku_url internal_gitlab_url =
     \<lparr>gp_id = INTERNAL_GITLAB_PROVIDER, gp_url = internal_gitlab_url, gp_connection_id = [],
      gp_access_token_url = urljoin_path (rstrip_slash renku_url) ''/api/auth/gitlab/exchange''\<rparr>"

definition get_providers ::
  "'w http \<Rightarrow> string \<Rightarrow> string \<Rightarrow> string \<Rightarrow> user option \<Rightarrow> ('w, git_provider list) eff" where
  "get_providers http service_url renku_url internal_gitlab_url u =
     (case u of
        None \<Rightarrow> ret []
      | Some usr \<Rightarrow>
          if user_access_token usr = None then ret []
          else
            bindC (get_oauth2_connections http service_url u) (\<lambda>connections.
            bindC (add_providers http service_url renku_url [] connections) (\<lambda>providers.
              ret (internal_gitlab renku_url internal_gitlab_url # map snd providers))))"

definition dummy_get_providers :: "user option \<Rightarrow> ('w, git_provider list) eff" where
  "dummy_get_providers u = ret []"

section \<open>The class that is chosen\<close>

text \<open>All classes of a response in the order they are visited, each with the quota of its pool.\<close>

definition pool_classes :: "json \<Rightarrow> (json \<times> json) list res" where
  "pool_classes pools =
     bindE (jiter pools) (\<lambda>ps.
     bindE (mapE (\<lambda>p. bindE (jget p ''quota'' JNull) (\<lambda>q.
              bindE (pool_class_list p) (\<lambda>cs. Inr (map (Pair q) cs)))) ps) (\<lambda>xss.
     Inr (concat xss)))"

text \<open>
  The classes that may be chosen: converted without an error, at least as large as the request in
  every amount, and marked as matching by the data service.
\<close>

definition candidate ::
  "options_defaults \<Rightarrow> server_options \<Rightarrow> json \<times> json \<Rightarrow> server_options \<Rightarrow> server_options \<Rightarrow> bool" where
  "candidate cfg requested qc diff mdl \<longleftrightarrow>
     bindE (from_resource_class cfg (snd qc)) (with_quota (fst qc)) = Inr mdl
     \<and> diff = options_sub cfg mdl requested \<and> options_ge diff (zero_diff cfg)
     \<and> (\<exists>b. jitem (snd qc) ''matching'' = Inr b \<and> truthy b)"

lemma candidate_unique:
  "candidate cfg r qc d m \<Longrightarrow> candidate cfg r qc d' m' \<Longrightarrow> d' = d \<and> m' = m"
  by (auto simp: candidate_def)

lemma consider_class_cases:
  assumes "consider_class cfg r q best c = Inr best'"
  shows "(\<exists>d m. best' = Some (d, m) \<and> candidate cfg r (q, c) d m \<and>
            (\<forall>bd bm. best = Some (bd, bm) \<longrightarrow> options_lt d bd))
       \<or> (best' = best \<and> (\<forall>d m. candidate cfg r (q, c) d m \<longrightarrow>
            (\<exists>bd bm. best = Some (bd, bm) \<and> \<not> options_lt d bd)))"
proof -
  obtain m where m: "bindE (from_resource_class cfg c) (with_quota q) = Inr m"
    using assms by (auto simp: consider_class_def bindE_Inr_iff)
  let ?d = "options_sub cfg m r"
  let ?better = "options_ge ?d (zero_diff cfg)
     \<and> (case best of None \<Rightarrow> True | Some (bd, _) \<Rightarrow> options_lt ?d bd)"
  show ?thesis
  proof (cases "?better")
    case True
    then obtain b where b: "jitem c ''matching'' = Inr b"
      and best': "best' = (if truthy b then Some (?d, m) else best)"
      using assms m by (auto simp: consider_class_def Let_def bindE_Inr_iff)
    show ?thesis using True m b best' by (cases "truthy b") (auto simp: candidate_def)
  next
    case False
    then have "best' = best" using assms m by (auto simp: consider_class_def Let_def)
    then show ?thesis using False m by (auto simp: candidate_def split: option.splits)
  qed
qed

lemma consider_pools_flat:
  assumes "foldE (consider_pool cfg r) best ps = Inr best'"
  shows "\<exists>xss. mapE (\<lambda>p. bindE (jget p ''quota'' JNull) (\<lambda>q.
              bindE (pool_class_list p) (\<lambda>cs. Inr (map (Pair q) cs)))) ps = Inr xss
      \<and> foldE (\<lambda>b qc. consider_class cfg r (fst qc) b (snd qc)) best (concat xss) = Inr best'"
  using assms
proof (induction ps arbitrary: best)
  case Nil
  then show ?case by simp
next
  case (Cons p ps)
  then obtain b1 where b1: "consider_pool cfg r best p = Inr b1"
    and rest: "foldE (consider_pool cfg r) b1 ps = Inr best'"
    by (auto simp: bindE_Inr_iff)
  obtain q cs where q: "jget p ''quota'' JNull = Inr q" "pool_class_list p = Inr cs"
    and fold: "foldE (consider_class cfg r q) best cs = Inr b1"
    using b1 by (auto simp: consider_pool_def bindE_Inr_iff)
  with Cons.IH [OF rest] show ?case
    by (auto simp: foldE_append foldE_map)
qed

lemma acceptable_class_flat:
  assumes "acceptable_class cfg r pools = Inr res"
  obtains xs best where "pool_classes pools = Inr xs" "res = map_option snd best"
    "foldE (\<lambda>b qc. consider_class cfg r (fst qc) b (snd qc)) None xs = Inr best"
proof -
  from assms obtain ps best where ps: "jiter pools = Inr ps" "res = map_option snd best"
    and run: "foldE (consider_pool cfg r) None ps = Inr best"
    by (auto simp: acceptable_class_def bindE_Inr_iff)
  from consider_pools_flat [OF run] ps that show ?thesis
    by (auto simp: pool_classes_def)
qed

definition best_in ::
  "options_defaults \<Rightarrow> server_options \<Rightarrow> (json \<times> json) list \<Rightarrow> best \<Rightarrow> bool" where
  "best_in cfg r xs best \<longleftrightarrow>
     (case best of
        None \<Rightarrow> \<forall>qc \<in> set xs. \<forall>d m. \<not> candidate cfg r qc d m
      | Some (d, m) \<Rightarrow> (\<exists>qc \<in> set xs. candidate cfg r qc d m)
          \<and> (\<forall>qc \<in> set xs. \<forall>d' m'. candidate cfg r qc d' m' \<longrightarrow> \<not> options_lt d' d))"

lemma best_in_replace:
  assumes inv: "best_in cfg r ys a" and c: "candidate cfg r x d m"
    and better: "\<And>bd bm. a = Some (bd, bm) \<Longrightarrow> options_lt d bd"
  shows "best_in cfg r (ys @ [x]) (Some (d, m))"
proof -
  have old: "\<not> options_lt d' d" if y: "qc \<in> set ys" "candidate cfg r qc d' m'" for qc d' m'
  proof (cases a)
    case None
    with inv y show ?thesis by (auto simp: best_in_def)
  next
    case (Some p)
    then obtain d0 m0 where a: "a = Some (d0, m0)" by (cases p) auto
    then have "\<not> options_lt d' d0" using inv y by (auto simp: best_in_def)
    moreover have "options_lt d d0" using better a by simp
    ultimately show ?thesis using options_lt_trans by blast
  qed
  have "\<not> options_lt d' d" if "qc \<in> set (ys @ [x])" "candidate cfg r qc d' m'" for qc d' m'
  proof (cases "qc = x")
    case True
    then have "d' = d" using candidate_unique c that(2) by blast
    then show ?thesis by simp
  next
    case False
    then have "qc \<in> set ys" using that(1) by simp
    then show ?thesis using old that(2) by blast
  qed
  moreover have "\<exists>qc \<in> set (ys @ [x]). candidate cfg r qc d m"
    using c by (rule bexI) simp
  ultimately show ?thesis unfolding best_in_def option.case prod.case by blast
qed

lemma best_in_keep:
  assumes inv: "best_in cfg r ys a"
    and worse: "\<And>d m. candidate cfg r x d m \<Longrightarrow> \<exists>bd bm. a = Some (bd, bm) \<and> \<not> options_lt d bd"
  shows "best_in cfg r (ys @ [x]) a"
proof (cases a)
  case None
  then have "\<not> candidate cfg r x d m" for d m using worse [of d m] by auto
  with None inv show ?thesis by (simp add: best_in_def)
next
  case (Some p)
  obtain bd bm where p: "p = (bd, bm)" by (cases p)
  have "\<not> options_lt d bd" if "candidate cfg r x d m" for d m
    using worse [OF that] Some p by simp
  then show ?thesis using inv Some p by (simp add: best_in_def) blast
qed

lemma best_of_fold:
  assumes run: "foldE (\<lambda>b qc. consider_class cfg r (fst qc) b (snd qc)) None xs = Inr best"
  shows "best_in cfg r xs best"
proof (rule foldE_prefix_invariant [OF run])
  fix ys x zs a b
  assume inv: "best_in cfg r ys a" and step: "consider_class cfg r (fst x) a (snd x) = Inr b"
  have x: "(fst x, snd x) = x" by simp
  from consider_class_cases [OF step, unfolded x] show "best_in cfg r (ys @ [x]) b"
  proof (elim disjE exE conjE)
    fix d m
    assume "b = Some (d, m)" "candidate cfg r x d m"
      "\<forall>bd bm. a = Some (bd, bm) \<longrightarrow> options_lt d bd"
    then show ?thesis using best_in_replace [OF inv] by simp
  next
    assume "b = a" "\<forall>d m. candidate cfg r x d m \<longrightarrow>
            (\<exists>bd bm. a = Some (bd, bm) \<and> \<not> options_lt d bd)"
    then show ?thesis using best_in_keep [OF inv, of x] by blast
  qed
qed (simp add: best_in_def)

text \<open>
  C37. Choosing a resource class for an old-style request: when the search ends without an error,
  its result is a class of the response that was converted, marked as matching and at least as
  large as the request in every amount, and no other such class is closer to the request in all
  four amounts; there is no result exactly when no class of the response qualifies.
\<close>

theorem find_acceptable_class_best:
  assumes "acceptable_class cfg requested pools = Inr result"
  shows "\<exists>xs. pool_classes pools = Inr xs \<and>
    (case result of
       None \<Rightarrow> \<forall>qc \<in> set xs. \<forall>d m. \<not> candidate cfg requested qc d m
     | Some m \<Rightarrow> \<exists>d. (\<exists>qc \<in> set xs. candidate cfg requested qc d m)
         \<and> (\<forall>qc \<in> set xs. \<forall>d' m'. candidate cfg requested qc d' m' \<longrightarrow> \<not> options_lt d' d))"
  using assms
proof (rule acceptable_class_flat)
  fix xs best
  assume "pool_classes pools = Inr xs" "result = map_option snd best"
    and run: "foldE (\<lambda>b qc. consider_class cfg requested (fst qc) b (snd qc)) None xs = Inr best"
  with best_of_fold [OF run] show ?thesis
    unfolding best_in_def by (cases best) (auto, blast)
qed

text \<open>The example of the witnesses: one pool with a large and a small class without GPUs.\<close>

definition example_defaults :: options_defaults where
  "example_defaults = \<lparr>defaultUrl = ''/lab'', lfs_default = False\<rparr>"

definition example_class :: "int \<Rightarrow> int \<Rightarrow> int \<Rightarrow> json" where
  "example_class i c m = JObj
     [(''id'', JInt i), (''cpu'', JInt c), (''memory'', JInt m), (''gpu'', JInt 0),
      (''default_storage'', JInt 10), (''max_storage'', JInt 20), (''matching'', JBool True)]"

definition example_pools :: json where
  "example_pools = JArr
     [JObj [(''quota'', JObj [(''id'', JStr ''prio'')]),
            (''classes'', JArr [example_class 1 8 16, example_class 2 1 2])]]"

definition example_request :: server_options where
  "example_request = from_request example_defaults
     ((default_request example_defaults)\<lparr>rq_cpu_request := PInt 1\<rparr>)"

definition example_options :: server_options where
  "example_options =
     (case acceptable_class example_defaults example_request example_pools of
        Inr (Some m) \<Rightarrow> m | _ \<Rightarrow> example_request)"

theorem find_acceptable_class_best_witness:
  "\<exists>xs d qc. pool_classes example_pools = Inr xs \<and> qc \<in> set xs
     \<and> candidate example_defaults example_request qc d example_options"
proof -
  have "acceptable_class example_defaults example_request example_pools = Inr (Some example_options)"
    by code_simp
  from find_acceptable_class_best [OF this] show ?thesis by auto
qed

definition first_in ::
  "options_defaults \<Rightarrow> server_options \<Rightarrow> (json \<times> json) list \<Rightarrow> best \<Rightarrow> bool" where
  "first_in cfg r xs best \<longleftrightarrow>
     (case best of
        None \<Rightarrow> \<forall>qc \<in> set xs. \<forall>d m. \<not> candidate cfg r qc d m
      | Some (d, m) \<Rightarrow> \<exists>ys qc zs. xs = ys @ qc # zs \<and> candidate cfg r qc d m
          \<and> (\<forall>qc' \<in> set ys. \<forall>d' m'. \<not> candidate cfg r qc' d' m'))"

lemma first_in_extend:
  assumes "first_in cfg r ys (Some (d, m))"
  shows "first_in cfg r (ys @ [x]) (Some (d, m))"
proof -
  from assms obtain us qc zs where "ys = us @ qc # zs" "candidate cfg r qc d m"
    "\<forall>qc' \<in> set us. \<forall>d' m'. \<not> candidate cfg r qc' d' m'"
    by (auto simp: first_in_def)
  then have "ys @ [x] = us @ qc # (zs @ [x]) \<and> candidate cfg r qc d m
      \<and> (\<forall>qc' \<in> set us. \<forall>d' m'. \<not> candidate cfg r qc' d' m')" by simp
  then show ?thesis unfolding first_in_def option.case prod.case by blast
qed

lemma first_in_new:
  assumes "first_in cfg r ys None" and "candidate cfg r x d m"
  shows "first_in cfg r (ys @ [x]) (Some (d, m))"
proof -
  have "ys @ [x] = ys @ x # [] \<and> candidate cfg r x d m
      \<and> (\<forall>qc' \<in> set ys. \<forall>d' m'. \<not> candidate cfg r qc' d' m')"
    using assms by (simp add: first_in_def)
  then show ?thesis unfolding first_in_def option.case prod.case by blast
qed

lemma first_in_member:
  assumes "first_in cfg r ys (Some (d, m))"
  shows "\<exists>qc \<in> set ys. candidate cfg r qc d m"
  using assms by (fastforce simp: first_in_def)

lemma first_of_fold:
  assumes run: "foldE (\<lambda>b qc. consider_class cfg r (fst qc) b (snd qc)) None xs = Inr best"
    and gpus: "\<And>qc d m. qc \<in> set xs \<Longrightarrow> candidate cfg r qc d m \<Longrightarrow> val (so_gpu d) = g"
  shows "first_in cfg r xs best"
proof (rule foldE_prefix_invariant [OF run])
  fix ys x zs a b
  assume xs: "xs = ys @ x # zs" and inv: "first_in cfg r ys a"
    and step: "consider_class cfg r (fst x) a (snd x) = Inr b"
  have x: "(fst x, snd x) = x" by simp
  note cases = consider_class_cases [OF step, unfolded x]
  have not_lt: "\<not> options_lt d bd"
    if cx: "candidate cfg r x d m" and a: "a = Some (bd, bm)" for d m bd bm
  proof -
    obtain qc where qc: "qc \<in> set ys" "candidate cfg r qc bd bm"
      using first_in_member inv a by blast
    have "val (so_gpu bd) = g" by (rule gpus [OF _ qc(2)]) (simp add: xs qc(1))
    moreover have "val (so_gpu d) = g" by (rule gpus [OF _ cx]) (simp add: xs)
    ultimately show ?thesis by (simp add: options_lt_def compare_options_def)
  qed
  show "first_in cfg r (ys @ [x]) b"
  proof (cases a)
    case None
    show ?thesis
    proof (cases "\<exists>d m. candidate cfg r x d m")
      case True
      with cases None obtain d m where "b = Some (d, m)" "candidate cfg r x d m" by blast
      then show ?thesis using first_in_new inv None by blast
    next
      case False
      with cases None have "b = None" by blast
      with False inv None show ?thesis by (auto simp: first_in_def)
    qed
  next
    case (Some p)
    obtain d m where p: "p = (d, m)" by (cases p)
    have "b = a" using cases not_lt Some p by blast
    then show ?thesis using first_in_extend inv Some p by blast
  qed
qed (simp add: first_in_def)

text \<open>
  The comparison that replaces the best class asks for a smaller difference in every one of
  the four amounts.  So whenever the differences of all qualifying classes agree in one amount,
  as the GPU counts of a deployment without GPUs do, the search returns the first qualifying class
  of the response, however much larger than the others it is.
\<close>

theorem find_acceptable_class_first:
  assumes "acceptable_class cfg requested pools = Inr result" and "pool_classes pools = Inr xs"
    and "\<forall>qc \<in> set xs. \<forall>d m. candidate cfg requested qc d m \<longrightarrow> val (so_gpu d) = g"
  shows "case result of
      None \<Rightarrow> \<forall>qc \<in> set xs. \<forall>d m. \<not> candidate cfg requested qc d m
    | Some m \<Rightarrow> \<exists>ys qc zs d. xs = ys @ qc # zs \<and> candidate cfg requested qc d m
        \<and> (\<forall>qc' \<in> set ys. \<forall>d' m'. \<not> candidate cfg requested qc' d' m')"
  using assms(1)
proof (rule acceptable_class_flat)
  fix xs' best
  assume "pool_classes pools = Inr xs'" and result: "result = map_option snd best"
    and run': "foldE (\<lambda>b qc. consider_class cfg requested (fst qc) b (snd qc)) None xs' = Inr best"
  then have "foldE (\<lambda>b qc. consider_class cfg requested (fst qc) b (snd qc)) None xs = Inr best"
    using assms(2) by simp
  then have "first_in cfg requested xs best" by (rule first_of_fold [where g = g]) (use assms(3) in blast)
  then show ?thesis using result by (cases best) (auto simp: first_in_def, blast)
qed

theorem find_acceptable_class_first_witness:
  "\<exists>ys qc zs d. projr (pool_classes example_pools) = ys @ qc # zs
     \<and> candidate example_defaults example_request qc d example_options"
proof -
  have found: "acceptable_class example_defaults example_request example_pools = Inr (Some example_options)"
    by code_simp
  have classes: "pool_classes example_pools = Inr (projr (pool_classes example_pools))"
    by code_simp
  have gpu: "val (so_gpu (case bindE (from_resource_class example_defaults (snd qc)) (with_quota (fst qc)) of
        Inr m \<Rightarrow> options_sub example_defaults m example_request | Inl _ \<Rightarrow> zero_diff example_defaults)) = 0"
    if "qc \<in> set (projr (pool_classes example_pools))" for qc
    using that
  proof -
    have "list_all (\<lambda>qc. val (so_gpu
       (case bindE (from_resource_class example_defaults (snd qc)) (with_quota (fst qc)) of
        Inr m \<Rightarrow> options_sub example_defaults m example_request | Inl _ \<Rightarrow> zero_diff example_defaults)) = 0)
        (projr (pool_classes example_pools))"
      by code_simp
    with that show ?thesis by (simp add: list_all_iff)
  qed
  have no_gpu: "\<forall>qc \<in> set (projr (pool_classes example_pools)). \<forall>d m.
      candidate example_defaults example_request qc d m \<longrightarrow> val (so_gpu d) = 0"
    using gpu by (fastforce simp: candidate_def)
  from find_acceptable_class_first [OF found classes no_gpu] show ?thesis by auto
qed

section \<open>The options of a launch\<close>

text \<open>
  How \<open>launch_notebook_helper\<close> (\<open>api/notebooks.py\<close>) turns a request into options: the class that is
  named, or the class found for old-style options, or the default class; then the URL and the LFS
  flag of the request.  Old-style options arrive as the object their schema loads, or as a dict.
\<close>

datatype options_arg = NoOptions | DictOptions json | LoadedOptions server_options

definition options_of_dict :: "options_defaults \<Rightarrow> json \<Rightarrow> server_options res" where
  "options_of_dict cfg d =
     bindE (bindE (jitem d ''mem_request'') jnumber) (\<lambda>m.
     bindE (bindE (jitem d ''disk_request'') jnumber) (\<lambda>s.
     bindE (bindE (jitem d ''cpu_request'') jnumber) (\<lambda>c.
     bindE (bindE (jitem d ''gpu_request'') jnumber) (\<lambda>g.
     bindE (jitem d ''lfs_auto_fetch'') (\<lambda>l.
     bindE (bindE (jitem d ''defaultUrl'') jstr_opt) (\<lambda>u.
       Inr (post_init cfg
         ((bare_options c m g)
          \<lparr>so_storage := Some s, so_lfs_auto_fetch := (if l = JNull then None else Some (truthy l)),
           so_default_url := u\<rparr>))))))))"

definition default_launch_options ::
  "options_defaults \<Rightarrow> pynum option \<Rightarrow> json \<Rightarrow> server_options res" where
  "default_launch_options cfg storage default_resource_class =
     bindE (jget default_resource_class ''max_storage'' (JInt 0)) (\<lambda>max_storage_gb.
     bindE (case storage of
         None \<Rightarrow> bindE (jget default_resource_class ''default_storage'' JNull) Inr
       | Some s \<Rightarrow>
           bindE (jnumber max_storage_gb) (\<lambda>m.
             if val m < val s then
               Inl (api UserInputError
                 (''The requested storage amount is higher than the '' @
                  ''allowable maximum for the default resource class of '' @
                  py_str max_storage_gb @ ''GB.''))
             else Inr (jnum s))) (\<lambda>s.
     bindE (from_resource_class cfg default_resource_class) (\<lambda>r.
     bindE (jnumber s) (\<lambda>n. Inr (set_storage n True r)))))"

definition no_suitable_options :: exc where
  "no_suitable_options =
     api_detail UserInputError
       (''Cannot find suitable server options based on your request and '' @
        ''the available resource classes.'')
       (''You are receiving this error because you are using the old API for '' @
        ''selecting resources. Updating to the new API which includes specifying only '' @
        ''a specific resource class ID and storage is preferred and more convenient.'')"

definition launch_options ::
  "(user option \<Rightarrow> int \<Rightarrow> pynum option \<Rightarrow> ('w, server_options) eff) \<Rightarrow>
   (user option \<Rightarrow> server_options \<Rightarrow> ('w, server_options option) eff) \<Rightarrow>
   ('w, json) eff \<Rightarrow> options_defaults \<Rightarrow> user \<Rightarrow> int option \<Rightarrow> pynum option \<Rightarrow> options_arg \<Rightarrow>
   string option \<Rightarrow> bool option \<Rightarrow> ('w, server_options) eff" where
  "launch_options validate find_opts dflt_class cfg u resource_class_id storage server_options default_url lfs =
     bindC
       (case resource_class_id of
          Some i \<Rightarrow> validate (Some u) i storage
        | None \<Rightarrow>
            (case server_options of
               NoOptions \<Rightarrow> bindC dflt_class (\<lambda>c. liftE (default_launch_options cfg storage c))
             | _ \<Rightarrow>
                 bindC (liftE (case server_options of
                     DictOptions d \<Rightarrow> options_of_dict cfg d
                   | LoadedOptions r \<Rightarrow> Inr r
                   | NoOptions \<Rightarrow> Inl no_suitable_options)) (\<lambda>requested.
                 bindC (find_opts (Some u) requested) (\<lambda>found.
                   case found of
                     None \<Rightarrow> raise no_suitable_options
                   | Some r \<Rightarrow> ret r)))) (\<lambda>parsed.
     ret (parsed
       \<lparr>so_default_url := (case default_url of None \<Rightarrow> so_default_url parsed | Some x \<Rightarrow> Some x),
        so_lfs_auto_fetch := (case lfs of None \<Rightarrow> so_lfs_auto_fetch parsed | Some b \<Rightarrow> Some b)\<rparr>))"

section \<open>What the validators promise\<close>

text \<open>
  The handlers call a validator through its methods.  The contract they rely on: every options
  object that it hands out is complete and sorted.
\<close>

lemma wf_default_launch_options:
  "default_launch_options cfg s c = Inr r \<Longrightarrow> wf_options r"
  by (auto simp: default_launch_options_def bindE_Inr_iff intro: wf_from_resource_class)

locale crc_validator =
  fixes validate :: "user option \<Rightarrow> int \<Rightarrow> pynum option \<Rightarrow> ('w, server_options) eff"
    and find_opts :: "user option \<Rightarrow> server_options \<Rightarrow> ('w, server_options option) eff"
  assumes validate_wf: "validate u i s w = (Inr r, w') \<Longrightarrow> wf_options r"
    and find_wf: "find_opts u q w = (Inr (Some r), w') \<Longrightarrow> wf_options r"
begin

lemma launch_options_wf:
  assumes "launch_options validate find_opts dflt cfg u i s oa du lfs w = (Inr r, w')"
  shows "wf_options r"
proof -
  from assms obtain r0 where
    r: "r = r0\<lparr>so_default_url := (case du of None \<Rightarrow> so_default_url r0 | Some x \<Rightarrow> Some x),
        so_lfs_auto_fetch := (case lfs of None \<Rightarrow> so_lfs_auto_fetch r0 | Some b \<Rightarrow> Some b)\<rparr>"
    and m: "(case i of
          Some k \<Rightarrow> validate (Some u) k s
        | None \<Rightarrow>
            (case oa of
               NoOptions \<Rightarrow> bindC dflt (\<lambda>c. liftE (default_launch_options cfg s c))
             | _ \<Rightarrow>
                 bindC (liftE (case oa of
                     DictOptions d \<Rightarrow> options_of_dict cfg d
                   | LoadedOptions r \<Rightarrow> Inr r
                   | NoOptions \<Rightarrow> Inl no_suitable_options)) (\<lambda>requested.
                 bindC (find_opts (Some u) requested) (\<lambda>found.
                   case found of
                     None \<Rightarrow> raise no_suitable_options
                   | Some r \<Rightarrow> ret r)))) w = (Inr r0, w')"
    unfolding launch_options_def bindC_Inr_iff by auto
  have "wf_options r0"
  proof (cases i)
    case (Some k)
    with m validate_wf show ?thesis by simp
  next
    case None
    show ?thesis
    proof (cases "oa = NoOptions")
      case True
      with m None show ?thesis by (auto simp: bindC_Inr_iff wf_default_launch_options)
    next
      case False
      with m None obtain q w1 where
        "bindC (find_opts (Some u) q) (\<lambda>found. case found of None \<Rightarrow> raise no_suitable_options
           | Some r \<Rightarrow> ret r) w1 = (Inr r0, w')"
        by (cases oa) (auto simp: bindC_Inr_iff [of "liftE _"])
      then show ?thesis using find_wf by (auto simp: bindC_Inr_iff split: option.splits)
    qed
  qed
  then show ?thesis unfolding r by (auto simp: wf_options_def split: option.splits)
qed

end

lemma wf_with_quota: "with_quota q r = Inr r' \<Longrightarrow> wf_options r \<Longrightarrow> wf_options r'"
  by (cases q) (auto simp: with_quota_def bindE_Inr_iff wf_options_def)

lemma wf_class_options:
  assumes "class_options cfg pool c s = Inr r"
  shows "wf_options r"
proof -
  from assms obtain r0 it ht quota where r0: "from_resource_class cfg c = Inr r0"
    and q: "with_quota quota (set_storage s True
       (r0\<lparr>so_idle_threshold_seconds := it, so_hibernation_threshold_seconds := ht\<rparr>)) = Inr r"
    by (auto simp: class_options_def bindE_Inr_iff)
  have "wf_options (r0\<lparr>so_idle_threshold_seconds := it, so_hibernation_threshold_seconds := ht\<rparr>)"
    using wf_from_resource_class [OF r0] by (simp add: wf_options_def)
  then show ?thesis using wf_with_quota [OF q] by simp
qed

lemma validate_wf_options:
  assumes "validate_class_storage http url cfg u i s w = (Inr r, w')"
  shows "wf_options r"
  using assms
  by (auto simp: validate_class_storage_def bindC_Inr_iff validated_class_def bindE_Inr_iff
      wf_class_options split: option.splits)

lemma wf_candidate: "candidate cfg q qc d m \<Longrightarrow> wf_options m"
  by (auto simp: candidate_def bindE_Inr_iff intro: wf_with_quota wf_from_resource_class)

lemma acceptable_class_wf: "acceptable_class cfg q pools = Inr (Some r) \<Longrightarrow> wf_options r"
proof (erule acceptable_class_flat)
  fix xs best
  assume "Some r = map_option snd best"
    and "foldE (\<lambda>b qc. consider_class cfg q (fst qc) b (snd qc)) None xs = Inr best"
  then show "wf_options r" using best_of_fold [of cfg q xs best]
    by (cases best) (auto simp: best_in_def dest: wf_candidate)
qed

lemma find_wf_options:
  "find_acceptable_class http url cfg u q w = (Inr (Some r), w') \<Longrightarrow> wf_options r"
  by (auto simp: find_acceptable_class_def bindC_Inr_iff acceptable_class_wf)

interpretation crc: crc_validator "validate_class_storage http url cfg" "find_acceptable_class http url cfg"
  for http url cfg
  by unfold_locales (fact validate_wf_options, fact find_wf_options)

interpretation dummy_crc: crc_validator "dummy_validate_class_storage cfg" "dummy_find_acceptable_class cfg"
  for cfg
  by unfold_locales
    (auto simp: dummy_validate_class_storage_def dummy_find_acceptable_class_def dummy_options_def)

text \<open>
  Whatever way a launch request names its resources (a class, old-style options or nothing),
  with the client of the data service every options object that the launch goes on with has a
  storage amount, a default URL and an LFS flag, and sorted affinities and tolerations.
\<close>

theorem launch_options_complete:
  assumes "launch_options (validate_class_storage http url cfg) (find_acceptable_class http url cfg)
      (get_default_class http url) cfg u class_id storage arg default_url lfs w = (Inr r, w')"
  shows "so_storage r \<noteq> None \<and> so_default_url r \<noteq> None \<and> so_lfs_auto_fetch r \<noteq> None
    \<and> sorted (so_node_affinities r) \<and> sorted (so_tolerations r)"
  using crc.launch_options_wf [OF assms] by (simp add: wf_options_def)

definition example_user :: user where
  "example_user =
     \<lparr>user_anonymous = False, user_authenticated = True, user_username = ''Jane.Doe'', user_safe_username = ''jane-2edoe'',
      user_id = ''0f2a'', user_full_name = Some ''Jane Doe'', user_email = Some ''jane@example.org'',
      user_oidc_issuer = None, user_access_token = Some ''access'', user_refresh_token = Some ''refresh'',
      user_git_url = ''https://gitlab.example.org'', user_git_token = Some ''git'', user_git_token_expires_at = 0\<rparr>"

definition example_launch :: "(unit, server_options) eff" where
  "example_launch =
     launch_options (validate_class_storage (fixed_http (\<lambda>_. ok_json example_pools)) ''http://crc'' example_defaults)
       (find_acceptable_class (fixed_http (\<lambda>_. ok_json example_pools)) ''http://crc'' example_defaults)
       (get_default_class (fixed_http (\<lambda>_. ok_json example_pools)) ''http://crc'') example_defaults
       example_user (Some 2) (Some (PInt 12)) NoOptions None (Some True)"

theorem launch_options_complete_witness:
  "so_storage (projr (fst (example_launch ()))) \<noteq> None
    \<and> so_default_url (projr (fst (example_launch ()))) \<noteq> None
    \<and> so_lfs_auto_fetch (projr (fst (example_launch ()))) \<noteq> None
    \<and> sorted (so_node_affinities (projr (fst (example_launch ()))))
    \<and> sorted (so_tolerations (projr (fst (example_launch ()))))"
proof (rule launch_options_complete)
  show "launch_options (validate_class_storage (fixed_http (\<lambda>_. ok_json example_pools)) ''http://crc'' example_defaults)
       (find_acceptable_class (fixed_http (\<lambda>_. ok_json example_pools)) ''http://crc'' example_defaults)
       (get_default_class (fixed_http (\<lambda>_. ok_json example_pools)) ''http://crc'') example_defaults
       example_user (Some 2) (Some (PInt 12)) NoOptions None (Some True) ()
     = (Inr (projr (fst (example_launch ()))), ())"
    unfolding example_launch_def by code_simp
qed

end
