(* ===== verification/Paths.thy ===== *)
theory Paths
  imports Prelude
begin

text \<open>
  \<open>pathlib.PurePosixPath\<close> as far as the service uses it: parsing with its normalisation (repeated
  slashes and \<open>.\<close> segments vanish, \<open>..\<close> stays), joining, printing and the prefix test.  The root is
  the empty text, one slash, or two slashes when a path starts with exactly two.
\<close>

datatype path = Path (path_root: string) (path_parts: "string list")

definition path_of :: "string \<Rightarrow> path" where
  "path_of s =
     (let lead = length (takeWhile (\<lambda>c. c = CHR ''/'') s) in
      Path (if lead = 0 then [] else if lead = 2 then ''//'' else ''/'')
        (filter (\<lambda>p. p \<noteq> [] \<and> p \<noteq> ''.'') (splits CHR ''/'' s)))"

definition is_absolute :: "path \<Rightarrow> bool" where
  "is_absolute p \<longleftrightarrow> path_root p \<noteq> []"

text \<open>\<open>a / b\<close>: an absolute right operand replaces the left one.\<close>

definition path_join :: "path \<Rightarrow> path \<Rightarrow> path" where
  "path_join a b = (if is_absolute b then b else Path (path_root a) (path_parts a @ path_parts b))"

definition path_str :: "path \<Rightarrow> string" where
  "path_str p = (if path_root p = [] \<and> path_parts p = [] then ''.'' else path_root p @ join ''/'' (path_parts p))"

definition is_relative_to :: "path \<Rightarrow> path \<Rightarrow> bool" where
  "is_relative_to a b \<longleftrightarrow> path_root a = path_root b \<and> take (length (path_parts b)) (path_parts a) = path_parts b"

definition path_name :: "path \<Rightarrow> string" where
  "path_name p = (if path_parts p = [] then [] else last (path_parts p))"

definition path_parent :: "path \<Rightarrow> path" where
  "path_parent p = Path (path_root p) (butlast (path_parts p))"

text \<open>A path as the parser makes it.\<close>

definition wf_path :: "path \<Rightarrow> bool" where
  "wf_path p \<longleftrightarrow> path_root p \<in> {[], ''/'', ''//''} \<and>
     (\<forall>q \<in> set (path_parts p). q \<noteq> [] \<and> q \<noteq> ''.'' \<and> CHR ''/'' \<notin> set q)"

lemma wf_path_of [simp, intro]: "wf_path (path_of s)"
  by (auto simp: wf_path_def path_of_def Let_def dest: splits_no_sep)

lemma wf_path_join [simp, intro]: "wf_path a \<Longrightarrow> wf_path b \<Longrightarrow> wf_path (path_join a b)"
  by (auto simp: wf_path_def path_join_def)

lemma is_relative_to_join [simp]: "\<not> is_absolute b \<Longrightarrow> is_relative_to (path_join a b) a"
  by (simp add: is_relative_to_def path_join_def)

lemma splits_join:
  "ps \<noteq> [] \<Longrightarrow> \<forall>q \<in> set ps. CHR ''/'' \<notin> set q \<Longrightarrow> splits CHR ''/'' (join ''/'' ps) = ps"
proof (induction ps)
  case (Cons p ps)
  then show ?case
    by (cases ps) (auto simp: splits_id splits_append_sep)
qed simp

lemma filter_all_id: "(\<And>x. x \<in> set xs \<Longrightarrow> P x) \<Longrightarrow> filter P xs = xs"
  by (induction xs) auto

lemma lead_parts:
  "\<forall>q \<in> set ps. q \<noteq> [] \<and> CHR ''/'' \<notin> set q \<Longrightarrow>
     takeWhile (\<lambda>c. c = CHR ''/'') (join ''/'' ps) = []"
proof (induction ps)
  case (Cons p ps)
  then show ?case by (cases ps; cases p) auto
qed simp

text \<open>Printing and parsing a path gives it back.\<close>

lemma path_roundtrip:
  assumes "wf_path p"
  shows "path_of (path_str p) = p"
proof (cases p)
  case (Path r ps)
  have keep: "filter (\<lambda>p. p \<noteq> [] \<and> p \<noteq> ''.'') ps = ps"
    using assms Path by (intro filter_all_id) (simp add: wf_path_def)
  have lead: "takeWhile (\<lambda>c. c = CHR ''/'') (join ''/'' ps) = []"
    using assms Path by (intro lead_parts) (simp add: wf_path_def)
  have sp: "splits CHR ''/'' (join ''/'' ps) = ps" if "ps \<noteq> []"
    using assms Path that by (intro splits_join) (simp_all add: wf_path_def)
  consider "r = []" | "r = ''/''" | "r = ''//''" using assms Path by (auto simp: wf_path_def)
  then show ?thesis
    using keep lead sp Path
    by cases (cases "ps = []"; simp add: path_of_def path_str_def Let_def)+
qed

end
