(* ===== verification/Config.thy ===== *)
theory Config
  imports K8sClient DataService Paths
begin

text \<open>
  The configuration the modelled code reads (\<open>config/dynamic.py\<close>, \<open>config/__init__.py\<close>, the
  prefix of \<open>config/static.py\<close>) as records, its parsing of booleans, and how the cluster client and
  the validators are built from it.  Values that the code parses from YAML texts, such as
  affinities and tolerations, are JSON values here.
\<close>

definition renku_annotation_prefix :: string where
  "renku_annotation_prefix = ''renku.io/''"

text \<open>\<open>_parse_str_as_bool\<close>.\<close>

definition parse_str_as_bool :: "json \<Rightarrow> bool res" where
  "parse_str_as_bool v =
     (case v of
        JStr s \<Rightarrow> Inr (lower s = ''true'')
      | JBool b \<Rightarrow> Inr b
      | _ \<Rightarrow> Inl (ValueError ''Unsupported data type received, expected str or bool''))"

record sentry_config =
  sentry_enabled :: bool
  sentry_dsn :: "string option"
  sentry_env :: "string option"
  sentry_sample_rate :: rat

record git_proxy_config =
  gpx_renku_client_secret :: string
  gpx_port :: int
  gpx_health_port :: int
  gpx_image :: string
  gpx_renku_client_id :: string

record git_rpc_config =
  rpc_host :: string
  rpc_port :: int
  rpc_image :: string
  rpc_sentry :: sentry_config

record git_clone_config =
  gcl_image :: string
  gcl_sentry :: sentry_config

record culling_config =
  idle_seconds :: int
  max_age_seconds :: int
  hibernated_seconds :: int

record ssh_config =
  ssh_enabled :: bool
  ssh_service_port :: int
  ssh_container_port :: int
  ssh_host_key_secret :: "string option"
  ssh_host_key_location :: string

record sessions_config =
  culling_anonymous :: culling_config
  culling_registered :: culling_config
  cfg_git_proxy :: git_proxy_config
  cfg_git_rpc :: git_rpc_config
  cfg_git_clone :: git_clone_config
  ingress_host :: string
  ingress_tls_secret :: "string option"
  ingress_annotations :: json
  ca_image :: string
  ca_path :: string
  ca_secrets :: "json list"
  oidc_client_id :: string
  oidc_client_secret :: string
  oidc_allow_unverified_email :: bool
  pvs_enabled :: bool
  pvs_storage_class :: "string option"
  use_empty_dir_size_limit :: bool
  containers_anonymous :: "string list"
  containers_registered :: "string list"
  cfg_ssh :: ssh_config
  default_image :: string
  enforce_cpu_limits :: cpu_enforcement
  node_selector :: json
  cfg_affinity :: json
  cfg_tolerations :: "json list"
  termination_warning_seconds :: int
  init_container_list :: "string list"     \<comment> \<open>\<open>config.sessions.init_containers\<close>\<close>

record notebooks_config =
  cfg_sessions :: sessions_config
  cfg_git_url :: string
  cfg_git_registry :: string
  amalthea_group :: string
  amalthea_version :: string
  amalthea_cache_url :: string
  cloud_storage_class :: string
  cloud_storage_enabled :: json            \<comment> \<open>a \<open>bool\<close>, or the text that configured it\<close>
  service_version :: string
  cfg_ssh_enabled :: bool
  user_secrets_image :: string
  secrets_storage_service_url :: string
  data_service_url :: string
  keycloak_realm :: string
  cfg_bypass_cache :: bool
  cfg_dummy_stores :: bool
  anonymous_sessions_enabled :: bool
  cfg_sentry_release :: "string option"   \<comment> \<open>the environment variable \<open>SENTRY_RELEASE\<close>\<close>
  cfg_cwd :: path                         \<comment> \<open>the working directory, for \<open>Path.absolute\<close>\<close>

definition absolute :: "notebooks_config \<Rightarrow> path \<Rightarrow> path" where
  "absolute cfg p = (if is_absolute p then p else path_join (cfg_cwd cfg) p)"

text \<open>The client of the cluster that \<open>_NotebooksConfig.__post_init__\<close> builds.\<close>

definition username_label_name :: string where
  "username_label_name = renku_annotation_prefix @ ''safe-username''"

definition k8s_client_of ::
  "notebooks_config \<Rightarrow> 'w http \<Rightarrow> (pynum \<Rightarrow> ('w, unit) eff) \<Rightarrow> 'w ns_client \<Rightarrow> 'w ns_client option \<Rightarrow> 'w k8s_client res" where
  "k8s_client_of cfg http slp renku_ns sessions_ns =
     make_k8s_client \<lparr>cache_http = http, cache_url = amalthea_cache_url cfg\<rparr> renku_ns username_label_name
       sessions_ns (cfg_bypass_cache cfg) slp"

text \<open>The properties \<open>crc_validator\<close> and \<open>git_provider_helper\<close>: the client, or the dummy.\<close>

definition cfg_validate ::
  "notebooks_config \<Rightarrow> options_defaults \<Rightarrow> 'w http \<Rightarrow> user option \<Rightarrow> int \<Rightarrow> pynum option \<Rightarrow> ('w, server_options) eff" where
  "cfg_validate cfg d http =
     (if cfg_dummy_stores cfg then dummy_validate_class_storage d
      else validate_class_storage http (data_service_url cfg) d)"

definition cfg_find ::
  "notebooks_config \<Rightarrow> options_defaults \<Rightarrow> 'w http \<Rightarrow> user option \<Rightarrow> server_options \<Rightarrow> ('w, server_options option) eff" where
  "cfg_find cfg d http =
     (if cfg_dummy_stores cfg then dummy_find_acceptable_class d
      else find_acceptable_class http (data_service_url cfg) d)"

definition cfg_default_class :: "notebooks_config \<Rightarrow> 'w http \<Rightarrow> ('w, json) eff" where
  "cfg_default_class cfg http =
     (if cfg_dummy_stores cfg then dummy_get_default_class
      else get_default_class http (data_service_url cfg))"

definition cfg_git_providers :: "notebooks_config \<Rightarrow> 'w http \<Rightarrow> user option \<Rightarrow> ('w, git_provider list) eff" where
  "cfg_git_providers cfg http =
     (if cfg_dummy_stores cfg then dummy_get_providers
      else get_providers http (data_service_url cfg)
             (''https://'' @ ingress_host (cfg_sessions cfg)) (cfg_git_url cfg))"

text \<open>Either validator keeps the contract.\<close>

interpretation cfg_crc: crc_validator "cfg_validate cfg d http" "cfg_find cfg d http"
  for cfg d http
  by (cases "cfg_dummy_stores cfg")
    (simp_all add: cfg_validate_def cfg_find_def crc.crc_validator_axioms dummy_crc.crc_validator_axioms)

end
