(* ===== verification/CloudStorage.thy ===== *)
theory CloudStorage
  imports DataService Paths
begin

text \<open>
  Cloud storage of a session (\<open>api/schemas/cloud_storage.py\<close>, \<open>api/classes/cloud_storage\<close> and the
  checks of \<open>launch_notebook_helper\<close> in \<open>api/notebooks.py\<close>): building a storage from a request,
  the RClone configuration text, the patches that mount it, the checks on mount points, and reading
  storages back from a manifest.
\<close>

section \<open>Patches\<close>

text \<open>One operation of a JSON patch, and the entry of \<open>spec.patches\<close> that holds a list of them.\<close>

definition patch_op :: "string \<Rightarrow> string \<Rightarrow> json \<Rightarrow> json" where
  "patch_op verb path v = JObj [(''op'', JStr verb), (''path'', JStr path), (''value'', v)]"

definition json_patch :: "json list \<Rightarrow> json" where
  "json_patch ops = JObj [(''type'', JStr ''application/json-patch+json''), (''patch'', JArr ops)]"

section \<open>A request for storage\<close>

text \<open>\<open>RCloneStorageRequest\<close> after its fields are loaded and its defaults filled.\<close>

record storage_request =
  sr_source_path :: "string option"
  sr_target_path :: "string option"
  sr_configuration :: "(string, json) dict option"
  sr_storage_id :: "string option"
  sr_readonly :: bool

definition str_truthy :: "string option \<Rightarrow> bool" where
  "str_truthy s \<longleftrightarrow> s \<noteq> None \<and> s \<noteq> Some []"

definition validate_storage :: "storage_request \<Rightarrow> unit res" where
  "validate_storage data =
     (if str_truthy (sr_storage_id data) \<and> (str_truthy (sr_source_path data) \<or> str_truthy (sr_target_path data))
      then Inl (Validation ''storage_id cannot be used together with source_path or target_path'')
      else Inr ())"

record rclone_storage =
  rs_source_path :: string
  rs_configuration :: "(string, json) dict"
  rs_readonly :: bool
  rs_mount_folder :: string
  rs_name :: "string option"
  rs_secrets :: "(json, json) dict"
  rs_user_secret_key :: string
  rs_base_name :: "string option"

text \<open>A value of a stored configuration that has to be a text or a dict.\<close>

fun as_str :: "json \<Rightarrow> string res" where
  "as_str (JStr s) = Inr s"
| "as_str _ = Inl (TypeError ''str'')"

fun as_dict :: "json \<Rightarrow> (string, json) dict res" where
  "as_dict (JObj d) = Inr d"
| "as_dict _ = Inl (TypeError ''mapping'')"

definition required :: "'a option \<Rightarrow> string \<Rightarrow> 'a res" where
  "required x k = (case x of None \<Rightarrow> Inl (KeyError k) | Some v \<Rightarrow> Inr v)"

text \<open>
  The two ways to the parts of a storage: source, target, configuration (\<open>None\<close> is Python's), the
  readonly flag, name and secrets.
\<close>

type_synonym storage_parts =
  "string \<times> string \<times> (string, json) dict option \<times> bool \<times> string option \<times> (json, json) dict"

definition given_parts :: "storage_request \<Rightarrow> storage_parts res" where
  "given_parts data =
     bindE (required (sr_source_path data) ''source_path'') (\<lambda>src.
     bindE (required (sr_target_path data) ''target_path'') (\<lambda>tgt.
       Inr (src, tgt, sr_configuration data, sr_readonly data, None, [])))"

definition stored_parts :: "storage_request \<Rightarrow> cloud_storage_config \<Rightarrow> storage_parts res" where
  "stored_parts data c =
     bindE (as_dict (cs_config c)) (\<lambda>stored.
     bindE (case sr_configuration data of
         None \<Rightarrow> Inl (TypeError ''NoneType object is not a mapping'') | Some d \<Rightarrow> Inr d) (\<lambda>given.
     bindE (as_str (cs_source_path c)) (\<lambda>src.
     bindE (as_str (cs_target_path c)) (\<lambda>tgt.
     bindE (as_str (cs_name c)) (\<lambda>name.
       Inr (src, tgt, Some (dmerge stored given), truthy (cs_readonly c), Some name, cs_secrets c))))))"

definition conf_json :: "(string, json) dict option \<Rightarrow> json" where
  "conf_json c = (case c of None \<Rightarrow> JNull | Some d \<Rightarrow> JObj d)"

text \<open>
  \<open>storage_from_schema\<close>, with the validator's two methods as arguments. The constructor validates
  the configuration before it stores anything; a configuration \<open>None\<close> is as empty as \<open>{}\<close> from then on.
\<close>

definition storage_from_schema ::
  "(user option \<Rightarrow> string \<Rightarrow> string \<Rightarrow> ('w, cloud_storage_config) eff) \<Rightarrow> (json \<Rightarrow> ('w, unit) eff) \<Rightarrow>
   storage_request \<Rightarrow> user \<Rightarrow> string \<Rightarrow> path \<Rightarrow> string \<Rightarrow> ('w, rclone_storage) eff" where
  "storage_from_schema get_storage validate_config data u endpoint work_dir user_secret_key =
     bindC
       (case sr_storage_id data of
          None \<Rightarrow> liftE (given_parts data)
        | Some sid \<Rightarrow>
            if sid = [] then liftE (given_parts data)
            else if user_access_token u = None then
              raise (Validation ''Storage mounting is only supported for logged-in users.'')
            else
              bindC (get_storage (Some u) endpoint sid) (\<lambda>c. liftE (stored_parts data c)))
       (\<lambda>(src, tgt, conf, ro, name, secrets).
         bindC (validate_config (conf_json conf)) (\<lambda>_.
           ret \<lparr>rs_source_path = src, rs_configuration = (case conf of None \<Rightarrow> [] | Some d \<Rightarrow> d),
                rs_readonly = ro, rs_mount_folder = path_str (path_join work_dir (path_of tgt)),
                rs_name = name, rs_secrets = secrets, rs_user_secret_key = user_secret_key,
                rs_base_name = None\<rparr>))"

section \<open>The RClone configuration\<close>

definition conf_get :: "(string, json) dict \<Rightarrow> string \<Rightarrow> json" where
  "conf_get d k = (case dget d k of Some v \<Rightarrow> v | None \<Rightarrow> JStr [])"

definition polybox_url :: "json \<Rightarrow> json \<Rightarrow> string option" where
  "polybox_url access storage_type =
     (if access = JStr ''shared'' \<and> storage_type = JStr ''polybox'' then Some ''https://polybox.ethz.ch/public.php/webdav/''
      else if access = JStr ''shared'' \<and> storage_type = JStr ''switchDrive'' then Some ''https://drive.switch.ch/public.php/webdav/''
      else if access = JStr ''personal'' \<and> storage_type = JStr ''polybox'' then Some ''https://polybox.ethz.ch/remote.php/webdav/''
      else if access = JStr ''personal'' \<and> storage_type = JStr ''switchDrive'' then Some ''https://drive.switch.ch/remote.php/webdav/''
      else None)"

text \<open>The assignments to \<open>self.configuration\<close> before it is printed, in their order.\<close>

definition transform_configuration :: "(string, json) dict \<Rightarrow> (string, json) dict res" where
  "transform_configuration conf =
     (let storage_type = conf_get conf ''type''; access = conf_get conf ''provider'';
          dav = storage_type \<in> {JStr ''polybox'', JStr ''switchDrive''};
          c1 = (if dav then dset ''provider'' (JStr []) (dset ''type'' (JStr ''webdav'') conf) else conf);
          c2 = (case polybox_url access storage_type of Some u \<Rightarrow> dset ''url'' (JStr u) c1 | None \<Rightarrow> c1)
      in bindE
           (if access = JStr ''shared'' \<and> dav then
              bindE (jstr (conf_get c2 ''public_link'')) (\<lambda>link.
                Inr (dset ''user'' (JStr (last (splits CHR ''/'' link))) c2))
            else Inr c2) (\<lambda>c3.
         bindE (required (dget c3 ''type'') ''type'') (\<lambda>t.
           Inr (if t = JStr ''s3'' \<and> dget c3 ''provider'' = Some (JStr ''Switch'')
                then dset ''provider'' (JStr ''Other'') c3 else c3))))"

definition stringify :: "json \<Rightarrow> string" where
  "stringify v = (case v of JBool b \<Rightarrow> bool_lower b | _ \<Rightarrow> py_str v)"

text \<open>
  \<open>ConfigParser.set\<close> with its interpolation: \<open>%%\<close> is an escaped percent sign, \<open>%(name)s\<close> a
  reference, and a value with any other percent sign is refused with a \<open>ValueError\<close>.
\<close>

fun drop_escaped_percents :: "string \<Rightarrow> string" where
  "drop_escaped_percents (a # b # s) =
     (if a = CHR ''%'' \<and> b = CHR ''%'' then drop_escaped_percents s
      else a # drop_escaped_percents (b # s))"
| "drop_escaped_percents s = s"

function drop_references :: "string \<Rightarrow> string" where
  "drop_references [] = []"
| "drop_references (c # cs) =
     (let name = takeWhile (\<lambda>x. x \<noteq> CHR '')'') (drop 1 cs); r = drop (Suc (length name)) cs in
      if c = CHR ''%'' \<and> startswith cs ''('' \<and> name \<noteq> [] \<and> startswith r '')s''
      then drop_references (drop 2 r)
      else c # drop_references cs)"
  by pat_completeness auto
termination by (relation "measure length") auto

definition percent_ok :: "string \<Rightarrow> bool" where
  "percent_ok v \<longleftrightarrow> CHR ''%'' \<notin> set (drop_references (drop_escaped_percents v))"

definition parser_set :: "(string, string) dict \<Rightarrow> string \<times> json \<Rightarrow> (string, string) dict res" where
  "parser_set options kv =
     (let v = stringify (snd kv) in
      if percent_ok v then Inr (dset (lower (fst kv)) v options)
      else Inl (ValueError (''invalid interpolation syntax in '' @ v)))"

definition newline :: string where "newline = [char_of (10 :: nat)]"

text \<open>\<open>parser.write\<close>: continuation lines are indented with a tab.\<close>

definition print_option :: "string \<times> string \<Rightarrow> string" where
  "print_option kv =
     fst kv @ '' = '' @
     concat (map (\<lambda>c. if [c] = newline then newline @ [char_of (9 :: nat)] else [c]) (snd kv)) @ newline"

definition config_string :: "rclone_storage \<Rightarrow> string \<Rightarrow> string res" where
  "config_string s name =
     (if rs_configuration s = [] then Inl (Validation ''Missing configuration for cloud storage'')
      else
        bindE (transform_configuration (rs_configuration s)) (\<lambda>conf.
        if name = ''DEFAULT'' then Inl (ValueError ''Invalid section name: DEFAULT'')
        else
          bindE (foldE parser_set [] conf) (\<lambda>options.
            Inr (''['' @ name @ '']'' @ newline @ concat (map print_option options) @ newline))))"

section \<open>Mounting\<close>

definition storage_volume_name :: "rclone_storage \<Rightarrow> string \<Rightarrow> string" where
  "storage_volume_name s base_name =
     (case rs_name s of Some n \<Rightarrow> if n = [] then base_name else n | None \<Rightarrow> base_name)"

text \<open>\<open>get_manifest_patch\<close>; \<open>storage_class\<close> is \<open>config.cloud_storage.storage_class\<close>.\<close>

definition get_manifest_patch :: "string \<Rightarrow> rclone_storage \<Rightarrow> string \<Rightarrow> json list res" where
  "get_manifest_patch storage_class s base_name =
     bindE (config_string s (storage_volume_name s base_name)) (\<lambda>config_data.
     Inr [json_patch
       [patch_op ''add'' (''/'' @ base_name @ ''-pv'') (JObj
          [(''apiVersion'', JStr ''v1''), (''kind'', JStr ''PersistentVolumeClaim''),
           (''metadata'', JObj [(''name'', JStr base_name), (''labels'', JObj [(''name'', JStr base_name)])]),
           (''spec'', JObj
             [(''accessModes'', JArr [JStr (if rs_readonly s then ''ReadOnlyMany'' else ''ReadWriteMany'')]),
              (''resources'', JObj [(''requests'', JObj [(''storage'', JStr ''10Gi'')])]),
              (''storageClassName'', JStr storage_class)])]),
        patch_op ''add'' (''/'' @ base_name @ ''-secret'') (JObj
          [(''apiVersion'', JStr ''v1''), (''kind'', JStr ''Secret''),
           (''metadata'', JObj [(''name'', JStr base_name), (''labels'', JObj [(''name'', JStr base_name)])]),
           (''type'', JStr ''Opaque''),
           (''stringData'', JObj
             [(''remote'', JStr (storage_volume_name s base_name)), (''remotePath'', JStr (rs_source_path s)),
              (''secretKey'', JStr (rs_user_secret_key s)), (''configData'', JStr config_data)])]),
        patch_op ''add'' ''/statefulset/spec/template/spec/containers/0/volumeMounts/-'' (JObj
          [(''mountPath'', JStr (rs_mount_folder s)), (''name'', JStr base_name),
           (''readOnly'', JBool (rs_readonly s))]),
        patch_op ''add'' ''/statefulset/spec/template/spec/volumes/-'' (JObj
          [(''name'', JStr base_name),
           (''persistentVolumeClaim'', JObj
             [(''claimName'', JStr base_name), (''readOnly'', JBool (rs_readonly s))])])]])"

text \<open>The checks of a launch on the mount folders of its storages; distinct positions are distinct objects.\<close>

definition check_mounts :: "string list \<Rightarrow> unit res" where
  "check_mounts folders =
     (let mount_points = remdups (filter (\<lambda>f. f \<noteq> [] \<and> f \<noteq> ''/'') folders) in
      if length mount_points \<noteq> length folders then
        Inl (api UserInputError
          ''Storage mount points must be set, can't be at the root of the project and must be unique.'')
      else if \<exists>i \<in> set [0..<length folders]. \<exists>j \<in> set [0..<length folders].
                i \<noteq> j \<and> startswith (folders ! i) (folders ! j) then
        Inl (api UserInputError
          ''Cannot mount a cloud storage into the mount point of another cloud storage.'')
      else Inr ())"

section \<open>Reading storages back\<close>

record existing_storage =
  es_remote :: json
  es_type :: string

definition is_line_break :: "char \<Rightarrow> bool" where
  "is_line_break c \<longleftrightarrow> code c \<in> {10, 11, 12, 13, 28, 29, 30}"

lemma drop_shorter: "c # cs = drop n s \<Longrightarrow> length cs < length s"
  by (drule arg_cong [where f = length]) simp

function split_lines :: "string \<Rightarrow> string list" where
  "split_lines s =
     (let l = takeWhile (\<lambda>c. \<not> is_line_break c) s; r = drop (length l) s in
      case r of
        [] \<Rightarrow> if l = [] then [] else [l]
      | c # cs \<Rightarrow> l # split_lines (if code c = 13 \<and> startswith cs newline then drop 1 cs else cs))"
  by pat_completeness auto
termination
  by (relation "measure length") (auto dest: drop_shorter sym intro: le_less_trans)

declare split_lines.simps [simp del]

text \<open>The type in a configuration: the value after the only \<open>=\<close> of the first line that starts with \<open>type\<close>.\<close>

definition config_type :: "string \<Rightarrow> string res" where
  "config_type data =
     (case filter (\<lambda>l. startswith l ''type'') (split_lines data) of
        [] \<Rightarrow> Inr ''Unknown''
      | l # _ \<Rightarrow>
          (case splits CHR ''='' (strip is_space l) of
             [_, t] \<Rightarrow> Inr (strip is_space t)
           | _ \<Rightarrow> Inl (ValueError ''unpack'')))"

definition existing_of_patch :: "string \<Rightarrow> json \<Rightarrow> existing_storage list res" where
  "existing_of_patch storage_class patch =
     bindE (jitem patch ''op'') (\<lambda>op.
     if op = JStr ''test'' then Inr []
     else bindE (jitem patch ''value'') (\<lambda>v.
       case v of
         JObj _ \<Rightarrow>
           bindE (jget v ''kind'' JNull) (\<lambda>kind.
           bindE (jpath v [''spec'', ''csi'', ''driver''] (JStr [])) (\<lambda>driver.
           if kind = JStr ''PersistentVolume'' \<and> driver = JStr storage_class then
             bindE (bindE (jitems v [''spec'', ''csi'', ''volumeAttributes'', ''configData'']) jstr) (\<lambda>data.
             bindE (config_type data) (\<lambda>t.
             bindE (jitems v [''spec'', ''csi'', ''volumeAttributes'', ''remote'']) (\<lambda>r.
               Inr [\<lparr>es_remote = r, es_type = t\<rparr>])))
           else Inr []))
       | _ \<Rightarrow> Inr []))"

definition concatE :: "('a \<Rightarrow> 'b list res) \<Rightarrow> 'a list \<Rightarrow> 'b list res" where
  "concatE f xs = bindE (mapE f xs) (\<lambda>yss. Inr (concat yss))"

definition existing_from_manifest :: "string \<Rightarrow> json \<Rightarrow> existing_storage list res" where
  "existing_from_manifest storage_class manifest =
     bindE (bindE (jitems manifest [''spec'', ''patches'']) jiter)
       (concatE (\<lambda>coll. bindE (bindE (jitem coll ''patch'') jiter) (concatE (existing_of_patch storage_class))))"

section \<open>Mount points\<close>

lemma join_append: "xs \<noteq> [] \<Longrightarrow> ys \<noteq> [] \<Longrightarrow> join d (xs @ ys) = join d xs @ d @ join d ys"
proof (induction xs)
  case (Cons x xs)
  then show ?case by (cases xs; cases ys) auto
qed simp

lemma join_prefix: "startswith (join d (xs @ ys)) (join d xs)"
proof (cases "xs = [] \<or> ys = []")
  case True
  then show ?thesis by (auto simp: startswith_iff_prefix)
next
  case False
  then show ?thesis by (simp add: join_append startswith_iff_prefix)
qed

lemma is_relative_to_prefix:
  assumes "is_relative_to a b" and "is_absolute b"
  shows "startswith (path_str a) (path_str b)"
proof -
  obtain qs where a: "a = Path (path_root b) (path_parts b @ qs)"
    using assms(1) by (cases a) (metis append_take_drop_id is_relative_to_def path.sel)
  show ?thesis
    using assms(2) join_prefix [of "''/''" "path_parts b" qs]
    by (simp add: a path_str_def is_absolute_def startswith_iff_prefix)
qed

lemma check_mounts_Inr:
  assumes "check_mounts fs = Inr ()"
  shows "distinct fs \<and> (\<forall>i < length fs. \<forall>j < length fs. i \<noteq> j \<longrightarrow> \<not> startswith (fs ! i) (fs ! j))"
proof -
  let ?g = "filter (\<lambda>f. f \<noteq> [] \<and> f \<noteq> ''/'') fs"
  from assms have len: "length (remdups ?g) = length fs"
    and nested: "\<not> (\<exists>i \<in> set [0..<length fs]. \<exists>j \<in> set [0..<length fs]. i \<noteq> j \<and> startswith (fs ! i) (fs ! j))"
    by (auto simp: check_mounts_def Let_def split: if_splits)
  have l1: "length ?g \<le> length fs" by (rule length_filter_le)
  have l2: "length (remdups ?g) \<le> length ?g" by (rule length_remdups_leq)
  have eq: "length ?g = length fs" by (rule le_antisym [OF l1 l2 [unfolded len]])
  have eq2: "length (remdups ?g) = length ?g" by (rule trans [OF len eq [symmetric]])
  have "f \<noteq> [] \<and> f \<noteq> ''/''" if "f \<in> set fs" for f
  proof (rule ccontr)
    assume "\<not> (f \<noteq> [] \<and> f \<noteq> ''/'')"
    from length_filter_less [where P = "\<lambda>f. f \<noteq> [] \<and> f \<noteq> ''/''", OF that this] eq show False by simp
  qed
  then have g: "?g = fs" by (intro filter_True) blast
  have "distinct ?g"
    using eq2 length_remdups_eq [of ?g] distinct_remdups [of ?g] by metis
  then have "distinct fs" unfolding g .
  moreover have "\<not> startswith (fs ! i) (fs ! j)" if "i < length fs" "j < length fs" "i \<noteq> j" for i j
    using nested that unfolding set_upt by (metis atLeastLessThan_iff zero_le)
  ultimately show ?thesis by blast
qed

text \<open>
  A launch whose mount points pass the checks never mounts one storage inside another: the
  folders, which are printed absolute paths, are distinct and none of them lies below another one
  as a path.
\<close>

theorem mounts_not_nested:
  assumes "check_mounts (map path_str ps) = Inr ()" and "\<forall>p \<in> set ps. is_absolute p"
  shows "distinct ps \<and>
    (\<forall>i < length ps. \<forall>j < length ps. i \<noteq> j \<longrightarrow> \<not> is_relative_to (ps ! i) (ps ! j))"
  using check_mounts_Inr [OF assms(1)] assms(2) is_relative_to_prefix
  by (fastforce simp: distinct_map)

theorem mounts_not_nested_witness:
  "\<not> is_relative_to (path_of ''/work/a'') (path_of ''/work/b'')"
proof -
  let ?ps = "[path_of ''/work/a'', path_of ''/work/b'']"
  have "check_mounts (map path_str ?ps) = Inr ()" and "\<forall>p \<in> set ?ps. is_absolute p"
    by code_simp+
  note distinct_folders = mounts_not_nested [OF this, THEN conjunct2, rule_format, of 0 1]
  show ?thesis using distinct_folders by simp
qed

text \<open>
  The check is stricter than its message: it compares printed paths by their characters, so a
  folder and a sibling whose name continues the name of the first are rejected as nested, although
  neither path lies below the other.
\<close>

theorem sibling_mounts_rejected:
  assumes "is_absolute p" and "path_parts p \<noteq> []" and "x \<noteq> []"
    and "q = Path (path_root p) (butlast (path_parts p) @ [last (path_parts p) @ x])"
    and "path_str p \<noteq> ''/''"
  shows "\<not> is_relative_to q p \<and> \<not> is_relative_to p q \<and>
    check_mounts [path_str p, path_str q] = Inl (api UserInputError
       ''Cannot mount a cloud storage into the mount point of another cloud storage.'')"
proof -
  obtain xs y where parts: "path_parts p = xs @ [y]"
    using assms(2) by (cases "path_parts p" rule: rev_cases) auto
  have join: "join ''/'' (xs @ [y @ x]) = join ''/'' (xs @ [y]) @ x"
    by (cases "xs = []") (simp_all add: join_append)
  have q: "path_str q = path_str p @ x"
    using assms(4) parts by (simp add: path_str_def join)
  have r: "path_str p \<noteq> []" using assms(1) by (simp add: path_str_def is_absolute_def)
  have "\<not> is_relative_to q p" "\<not> is_relative_to p q"
    using assms(3,4) parts by (simp_all add: is_relative_to_def)
  moreover have "\<exists>i \<in> set [0..<2]. \<exists>j \<in> set [0..<2]. i \<noteq> j
      \<and> startswith ([path_str p, path_str q] ! i) ([path_str p, path_str q] ! j)"
    by (rule bexI [of _ 1], rule bexI [of _ 0]) (simp_all add: q)
  moreover have "path_str q \<noteq> ''/''" "path_str q \<noteq> []" "path_str q \<noteq> path_str p"
    using q r assms(3) by (cases "path_str p"; simp)+
  ultimately show ?thesis
    using r assms(5) by (auto simp: check_mounts_def Let_def numeral_2_eq_2)
qed

theorem sibling_mounts_rejected_witness:
  "\<not> is_relative_to (path_of ''/work/data2'') (path_of ''/work/data'') \<and>
   \<not> is_relative_to (path_of ''/work/data'') (path_of ''/work/data2'') \<and>
    check_mounts [path_str (path_of ''/work/data''), path_str (path_of ''/work/data2'')] = Inl (api UserInputError
       ''Cannot mount a cloud storage into the mount point of another cloud storage.'')"
  by (rule sibling_mounts_rejected [where x = "''2''"]) code_simp+

section \<open>Printing and reading the configuration\<close>

lemma foldE_parser_set_error:
  "foldE parser_set options conf = Inl e \<Longrightarrow> \<exists>m. e = ValueError m"
  by (induction conf arbitrary: options)
    (auto simp: bindE_Inl_iff parser_set_def Let_def split: if_splits)

lemma foldE_parser_set_percent:
  assumes "kv \<in> set conf" and "\<not> percent_ok (stringify (snd kv))"
  shows "\<exists>m. foldE parser_set options conf = Inl (ValueError m)"
  using assms(1)
proof (induction conf arbitrary: options)
  case (Cons x conf)
  show ?case
  proof (cases "parser_set options x")
    case (Inl e)
    then show ?thesis by (auto simp: parser_set_def Let_def split: if_splits)
  next
    case (Inr y)
    then have "x \<noteq> kv" using assms(2) by (auto simp: parser_set_def Let_def split: if_splits)
    with Cons Inr show ?thesis by simp
  qed
qed simp

text \<open>
  A storage whose configuration has a value with a percent sign that is not part of the
  parser's interpolation syntax, a secret key for example, cannot be mounted: writing its
  configuration always ends in a \<open>ValueError\<close>, which is not an error of the user's input.
\<close>

theorem percent_value_not_mountable:
  assumes "transform_configuration (rs_configuration s) = Inr conf" and "(k, v) \<in> set conf"
    and "\<not> percent_ok (stringify v)" and "rs_configuration s \<noteq> []"
  shows "\<exists>m. get_manifest_patch storage_class s base_name = Inl (ValueError m)"
  using assms foldE_parser_set_percent [of "(k, v)" conf "[]"]
  by (cases "storage_volume_name s base_name = ''DEFAULT''")
    (auto simp: get_manifest_patch_def config_string_def)

definition example_storage :: rclone_storage where
  "example_storage =
     \<lparr>rs_source_path = ''bucket'',
      rs_configuration = [(''type'', JStr ''s3''), (''provider'', JStr ''Switch''), (''secret_access_key'', JStr ''ab%cd'')],
      rs_readonly = True, rs_mount_folder = ''/work/data'', rs_name = None, rs_secrets = [],
      rs_user_secret_key = [], rs_base_name = None\<rparr>"

theorem percent_value_not_mountable_witness:
  "\<exists>m. get_manifest_patch ''csi-rclone'' example_storage ''jane-ds-0'' = Inl (ValueError m)"
proof (rule percent_value_not_mountable)
  show "transform_configuration (rs_configuration example_storage)
      = Inr [(''type'', JStr ''s3''), (''provider'', JStr ''Other''), (''secret_access_key'', JStr ''ab%cd'')]"
    by code_simp
  show "(''secret_access_key'', JStr ''ab%cd'') \<in> set [(''type'', JStr ''s3''), (''provider'', JStr ''Other''), (''secret_access_key'', JStr ''ab%cd'')]"
    by simp
  show "\<not> percent_ok (stringify (JStr ''ab%cd''))"
    by code_simp
  show "rs_configuration example_storage \<noteq> []" by code_simp
qed

text \<open>
  Storages are not found again in the sessions they were mounted in: reading the patches that
  mount a storage yields none, because the reader looks for a persistent volume and the patches
  hold a claim.
\<close>

theorem mounted_storage_not_found:
  assumes "get_manifest_patch storage_class s base_name = Inr patches"
  shows "existing_from_manifest any_class (JObj [(''spec'', JObj [(''patches'', JArr patches)])]) = Inr []"
  using assms
  by (auto simp: get_manifest_patch_def bindE_Inr_iff existing_from_manifest_def concatE_def
      json_patch_def patch_op_def existing_of_patch_def)

theorem mounted_storage_not_found_witness:
  "existing_from_manifest ''csi-rclone'' (JObj [(''spec'', JObj [(''patches'',
     JArr (projr (get_manifest_patch ''csi-rclone''
       (example_storage\<lparr>rs_configuration := [(''type'', JStr ''s3'')]\<rparr>) ''jane-ds-0'')))])]) = Inr []"
proof (rule mounted_storage_not_found)
  have "\<not> isl (get_manifest_patch ''csi-rclone''
       (example_storage\<lparr>rs_configuration := [(''type'', JStr ''s3'')]\<rparr>) ''jane-ds-0'')"
    by code_simp
  then show "get_manifest_patch ''csi-rclone''
       (example_storage\<lparr>rs_configuration := [(''type'', JStr ''s3'')]\<rparr>) ''jane-ds-0''
     = Inr (projr (get_manifest_patch ''csi-rclone''
       (example_storage\<lparr>rs_configuration := [(''type'', JStr ''s3'')]\<rparr>) ''jane-ds-0''))"
    by (simp add: sum.collapse(2))
qed

end
