(* ===== verification/Patches.thy ===== *)
theory Patches
  imports Config CloudStorage
begin

text \<open>
  The patches that turn Amalthea's default resources into a Renku session
  (\<open>api/amalthea_patches\<close>), with the session object they read (\<open>UserServer\<close> of
  \<open>api/classes/server.py\<close>) and its user secrets (\<open>api/schemas/secrets.py\<close>).  Each generator gives a
  list of patch entries.  Kubernetes model objects are the dicts that the client's
  \<open>sanitize_for_serialization\<close> makes of them: their fields in camel case, without those that are
  not set.
\<close>

section \<open>User secrets\<close>

definition BLACKLISTED_PATHS :: "string list" where
  "BLACKLISTED_PATHS = [''bin'', ''sbin'', ''usr'', ''dev'', ''proc'', ''sys'', ''lib'', ''var'']"

text \<open>\<open>PurePath.parts\<close>: the root, if there is one, is the first part.\<close>

definition all_parts :: "path \<Rightarrow> string list" where
  "all_parts p = (if path_root p = [] then path_parts p else path_root p # path_parts p)"

definition path_field_deserialize :: "string \<Rightarrow> string res" where
  "path_field_deserialize v =
     (let p = path_of v in
      if \<not> is_absolute p then Inl (Validation ''Path is not aboslute'')
      else if hd (all_parts p) \<in> set BLACKLISTED_PATHS then
        Inl (Validation (''Secrets are not allowed to be mounted in '' @ hd (all_parts p)))
      else Inr (path_str p))"

record k8s_user_secrets =
  us_name :: string
  us_secret_ids :: "string list"
  us_mount_path :: string

section \<open>The session object\<close>

record gitlab_project =
  glp_id :: int
  glp_path :: string
  glp_http_url :: string
  glp_web_url :: string
  glp_path_with_namespace :: string
  glp_visibility :: "string option"

datatype server_kind =
    Renku1 (sk_namespace: string) (sk_project: string) (sk_branch: "string option")
      (sk_commit_sha: "string option") (sk_gitlab_project: "gitlab_project option")
  | Renku2 (sk_project_id: string) (sk_launcher_id: string)

text \<open>
  The attributes of a \<open>UserServer\<close>; \<open>srv_gitlab_user\<close> is the email and the name of
  \<open>user.gitlab_user\<close>, and \<open>srv_repositories\<close> and \<open>srv_git_providers\<close> are the values of the properties.
\<close>

record user_server =
  srv_user :: user
  srv_gitlab_user :: "json \<times> json"
  srv_name :: string
  srv_image :: "string option"
  srv_options :: server_options
  srv_env :: "(string, string) dict"
  srv_user_secrets :: "k8s_user_secrets option"
  srv_cloudstorage :: "rclone_storage list"
  srv_workspace_mount_path :: path
  srv_work_dir :: path
  srv_is_image_private :: bool
  srv_repositories :: "repository list"
  srv_git_providers :: "git_provider list"
  srv_idle_seconds :: int
  srv_hibernated_seconds :: int
  srv_kind :: server_kind
  srv_namespace :: string      \<comment> \<open>\<open>k8s_client.preferred_namespace\<close>\<close>

definition registered :: "user_server \<Rightarrow> bool" where
  "registered s \<longleftrightarrow> \<not> user_anonymous (srv_user s)"

text \<open>\<open>getattr(server, 'commit_sha', None)\<close> and the like.\<close>

definition commit_sha_of :: "user_server \<Rightarrow> string option" where
  "commit_sha_of s = (case srv_kind s of Renku1 n p b c g \<Rightarrow> c | Renku2 _ _ \<Rightarrow> None)"

definition project_of :: "user_server \<Rightarrow> string option" where
  "project_of s = (case srv_kind s of Renku1 n p b c g \<Rightarrow> Some p | Renku2 _ _ \<Rightarrow> None)"

definition gitlab_path_of :: "user_server \<Rightarrow> string option" where
  "gitlab_path_of s =
     (case srv_kind s of Renku1 n p b c g \<Rightarrow> map_option glp_path g | Renku2 _ _ \<Rightarrow> None)"

definition server_url :: "notebooks_config \<Rightarrow> user_server \<Rightarrow> string" where
  "server_url cfg s =
     ''https://'' @ ingress_host (cfg_sessions cfg) @ ''/sessions/'' @ srv_name s @
     (if registered s then [] else ''?token='' @ user_username (srv_user s))"

definition required_git_providers :: "user_server \<Rightarrow> git_provider list" where
  "required_git_providers s =
     filter (\<lambda>p. \<exists>r \<in> set (srv_repositories s). repo_provider r = Some (gp_id p) \<and> gp_id p \<noteq> [])
       (srv_git_providers s)"

section \<open>Shorthands\<close>

definition ctr_path :: "nat \<Rightarrow> string \<Rightarrow> string" where
  "ctr_path n rest = ''/statefulset/spec/template/spec/containers/'' @ show_nat n @ rest"

definition init_path :: "string \<Rightarrow> string" where
  "init_path rest = ''/statefulset/spec/template/spec/initContainers/'' @ rest"

definition pod_path :: "string \<Rightarrow> string" where
  "pod_path rest = ''/statefulset/spec/template/spec/'' @ rest"

abbreviation add_op :: "string \<Rightarrow> json \<Rightarrow> json" where
  "add_op \<equiv> patch_op ''add''"

definition env_json :: "string \<Rightarrow> json \<Rightarrow> json" where
  "env_json n v = JObj [(''name'', JStr n), (''value'', v)]"

definition jpath_str :: "notebooks_config \<Rightarrow> path \<Rightarrow> json" where
  "jpath_str cfg p = JStr (path_str (absolute cfg p))"

text \<open>\<open>str(x)\<close> of an optional text.\<close>

definition str_opt :: "string option \<Rightarrow> string" where
  "str_opt x = (case x of None \<Rightarrow> ''None'' | Some s \<Rightarrow> s)"

definition request_only :: "string \<Rightarrow> string \<Rightarrow> json" where
  "request_only cpu mem = JObj [(''requests'', JObj [(''cpu'', JStr cpu), (''memory'', JStr mem)])]"

definition memory_first :: "string \<Rightarrow> string \<Rightarrow> json" where
  "memory_first mem cpu = JObj [(''requests'', JObj [(''memory'', JStr mem), (''cpu'', JStr cpu)])]"

text \<open>\<open>utils.get_certificates_volume_mounts\<close>.\<close>

definition certificates_mounts :: "notebooks_config \<Rightarrow> bool \<Rightarrow> bool \<Rightarrow> bool \<Rightarrow> json list" where
  "certificates_mounts cfg etc_certs custom_certs read_only_etc_certs =
     (if etc_certs then
        [JObj [(''mountPath'', JStr ''/etc/ssl/certs/''), (''name'', JStr ''etc-ssl-certs''),
               (''readOnly'', JBool read_only_etc_certs)]] else []) @
     (if custom_certs then
        [JObj [(''mountPath'', JStr (ca_path (cfg_sessions cfg))), (''name'', JStr ''custom-ca-certs''),
               (''readOnly'', JBool True)]] else [])"

section \<open>\<open>general\<close>\<close>

definition session_tolerations :: "notebooks_config \<Rightarrow> user_server \<Rightarrow> json list" where
  "session_tolerations cfg s =
     [json_patch [add_op (pod_path ''tolerations'') (JArr
        ([JObj [(''key'', JStr (renku_annotation_prefix @ ''dedicated'')), (''operator'', JStr ''Equal''),
                (''value'', JStr ''user''), (''effect'', JStr ''NoSchedule'')]]
         @ cfg_tolerations (cfg_sessions cfg)
         @ map toleration_match_expression (so_tolerations (srv_options s))))]]"

definition session_affinity :: "notebooks_config \<Rightarrow> user_server \<Rightarrow> json list res" where
  "session_affinity cfg s =
     (let static = cfg_affinity (cfg_sessions cfg); as = so_node_affinities (srv_options s) in
      if as = [] then Inr [json_patch [add_op (pod_path ''affinity'') static]]
      else
        bindE (bindE (jpath static [''nodeAffinity'', ''preferredDuringSchedulingIgnoredDuringExecution''] (JArr [])) jiter) (\<lambda>pref.
        bindE (bindE (jpath static [''nodeAffinity'', ''requiredDuringSchedulingIgnoredDuringExecution'', ''nodeSelectorTerms''] (JArr [])) jiter) (\<lambda>reqd.
        Inr [json_patch [add_op (pod_path ''affinity'') (JObj [(''nodeAffinity'', JObj
          [(''preferredDuringSchedulingIgnoredDuringExecution'', JArr (pref @
              [JObj [(''weight'', JInt 1),
                 (''preference'', JObj [(''matchExpressions'',
                    JArr (map affinity_match_expression (filter (\<lambda>a. \<not> required_during_scheduling a) as)))])]])),
           (''requiredDuringSchedulingIgnoredDuringExecution'', JObj [(''nodeSelectorTerms'', JArr (reqd @
              [JObj [(''matchExpressions'',
                 JArr (map affinity_match_expression (filter required_during_scheduling as)))]]))])])])]])))"

definition session_node_selector :: "notebooks_config \<Rightarrow> user_server \<Rightarrow> json list" where
  "session_node_selector cfg s =
     (if so_node_affinities (srv_options s) = []
      then [json_patch [add_op (pod_path ''nodeSelector'') (node_selector (cfg_sessions cfg))]] else [])"

definition priority_class_patch :: "user_server \<Rightarrow> json list" where
  "priority_class_patch s =
     (case so_priority_class (srv_options s) of
        None \<Rightarrow> []
      | Some p \<Rightarrow> [json_patch [add_op (pod_path ''priorityClassName'') (JStr p)]])"

definition test_patches :: "notebooks_config \<Rightarrow> user_server \<Rightarrow> json list" where
  "test_patches cfg s =
     map (\<lambda>(i, n). json_patch [patch_op ''test'' (ctr_path i ''/name'') (JStr n)])
       (enumerate 0
         (if registered s then take 2 (containers_registered (cfg_sessions cfg))
          else take 1 (containers_anonymous (cfg_sessions cfg))))"

definition oidc_unverified_email :: "notebooks_config \<Rightarrow> user_server \<Rightarrow> json list" where
  "oidc_unverified_email cfg s =
     (if registered s then
        [json_patch [add_op (ctr_path 1 ''/env/-'')
           (env_json ''OAUTH2_PROXY_INSECURE_OIDC_ALLOW_UNVERIFIED_EMAIL''
             (JStr (bool_lower (oidc_allow_unverified_email (cfg_sessions cfg)))))]]
      else [])"

text \<open>Half of the memory request where that is an \<open>int\<close>, as \<open>int(memory / 2)\<close> of a float division.\<close>

definition dev_shm :: "user_server \<Rightarrow> json list" where
  "dev_shm s =
     [json_patch
       [add_op (pod_path ''volumes/-'') (JObj [(''name'', JStr ''shm''),
          (''emptyDir'', JObj [(''medium'', JStr ''Memory''),
             (''sizeLimit'',
                case so_memory (srv_options s) of
                  PInt m \<Rightarrow> JInt (pn_trunc (pn_div (PInt m) (PInt 2)))
                | PFloat _ \<Rightarrow> JStr ''1Gi'')])]),
        add_op (ctr_path 0 ''/volumeMounts/-'')
          (JObj [(''mountPath'', JStr ''/dev/shm''), (''name'', JStr ''shm'')])]]"

section \<open>\<open>jupyter_server\<close>\<close>

definition server_env_vars :: "notebooks_config \<Rightarrow> user_server \<Rightarrow> (string, json) dict" where
  "server_env_vars cfg s =
     [(''RENKU_USERNAME'', JStr (user_username (srv_user s))),
      (''CI_COMMIT_SHA'', jopt (commit_sha_of s)),
      (''NOTEBOOK_DIR'', jpath_str cfg (srv_work_dir s)),
      (''MOUNT_PATH'', jpath_str cfg (srv_work_dir s)),
      (''SESSION_URL'', JStr (server_url cfg s)),
      (''PROJECT_NAME'', jopt (project_of s)),
      (''GIT_CLONE_REPO'', JStr ''true'')]"

definition env_patch :: "string \<times> json \<Rightarrow> json" where
  "env_patch kv = add_op (ctr_path 0 ''/env/-'') (env_json (fst kv) (snd kv))"

definition override_error :: "string \<Rightarrow> exc" where
  "override_error k = api OverriddenEnvironmentVariableError (''Cannot override environment variable '' @ k)"

definition check_override :: "(string, json) dict \<Rightarrow> string \<times> string \<Rightarrow> unit res" where
  "check_override env_vars kv =
     (case dget env_vars (fst kv) of
        Some v \<Rightarrow>
          if JStr (snd kv) \<noteq> v then
            Inl (override_error (fst kv))
          else Inr ()
      | None \<Rightarrow> Inr ())"

definition jupyter_env :: "notebooks_config \<Rightarrow> user_server \<Rightarrow> json list res" where
  "jupyter_env cfg s =
     (let env_vars = server_env_vars cfg s in
      bindE (mapE (check_override env_vars) (srv_env s)) (\<lambda>_.
      Inr [json_patch (map env_patch (env_vars @ map (\<lambda>(k, v). (k, JStr v)) (srv_env s)))]))"

definition args_patch :: "json list" where
  "args_patch = [json_patch [add_op (ctr_path 0 ''/args'') (JArr [JStr ''jupyter'', JStr ''notebook''])]]"

definition image_pull_secret :: "notebooks_config \<Rightarrow> user_server \<Rightarrow> json list" where
  "image_pull_secret cfg s =
     (if srv_is_image_private s then
        let image_pull_secret_name = srv_name s @ ''-image-secret'';
            registry_secret = JObj [(''auths'', JObj [(cfg_git_registry cfg, JObj
              [(''Username'', JStr ''oauth2''), (''Password'', jopt (user_git_token (srv_user s))),
               (''Email'', fst (srv_gitlab_user s))])])]
        in [json_patch [add_op ''/image_pull_secret'' (JObj
              [(''apiVersion'', JStr ''v1''),
               (''data'', JObj [(''.dockerconfigjson'', JStr (b64_json_dumps registry_secret))]),
               (''kind'', JStr ''Secret''),
               (''metadata'', JObj [(''name'', JStr image_pull_secret_name), (''namespace'', JStr (srv_namespace s))]),
               (''type'', JStr ''kubernetes.io/dockerconfigjson'')])],
            json_patch [add_op (pod_path ''imagePullSecrets/-'') (JObj [(''name'', JStr image_pull_secret_name)])]]
      else [])"

definition disable_service_links :: "json list" where
  "disable_service_links = [json_patch [add_op (pod_path ''enableServiceLinks'') (JBool False)]]"

definition rstudio_env_variables :: "user_server \<Rightarrow> json list" where
  "rstudio_env_variables s =
     (if srv_env s = [] then []
      else
        let secret_name = srv_name s @ ''-renviron'' in
        [json_patch
          [add_op ''/renviron'' (JObj
             [(''apiVersion'', JStr ''v1''), (''kind'', JStr ''Secret''),
              (''metadata'', JObj [(''name'', JStr secret_name)]),
              (''stringData'', JObj [(''.Renviron'',
                 JStr (join newline (map (\<lambda>(k, v). k @ ''='' @ v) (srv_env s))))])]),
           add_op (pod_path ''volumes/-'') (JObj
             [(''name'', JStr secret_name), (''secret'', JObj [(''secretName'', JStr secret_name)])]),
           add_op (ctr_path 0 ''/volumeMounts/-'') (JObj
             [(''name'', JStr secret_name), (''mountPath'', JStr ''/home/jovyan/.Renviron''),
              (''subPath'', JStr ''.Renviron''), (''readOnly'', JBool True)])]])"

definition init_user_secrets_container :: "notebooks_config \<Rightarrow> user_server \<Rightarrow> k8s_user_secrets \<Rightarrow> json" where
  "init_user_secrets_container cfg s us = JObj
     [(''env'', JArr
        [env_json ''DATA_SERVICE_URL'' (JStr (data_service_url cfg)),
         env_json ''RENKU_ACCESS_TOKEN'' (JStr (str_opt (user_access_token (srv_user s)))),
         env_json ''ENCRYPTED_SECRETS_MOUNT_PATH'' (JStr ''/encrypted''),
         env_json ''DECRYPTED_SECRETS_MOUNT_PATH'' (JStr ''/decrypted'')]),
      (''image'', JStr (user_secrets_image cfg)), (''name'', JStr ''init-user-secrets''),
      (''resources'', request_only ''50m'' ''50Mi''),
      (''volumeMounts'', JArr
        [JObj [(''mountPath'', JStr ''/encrypted''), (''name'', JStr (us_name us @ ''-volume'')), (''readOnly'', JBool True)],
         JObj [(''mountPath'', JStr ''/decrypted''), (''name'', JStr ''user-secrets-volume''), (''readOnly'', JBool False)]])]"

definition user_secrets_patches :: "notebooks_config \<Rightarrow> user_server \<Rightarrow> json list" where
  "user_secrets_patches cfg s =
     (case srv_user_secrets s of
        None \<Rightarrow> []
      | Some us \<Rightarrow>
          [json_patch [add_op (init_path ''-'') (init_user_secrets_container cfg s us)],
           json_patch
             [add_op (pod_path ''volumes/-'') (JObj
                [(''emptyDir'', JObj [(''medium'', JStr ''Memory'')]), (''name'', JStr ''user-secrets-volume'')]),
              add_op (pod_path ''volumes/-'') (JObj
                [(''name'', JStr (us_name us @ ''-volume'')), (''secret'', JObj [(''secretName'', JStr (us_name us))])])],
           json_patch [add_op (ctr_path 0 ''/volumeMounts/-'') (JObj
              [(''mountPath'', JStr (us_mount_path us)), (''name'', JStr ''user-secrets-volume''),
               (''readOnly'', JBool True)])]])"

section \<open>\<open>git_proxy\<close>\<close>

definition repository_json :: "repository \<Rightarrow> json" where
  "repository_json r = JObj
     [(''url'', JStr (repo_url r)), (''provider'', jopt (repo_provider r)),
      (''dirname'', jopt (repo_dirname r)), (''branch'', jopt (repo_branch r)),
      (''commit_sha'', jopt (repo_commit_sha r))]"

definition provider_json :: "git_provider \<Rightarrow> json" where
  "provider_json p = JObj
     [(''id'', JStr (gp_id p)), (''access_token_url'', JStr (gp_access_token_url p))]"

definition git_proxy_env :: "notebooks_config \<Rightarrow> user_server \<Rightarrow> json list" where
  "git_proxy_env cfg s =
     (let gp = cfg_git_proxy (cfg_sessions cfg); u = srv_user s in
      [env_json ''GIT_PROXY_PORT'' (JStr (show_int (gpx_port gp))),
       env_json ''GIT_PROXY_HEALTH_PORT'' (JStr (show_int (gpx_health_port gp))),
       env_json ''GIT_PROXY_ANONYMOUS_SESSION'' (JStr (if user_anonymous u then ''true'' else ''false'')),
       env_json ''GIT_PROXY_RENKU_ACCESS_TOKEN'' (JStr (str_opt (user_access_token u))),
       env_json ''GIT_PROXY_RENKU_REFRESH_TOKEN'' (JStr (str_opt (user_refresh_token u))),
       env_json ''GIT_PROXY_RENKU_REALM'' (JStr (keycloak_realm cfg)),
       env_json ''GIT_PROXY_RENKU_CLIENT_ID'' (JStr (gpx_renku_client_id gp)),
       env_json ''GIT_PROXY_RENKU_CLIENT_SECRET'' (JStr (gpx_renku_client_secret gp)),
       env_json ''GIT_PROXY_RENKU_URL'' (JStr (''https://'' @ ingress_host (cfg_sessions cfg))),
       env_json ''GIT_PROXY_REPOSITORIES''
         (JStr (json_dumps (JArr (map repository_json (srv_repositories s))))),
       env_json ''GIT_PROXY_PROVIDERS''
         (JStr (json_dumps (JArr (map provider_json (srv_git_providers s)))))])"

definition security_context :: "int \<Rightarrow> json" where
  "security_context run_as_group = JObj
     [(''fsGroup'', JInt 100), (''runAsGroup'', JInt run_as_group), (''runAsUser'', JInt 1000),
      (''allowPrivilegeEscalation'', JBool False), (''runAsNonRoot'', JBool True)]"

definition health_probe :: "notebooks_config \<Rightarrow> json" where
  "health_probe cfg = JObj
     [(''httpGet'', JObj [(''path'', JStr ''/health''),
        (''port'', JInt (gpx_health_port (cfg_git_proxy (cfg_sessions cfg))))]),
      (''initialDelaySeconds'', JInt 3)]"

definition git_proxy_main :: "notebooks_config \<Rightarrow> user_server \<Rightarrow> json list" where
  "git_proxy_main cfg s =
     (if user_anonymous (srv_user s) \<or> srv_repositories s = [] then []
      else [json_patch [add_op (pod_path ''containers/-'') (JObj
        [(''image'', JStr (gpx_image (cfg_git_proxy (cfg_sessions cfg)))),
         (''securityContext'', security_context 1000), (''name'', JStr ''git-proxy''),
         (''env'', JArr (git_proxy_env cfg s)),
         (''livenessProbe'', health_probe cfg), (''readinessProbe'', health_probe cfg),
         (''volumeMounts'', JArr (certificates_mounts cfg True False True)),
         (''resources'', memory_first ''16Mi'' ''50m'')])]])"

section \<open>\<open>git_sidecar\<close>\<close>

definition sentry_env_vars :: "string \<Rightarrow> sentry_config \<Rightarrow> notebooks_config \<Rightarrow> json list" where
  "sentry_env_vars pre sc cfg =
     [env_json (pre @ ''SENTRY__ENABLED'') (JStr (bool_lower (sentry_enabled sc))),
      env_json (pre @ ''SENTRY__DSN'') (jopt (sentry_dsn sc)),
      env_json (pre @ ''SENTRY__ENVIRONMENT'') (jopt (sentry_env sc)),
      env_json (pre @ ''SENTRY__SAMPLE_RATE'') (JStr (float_repr (sentry_sample_rate sc))),
      env_json ''SENTRY_RELEASE'' (jopt (cfg_sentry_release cfg))]"

definition sidecar_url :: "user_server \<Rightarrow> string \<Rightarrow> string" where
  "sidecar_url s rest = ''/sessions/'' @ srv_name s @ ''/sidecar/'' @ rest"

definition git_sidecar_env :: "notebooks_config \<Rightarrow> user_server \<Rightarrow> json list" where
  "git_sidecar_env cfg s =
     (let rpc = cfg_git_rpc (cfg_sessions cfg) in
      [env_json ''GIT_RPC_MOUNT_PATH'' (jpath_str cfg (srv_work_dir s)),
       env_json ''GIT_RPC_PORT'' (JStr (show_int (rpc_port rpc))),
       env_json ''GIT_RPC_HOST'' (JStr (rpc_host rpc)),
       env_json ''GIT_RPC_URL_PREFIX'' (JStr (sidecar_url s []))]
      @ sentry_env_vars ''GIT_RPC_'' (rpc_sentry rpc) cfg
      @ [env_json ''CI_COMMIT_SHA'' (JStr (str_opt (commit_sha_of s))),
         env_json ''RENKU_USERNAME'' (JStr (user_username (srv_user s))),
         env_json ''GIT_RPC_GIT_PROXY_HEALTH_PORT''
           (JStr (show_int (gpx_health_port (cfg_git_proxy (cfg_sessions cfg)))))])"

definition sidecar_probe :: "notebooks_config \<Rightarrow> user_server \<Rightarrow> int \<Rightarrow> json" where
  "sidecar_probe cfg s failures = JObj
     [(''httpGet'', JObj [(''port'', JInt (rpc_port (cfg_git_rpc (cfg_sessions cfg)))),
        (''path'', JStr (sidecar_url s ''health''))]),
      (''periodSeconds'', JInt 10), (''failureThreshold'', JInt failures)]"

definition sidecar_container :: "notebooks_config \<Rightarrow> user_server \<Rightarrow> json" where
  "sidecar_container cfg s = JObj
     [(''image'', JStr (rpc_image (cfg_git_rpc (cfg_sessions cfg)))), (''name'', JStr ''git-sidecar''),
      (''ports'', JArr [JObj [(''containerPort'', JInt (rpc_port (cfg_git_rpc (cfg_sessions cfg)))),
         (''name'', JStr ''git-port''), (''protocol'', JStr ''TCP'')]]),
      (''resources'', memory_first ''84Mi'' ''100m''),
      (''env'', JArr (git_sidecar_env cfg s)),
      (''securityContext'', security_context 1000),
      (''volumeMounts'', JArr [JObj
         ([(''mountPath'', jpath_str cfg (srv_work_dir s)), (''name'', JStr ''workspace'')] @
          (case gitlab_path_of s of
             None \<Rightarrow> []
           | Some p \<Rightarrow> if p = [] then [] else [(''subPath'', JStr p)]))]),
      (''livenessProbe'', sidecar_probe cfg s 2),
      (''readinessProbe'', sidecar_probe cfg s 6),
      (''startupProbe'', sidecar_probe cfg s 30)]"

definition oauth2_arg :: "string \<Rightarrow> json" where
  "oauth2_arg a = add_op (ctr_path 1 ''/args/-'') (JStr a)"

definition git_sidecar_main :: "notebooks_config \<Rightarrow> user_server \<Rightarrow> json list" where
  "git_sidecar_main cfg s =
     (if \<not> registered s then []
      else if srv_repositories s = [] then []
      else
        [json_patch [add_op (pod_path ''containers/-'') (sidecar_container cfg s)],
         json_patch
           [patch_op ''replace'' (ctr_path 1 ''/args/6'')
              (JStr (''--upstream=http://127.0.0.1:8888/sessions/'' @ srv_name s @ ''/'')),
            oauth2_arg (''--upstream=http://127.0.0.1:'' @ show_int (rpc_port (cfg_git_rpc (cfg_sessions cfg)))
              @ sidecar_url s []),
            oauth2_arg (''--skip-auth-route=^'' @ sidecar_url s ''health$''),
            oauth2_arg (''--skip-auth-route=^'' @ sidecar_url s ''health/$''),
            oauth2_arg ''--skip-jwt-bearer-tokens=true'',
            oauth2_arg (''--skip-auth-route=^'' @ sidecar_url s ''jsonrpc/map$''),
            oauth2_arg ''--oidc-extra-audience=renku''],
         json_patch [add_op ''/serviceRpcServer'' (JObj
           [(''apiVersion'', JStr ''v1''), (''kind'', JStr ''Service''),
            (''metadata'', JObj [(''name'', JStr (srv_name s @ ''-rpc-server'')),
               (''namespace'', JStr (srv_namespace s))]),
            (''spec'', JObj
              [(''ports'', JArr [JObj [(''name'', JStr ''http''), (''port'', JInt 80), (''protocol'', JStr ''TCP''),
                  (''targetPort'', JInt (rpc_port (cfg_git_rpc (cfg_sessions cfg))))]]),
               (''selector'', JObj [(''app'', JStr (srv_name s))])])])]])"

section \<open>\<open>ssh\<close>\<close>

definition ssh_main :: "notebooks_config \<Rightarrow> json list" where
  "ssh_main cfg =
     (let ssh = cfg_ssh (cfg_sessions cfg) in
      if \<not> ssh_enabled ssh then []
      else
        [json_patch
           [add_op ''/service/spec/ports/-'' (JObj
              [(''name'', JStr ''ssh''), (''port'', JInt (ssh_service_port ssh)),
               (''protocol'', JStr ''TCP''), (''targetPort'', JStr ''ssh'')]),
            add_op (ctr_path 0 ''/ports'') (JArr [JObj
              [(''name'', JStr ''ssh''), (''containerPort'', JInt (ssh_container_port ssh)),
               (''protocol'', JStr ''TCP'')]])]] @
        (case ssh_host_key_secret ssh of
           None \<Rightarrow> []
         | Some secret \<Rightarrow>
             if secret = [] then []
             else [json_patch
               [add_op (ctr_path 0 ''/volumeMounts/-'') (JObj
                  [(''name'', JStr ''ssh-host-keys''), (''mountPath'', JStr (ssh_host_key_location ssh))]),
                add_op (pod_path ''volumes/-'') (JObj
                  [(''name'', JStr ''ssh-host-keys''),
                   (''secret'', JObj [(''secretName'', JStr secret)])])]]))"

section \<open>\<open>init_containers\<close>\<close>

definition etc_ca_file :: string where
  "etc_ca_file = path_str (path_join (path_of ''/etc/ssl/certs/'') (path_of ''ca-certificates.crt''))"

definition git_clone_env :: "notebooks_config \<Rightarrow> user_server \<Rightarrow> json list" where
  "git_clone_env cfg s =
     (let u = srv_user s in
      [env_json ''GIT_CLONE_MOUNT_PATH'' (jpath_str cfg (srv_workspace_mount_path s)),
       env_json ''GIT_CLONE_LFS_AUTO_FETCH''
         (JStr (if so_lfs_auto_fetch (srv_options s) = Some True then ''1'' else ''0'')),
       env_json ''GIT_CLONE_USER__USERNAME'' (JStr (user_username u)),
       env_json ''GIT_CLONE_USER__RENKU_TOKEN'' (JStr (str_opt (user_access_token u))),
       env_json ''GIT_CLONE_IS_GIT_PROXY_ENABLED'' (JStr (if user_anonymous u then ''0'' else ''1''))]
      @ sentry_env_vars ''GIT_CLONE_'' (gcl_sentry (cfg_git_clone (cfg_sessions cfg))) cfg
      @ [env_json ''REQUESTS_CA_BUNDLE'' (JStr etc_ca_file),
         env_json ''SSL_CERT_FILE'' (JStr etc_ca_file)]
      @ (if user_anonymous u then []
         else [env_json ''GIT_CLONE_USER__EMAIL'' (fst (srv_gitlab_user s)),
               env_json ''GIT_CLONE_USER__FULL_NAME'' (snd (srv_gitlab_user s))])
      @ map (\<lambda>(i, r). env_json (''GIT_CLONE_REPOSITORIES_'' @ show_nat i @ ''_'')
                (JStr (json_dumps (repository_json r))))
          (enumerate 0 (srv_repositories s))
      @ map (\<lambda>(i, p). env_json (''GIT_CLONE_GIT_PROVIDERS_'' @ show_nat i @ ''_'')
                (JStr (json_dumps (provider_json p))))
          (enumerate 0 (required_git_providers s)))"

definition git_clone_container :: "notebooks_config \<Rightarrow> user_server \<Rightarrow> json" where
  "git_clone_container cfg s = JObj
     [(''image'', JStr (gcl_image (cfg_git_clone (cfg_sessions cfg)))), (''name'', JStr ''git-clone''),
      (''resources'', request_only ''100m'' ''100Mi''),
      (''securityContext'', security_context 100),
      (''volumeMounts'', JArr
         (JObj [(''mountPath'', jpath_str cfg (srv_workspace_mount_path s)), (''name'', JStr ''workspace'')]
          # certificates_mounts cfg True False True)),
      (''env'', JArr (git_clone_env cfg s))]"

definition git_clone :: "notebooks_config \<Rightarrow> user_server \<Rightarrow> json list" where
  "git_clone cfg s =
     (if srv_repositories s = [] then []
      else [json_patch [add_op (init_path ''-'') (git_clone_container cfg s)]])"

definition init_certificates_container :: "notebooks_config \<Rightarrow> json" where
  "init_certificates_container cfg = JObj
     [(''image'', JStr (ca_image (cfg_sessions cfg))), (''name'', JStr ''init-certificates''),
      (''resources'', request_only ''50m'' ''50Mi''),
      (''volumeMounts'', JArr (certificates_mounts cfg True True False))]"

text \<open>The secret of one entry of \<open>config.sessions.ca_certs.secrets\<close>, if it names one.\<close>

definition secret_source :: "json \<Rightarrow> json list res" where
  "secret_source i =
     (if i = JNull then Inr []
      else bindE (jget i ''secret'' JNull) (\<lambda>n.
        Inr (if n = JNull then [] else [JObj [(''secret'', JObj [(''name'', n)])]])))"

definition certificates :: "notebooks_config \<Rightarrow> json list res" where
  "certificates cfg =
     bindE (concatE secret_source (ca_secrets (cfg_sessions cfg))) (\<lambda>sources.
     Inr
       [json_patch [add_op (init_path ''-'') (init_certificates_container cfg)],
        json_patch [add_op (pod_path ''volumes/-'') (JObj
          [(''emptyDir'', JObj [(''medium'', JStr ''Memory'')]), (''name'', JStr ''etc-ssl-certs'')])],
        json_patch [add_op (pod_path ''volumes/-'') (JObj
          [(''name'', JStr ''custom-ca-certs''),
           (''projected'', JObj [(''defaultMode'', JInt 440), (''sources'', JArr sources)])])]])"

definition download_image_container :: "user_server \<Rightarrow> json" where
  "download_image_container s = JObj
     ([(''args'', JArr [JStr ''exit'', JStr ''0'']), (''command'', JArr [JStr ''sh'', JStr ''-c''])] @
      (case srv_image s of None \<Rightarrow> [] | Some i \<Rightarrow> [(''image'', JStr i)]) @
      [(''name'', JStr ''download-image''), (''resources'', request_only ''50m'' ''50Mi'')])"

definition download_image :: "user_server \<Rightarrow> json list" where
  "download_image s = [json_patch [add_op (init_path ''-'') (download_image_container s)]]"

section \<open>\<open>inject_certificates\<close> and \<open>cloudstorage\<close>\<close>

definition proxy_certificates :: "notebooks_config \<Rightarrow> user_server \<Rightarrow> json list" where
  "proxy_certificates cfg s =
     json_patch (map (add_op (ctr_path 1 ''/volumeMounts/-'')) (certificates_mounts cfg True False True)) #
     (if registered s then
        [json_patch [add_op (ctr_path 1 ''/env/-'')
          (env_json ''OAUTH2_PROXY_PROVIDER_CA_FILES'' (JStr etc_ca_file))]]
      else [])"

definition storage_mount_op :: "nat \<Rightarrow> rclone_storage \<Rightarrow> json" where
  "storage_mount_op i st = add_op (init_path ''2/env/-'')
     (env_json (''GIT_CLONE_STORAGE_MOUNTS_'' @ show_nat i) (JStr (rs_mount_folder st)))"

definition storage_mount_patch :: "nat \<Rightarrow> rclone_storage \<Rightarrow> json" where
  "storage_mount_patch i st = json_patch [storage_mount_op i st]"

definition cloudstorage_main :: "notebooks_config \<Rightarrow> user_server \<Rightarrow> json list res" where
  "cloudstorage_main cfg s =
     concatE (\<lambda>(i, st).
         bindE (get_manifest_patch (cloud_storage_class cfg) st (srv_name s @ ''-ds-'' @ show_nat i)) (\<lambda>ps.
         Inr (ps @ (if srv_repositories s = [] then [] else [storage_mount_patch i st]))))
       (enumerate 0 (srv_cloudstorage s))"

section \<open>The shape of the patches\<close>

text \<open>
  What a launch relies on when it inspects the patches: each entry is a JSON patch, and an operation
  that appends to an \<open>env\<close> list has a name and a value.
\<close>

definition is_env_path :: "string \<Rightarrow> bool" where
  "is_env_path p \<longleftrightarrow> endswith (lower p) ''/env/-''"

definition env_op :: "json \<Rightarrow> bool" where
  "env_op v \<longleftrightarrow> (\<exists>n x. v = env_json n x)"

definition wf_op :: "json \<Rightarrow> bool" where
  "wf_op q \<longleftrightarrow> (\<exists>verb path v. q = patch_op verb path v \<and> (is_env_path path \<longrightarrow> env_op v))"

definition wf_patch :: "json \<Rightarrow> bool" where
  "wf_patch p \<longleftrightarrow> (\<exists>ops. p = json_patch ops \<and> (\<forall>q \<in> set ops. wf_op q))"

lemma wf_patch_json_patch [simp]: "wf_patch (json_patch ops) \<longleftrightarrow> (\<forall>q \<in> set ops. wf_op q)"
  by (auto simp: wf_patch_def json_patch_def)

lemma wf_op_patch_op [simp]: "wf_op (patch_op verb path v) \<longleftrightarrow> (is_env_path path \<longrightarrow> env_op v)"
  by (auto simp: wf_op_def patch_op_def)

lemma env_op_env_json [simp]: "env_op (env_json n x)"
  by (auto simp: env_op_def)

lemma endswith_append: "length t \<le> length s \<Longrightarrow> endswith (r @ s) t = endswith s t"
  by (auto simp: endswith_def startswith_iff_prefix intro: prefix_length_prefix [where xs = "rev s @ rev r"])

lemma is_env_path_append: "6 \<le> length r \<Longrightarrow> is_env_path (s @ r) = is_env_path r"
  by (simp add: is_env_path_def lower_append endswith_append)

lemma is_env_path_last: "is_env_path p \<Longrightarrow> lower_char (last p) = CHR ''-''"
  by (cases p rule: rev_cases) (auto simp: is_env_path_def lower_def endswith_def)

lemma is_env_path_ctr: "6 \<le> length r \<Longrightarrow> is_env_path (ctr_path i r) = is_env_path r"
  unfolding ctr_path_def by (simp only: append_assoc [symmetric] is_env_path_append)

lemma last_ctr_path: "r \<noteq> [] \<Longrightarrow> last (ctr_path i r) = last r"
  by (simp add: ctr_path_def)

lemma not_env_rests:
  "\<not> is_env_path ''/volumeMounts/-''" "\<not> is_env_path ''/args/-''" "\<not> is_env_path ''/args/6''"
  "\<not> is_env_path ''-secret''" "lower_char CHR ''e'' \<noteq> CHR ''-''" "lower_char CHR ''s'' \<noteq> CHR ''-''"
  "lower_char CHR ''v'' \<noteq> CHR ''-''"
  by code_simp+

text \<open>The paths the generators use that do not append to an \<open>env\<close> list.\<close>

lemma not_env_paths [simp]:
  "\<not> is_env_path (ctr_path i ''/volumeMounts/-'')" "\<not> is_env_path (ctr_path i ''/args/-'')"
  "\<not> is_env_path (ctr_path i ''/args/6'')"
  by (simp_all only: is_env_path_ctr not_env_rests list.size) simp_all

lemma not_env_short [simp]:
  "\<not> is_env_path (ctr_path i ''/name'')" "\<not> is_env_path (ctr_path i ''/args'')"
  "\<not> is_env_path (ctr_path i ''/ports'')"
  by (auto dest!: is_env_path_last simp: last_ctr_path not_env_rests)

lemma not_env_storage [simp]:
  "\<not> is_env_path (CHR ''/'' # base @ ''-pv'')" "\<not> is_env_path (CHR ''/'' # base @ ''-secret'')"
  by (auto dest!: is_env_path_last simp: not_env_rests) code_simp

lemma not_env_fixed [simp]:
  "\<not> is_env_path (pod_path ''tolerations'')" "\<not> is_env_path (pod_path ''affinity'')"
  "\<not> is_env_path (pod_path ''nodeSelector'')" "\<not> is_env_path (pod_path ''priorityClassName'')"
  "\<not> is_env_path (pod_path ''volumes/-'')" "\<not> is_env_path (pod_path ''imagePullSecrets/-'')"
  "\<not> is_env_path (pod_path ''enableServiceLinks'')" "\<not> is_env_path (pod_path ''containers/-'')"
  "\<not> is_env_path (init_path ''-'')" "\<not> is_env_path ''/image_pull_secret''" "\<not> is_env_path ''/renviron''"
  "\<not> is_env_path ''/serviceRpcServer''" "\<not> is_env_path ''/service/spec/ports/-''"
  "\<not> is_env_path ''/statefulset/spec/template/spec/containers/0/volumeMounts/-''"
  "\<not> is_env_path ''/statefulset/spec/template/spec/volumes/-''"
  by code_simp+

section \<open>The contract of a generator\<close>

text \<open>
  Every generator, whether or not it can fail, gives only patches of that shape: what the check on
  environment variables and the readers of a manifest rely on.
\<close>

locale patch_source =
  fixes gen :: "notebooks_config \<Rightarrow> user_server \<Rightarrow> json list res"
  assumes shaped: "gen cfg s = Inr ps \<Longrightarrow> p \<in> set ps \<Longrightarrow> wf_patch p"
begin

lemma followed_by:
  assumes "patch_source gen'"
  shows "patch_source (\<lambda>cfg s. bindE (gen cfg s) (\<lambda>ps. bindE (gen' cfg s) (\<lambda>qs. Inr (ps @ qs))))"
  using assms shaped unfolding patch_source_def by (auto simp: bindE_Inr_iff)

end

lemma patch_source_pure:
  "(\<And>cfg s p. p \<in> set (f cfg s) \<Longrightarrow> wf_patch p) \<Longrightarrow> patch_source (\<lambda>cfg s. Inr (f cfg s))"
  by (simp add: patch_source_def)

interpretation tolerations: patch_source "\<lambda>cfg s. Inr (session_tolerations cfg s)"
  by (rule patch_source_pure) (simp add: session_tolerations_def)

interpretation affinity: patch_source session_affinity
  by unfold_locales (auto simp: session_affinity_def Let_def bindE_Inr_iff split: if_splits)

interpretation node_sel: patch_source "\<lambda>cfg s. Inr (session_node_selector cfg s)"
  by (rule patch_source_pure) (simp add: session_node_selector_def split: if_splits)

interpretation priority: patch_source "\<lambda>cfg s. Inr (priority_class_patch s)"
  by (rule patch_source_pure) (auto simp: priority_class_patch_def split: option.splits)

interpretation tests: patch_source "\<lambda>cfg s. Inr (test_patches cfg s)"
  by (rule patch_source_pure) (auto simp: test_patches_def)

interpretation unverified_email: patch_source "\<lambda>cfg s. Inr (oidc_unverified_email cfg s)"
  by (rule patch_source_pure) (auto simp: oidc_unverified_email_def split: if_splits)

interpretation shm: patch_source "\<lambda>cfg s. Inr (dev_shm s)"
  by (rule patch_source_pure) (auto simp: dev_shm_def)

interpretation jupyter: patch_source jupyter_env
  by unfold_locales (auto simp: jupyter_env_def env_patch_def Let_def bindE_Inr_iff)

interpretation arguments: patch_source "\<lambda>cfg s. Inr args_patch"
  by (rule patch_source_pure) (auto simp: args_patch_def)

interpretation pull_secret: patch_source "\<lambda>cfg s. Inr (image_pull_secret cfg s)"
  by (rule patch_source_pure) (auto simp: image_pull_secret_def Let_def split: if_splits)

interpretation service_links: patch_source "\<lambda>cfg s. Inr disable_service_links"
  by (rule patch_source_pure) (auto simp: disable_service_links_def)

interpretation renviron: patch_source "\<lambda>cfg s. Inr (rstudio_env_variables s)"
  by (rule patch_source_pure) (auto simp: rstudio_env_variables_def Let_def split: if_splits)

interpretation user_secret_mounts: patch_source "\<lambda>cfg s. Inr (user_secrets_patches cfg s)"
  by (rule patch_source_pure) (auto simp: user_secrets_patches_def split: option.splits)

interpretation git_proxy: patch_source "\<lambda>cfg s. Inr (git_proxy_main cfg s)"
  by (rule patch_source_pure) (auto simp: git_proxy_main_def split: if_splits)

interpretation git_sidecar: patch_source "\<lambda>cfg s. Inr (git_sidecar_main cfg s)"
  by (rule patch_source_pure) (auto simp: git_sidecar_main_def oauth2_arg_def split: if_splits)

interpretation ssh: patch_source "\<lambda>cfg s. Inr (ssh_main cfg)"
  by (rule patch_source_pure) (auto simp: ssh_main_def Let_def split: if_splits option.splits)

interpretation certs: patch_source "\<lambda>cfg s. certificates cfg"
  by unfold_locales (auto simp: certificates_def bindE_Inr_iff)

interpretation image_download: patch_source "\<lambda>cfg s. Inr (download_image s)"
  by (rule patch_source_pure) (auto simp: download_image_def)

interpretation cloning: patch_source "\<lambda>cfg s. Inr (git_clone cfg s)"
  by (rule patch_source_pure) (auto simp: git_clone_def split: if_splits)

interpretation proxy_certs: patch_source "\<lambda>cfg s. Inr (proxy_certificates cfg s)"
  by (rule patch_source_pure) (auto simp: proxy_certificates_def split: if_splits)

lemma concatE_Inr_set:
  "concatE f xs = Inr ys \<Longrightarrow> y \<in> set ys \<Longrightarrow> \<exists>x \<in> set xs. \<exists>zs. f x = Inr zs \<and> y \<in> set zs"
  by (auto simp: concatE_def bindE_Inr_iff) (blast dest: mapE_Inr_set)

lemma wf_manifest_patch: "get_manifest_patch cls st b = Inr ps \<Longrightarrow> p \<in> set ps \<Longrightarrow> wf_patch p"
  by (auto simp: get_manifest_patch_def bindE_Inr_iff)

interpretation cloudstorage: patch_source cloudstorage_main
proof unfold_locales
  fix cfg s ps p
  assume "cloudstorage_main cfg s = Inr ps" "p \<in> set ps"
  then obtain i st qs where q: "get_manifest_patch (cloud_storage_class cfg) st (srv_name s @ ''-ds-'' @ show_nat i) = Inr qs"
      "p \<in> set (qs @ (if srv_repositories s = [] then [] else [storage_mount_patch i st]))"
    unfolding cloudstorage_main_def by (force dest!: concatE_Inr_set simp: bindE_Inr_iff)
  then show "wf_patch p"
    by (auto simp: storage_mount_patch_def storage_mount_op_def dest: wf_manifest_patch split: if_splits)
qed

section \<open>Properties\<close>

text \<open>A configuration and a session, for examples.\<close>

definition example_sentry :: sentry_config where
  "example_sentry = \<lparr>sentry_enabled = False, sentry_dsn = None, sentry_env = None, sentry_sample_rate = 1 / 5\<rparr>"

definition example_sessions :: sessions_config where
  "example_sessions =
     \<lparr>culling_anonymous = \<lparr>idle_seconds = 43200, max_age_seconds = 43200, hibernated_seconds = 1\<rparr>,
      culling_registered = \<lparr>idle_seconds = 86400, max_age_seconds = 0, hibernated_seconds = 86400\<rparr>,
      cfg_git_proxy = \<lparr>gpx_renku_client_secret = ''s'', gpx_port = 8080, gpx_health_port = 8081,
                       gpx_image = ''git-https-proxy'', gpx_renku_client_id = ''renku''\<rparr>,
      cfg_git_rpc = \<lparr>rpc_host = ''0.0.0.0'', rpc_port = 4000, rpc_image = ''git-rpc-server'', rpc_sentry = example_sentry\<rparr>,
      cfg_git_clone = \<lparr>gcl_image = ''git-clone'', gcl_sentry = example_sentry\<rparr>,
      ingress_host = ''renku.example.org'', ingress_tls_secret = Some ''tls'', ingress_annotations = JObj [],
      ca_image = ''certificates'', ca_path = ''/usr/local/share/ca-certificates'', ca_secrets = [],
      oidc_client_id = ''renku'', oidc_client_secret = ''s'', oidc_allow_unverified_email = False,
      pvs_enabled = True, pvs_storage_class = None, use_empty_dir_size_limit = False,
      containers_anonymous = [''jupyter-server'', ''passthrough-proxy''],
      containers_registered = [''jupyter-server'', ''oauth2-proxy''],
      cfg_ssh = \<lparr>ssh_enabled = False, ssh_service_port = 22, ssh_container_port = 2022,
                 ssh_host_key_secret = None, ssh_host_key_location = ''/opt/ssh/ssh_host_keys''\<rparr>,
      default_image = ''renku/singleuser:latest'', enforce_cpu_limits = OFF, node_selector = JObj [],
      cfg_affinity = JObj [], cfg_tolerations = [], termination_warning_seconds = 43200,
      init_container_list = [''init-certificates'', ''download-image'', ''git-clone'']\<rparr>"

definition example_config :: notebooks_config where
  "example_config =
     \<lparr>cfg_sessions = example_sessions, cfg_git_url = ''https://gitlab.com'', cfg_git_registry = ''registry.gitlab.com'',
      amalthea_group = ''amalthea.dev'', amalthea_version = ''v1alpha1'', amalthea_cache_url = ''http://cache'',
      cloud_storage_class = ''csi-rclone'', cloud_storage_enabled = JBool True, service_version = ''0.0.0'',
      cfg_ssh_enabled = False, user_secrets_image = ''secrets-mount'',
      secrets_storage_service_url = ''http://secrets'', data_service_url = ''http://data'',
      keycloak_realm = ''Renku'', cfg_bypass_cache = True, cfg_dummy_stores = False,
      anonymous_sessions_enabled = True, cfg_sentry_release = None, cfg_cwd = Path ''/'' [''app'']\<rparr>"

definition example_user :: user where
  "example_user =
     \<lparr>user_anonymous = False, user_authenticated = True, user_username = ''jane'', user_safe_username = ''jane'',
      user_id = ''42'', user_full_name = Some ''Jane'', user_email = Some ''j@x.org'',
      user_oidc_issuer = Some ''https://renku.example.org'', user_access_token = Some ''t'', user_refresh_token = Some ''r'',
      user_git_url = ''https://gitlab.com'', user_git_token = Some ''g'', user_git_token_expires_at = 0\<rparr>"

definition example_server :: user_server where
  "example_server =
     \<lparr>srv_user = example_user, srv_gitlab_user = (JStr ''j@x.org'', JStr ''Jane''), srv_name = ''jane-1'',
      srv_image = Some ''renku/singleuser:latest'', srv_options = (bare_options (PInt 1) (PInt 2) (PInt 0))\<lparr>so_storage := Some (PInt 10)\<rparr>,
      srv_env = [(''LANG'', ''C'')], srv_user_secrets = None, srv_cloudstorage = [],
      srv_workspace_mount_path = Path ''/'' [''work''], srv_work_dir = Path ''/'' [''work''],
      srv_is_image_private = False,
      srv_repositories = [\<lparr>repo_url = ''https://gitlab.com/a/b.git'', repo_provider = None, repo_dirname = None,
                           repo_branch = None, repo_commit_sha = None\<rparr>],
      srv_git_providers = [], srv_idle_seconds = 86400, srv_hibernated_seconds = 86400,
      srv_kind = Renku2 ''p'' ''l'', srv_namespace = ''renku''\<rparr>"

text \<open>
  A mount path for user secrets is accepted exactly when it is absolute, and is then stored in its
  normal form.  The list of protected directories (\<open>bin\<close>, \<open>usr\<close>, \<open>proc\<close> and so on) rejects none:
  it is compared with the first of \<open>path.parts\<close>, which for an absolute path is the root.
\<close>

theorem path_field_accepts_iff:
  "path_field_deserialize v = Inr q \<longleftrightarrow> startswith v ''/'' \<and> q = path_str (path_of v)"
proof -
  have abs: "is_absolute (path_of v) \<longleftrightarrow> startswith v ''/''"
    by (cases v) (auto simp: is_absolute_def path_of_def Let_def)
  have "hd (all_parts (path_of v)) \<notin> set BLACKLISTED_PATHS" if "is_absolute (path_of v)"
  proof -
    have "path_root (path_of v) \<in> {''/'', ''//''}"
      using that wf_path_of [of v] by (auto simp: is_absolute_def wf_path_def)
    then have "hd (all_parts (path_of v)) \<in> {''/'', ''//''}" by (auto simp: all_parts_def)
    then show ?thesis by (auto simp: BLACKLISTED_PATHS_def)
  qed
  with abs show ?thesis by (auto simp: path_field_deserialize_def Let_def)
qed

lemma check_override_error: "check_override d kv = Inl e \<Longrightarrow> e = override_error (fst kv)"
  by (simp add: check_override_def split: option.splits if_splits)

lemma check_override_fails_iff:
  "(\<exists>e. check_override d kv = Inl e) \<longleftrightarrow> (\<exists>r. dget d (fst kv) = Some r \<and> r \<noteq> JStr (snd kv))"
  by (auto simp: check_override_def split: option.splits)

lemma jupyter_env_Inl: "jupyter_env cfg s = Inl e \<longleftrightarrow> mapE (check_override (server_env_vars cfg s)) (srv_env s) = Inl e"
  by (cases "mapE (check_override (server_env_vars cfg s)) (srv_env s)") (simp_all add: jupyter_env_def)

lemma bex_pair: "(\<exists>kv \<in> A. P (fst kv) (snd kv)) \<longleftrightarrow> (\<exists>k u. (k, u) \<in> A \<and> P k u)"
  by force

lemma mapE_Inl_set: "mapE f xs = Inl e \<Longrightarrow> \<exists>x \<in> set xs. f x = Inl e"
  by (induction xs) (auto simp: bindE_Inl_iff)

lemma mapE_Inl_ex: "(\<exists>e. mapE f xs = Inl e) \<longleftrightarrow> (\<exists>x \<in> set xs. \<exists>e. f x = Inl e)"
proof (induction xs)
  case (Cons x xs)
  then show ?case by (cases "f x") (auto simp: bindE_Inl_iff)
qed simp

text \<open>
  A session with environment variables of the user starts with every variable the service
  reserves at the service's own value, whatever order the variables are applied in, and with every
  variable of the user.
\<close>

theorem reserved_variables_kept:
  assumes "jupyter_env cfg s = Inr ps"
  shows "\<exists>env. ps = [json_patch (map env_patch env)] \<and>
    (\<forall>k v. (k, v) \<in> set env \<longrightarrow>
       (case dget (server_env_vars cfg s) k of
          Some r \<Rightarrow> v = r
        | None \<Rightarrow> \<exists>u. v = JStr u \<and> (k, u) \<in> set (srv_env s))) \<and>
    (\<forall>k r. dget (server_env_vars cfg s) k = Some r \<longrightarrow> (k, r) \<in> set env) \<and>
    (\<forall>k u. (k, u) \<in> set (srv_env s) \<longrightarrow> (k, JStr u) \<in> set env)"
proof -
  define d where "d = server_env_vars cfg s"
  have dist: "distinct (map fst d)" by (simp add: d_def server_env_vars_def)
  have in_d: "(k, r) \<in> set d \<longleftrightarrow> dget d k = Some r" for k r
    using dist by (simp add: dget_def)
  let ?env = "d @ map (\<lambda>(k, v). (k, JStr v)) (srv_env s)"
  from assms have ps: "ps = [json_patch (map env_patch ?env)]"
    and "\<not> (\<exists>e. mapE (check_override d) (srv_env s) = Inl e)"
    by (auto simp: jupyter_env_def d_def Let_def bindE_Inr_iff)
  then have ok: "\<And>k u r. (k, u) \<in> set (srv_env s) \<Longrightarrow> dget d k = Some r \<Longrightarrow> r = JStr u"
    by (force simp: mapE_Inl_ex check_override_fails_iff)
  show ?thesis
    unfolding d_def [symmetric]
    by (rule exI [of _ ?env]) (use ok in \<open>auto simp: ps in_d split: option.splits\<close>)
qed

theorem reserved_variables_kept_witness:
  "\<exists>env. (case jupyter_env example_config example_server of Inr ps \<Rightarrow> ps | Inl _ \<Rightarrow> []) = [json_patch (map env_patch env)]"
proof -
  have "jupyter_env example_config example_server =
      Inr (case jupyter_env example_config example_server of Inr ps \<Rightarrow> ps | Inl _ \<Rightarrow> [])"
    by code_simp
  from reserved_variables_kept [OF this] show ?thesis by blast
qed

text \<open>
  A launch is refused with \<open>OverriddenEnvironmentVariableError\<close>, naming a variable, exactly when
  the user gives one of the reserved variables a value that is not the service's own.
\<close>

theorem override_refused_iff:
  "(\<exists>k. jupyter_env cfg s = Inl (override_error k))
   \<longleftrightarrow> (\<exists>k u r. (k, u) \<in> set (srv_env s) \<and> dget (server_env_vars cfg s) k = Some r \<and> r \<noteq> JStr u)"
proof -
  let ?run = "mapE (check_override (server_env_vars cfg s)) (srv_env s)"
  have named: "\<exists>k. e = override_error k" if failed: "?run = Inl e" for e
  proof -
    from mapE_Inl_set [OF failed] obtain kv where "check_override (server_env_vars cfg s) kv = Inl e" ..
    then have "e = override_error (fst kv)" by (rule check_override_error)
    then show ?thesis ..
  qed
  have "(\<exists>k. jupyter_env cfg s = Inl (override_error k)) \<longleftrightarrow> (\<exists>e. ?run = Inl e)"
    unfolding jupyter_env_Inl using named by blast
  also have "\<dots> \<longleftrightarrow> (\<exists>kv \<in> set (srv_env s). \<exists>r. dget (server_env_vars cfg s) (fst kv) = Some r \<and> r \<noteq> JStr (snd kv))"
    by (simp only: mapE_Inl_ex check_override_fails_iff)
  finally show ?thesis
    unfolding bex_pair [where P = "\<lambda>k u. \<exists>r. dget (server_env_vars cfg s) k = Some r \<and> r \<noteq> JStr u"] by blast
qed

end
