(* ===== verification/Server.thy ===== *)
theory Server
  imports Patches
begin

text \<open>
  \<open>UserServer\<close> and its two versions (\<open>api/classes/server.py\<close>): construction, the git providers of the
  repositories, the patches in their order, the check on environment variables, labels and
  annotations, the manifest sent to Amalthea, and \<open>start\<close>.  The session object is \<open>user_server\<close>.
\<close>

section \<open>Construction\<close>

definition idle_threshold :: "notebooks_config \<Rightarrow> user \<Rightarrow> server_options \<Rightarrow> int" where
  "idle_threshold cfg u opts =
     (case so_idle_threshold_seconds opts of
        Some n \<Rightarrow> n
      | None \<Rightarrow> idle_seconds (if user_anonymous u then culling_anonymous (cfg_sessions cfg)
                               else culling_registered (cfg_sessions cfg)))"

definition hibernation_threshold :: "notebooks_config \<Rightarrow> user \<Rightarrow> server_options \<Rightarrow> int" where
  "hibernation_threshold cfg u opts =
     (case so_hibernation_threshold_seconds opts of
        Some n \<Rightarrow> n
      | None \<Rightarrow> hibernated_seconds (if user_anonymous u then culling_anonymous (cfg_sessions cfg)
                               else culling_registered (cfg_sessions cfg)))"

text \<open>The arguments that both versions pass on to \<open>UserServer.__init__\<close>.\<close>

record server_args =
  sa_user :: user
  sa_gitlab_user :: "json \<times> json"
  sa_name :: string
  sa_image :: "string option"
  sa_options :: server_options
  sa_env :: "(string, string) dict"
  sa_user_secrets :: "k8s_user_secrets option"
  sa_cloudstorage :: "rclone_storage list"
  sa_workspace_mount_path :: path
  sa_work_dir :: path
  sa_is_image_private :: bool
  sa_namespace :: string

definition user_server_init ::
  "notebooks_config \<Rightarrow> server_args \<Rightarrow> repository list \<Rightarrow> server_kind \<Rightarrow> user_server" where
  "user_server_init cfg a repositories kind =
     \<lparr>srv_user = sa_user a, srv_gitlab_user = sa_gitlab_user a, srv_name = sa_name a, srv_image = sa_image a,
      srv_options = sa_options a, srv_env = sa_env a, srv_user_secrets = sa_user_secrets a,
      srv_cloudstorage = sa_cloudstorage a, srv_workspace_mount_path = sa_workspace_mount_path a,
      srv_work_dir = sa_work_dir a, srv_is_image_private = sa_is_image_private a,
      srv_repositories = repositories, srv_git_providers = [],
      srv_idle_seconds = idle_threshold cfg (sa_user a) (sa_options a),
      srv_hibernated_seconds = hibernation_threshold cfg (sa_user a) (sa_options a),
      srv_kind = kind, srv_namespace = sa_namespace a\<rparr>"

text \<open>\<open>gitlab_project\<close> is the result of \<open>user.get_renku_project\<close>.\<close>

definition renku1_server ::
  "notebooks_config \<Rightarrow> server_args \<Rightarrow> string \<Rightarrow> string \<Rightarrow> string option \<Rightarrow> string option
   \<Rightarrow> gitlab_project option \<Rightarrow> user_server" where
  "renku1_server cfg a ns project branch commit_sha gitlab_project =
     user_server_init cfg a
       (case gitlab_project of
          None \<Rightarrow> []
        | Some g \<Rightarrow> [\<lparr>repo_url = glp_http_url g, repo_provider = None, repo_dirname = Some (glp_path g),
                      repo_branch = branch, repo_commit_sha = commit_sha\<rparr>])
       (Renku1 ns project branch commit_sha gitlab_project)"

definition renku2_server ::
  "notebooks_config \<Rightarrow> server_args \<Rightarrow> string \<Rightarrow> string \<Rightarrow> repository list \<Rightarrow> user_server" where
  "renku2_server cfg a project_id launcher_id repositories =
     user_server_init cfg a repositories (Renku2 project_id launcher_id)"

section \<open>The properties \<open>repositories\<close> and \<open>git_providers\<close>\<close>

definition find_provider :: "git_provider list \<Rightarrow> repository \<Rightarrow> git_provider option" where
  "find_provider ps r = List.find (\<lambda>p. url_netloc (gp_url p) = url_netloc (repo_url r)) ps"

definition with_provider :: "git_provider list \<Rightarrow> repository \<Rightarrow> repository" where
  "with_provider ps r =
     (case find_provider ps r of None \<Rightarrow> r | Some p \<Rightarrow> r\<lparr>repo_provider := Some (gp_id p)\<rparr>)"

text \<open>
  The first use of \<open>repositories\<close> gets the providers once, if there is a repository; the later uses
  find both properties in the object.
\<close>

definition with_providers :: "git_provider list \<Rightarrow> user_server \<Rightarrow> user_server" where
  "with_providers ps s =
     s\<lparr>srv_repositories := map (with_provider ps) (srv_repositories s), srv_git_providers := ps\<rparr>"

definition resolve_repositories :: "('w, git_provider list) eff \<Rightarrow> user_server \<Rightarrow> ('w, user_server) eff" where
  "resolve_repositories fetch s =
     (if srv_repositories s = [] then ret s
      else bindC fetch (\<lambda>ps. ret (with_providers ps s)))"

section \<open>The patches\<close>

text \<open>
  \<open>_get_patches\<close> evaluates the generators in the order in which it lists them.  The first that reads
  \<open>repositories\<close> is \<open>git_proxy\<close> for a registered user and \<open>git_clone\<close> for an anonymous one.
\<close>

definition leading_patches :: "notebooks_config \<Rightarrow> user_server \<Rightarrow> json list res" where
  "leading_patches cfg s =
     bindE (session_affinity cfg s) (\<lambda>affinity.
     bindE (jupyter_env cfg s) (\<lambda>env.
     Inr (test_patches cfg s @ session_tolerations cfg s @ affinity @ session_node_selector cfg s @
          priority_class_patch s @ dev_shm s @ args_patch @ env @ image_pull_secret cfg s @
          disable_service_links @ rstudio_env_variables s @ user_secrets_patches cfg s)))"

definition middle_patches :: "notebooks_config \<Rightarrow> user_server \<Rightarrow> json list res" where
  "middle_patches cfg s =
     bindE (certificates cfg) (\<lambda>certs.
     Inr (git_proxy_main cfg s @ git_sidecar_main cfg s @ oidc_unverified_email cfg s @ ssh_main cfg @
          certs @ download_image s))"

definition trailing_patches :: "notebooks_config \<Rightarrow> user_server \<Rightarrow> json list res" where
  "trailing_patches cfg s =
     bindE (cloudstorage_main cfg s) (\<lambda>storages.
     Inr (git_clone cfg s @ proxy_certificates cfg s @ storages))"

definition get_patches ::
  "notebooks_config \<Rightarrow> ('w, git_provider list) eff \<Rightarrow> user_server \<Rightarrow> ('w, json list \<times> user_server) eff" where
  "get_patches cfg fetch s =
     bindC (liftE (leading_patches cfg s)) (\<lambda>ps1.
     bindC (if registered s then resolve_repositories fetch s else ret s) (\<lambda>s1.
     bindC (liftE (middle_patches cfg s1)) (\<lambda>ps2.
     bindC (if registered s then ret s1 else resolve_repositories fetch s1) (\<lambda>s2.
     bindC (liftE (trailing_patches cfg s2)) (\<lambda>ps3.
     ret (ps1 @ ps2 @ ps3, s2))))))"

section \<open>The check on environment variables\<close>

definition hashable :: "json \<Rightarrow> bool" where
  "hashable j \<longleftrightarrow> (case j of JArr _ \<Rightarrow> False | JObj _ \<Rightarrow> False | _ \<Rightarrow> True)"

definition check_env_op ::
  "(string \<times> json, json) dict \<Rightarrow> json \<Rightarrow> (string \<times> json, json) dict res" where
  "check_env_op env_vars patch =
     bindE (bindE (jitem patch ''path'') jstr) (\<lambda>p.
     let path = lower p in
     if endswith path ''/env/-'' then
       bindE (jitems patch [''value'', ''name'']) (\<lambda>name.
       bindE (jitems patch [''value'', ''value'']) (\<lambda>v.
       if \<not> hashable name then Inl (TypeError ''unhashable type'')
       else case dget env_vars (path, name) of
         Some u \<Rightarrow>
           if u \<noteq> v then
             Inl (api DuplicateEnvironmentVariableError
               (''Environment variable '' @ path @ ''::'' @ py_str name @
                '' is being overridden by multiple patches''))
           else Inr (dset (path, name) v env_vars)
       | None \<Rightarrow> Inr (dset (path, name) v env_vars)))
     else Inr env_vars)"

definition check_env_patch ::
  "(string \<times> json, json) dict \<Rightarrow> json \<Rightarrow> (string \<times> json, json) dict res" where
  "check_env_patch env_vars patch_list =
     bindE (bindE (jitem patch_list ''patch'') jiter) (\<lambda>patches. foldE check_env_op env_vars patches)"

definition check_environment_variables_overrides :: "json list \<Rightarrow> unit res" where
  "check_environment_variables_overrides patches_list =
     bindE (foldE check_env_patch [] patches_list) (\<lambda>_. Inr ())"

section \<open>Labels and annotations\<close>

definition renku :: "string \<Rightarrow> string" where
  "renku n = renku_annotation_prefix @ n"

definition base_labels :: "user_server \<Rightarrow> (string, json) dict" where
  "base_labels s =
     [(''app'', JStr ''jupyter''), (''component'', JStr ''singleuser-server''),
      (renku ''commit-sha'', JNull), (renku ''gitlabProjectId'', JNull),
      (renku ''safe-username'', JStr (user_safe_username (srv_user s))),
      (renku ''quota'', jopt (so_priority_class (srv_options s))),
      (renku ''userId'', JStr (user_id (srv_user s)))]"

definition get_labels :: "user_server \<Rightarrow> (string, json) dict" where
  "get_labels s =
     (case srv_kind s of
        Renku2 _ _ \<Rightarrow> base_labels s
      | Renku1 ns project branch commit_sha gitlab_project \<Rightarrow>
          (let labels = dset (renku ''commit-sha'') (jopt commit_sha) (base_labels s) in
           case gitlab_project of
             None \<Rightarrow> labels
           | Some g \<Rightarrow> dset (renku ''gitlabProjectId'') (JStr (show_int (glp_id g))) labels))"

definition base_annotations :: "user_server \<Rightarrow> (string, json) dict" where
  "base_annotations s =
     (let u = srv_user s;
          annotations =
            [(renku ''commit-sha'', JNull), (renku ''gitlabProjectId'', JNull),
             (renku ''safe-username'', JStr (user_safe_username u)), (renku ''username'', JStr (user_username u)),
             (renku ''userId'', JStr (user_id u)), (renku ''servername'', JStr (srv_name s)),
             (renku ''branch'', JNull), (renku ''git-host'', JNull), (renku ''namespace'', JNull),
             (renku ''projectName'', JNull), (renku ''requested-image'', jopt (srv_image s)),
             (renku ''repository'', JNull), (renku ''hibernation'', JStr []),
             (renku ''hibernationBranch'', JStr []), (renku ''hibernationCommitSha'', JStr []),
             (renku ''hibernationDirty'', JStr []), (renku ''hibernationSynchronized'', JStr []),
             (renku ''hibernationDate'', JStr []),
             (renku ''hibernatedSecondsThreshold'', JStr (show_int (srv_hibernated_seconds s))),
             (renku ''lastActivityDate'', JStr []),
             (renku ''idleSecondsThreshold'', JStr (show_int (srv_idle_seconds s)))]
      in case so_resource_class_id (srv_options s) of
           Some i \<Rightarrow> if i \<noteq> 0 then dset (renku ''resourceClassId'') (JStr (show_int i)) annotations else annotations
         | None \<Rightarrow> annotations)"

definition renku1_annotations ::
  "notebooks_config \<Rightarrow> user_server \<Rightarrow> string \<Rightarrow> string \<Rightarrow> string option \<Rightarrow> string option \<Rightarrow> gitlab_project option
   \<Rightarrow> (string, json) dict" where
  "renku1_annotations cfg s ns project branch commit_sha gitlab_project =
     (let annotations =
        dset (renku ''projectName'') (JStr project)
       (dset (renku ''namespace'') (JStr ns)
       (dset (renku ''git-host'') (JStr (url_netloc (cfg_git_url cfg)))
       (dset (renku ''branch'') (jopt branch)
       (dset (renku ''commit-sha'') (jopt commit_sha) (base_annotations s))))) in
      case gitlab_project of
        None \<Rightarrow> annotations
      | Some g \<Rightarrow>
          dset (renku ''repository'') (JStr (glp_web_url g))
         (dset (renku ''gitlabProjectId'') (JStr (show_int (glp_id g))) annotations))"

definition renku2_annotations :: "user_server \<Rightarrow> string \<Rightarrow> string \<Rightarrow> (string, json) dict" where
  "renku2_annotations s project_id launcher_id =
     dset (renku ''launcherId'') (JStr launcher_id)
    (dset (renku ''projectId'') (JStr project_id)
    (dset (renku ''renkuVersion'') (JStr ''2.0'') (base_annotations s)))"

text \<open>\<open>get_annotations\<close> of the session's class.\<close>

definition get_annotations :: "notebooks_config \<Rightarrow> user_server \<Rightarrow> (string, json) dict" where
  "get_annotations cfg s =
     (case srv_kind s of
        Renku1 ns project branch commit_sha gitlab_project \<Rightarrow>
          renku1_annotations cfg s ns project branch commit_sha gitlab_project
      | Renku2 project_id launcher_id \<Rightarrow> renku2_annotations s project_id launcher_id)"

lemmas annotations_defs = get_annotations_def renku1_annotations_def renku2_annotations_def

section \<open>The manifest\<close>

definition storage_json :: "notebooks_config \<Rightarrow> user_server \<Rightarrow> json" where
  "storage_json cfg s =
     (let size = (case so_storage (srv_options s) of None \<Rightarrow> JNull | Some n \<Rightarrow> jnum n);
          mount = jpath_str cfg (srv_workspace_mount_path s) in
      if pvs_enabled (cfg_sessions cfg) then
        JObj [(''size'', size),
              (''pvc'', JObj [(''enabled'', JBool True),
                 (''storageClassName'', jopt (pvs_storage_class (cfg_sessions cfg))), (''mountPath'', mount)])]
      else
        JObj [(''size'', if use_empty_dir_size_limit (cfg_sessions cfg) then size else JStr []),
              (''pvc'', JObj [(''enabled'', JBool False), (''mountPath'', mount)])])"

definition session_auth :: "notebooks_config \<Rightarrow> user_server \<Rightarrow> json" where
  "session_auth cfg s =
     (let u = srv_user s in
      if registered s then
        JObj [(''token'', JStr []),
              (''oidc'', JObj
                 [(''enabled'', JBool True), (''clientId'', JStr (oidc_client_id (cfg_sessions cfg))),
                  (''clientSecret'', JObj [(''value'', JStr (oidc_client_secret (cfg_sessions cfg)))]),
                  (''issuerUrl'', jopt (user_oidc_issuer u)),
                  (''authorizedEmails'', JArr [jopt (user_email u)])])]
      else
        JObj [(''token'', JStr (user_username u)), (''oidc'', JObj [(''enabled'', JBool False)])])"

definition manifest_json :: "notebooks_config \<Rightarrow> user_server \<Rightarrow> json list \<Rightarrow> json" where
  "manifest_json cfg s patches = JObj
     [(''apiVersion'', JStr (amalthea_group cfg @ ''/'' @ amalthea_version cfg)),
      (''kind'', JStr ''JupyterServer''),
      (''metadata'', JObj
         [(''name'', JStr (srv_name s)), (''labels'', JObj (get_labels s)),
          (''annotations'', JObj (get_annotations cfg s))]),
      (''spec'', JObj
         [(''auth'', session_auth cfg s),
          (''culling'', JObj
             [(''idleSecondsThreshold'', JInt (srv_idle_seconds s)),
              (''maxAgeSecondsThreshold'',
                 JInt (max_age_seconds (if registered s then culling_registered (cfg_sessions cfg)
                                        else culling_anonymous (cfg_sessions cfg)))),
              (''hibernatedSecondsThreshold'', JInt (srv_hibernated_seconds s))]),
          (''jupyterServer'', JObj
             [(''defaultUrl'', jopt (so_default_url (srv_options s))), (''image'', jopt (srv_image s)),
              (''rootDir'', jpath_str cfg (srv_work_dir s)),
              (''resources'', to_k8s_resources (enforce_cpu_limits (cfg_sessions cfg)) (srv_options s))]),
          (''routing'', JObj
             [(''host'', JStr (url_netloc (server_url cfg s))), (''path'', JStr (url_path (server_url cfg s))),
              (''ingressAnnotations'', ingress_annotations (cfg_sessions cfg)),
              (''tls'', JObj [(''enabled'', JBool (ingress_tls_secret (cfg_sessions cfg) \<noteq> None)),
                 (''secretName'', jopt (ingress_tls_secret (cfg_sessions cfg)))])]),
          (''storage'', storage_json cfg s),
          (''patches'', JArr patches)])]"

definition get_session_manifest ::
  "notebooks_config \<Rightarrow> ('w, git_provider list) eff \<Rightarrow> user_server \<Rightarrow> ('w, json) eff" where
  "get_session_manifest cfg fetch s =
     bindC (get_patches cfg fetch s) (\<lambda>(patches, s').
     bindC (liftE (check_environment_variables_overrides patches)) (\<lambda>_.
     ret (manifest_json cfg s' patches)))"

section \<open>\<open>start\<close>\<close>

text \<open>The lookups of a branch and of a commit in the user's GitLab project; any failure counts as absent.\<close>

record 'w gitlab_lookup =
  get_branch :: "string \<Rightarrow> ('w, unit) eff"
  get_commit :: "string \<Rightarrow> ('w, unit) eff"

definition verified :: "(string \<Rightarrow> ('w, unit) eff) \<Rightarrow> string option \<Rightarrow> gitlab_project option \<Rightarrow> ('w, bool) eff" where
  "verified lookup x gitlab_project =
     (case (x, gitlab_project) of
        (Some n, Some _) \<Rightarrow> catchC (bindC (lookup n) (\<lambda>_. ret True)) (\<lambda>_. ret False)
      | _ \<Rightarrow> ret False)"

definition branch_exists :: "'w gitlab_lookup \<Rightarrow> string option \<Rightarrow> gitlab_project option \<Rightarrow> ('w, bool) eff" where
  "branch_exists gl branch gitlab_project = verified (get_branch gl) branch gitlab_project"

definition commit_sha_exists :: "'w gitlab_lookup \<Rightarrow> string option \<Rightarrow> gitlab_project option \<Rightarrow> ('w, bool) eff" where
  "commit_sha_exists gl commit_sha gitlab_project = verified (get_commit gl) commit_sha gitlab_project"

definition base_start_errors :: "user_server \<Rightarrow> string list" where
  "base_start_errors s =
     (if srv_image s = None then [''image None does not exist or cannot be accessed''] else [])"

definition get_start_errors :: "'w gitlab_lookup \<Rightarrow> user_server \<Rightarrow> ('w, string list) eff" where
  "get_start_errors gl s =
     (case srv_kind s of
        Renku2 _ _ \<Rightarrow> ret (base_start_errors s)
      | Renku1 ns project branch commit_sha gitlab_project \<Rightarrow>
          bindC (branch_exists gl branch gitlab_project) (\<lambda>b.
          bindC (commit_sha_exists gl commit_sha gitlab_project) (\<lambda>c.
          ret (base_start_errors s
            @ (if gitlab_project = None then [''project '' @ project @ '' does not exist''] else [])
            @ (if b then [] else [''branch '' @ str_opt branch @ '' does not exist''])
            @ (if c then [] else [''commit '' @ str_opt commit_sha @ '' does not exist''])))))"

definition start ::
  "notebooks_config \<Rightarrow> 'w k8s_client \<Rightarrow> 'w gitlab_lookup \<Rightarrow> ('w, git_provider list) eff
   \<Rightarrow> user_server \<Rightarrow> ('w, json option) eff" where
  "start cfg k gl fetch s =
     bindC (get_start_errors gl s) (\<lambda>errors.
     if errors \<noteq> [] then
       raise (api MissingResourceError
         (''Cannot start the session because the following Git or Docker resources are missing: '' @ join '', '' errors))
     else
       bindC (get_session_manifest cfg fetch s) (\<lambda>manifest.
       create_server k manifest (user_safe_username (srv_user s))))"

end
