(* ===== verification/SessionFacts.thy ===== *)
theory SessionFacts
  imports Server
begin

text \<open>
  Properties of a session that is started: what the check on environment variables decides, in which
  order the init containers come and what the patches do to them, whose session it is, what a start
  needs and which git providers it uses.
\<close>

section \<open>Facts about the check\<close>

lemma patch_op_simps [simp]:
  "jitem (patch_op verb p v) ''path'' = Inr (JStr p)"
  "jitem (patch_op verb p v) ''value'' = Inr v"
  "jitem (json_patch ops) ''patch'' = Inr (JArr ops)"
  by (simp_all add: patch_op_def json_patch_def)

lemma env_json_simps [simp]:
  "jitem (env_json n x) ''name'' = Inr (JStr n)" "jitem (env_json n x) ''value'' = Inr x"
  by (simp_all add: env_json_def)

text \<open>The operations of a list of patches, and the variables they append to an \<open>env\<close> list.\<close>

definition ops_of :: "json \<Rightarrow> json list" where
  "ops_of p = (case jitem p ''patch'' of Inr (JArr ops) \<Rightarrow> ops | _ \<Rightarrow> [])"

definition all_ops :: "json list \<Rightarrow> json list" where
  "all_ops ps = concat (map ops_of ps)"

definition op_path :: "json \<Rightarrow> string" where
  "op_path q = (case jitem q ''path'' of Inr (JStr p) \<Rightarrow> p | _ \<Rightarrow> [])"

definition op_value :: "json \<Rightarrow> json" where
  "op_value q = (case jitem q ''value'' of Inr v \<Rightarrow> v | _ \<Rightarrow> JNull)"

definition env_of :: "json \<Rightarrow> ((string \<times> json) \<times> json) list" where
  "env_of q =
     (if is_env_path (op_path q) then
        case (jitem (op_value q) ''name'', jitem (op_value q) ''value'') of
          (Inr n, Inr v) \<Rightarrow> [((lower (op_path q), n), v)]
        | _ \<Rightarrow> []
      else [])"

definition env_assignments :: "json list \<Rightarrow> ((string \<times> json) \<times> json) list" where
  "env_assignments ps = concat (map env_of (all_ops ps))"

lemma ops_simps [simp]:
  "ops_of (json_patch ops) = ops" "op_path (patch_op verb p v) = p" "op_value (patch_op verb p v) = v"
  by (simp_all add: ops_of_def op_path_def op_value_def)

lemma all_ops_simps [simp]:
  "all_ops [] = []" "all_ops (p # ps) = ops_of p @ all_ops ps" "all_ops (ps @ qs) = all_ops ps @ all_ops qs"
  by (simp_all add: all_ops_def)

definition duplicate_error :: "string \<times> json \<Rightarrow> exc" where
  "duplicate_error k = api DuplicateEnvironmentVariableError
     (''Environment variable '' @ fst k @ ''::'' @ py_str (snd k) @ '' is being overridden by multiple patches'')"

definition assign :: "('k, 'v) dict \<Rightarrow> 'k \<times> 'v \<Rightarrow> 'k + ('k, 'v) dict" where
  "assign d kv =
     (case dget d (fst kv) of
        Some u \<Rightarrow> if u \<noteq> snd kv then Inl (fst kv) else Inr (dset (fst kv) (snd kv) d)
      | None \<Rightarrow> Inr (dset (fst kv) (snd kv) d))"

definition agree :: "('k \<times> 'v) list \<Rightarrow> bool" where
  "agree kvs \<longleftrightarrow> (\<forall>k v v'. (k, v) \<in> set kvs \<and> (k, v') \<in> set kvs \<longrightarrow> v = v')"

lemma agree_Cons: "agree ((k, v) # kvs) \<longleftrightarrow> agree kvs \<and> (\<forall>v'. (k, v') \<in> set kvs \<longrightarrow> v' = v)"
  unfolding agree_def by (simp, blast)

definition compatible :: "('k, 'v) dict \<Rightarrow> ('k \<times> 'v) list \<Rightarrow> bool" where
  "compatible d kvs \<longleftrightarrow> (\<forall>k v u. (k, v) \<in> set kvs \<and> dget d k = Some u \<longrightarrow> u = v)"

lemma compatible_Cons:
  "compatible d ((k, v) # kvs) \<longleftrightarrow> (dget d k = None \<or> dget d k = Some v) \<and> compatible d kvs"
  unfolding compatible_def by (cases "dget d k") auto

lemma compatible_dset:
  assumes "\<forall>v'. (k, v') \<in> set kvs \<longrightarrow> v' = v"
  shows "compatible (dset k v d) kvs \<longleftrightarrow> (\<forall>k' v' u. k' \<noteq> k \<and> (k', v') \<in> set kvs \<and> dget d k' = Some u \<longrightarrow> u = v')"
  using assms unfolding compatible_def dget_dset by (metis option.inject)

lemma compatible_dset_agree: "compatible (dset k v d) kvs \<Longrightarrow> (k, v') \<in> set kvs \<Longrightarrow> v' = v"
  unfolding compatible_def by fastforce

lemma assign_fold: "(\<exists>d'. foldE assign d kvs = Inr d') \<longleftrightarrow> agree kvs \<and> compatible d kvs"
proof (induction kvs arbitrary: d)
  case (Cons kv kvs)
  obtain k v where kv: "kv = (k, v)" by (cases kv)
  have step: "(\<exists>d'. foldE assign d (kv # kvs) = Inr d') \<longleftrightarrow>
      (dget d k = None \<or> dget d k = Some v) \<and> (\<exists>d'. foldE assign (dset k v d) kvs = Inr d')"
    by (simp add: kv assign_def split: option.splits)
  show ?case
  proof (cases "\<forall>v'. (k, v') \<in> set kvs \<longrightarrow> v' = v")
    case same: True
    have "compatible d kvs \<longleftrightarrow> compatible (dset k v d) kvs" if "dget d k = None \<or> dget d k = Some v"
      unfolding compatible_dset [OF same] unfolding compatible_def using that same
      by (metis option.distinct(1) option.inject)
    then show ?thesis
      unfolding step Cons.IH unfolding kv agree_Cons compatible_Cons using same by blast
  next
    case False
    then have "\<not> compatible (dset k v d) kvs" using compatible_dset_agree by metis
    with False show ?thesis unfolding step Cons.IH unfolding kv agree_Cons by blast
  qed
qed (simp add: agree_def compatible_def)

lemma check_env_op_wf:
  assumes "wf_op q"
  shows "check_env_op d q =
    (case env_of q of
       [] \<Rightarrow> Inr d
     | kv # _ \<Rightarrow> (case assign d kv of Inl k \<Rightarrow> Inl (duplicate_error k) | Inr d' \<Rightarrow> Inr d'))"
proof -
  from assms obtain verb p v where q: "q = patch_op verb p v" and env: "is_env_path p \<longrightarrow> env_op v"
    unfolding wf_op_def by blast
  show ?thesis
  proof (cases "is_env_path p")
    case True
    with env obtain n x where "v = env_json n x" by (auto simp: env_op_def)
    with True show ?thesis
      by (auto simp: check_env_op_def q env_of_def is_env_path_def hashable_def assign_def
          duplicate_error_def Let_def split: option.splits)
  next
    case False
    then show ?thesis
      by (simp add: check_env_op_def q env_of_def is_env_path_def Let_def)
  qed
qed

lemma env_of_cases:
  assumes "wf_op q"
  obtains "env_of q = []" | k v where "env_of q = [(k, v)]"
proof (cases "is_env_path (op_path q)")
  case True
  with assms obtain n x where "op_value q = env_json n x"
    by (auto simp: wf_op_def env_op_def)
  with True show ?thesis using that by (simp add: env_of_def)
qed (use that in \<open>simp add: env_of_def\<close>)

abbreviation named_error :: "(string \<times> json) + 'a \<Rightarrow> 'a res" where
  "named_error r \<equiv> (case r of Inl k \<Rightarrow> Inl (duplicate_error k) | Inr d \<Rightarrow> Inr d)"

lemma named_error_bind: "bindE (named_error r) (\<lambda>x. named_error (f x)) = named_error (bindE r f)"
  by (cases r) simp_all

lemma check_ops_wf:
  "\<forall>q \<in> set ops. wf_op q \<Longrightarrow>
     foldE check_env_op d ops = named_error (foldE assign d (concat (map env_of ops)))"
proof (induction ops arbitrary: d)
  case (Cons q ops)
  then have q: "wf_op q" and rest: "\<And>d. foldE check_env_op d ops = named_error (foldE assign d (concat (map env_of ops)))"
    by auto
  show ?case
    by (rule env_of_cases [OF q])
      (simp_all add: check_env_op_wf [OF q] rest flip: named_error_bind)
qed simp

lemma check_patches_wf:
  "\<forall>p \<in> set ps. wf_patch p \<Longrightarrow>
     foldE check_env_patch d ps = named_error (foldE assign d (env_assignments ps))"
proof (induction ps arbitrary: d)
  case (Cons p ps)
  then obtain ops where p: "p = json_patch ops" and ops: "\<forall>q \<in> set ops. wf_op q"
    by (auto simp: wf_patch_def)
  have "foldE assign d (env_assignments (p # ps)) =
      bindE (foldE assign d (concat (map env_of ops))) (\<lambda>d. foldE assign d (env_assignments ps))"
    by (simp add: env_assignments_def p foldE_append)
  moreover have "check_env_patch d p = named_error (foldE assign d (concat (map env_of ops)))" for d
    by (simp add: check_env_patch_def p check_ops_wf [OF ops])
  ultimately show ?case
    using Cons by (simp flip: named_error_bind)
qed (simp add: env_assignments_def)

lemma check_overrides_wf:
  assumes "\<forall>p \<in> set ps. wf_patch p"
  shows "agree (env_assignments ps) \<Longrightarrow> check_environment_variables_overrides ps = Inr ()"
    and "\<not> agree (env_assignments ps) \<Longrightarrow>
      \<exists>k. check_environment_variables_overrides ps = Inl (duplicate_error k)"
proof -
  have "compatible [] (env_assignments ps)" by (simp add: compatible_def)
  then have fold: "(\<exists>d. foldE assign [] (env_assignments ps) = Inr d) \<longleftrightarrow> agree (env_assignments ps)"
    using assign_fold by blast
  note run = check_environment_variables_overrides_def check_patches_wf [OF assms]
  show "check_environment_variables_overrides ps = Inr ()" if "agree (env_assignments ps)"
    using fold that by (auto simp: run)
  show "\<exists>k. check_environment_variables_overrides ps = Inl (duplicate_error k)" if "\<not> agree (env_assignments ps)"
    using fold that by (cases "foldE assign [] (env_assignments ps)") (auto simp: run)
qed

section \<open>All patches have the shape\<close>

lemma leading_shaped: "leading_patches cfg s = Inr ps \<Longrightarrow> \<forall>p \<in> set ps. wf_patch p"
  by (auto simp: leading_patches_def bindE_Inr_iff
      dest: affinity.shaped jupyter.shaped tests.shaped [OF refl] tolerations.shaped [OF refl]
        node_sel.shaped [OF refl] priority.shaped [OF refl] shm.shaped [OF refl] arguments.shaped [OF refl]
        pull_secret.shaped [OF refl] service_links.shaped [OF refl] renviron.shaped [OF refl]
        user_secret_mounts.shaped [OF refl])

lemma middle_shaped: "middle_patches cfg s = Inr ps \<Longrightarrow> \<forall>p \<in> set ps. wf_patch p"
  by (auto simp: middle_patches_def bindE_Inr_iff
      dest: git_proxy.shaped [OF refl] git_sidecar.shaped [OF refl] unverified_email.shaped [OF refl]
        ssh.shaped [OF refl] certs.shaped image_download.shaped [OF refl])

lemma trailing_shaped: "trailing_patches cfg s = Inr ps \<Longrightarrow> \<forall>p \<in> set ps. wf_patch p"
  by (auto simp: trailing_patches_def bindE_Inr_iff
      dest: cloning.shaped [OF refl] proxy_certs.shaped [OF refl] cloudstorage.shaped)

text \<open>
  A run of \<open>_get_patches\<close> that returns gives the patches of the session with its repositories
  resolved, whenever it resolved them.
\<close>

definition all_patches :: "notebooks_config \<Rightarrow> user_server \<Rightarrow> json list res" where
  "all_patches cfg s =
     bindE (leading_patches cfg s) (\<lambda>ps1.
     bindE (middle_patches cfg s) (\<lambda>ps2.
     bindE (trailing_patches cfg s) (\<lambda>ps3. Inr (ps1 @ ps2 @ ps3))))"

definition resolved :: "user_server \<Rightarrow> user_server \<Rightarrow> bool" where
  "resolved s s' \<longleftrightarrow> (if srv_repositories s = [] then s' = s else \<exists>ps. s' = with_providers ps s)"

lemma with_providers_simps [simp]:
  "registered (with_providers ps s) = registered s" "srv_user (with_providers ps s) = srv_user s"
  "srv_repositories (with_providers ps s) = [] \<longleftrightarrow> srv_repositories s = []"
  "srv_options (with_providers ps s) = srv_options s" "srv_kind (with_providers ps s) = srv_kind s"
  "srv_name (with_providers ps s) = srv_name s" "srv_env (with_providers ps s) = srv_env s"
  "srv_image (with_providers ps s) = srv_image s" "srv_work_dir (with_providers ps s) = srv_work_dir s"
  "srv_user_secrets (with_providers ps s) = srv_user_secrets s"
  "srv_cloudstorage (with_providers ps s) = srv_cloudstorage s"
  "srv_namespace (with_providers ps s) = srv_namespace s"
  "srv_gitlab_user (with_providers ps s) = srv_gitlab_user s"
  "srv_is_image_private (with_providers ps s) = srv_is_image_private s"
  by (simp_all add: with_providers_def registered_def)

lemma leading_with_providers [simp]: "leading_patches cfg (with_providers ps s) = leading_patches cfg s"
  by (simp add: leading_patches_def session_affinity_def jupyter_env_def server_env_vars_def commit_sha_of_def
      server_url_def project_of_def test_patches_def session_tolerations_def session_node_selector_def
      priority_class_patch_def dev_shm_def image_pull_secret_def rstudio_env_variables_def
      user_secrets_patches_def init_user_secrets_container_def cong: option.case_cong)

lemma middle_anonymous:
  "\<not> registered s \<Longrightarrow> middle_patches cfg (with_providers ps s) = middle_patches cfg s"
  by (simp add: middle_patches_def git_proxy_main_def git_sidecar_main_def oidc_unverified_email_def
      download_image_def download_image_container_def registered_def cong: option.case_cong)

lemma get_patches_Inr:
  assumes "get_patches cfg fetch s w = (Inr (ps, s'), w')"
  shows "all_patches cfg s' = Inr ps \<and> resolved s s'"
  using assms unfolding get_patches_def resolve_repositories_def resolved_def all_patches_def
  by (auto simp: bindC_Inr_iff bindE_Inr_iff middle_anonymous split: if_splits)

lemma all_patches_shaped: "all_patches cfg s = Inr ps \<Longrightarrow> \<forall>p \<in> set ps. wf_patch p"
  by (auto simp: all_patches_def bindE_Inr_iff dest: leading_shaped [THEN bspec] middle_shaped [THEN bspec] trailing_shaped [THEN bspec])

text \<open>
  C36. When the patches of a session can be made, composing its manifest never fails on their shape: it
  returns the manifest with those patches, or, exactly when two operations append a variable of one
  name with different values to the list of variables at one path, raises
  \<open>DuplicateEnvironmentVariableError\<close> for such a variable.
\<close>

theorem session_environment_consistent:
  assumes "get_patches cfg fetch s w = (Inr (ps, s'), w')"
  shows "if \<exists>k v v'. (k, v) \<in> set (env_assignments ps) \<and> (k, v') \<in> set (env_assignments ps) \<and> v \<noteq> v'
    then \<exists>k. get_session_manifest cfg fetch s w = (Inl (duplicate_error k), w')
    else get_session_manifest cfg fetch s w = (Inr (manifest_json cfg s' ps), w')"
proof -
  have shaped: "\<forall>p \<in> set ps. wf_patch p" using get_patches_Inr [OF assms] all_patches_shaped by blast
  have run: "get_session_manifest cfg fetch s w =
      (case check_environment_variables_overrides ps of
         Inl e \<Rightarrow> (Inl e, w') | Inr _ \<Rightarrow> (Inr (manifest_json cfg s' ps), w'))"
    by (simp add: get_session_manifest_def bindC_def assms split: sum.splits)
  show ?thesis
  proof (cases "agree (env_assignments ps)")
    case True
    then have "\<not> (\<exists>k v v'. (k, v) \<in> set (env_assignments ps) \<and> (k, v') \<in> set (env_assignments ps) \<and> v \<noteq> v')"
      unfolding agree_def by blast
    then show ?thesis using check_overrides_wf(1) [OF shaped True] by (simp add: run)
  next
    case False
    then have "\<exists>k v v'. (k, v) \<in> set (env_assignments ps) \<and> (k, v') \<in> set (env_assignments ps) \<and> v \<noteq> v'"
      unfolding agree_def by blast
    moreover have "\<exists>k. get_session_manifest cfg fetch s w = (Inl (duplicate_error k), w')"
      using check_overrides_wf(2) [OF shaped False] unfolding run by fastforce
    ultimately show ?thesis by simp
  qed
qed

lemma get_session_manifest_agree:
  assumes "get_patches cfg fetch s w = (Inr (ps, s'), w')" and "agree (env_assignments ps)"
  shows "get_session_manifest cfg fetch s w = (Inr (manifest_json cfg s' ps), w')"
proof -
  have "\<forall>p \<in> set ps. wf_patch p" using get_patches_Inr [OF assms(1)] all_patches_shaped by blast
  with assms show ?thesis by (simp add: get_session_manifest_def bindC_def check_overrides_wf)
qed

text \<open>An anonymous session without repositories, for examples; nothing is fetched for it.\<close>

definition no_providers :: "('w, git_provider list) eff" where
  "no_providers = ret []"

definition small_server :: user_server where
  "small_server = example_server
     \<lparr>srv_user := example_user\<lparr>user_anonymous := True\<rparr>, srv_repositories := [], srv_env := []\<rparr>"

lemma env_of_simps [simp]:
  "\<not> is_env_path p \<Longrightarrow> env_of (patch_op verb p v) = []"
  "is_env_path p \<Longrightarrow> env_of (patch_op verb p (env_json n x)) = [((lower p, JStr n), x)]"
  by (simp_all add: env_of_def)

lemma is_env_path_env [simp]: "is_env_path (ctr_path i ''/env/-'')"
proof -
  have "is_env_path ''/env/-''" by code_simp
  then show ?thesis by (simp add: is_env_path_ctr)
qed

lemma agree_distinct: "distinct (map fst kvs) \<Longrightarrow> agree kvs"
  unfolding agree_def by (metis eq_key_imp_eq_value)

lemmas small_simps =
  small_server_def example_server_def example_config_def example_sessions_def example_user_def bare_options_def
  registered_def leading_patches_def middle_patches_def trailing_patches_def session_affinity_def
  jupyter_env_def certificates_def concatE_def cloudstorage_main_def

text \<open>All generators of patches, to compute the patches of an example.\<close>

lemmas all_patches_defs =
  all_patches_def env_assignments_def test_patches_def session_tolerations_def
  session_node_selector_def priority_class_patch_def dev_shm_def image_pull_secret_def args_patch_def
  disable_service_links_def rstudio_env_variables_def user_secrets_patches_def git_proxy_main_def
  git_sidecar_main_def oidc_unverified_email_def ssh_main_def download_image_def git_clone_def
  proxy_certificates_def certificates_mounts_def env_patch_def server_env_vars_def Let_def

lemma small_patches:
  obtains ps where "all_patches example_config small_server = Inr ps" "agree (env_assignments ps)"
proof -
  have "\<exists>ps. all_patches example_config small_server = Inr ps"
    by (simp add: all_patches_def small_simps)
  then obtain ps where ps: "all_patches example_config small_server = Inr ps" ..
  have "distinct (map fst (env_assignments ps))"
    using ps
    by (auto simp: small_simps all_patches_defs)
  then show ?thesis using that ps agree_distinct by blast
qed

lemma small_run:
  obtains ps where "get_patches example_config no_providers small_server w = (Inr (ps, small_server), w)"
    and "agree (env_assignments ps)"
proof (rule small_patches)
  fix ps assume ps: "all_patches example_config small_server = Inr ps" and agree: "agree (env_assignments ps)"
  from ps have "get_patches example_config no_providers small_server w = (Inr (ps, small_server), w)"
    by (auto simp: get_patches_def all_patches_def bindE_Inr_iff bindC_def resolve_repositories_def
        small_server_def split: if_splits)
  then show thesis using agree by (rule that)
qed

theorem session_environment_consistent_witness:
  "\<exists>ps. get_session_manifest example_config no_providers small_server ()
     = (Inr (manifest_json example_config small_server ps), ())"
proof (rule small_run [of "()"])
  fix ps
  assume run: "get_patches example_config no_providers small_server () = (Inr (ps, small_server), ())"
    and "agree (env_assignments ps)"
  then show ?thesis
    using session_environment_consistent [OF run] unfolding agree_def by (auto split: if_splits)
qed

section \<open>Init containers\<close>

text \<open>
  The operations on the init containers, in order, and what they make of a list of init containers:
  an operation on index 2 needs a third container that has a list of variables.
\<close>

definition on_init :: "json \<Rightarrow> bool" where
  "on_init q \<longleftrightarrow> op_path q \<in> {init_path ''-'', init_path ''2/env/-''}"

definition init_ops :: "json list \<Rightarrow> json list" where
  "init_ops ps = filter on_init (all_ops ps)"

lemma init_ops_append: "init_ops (ps @ qs) = init_ops ps @ init_ops qs"
  by (simp add: init_ops_def)

lemma on_init_simps [simp]:
  "on_init (storage_mount_op i st)"
  "on_init (patch_op verb (init_path ''-'') v)" "on_init (patch_op verb (init_path ''2/env/-'') v)"
  "\<not> on_init (patch_op verb (ctr_path i r) v)"
  "\<not> on_init (patch_op verb (CHR ''/'' # base @ ''-pv'') v)"
  "\<not> on_init (patch_op verb (CHR ''/'' # base @ ''-secret'') v)"
  "\<not> on_init (patch_op verb ''/image_pull_secret'' v)" "\<not> on_init (patch_op verb ''/renviron'' v)"
  "\<not> on_init (patch_op verb ''/serviceRpcServer'' v)" "\<not> on_init (patch_op verb ''/service/spec/ports/-'' v)"
  "\<not> on_init (patch_op verb ''/statefulset/spec/template/spec/containers/0/volumeMounts/-'' v)"
  "\<not> on_init (patch_op verb ''/statefulset/spec/template/spec/volumes/-'' v)"
  "\<not> on_init (patch_op verb (pod_path ''volumes/-'') v)" "\<not> on_init (patch_op verb (pod_path ''containers/-'') v)"
  "\<not> on_init (patch_op verb (pod_path ''tolerations'') v)" "\<not> on_init (patch_op verb (pod_path ''affinity'') v)"
  "\<not> on_init (patch_op verb (pod_path ''nodeSelector'') v)"
  "\<not> on_init (patch_op verb (pod_path ''priorityClassName'') v)"
  "\<not> on_init (patch_op verb (pod_path ''imagePullSecrets/-'') v)"
  "\<not> on_init (patch_op verb (pod_path ''enableServiceLinks'') v)"
  by (simp_all add: on_init_def storage_mount_op_def)
    (auto simp: init_path_def ctr_path_def pod_path_def dest!: arg_cong [where f = last])


text \<open>Every operation of a group of patches that leaves the init containers alone.\<close>

lemma init_ops_json_patch [simp]: "init_ops [] = []"
  "init_ops (json_patch ops # ps) = filter on_init ops @ init_ops ps"
  by (simp_all add: init_ops_def)

definition storage_mount_ops :: "user_server \<Rightarrow> json list" where
  "storage_mount_ops s =
     (if srv_repositories s = [] then []
      else map (\<lambda>(i, st). storage_mount_op i st) (enumerate 0 (srv_cloudstorage s)))"

lemma leading_init_ops:
  assumes "leading_patches cfg s = Inr ps"
  shows "init_ops ps =
    (case srv_user_secrets s of None \<Rightarrow> [] | Some us \<Rightarrow> [add_op (init_path ''-'') (init_user_secrets_container cfg s us)])"
proof -
  from assms obtain aff env where aff: "session_affinity cfg s = Inr aff" and env: "jupyter_env cfg s = Inr env"
    and ps: "ps = test_patches cfg s @ session_tolerations cfg s @ aff @ session_node_selector cfg s @
      priority_class_patch s @ dev_shm s @ args_patch @ env @ image_pull_secret cfg s @
      disable_service_links @ rstudio_env_variables s @ user_secrets_patches cfg s"
    by (auto simp: leading_patches_def bindE_Inr_iff)
  have tests: "init_ops (map (\<lambda>(i, n). json_patch [patch_op ''test'' (ctr_path i ''/name'') (JStr n)]) xs) = []" for xs
    by (induction xs) auto
  have "init_ops (test_patches cfg s) = []" unfolding test_patches_def by (rule tests)
  moreover have "init_ops aff = []" using aff
    by (auto simp: session_affinity_def Let_def bindE_Inr_iff split: if_splits)
  moreover have "init_ops env = []" using env
    by (auto simp: jupyter_env_def env_patch_def Let_def bindE_Inr_iff)
  ultimately show ?thesis
    by (auto simp: ps init_ops_append session_tolerations_def session_node_selector_def priority_class_patch_def
        dev_shm_def args_patch_def image_pull_secret_def disable_service_links_def rstudio_env_variables_def
        user_secrets_patches_def Let_def split: option.splits)
qed

lemma middle_init_ops:
  assumes "middle_patches cfg s = Inr ps"
  shows "init_ops ps = [add_op (init_path ''-'') (init_certificates_container cfg),
    add_op (init_path ''-'') (download_image_container s)]"
  using assms
  by (auto simp: middle_patches_def bindE_Inr_iff init_ops_append git_proxy_main_def git_sidecar_main_def
      oauth2_arg_def oidc_unverified_email_def ssh_main_def certificates_def download_image_def Let_def
      split: option.splits)

lemma cloudstorage_init_ops:
  assumes "cloudstorage_main cfg s = Inr ps"
  shows "init_ops ps = storage_mount_ops s"
proof -
  let ?gen = "\<lambda>(i, st). bindE (get_manifest_patch (cloud_storage_class cfg) st (srv_name s @ ''-ds-'' @ show_nat i)) (\<lambda>ps.
         Inr (ps @ (if srv_repositories s = [] then [] else [storage_mount_patch i st])))"
  have mount: "init_ops qs = []" if "get_manifest_patch cls st b = Inr qs" for cls st b qs
    using that by (auto simp: get_manifest_patch_def bindE_Inr_iff)
  have "mapE ?gen xs = Inr yss \<Longrightarrow> init_ops (concat yss) =
      (if srv_repositories s = [] then [] else map (\<lambda>(i, st). storage_mount_op i st) xs)" for xs yss
  proof (induction xs arbitrary: yss)
    case (Cons x xs)
    then show ?case
      by (cases x) (auto simp: bindE_Inr_iff init_ops_append storage_mount_patch_def mount)
  qed simp
  with assms show ?thesis
    unfolding cloudstorage_main_def concatE_def storage_mount_ops_def by (auto simp: bindE_Inr_iff)
qed

lemma trailing_init_ops:
  assumes "trailing_patches cfg s = Inr ps"
  shows "init_ops ps =
    (if srv_repositories s = [] then [] else [add_op (init_path ''-'') (git_clone_container cfg s)])
    @ storage_mount_ops s"
  using assms
  by (auto simp: trailing_patches_def bindE_Inr_iff init_ops_append git_clone_def proxy_certificates_def
      cloudstorage_init_ops filter_empty_conv)

definition init_container_names :: "json list \<Rightarrow> json list" where
  "init_container_names ps =
     map (\<lambda>q. case jitem (op_value q) ''name'' of Inr n \<Rightarrow> n | Inl _ \<Rightarrow> JNull)
       (filter (\<lambda>q. op_path q = init_path ''-'') (all_ops ps))"

lemma all_patches_init_ops:
  assumes "all_patches cfg s = Inr ps"
  shows "init_ops ps =
    (case srv_user_secrets s of None \<Rightarrow> [] | Some us \<Rightarrow> [add_op (init_path ''-'') (init_user_secrets_container cfg s us)])
    @ [add_op (init_path ''-'') (init_certificates_container cfg),
       add_op (init_path ''-'') (download_image_container s)]
    @ (if srv_repositories s = [] then [] else [add_op (init_path ''-'') (git_clone_container cfg s)])
    @ storage_mount_ops s"
  using assms
  by (auto simp: all_patches_def bindE_Inr_iff init_ops_append leading_init_ops middle_init_ops trailing_init_ops)

text \<open>What the operations make of the init containers they find, as RFC 6902 defines \<open>add\<close>.\<close>

definition add_env :: "json \<Rightarrow> json \<Rightarrow> json option" where
  "add_env c v =
     (case c of
        JObj kvs \<Rightarrow> (case dget kvs ''env'' of Some (JArr vs) \<Rightarrow> Some (JObj (dset ''env'' (JArr (vs @ [v])) kvs)) | _ \<Rightarrow> None)
      | _ \<Rightarrow> None)"

fun apply_init :: "json list \<Rightarrow> json list \<Rightarrow> json list option" where
  "apply_init cs [] = Some cs"
| "apply_init cs (q # qs) =
     (if op_path q = init_path ''-'' then apply_init (cs @ [op_value q]) qs
      else if op_path q = init_path ''2/env/-'' then
        (if length cs \<le> 2 then None
         else case add_env (cs ! 2) (op_value q) of
           None \<Rightarrow> None
         | Some c \<Rightarrow> apply_init (cs[2 := c]) qs)
      else apply_init cs qs)"

lemma apply_init_filter: "apply_init cs (all_ops ps) = apply_init cs (init_ops ps)"
proof -
  have "apply_init cs qs = apply_init cs (filter on_init qs)" for qs
    by (induction cs qs rule: apply_init.induct) (auto simp: on_init_def split: option.splits)
  then show ?thesis unfolding init_ops_def .
qed

lemma storage_mount_op_simps [simp]:
  "op_path (storage_mount_op i st) = init_path ''2/env/-''"
  "op_value (storage_mount_op i st) =
     env_json (''GIT_CLONE_STORAGE_MOUNTS_'' @ show_nat i) (JStr (rs_mount_folder st))"
  by (simp_all add: storage_mount_op_def)

lemma init_path_distinct [simp]: "init_path ''-'' \<noteq> init_path ''2/env/-''" "init_path ''2/env/-'' \<noteq> init_path ''-''"
  by (simp_all add: init_path_def)

lemma env_name_differ: "''name'' \<noteq> ''env''"
  by simp

lemma apply_init_add: "apply_init cs (add_op (init_path ''-'') v # qs) = apply_init (cs @ [v]) qs"
  by simp

lemma apply_init_no_env: "add_env b v = None \<Longrightarrow> op_value (storage_mount_op i st) = v \<Longrightarrow>
    apply_init (u # a # b # cs) (storage_mount_op i st # qs) = None"
  by simp

text \<open>Operations on the third container append to its variables, when it has any.\<close>

lemma apply_mounts:
  assumes "dget kvs ''env'' = Some (JArr vs)"
  shows "\<exists>kvs'. apply_init [a, b, JObj kvs] (map (\<lambda>(i, st). storage_mount_op i st) xs) = Some [a, b, JObj kvs']
    \<and> dget kvs' ''env'' = Some (JArr (vs @ map (\<lambda>(i, st). op_value (storage_mount_op i st)) xs))
    \<and> (\<forall>k. k \<noteq> ''env'' \<longrightarrow> dget kvs' k = dget kvs k)"
  using assms
proof (induction xs arbitrary: kvs vs)
  case (Cons x xs)
  obtain i st where x: "x = (i, st)" by (cases x)
  let ?v = "op_value (storage_mount_op i st)"
  let ?kvs = "dset ''env'' (JArr (vs @ [?v])) kvs"
  have "dget ?kvs ''env'' = Some (JArr (vs @ [?v]))" by simp
  from Cons.IH [OF this] obtain kvs' where
    "apply_init [a, b, JObj ?kvs] (map (\<lambda>(i, st). storage_mount_op i st) xs) = Some [a, b, JObj kvs']"
    "dget kvs' ''env'' = Some (JArr ((vs @ [?v]) @ map (\<lambda>(i, st). op_value (storage_mount_op i st)) xs))"
    "\<forall>k. k \<noteq> ''env'' \<longrightarrow> dget kvs' k = dget ?kvs k" by blast
  moreover have "add_env (JObj kvs) ?v = Some (JObj ?kvs)" using Cons.prems by (simp add: add_env_def)
  ultimately show ?case by (simp add: x del: storage_mount_op_simps(2))
qed simp

lemma download_no_env: "add_env (download_image_container s) v = None"
  by (simp add: add_env_def download_image_container_def dget_append split: option.splits)

text \<open>
  The init containers of a session are added in a fixed order.  A container that decrypts user
  secrets comes first when there are any, before the one that installs the certificates; the image
  is downloaded next, and the container that clones the repositories is last.
\<close>

theorem init_container_order:
  assumes "get_patches cfg fetch s w = (Inr (ps, s'), w')"
  shows "init_container_names ps = map JStr
    ((if srv_user_secrets s = None then [] else [''init-user-secrets''])
     @ [''init-certificates'', ''download-image'']
     @ (if srv_repositories s = [] then [] else [''git-clone'']))"
proof -
  from get_patches_Inr [OF assms] have all: "all_patches cfg s' = Inr ps" and s': "resolved s s'" by simp_all
  have same: "srv_user_secrets s' = srv_user_secrets s" "srv_repositories s' = [] \<longleftrightarrow> srv_repositories s = []"
    using s' by (auto simp: resolved_def split: if_splits)
  have mounts: "filter (\<lambda>q. op_path q = init_path ''-'') (storage_mount_ops s') = []"
    by (auto simp: storage_mount_ops_def filter_empty_conv)
  have "filter (\<lambda>q. op_path q = init_path ''-'') (all_ops ps) =
      filter (\<lambda>q. op_path q = init_path ''-'') (init_ops ps)"
    by (simp add: init_ops_def on_init_def cong: filter_cong) (metis (mono_tags, lifting))
  then show ?thesis
    unfolding init_container_names_def all_patches_init_ops [OF all] 
    by (simp add: same mounts init_user_secrets_container_def init_certificates_container_def
        download_image_container_def git_clone_container_def dget_append split: option.splits)
qed

text \<open>
  In a session without user secrets the patches that tell the clone container about storage mounts
  by its index reach it: applied in order to an empty list of init containers they leave the clone
  container third, with its own variables followed by one per storage.
\<close>

theorem storage_mounts_reach_git_clone:
  assumes "get_patches cfg fetch s w = (Inr (ps, s'), w')"
    and "srv_user_secrets s = None" and "srv_repositories s \<noteq> []"
  shows "\<exists>clone. apply_init [] (all_ops ps) =
      Some [init_certificates_container cfg, download_image_container s', clone]
    \<and> jitem clone ''name'' = Inr (JStr ''git-clone'')
    \<and> jitem clone ''env'' = Inr (JArr (git_clone_env cfg s' @
        map (\<lambda>(i, st). env_json (''GIT_CLONE_STORAGE_MOUNTS_'' @ show_nat i) (JStr (rs_mount_folder st)))
          (enumerate 0 (srv_cloudstorage s))))"
proof -
  from get_patches_Inr [OF assms(1)] have all: "all_patches cfg s' = Inr ps" and s': "resolved s s'" by simp_all
  have same: "srv_user_secrets s' = None" "srv_repositories s' \<noteq> []" "srv_cloudstorage s' = srv_cloudstorage s"
    using s' assms by (auto simp: resolved_def split: if_splits)
  obtain kvs where clone: "git_clone_container cfg s' = JObj kvs" "dget kvs ''env'' = Some (JArr (git_clone_env cfg s'))"
      "dget kvs ''name'' = Some (JStr ''git-clone'')"
    by (simp add: git_clone_container_def)
  have "apply_init [] (all_ops ps) = apply_init [init_certificates_container cfg, download_image_container s', JObj kvs]
      (map (\<lambda>(i, st). storage_mount_op i st) (enumerate 0 (srv_cloudstorage s)))"
    unfolding apply_init_filter all_patches_init_ops [OF all]
    by (simp only: same clone storage_mount_ops_def option.case if_False append_Nil append_Cons apply_init_add)
  moreover from apply_mounts [OF clone(2)] obtain kvs' where
    "apply_init [init_certificates_container cfg, download_image_container s', JObj kvs]
      (map (\<lambda>(i, st). storage_mount_op i st) (enumerate 0 (srv_cloudstorage s)))
      = Some [init_certificates_container cfg, download_image_container s', JObj kvs']"
    "dget kvs' ''env'' = Some (JArr (git_clone_env cfg s' @
        map (\<lambda>(i, st). op_value (storage_mount_op i st)) (enumerate 0 (srv_cloudstorage s))))"
    "dget kvs' ''name'' = Some (JStr ''git-clone'')"
    using clone(3) by (metis (no_types, lifting) env_name_differ)
  ultimately show ?thesis
    by (intro exI [of _ "JObj kvs'"]) (simp only: jitem.simps option.case storage_mount_op_simps simp_thms)
qed

text \<open>
  In a session with user secrets, repositories and storage the index is wrong: the third init
  container is the one that downloads the image, which has no list of variables, so that the patches
  cannot be applied.
\<close>

theorem storage_mounts_break_with_secrets:
  assumes "get_patches cfg fetch s w = (Inr (ps, s'), w')"
    and "srv_user_secrets s \<noteq> None" and "srv_repositories s \<noteq> []" and "srv_cloudstorage s \<noteq> []"
  shows "apply_init [] (all_ops ps) = None"
proof -
  from get_patches_Inr [OF assms(1)] have all: "all_patches cfg s' = Inr ps" and s': "resolved s s'" by simp_all
  have same: "srv_user_secrets s' = srv_user_secrets s" "srv_repositories s' \<noteq> []" "srv_cloudstorage s' = srv_cloudstorage s"
    using s' assms by (auto simp: resolved_def split: if_splits)
  obtain us where us: "srv_user_secrets s = Some us" using assms(2) by blast
  obtain st sts where sts: "srv_cloudstorage s = st # sts" using assms(4) by (cases "srv_cloudstorage s") auto
  show ?thesis
    unfolding apply_init_filter all_patches_init_ops [OF all]
    by (simp only: same us sts storage_mount_ops_def option.case if_False append_Nil append_Cons apply_init_add
        enumerate_simps list.map prod.case apply_init_no_env [OF download_no_env refl])
qed

section \<open>Examples with storage\<close>

definition plain_storage :: rclone_storage where
  "plain_storage = example_storage\<lparr>rs_configuration := [(''type'', JStr ''s3'')]\<rparr>"

definition storage_server :: "k8s_user_secrets option \<Rightarrow> user_server" where
  "storage_server us = small_server
     \<lparr>srv_user_secrets := us, srv_repositories := srv_repositories example_server,
      srv_cloudstorage := [plain_storage]\<rparr>"

definition example_secrets :: k8s_user_secrets where
  "example_secrets = \<lparr>us_name = ''jane-1-secret'', us_secret_ids = [], us_mount_path = ''/secrets''\<rparr>"

lemma plain_storage_patches: "\<exists>ps. get_manifest_patch ''csi-rclone'' plain_storage (''jane-1'' @ ''-ds-'' @ show_nat 0) = Inr ps"
proof -
  have "case get_manifest_patch ''csi-rclone'' plain_storage (''jane-1'' @ ''-ds-'' @ show_nat 0) of Inl _ \<Rightarrow> False | Inr _ \<Rightarrow> True"
    by code_simp
  then show ?thesis by (auto split: sum.splits)
qed

lemma storage_run:
  "\<exists>ps s'. get_patches example_config no_providers (storage_server us) () = (Inr (ps, s'), ())"
proof -
  obtain ps where "get_manifest_patch ''csi-rclone'' plain_storage (''jane-1'' @ ''-ds-'' @ show_nat 0) = Inr ps"
    using plain_storage_patches ..
  then show ?thesis
    by (simp add: get_patches_def resolve_repositories_def no_providers_def storage_server_def small_simps
        with_providers_def bindC_def)
qed

theorem init_container_order_witness:
  "\<exists>ps. init_container_names ps = [JStr ''init-certificates'', JStr ''download-image'']"
proof (rule small_run [of "()"])
  fix ps
  assume "get_patches example_config no_providers small_server () = (Inr (ps, small_server), ())"
  from init_container_order [OF this] show ?thesis
    by (intro exI [of _ ps]) (simp add: small_server_def example_server_def)
qed

theorem storage_mounts_reach_git_clone_witness:
  "\<exists>ps s' clone. get_patches example_config no_providers (storage_server None) () = (Inr (ps, s'), ())
    \<and> apply_init [] (all_ops ps) = Some [init_certificates_container example_config, download_image_container s', clone]
    \<and> jitem clone ''name'' = Inr (JStr ''git-clone'')"
proof -
  obtain ps s' where run: "get_patches example_config no_providers (storage_server None) () = (Inr (ps, s'), ())"
    using storage_run by blast
  with storage_mounts_reach_git_clone [OF run] show ?thesis
    by (auto simp: storage_server_def example_server_def)
qed

theorem storage_mounts_break_with_secrets_witness:
  "\<exists>ps s'. get_patches example_config no_providers (storage_server (Some example_secrets)) () = (Inr (ps, s'), ())
    \<and> apply_init [] (all_ops ps) = None"
proof -
  obtain ps s' where run:
    "get_patches example_config no_providers (storage_server (Some example_secrets)) () = (Inr (ps, s'), ())"
    using storage_run by blast
  with storage_mounts_break_with_secrets [OF run] show ?thesis
    by (auto simp: storage_server_def example_server_def)
qed

section \<open>Ownership\<close>

text \<open>What the composed manifest says of its owner and its name.\<close>

lemma manifest_json_owner:
  "server_owner username_label_name (manifest_json cfg s ps) = Inr (JStr (user_safe_username (srv_user s)))"
  "jpath (manifest_json cfg s ps) [''metadata'', ''name''] JNull = Inr (JStr (srv_name s))"
  "truthy (manifest_json cfg s ps)"
proof -
  have "dget (get_labels s) username_label_name = Some (JStr (user_safe_username (srv_user s)))"
    by (simp add: get_labels_def base_labels_def username_label_name_def renku_def Let_def
        split: server_kind.split option.split)
  then show "server_owner username_label_name (manifest_json cfg s ps) = Inr (JStr (user_safe_username (srv_user s)))"
    by (simp add: server_owner_def manifest_json_def)
qed (simp_all add: manifest_json_def)

text \<open>
  C10. A session that is created for a user is found again by that user and by nobody else: the ownership
  test of the cluster client, with the label that the configuration gives it, accepts the composed
  manifest exactly for the safe username of the session's user.
\<close>

theorem created_session_owned:
  "owned_by username_label_name u (Some (manifest_json cfg s ps)) =
     Inr (if u = user_safe_username (srv_user s) then Some (manifest_json cfg s ps) else None)"
  using manifest_json_owner [of cfg s ps] by (simp add: owned_by_def)

section \<open>Start\<close>

text \<open>
  A session is only started with an image, and in version 1 only with a project, a branch and a commit
  that were found in GitLab.
\<close>

theorem start_requires_resources:
  assumes "start cfg k gl fetch s w = (Inr r, w')"
  shows "srv_image s \<noteq> None \<and>
    (case srv_kind s of
       Renku2 _ _ \<Rightarrow> True
     | Renku1 ns project branch commit_sha gitlab_project \<Rightarrow>
         gitlab_project \<noteq> None \<and>
         (\<exists>b w1 w2. branch = Some b \<and> get_branch gl b w1 = (Inr (), w2)) \<and>
         (\<exists>c w1 w2. commit_sha = Some c \<and> get_commit gl c w1 = (Inr (), w2)))"
proof -
  have found: "\<exists>n w1 w2. x = Some n \<and> lookup n w1 = (Inr (), w2) \<and> g \<noteq> None"
    if "verified lookup x g w = (Inr True, w')" for lookup x g w w'
    using that by (auto simp: verified_def catchC_def bindC_def split: option.splits sum.splits prod.splits)
  from assms obtain w1 where errs: "get_start_errors gl s w = (Inr [], w1)"
    by (auto simp: start_def bindC_Inr_iff split: if_splits)
  show ?thesis
  proof (cases "srv_kind s")
    case (Renku1 ns project branch commit_sha gitlab_project)
    with errs obtain w2 w3 where "verified (get_branch gl) branch gitlab_project w = (Inr True, w2)"
      "verified (get_commit gl) commit_sha gitlab_project w2 = (Inr True, w3)" "srv_image s \<noteq> None"
      by (auto simp: get_start_errors_def branch_exists_def commit_sha_exists_def bindC_Inr_iff base_start_errors_def split: if_splits)
    with found Renku1 show ?thesis by fastforce
  next
    case Renku2
    with errs show ?thesis by (auto simp: get_start_errors_def branch_exists_def commit_sha_exists_def base_start_errors_def split: if_splits)
  qed
qed

lemma small_start_errors: "get_start_errors gl small_server w = (Inr [], w)"
  by (simp add: get_start_errors_def branch_exists_def commit_sha_exists_def base_start_errors_def small_server_def example_server_def)

definition started_cluster :: cluster where
  "started_cluster = [(''jane-1'', example_session ''jane-1'' ''jane'')]"

definition no_lookup :: "'w gitlab_lookup" where
  "no_lookup = \<lparr>get_branch = (\<lambda>_. raise IndexError), get_commit = (\<lambda>_. raise IndexError)\<rparr>"

lemma small_start:
  "start example_config example_client no_lookup no_providers small_server started_cluster
     = (Inr (Some (example_session ''jane-1'' ''jane'')), started_cluster)"
proof (rule small_run [of started_cluster])
  fix ps
  assume run: "get_patches example_config no_providers small_server started_cluster = (Inr (ps, small_server), started_cluster)"
    and "agree (env_assignments ps)"
  then have manifest: "get_session_manifest example_config no_providers small_server started_cluster
      = (Inr (manifest_json example_config small_server ps), started_cluster)"
    by (rule get_session_manifest_agree)
  have "get_server example_client ''jane-1'' ''jane'' started_cluster
      = (Inr (Some (example_session ''jane-1'' ''jane'')), started_cluster)"
    by code_simp
  moreover have "truthy (example_session ''jane-1'' ''jane'')" by code_simp
  moreover have "jpath (manifest_json example_config small_server ps) [''metadata'', ''name''] JNull = Inr (JStr ''jane-1'')"
    by (simp add: manifest_json_def small_server_def example_server_def)
  moreover have "user_safe_username (srv_user small_server) = ''jane''"
    by (simp add: small_server_def example_server_def example_user_def)
  ultimately show ?thesis
    by (simp add: start_def small_start_errors manifest bindC_def create_server_def)
qed

theorem start_requires_resources_witness:
  "srv_image small_server \<noteq> None"
  using start_requires_resources [OF small_start] by (rule conjunct1)

text \<open>
  Where something is missing, starting a session names everything that is missing in a
  \<open>MissingResourceError\<close> and does nothing else: no provider is fetched and nothing is created.
\<close>

theorem start_missing_resources:
  assumes "get_start_errors gl s w = (Inr errors, w')" and "errors \<noteq> []"
  shows "start cfg k gl fetch s w =
    (Inl (api MissingResourceError
       (''Cannot start the session because the following Git or Docker resources are missing: '' @ join '', '' errors)), w')"
  using assms by (simp add: start_def bindC_eval)

theorem start_missing_resources_witness:
  "\<exists>m. start example_config example_client no_lookup no_providers (small_server\<lparr>srv_image := None\<rparr>) started_cluster
     = (Inl (api MissingResourceError m), started_cluster)"
proof -
  have "get_start_errors no_lookup (small_server\<lparr>srv_image := None\<rparr>) started_cluster
      = (Inr [''image None does not exist or cannot be accessed''], started_cluster)"
    by (simp add: get_start_errors_def branch_exists_def commit_sha_exists_def base_start_errors_def small_server_def example_server_def)
  from start_missing_resources [OF this] show ?thesis by blast
qed

section \<open>Providers\<close>

text \<open>
  The providers whose tokens a session is given are exactly those that its repositories are matched
  with: for each repository the first provider on the same host.
\<close>

theorem required_providers_exact:
  assumes "distinct (map gp_id ps)" and "\<forall>p \<in> set ps. gp_id p \<noteq> []"
    and "\<forall>r \<in> set (srv_repositories s). repo_provider r = None"
  shows "p \<in> set (required_git_providers (with_providers ps s)) \<longleftrightarrow>
    (\<exists>r \<in> set (srv_repositories s). find_provider ps r = Some p)"
proof -
  have in_ps: "q \<in> set ps" if "find_provider ps r = Some q" for q r
    using that by (auto simp: find_provider_def find_Some_iff)
  have key: "repo_provider (with_provider ps r) = Some (gp_id p) \<longleftrightarrow> find_provider ps r = Some p"
    if "r \<in> set (srv_repositories s)" and p: "p \<in> set ps" for r
  proof (cases "find_provider ps r")
    case None
    with assms(3) that show ?thesis by (simp add: with_provider_def)
  next
    case (Some q)
    then have "gp_id q = gp_id p \<longleftrightarrow> q = p"
      using assms(1) in_ps p by (auto simp: distinct_map inj_on_def)
    with Some show ?thesis by (simp add: with_provider_def)
  qed
  show ?thesis
    using key in_ps assms(2) unfolding required_git_providers_def with_providers_def by auto
qed


definition example_providers :: "git_provider list" where
  "example_providers =
     [\<lparr>gp_id = ''INTERNAL_GITLAB'', gp_url = ''https://gitlab.com'', gp_connection_id = [],
       gp_access_token_url = ''https://renku.example.org/t''\<rparr>,
      \<lparr>gp_id = ''github'', gp_url = ''https://github.com'', gp_connection_id = ''c'',
       gp_access_token_url = ''https://renku.example.org/c''\<rparr>]"

theorem required_providers_exact_witness:
  "example_providers ! 0 \<in> set (required_git_providers (with_providers example_providers example_server))"
proof -
  have "find_provider example_providers (srv_repositories example_server ! 0) = Some (example_providers ! 0)"
    by code_simp
  moreover have "srv_repositories example_server ! 0 \<in> set (srv_repositories example_server)"
    by (simp add: example_server_def)
  moreover have "distinct (map gp_id example_providers)" "\<forall>p \<in> set example_providers. gp_id p \<noteq> []"
    "\<forall>r \<in> set (srv_repositories example_server). repo_provider r = None"
    by (simp_all add: example_providers_def example_server_def)
  ultimately show ?thesis using required_providers_exact by blast
qed

end
