(* ===== verification/Manifest.thy ===== *)
theory Manifest
  imports SessionFacts
begin

text \<open>
  \<open>UserServerManifest\<close> (\<open>api/classes/server_manifest.py\<close>): what the service reads back from the
  manifest of a session that it finds in the cluster, and how it agrees with the session that the
  manifest was composed for.
\<close>

section \<open>Properties of a manifest\<close>

definition manifest_name :: "json \<Rightarrow> json res" where
  "manifest_name m = jitems m [''metadata'', ''name'']"

definition manifest_image :: "json \<Rightarrow> json res" where
  "manifest_image m = jitems m [''spec'', ''jupyterServer'', ''image'']"

definition using_default_image :: "notebooks_config \<Rightarrow> json \<Rightarrow> bool res" where
  "using_default_image cfg m =
     bindE (manifest_image m) (\<lambda>i. Inr (i = JStr (default_image (cfg_sessions cfg))))"

definition manifest_annotations :: "json \<Rightarrow> json res" where
  "manifest_annotations m = jitems m [''metadata'', ''annotations'']"

definition manifest_labels :: "json \<Rightarrow> json res" where
  "manifest_labels m = jitems m [''metadata'', ''labels'']"

definition manifest_cloudstorage :: "notebooks_config \<Rightarrow> json \<Rightarrow> existing_storage list res" where
  "manifest_cloudstorage cfg m = existing_from_manifest (cloud_storage_class cfg) m"

section \<open>Server options\<close>

text \<open>
  \<open>float(x)\<close>: a decimal with an optional sign, fraction and exponent, between white space; the
  texts for infinities and for not-a-number, and underscores between digits, are not modelled.
  \<open>None\<close> stands for the \<open>ValueError\<close>.
\<close>

definition split_sign :: "string \<Rightarrow> bool \<times> string" where
  "split_sign s =
     (case s of c # r \<Rightarrow> if c = CHR ''-'' then (True, r) else if c = CHR ''+'' then (False, r) else (False, s)
      | [] \<Rightarrow> (False, s))"

definition float_of_text :: "string \<Rightarrow> rat option" where
  "float_of_text text =
     (let (neg, s) = split_sign (strip is_space text);
          mantissa = takeWhile (\<lambda>c. is_digit c \<or> is_dot c) s; r = drop (length mantissa) s;
          digits_ok = list_ex is_digit mantissa \<and> length (filter is_dot mantissa) \<le> 1;
          x = decimal_value mantissa
      in if \<not> digits_ok then None
         else case r of
           [] \<Rightarrow> Some (fl (if neg then - x else x))
         | e # t \<Rightarrow>
             (let (neg_e, ds) = split_sign t; p = int (parse_digits ds) in
              if lower_char e = CHR ''e'' \<and> ds \<noteq> [] \<and> list_all is_digit ds
              then Some (fl ((if neg then - x else x) * pow10 (if neg_e then - p else p)))
              else None))"

text \<open>\<open>with contextlib.suppress(ValueError): v = float(v)\<close>.\<close>

definition try_float :: "json \<Rightarrow> json res" where
  "try_float v =
     (case v of
        JStr s \<Rightarrow> Inr (case float_of_text s of Some x \<Rightarrow> JFloat x | None \<Rightarrow> v)
      | JInt i \<Rightarrow> Inr (JFloat (fl (of_int i)))
      | JFloat x \<Rightarrow> Inr v
      | JBool b \<Rightarrow> Inr (JFloat (if b then 1 else 0))
      | _ \<Rightarrow> Inl (TypeError ''float() argument must be a string or a real number''))"

text \<open>\<open>k in x\<close>.\<close>

definition jcontains :: "json \<Rightarrow> string \<Rightarrow> bool res" where
  "jcontains x k =
     (case x of
        JObj kvs \<Rightarrow> Inr (dget kvs k \<noteq> None)
      | JArr xs \<Rightarrow> Inr (JStr k \<in> set xs)
      | JStr s \<Rightarrow> Inr (sublist k s)
      | _ \<Rightarrow> Inl (TypeError ''argument is not iterable''))"

definition k8s_res_name_xref :: "(string \<times> string) list" where
  "k8s_res_name_xref =
     [(''memory'', ''mem_request''), (''nvidia.com/gpu'', ''gpu_request''), (''cpu'', ''cpu_request''),
      (''ephemeral-storage'', ''ephemeral-storage'')]"

definition read_resource ::
  "json \<Rightarrow> (string, json) dict \<Rightarrow> string \<times> string \<Rightarrow> (string, json) dict res" where
  "read_resource js_resources opts xref =
     bindE (jcontains js_resources (fst xref)) (\<lambda>there.
       if there then bindE (jitem js_resources (fst xref)) (\<lambda>v. Inr (dset (snd xref) v opts))
       else Inr opts)"

definition read_lfs_env :: "(string, json) dict \<Rightarrow> json \<Rightarrow> (string, json) dict res" where
  "read_lfs_env opts env =
     bindE (jget env ''name'' JNull) (\<lambda>n.
       if n = JStr ''GIT_CLONE_LFS_AUTO_FETCH'' then
         bindE (jget env ''value'' JNull) (\<lambda>v. Inr (dset ''lfs_auto_fetch'' (JBool (v = JStr ''1'')) opts))
       else Inr opts)"

definition read_lfs_patch :: "(string, json) dict \<Rightarrow> json \<Rightarrow> (string, json) dict res" where
  "read_lfs_patch opts patch =
     bindE (jget patch ''path'' JNull) (\<lambda>p.
       if p = JStr (init_path ''-'') then
         bindE (bindE (jpath patch [''value'', ''env''] (JArr [])) jiter) (\<lambda>envs. foldE read_lfs_env opts envs)
       else Inr opts)"

definition read_lfs :: "(string, json) dict \<Rightarrow> json \<Rightarrow> (string, json) dict res" where
  "read_lfs opts patches =
     bindE (bindE (jget patches ''patch'' (JArr [])) jiter) (\<lambda>ps. foldE read_lfs_patch opts ps)"

definition manifest_server_options :: "notebooks_config \<Rightarrow> json \<Rightarrow> (string, json) dict res" where
  "manifest_server_options cfg js =
     bindE (jitems js [''spec'', ''jupyterServer'', ''defaultUrl'']) (\<lambda>url.
     bindE (bindE (jitems js [''spec'', ''storage'']) (\<lambda>st. jget st ''size'' JNull)) (\<lambda>size.
     bindE (try_float size) (\<lambda>disk.
     bindE (jitems js [''spec'', ''jupyterServer'', ''resources'', ''requests'']) (\<lambda>js_resources.
     bindE (foldE (read_resource js_resources) [(''defaultUrl'', url), (''disk_request'', disk)]
         k8s_res_name_xref) (\<lambda>opts.
     let opts = (if dget opts ''ephemeral-storage'' \<noteq> None \<and> \<not> pvs_enabled (cfg_sessions cfg)
                 then dset ''ephemeral-storage'' disk opts else opts) in
     bindE (bindE (jitems js [''spec'', ''patches'']) jiter) (\<lambda>ps. foldE read_lfs opts ps))))))"

section \<open>Hibernation and address\<close>

definition manifest_hibernation :: "json \<Rightarrow> json option res" where
  "manifest_hibernation m =
     bindE (bindE (manifest_annotations m) (\<lambda>a. jget a ''hibernation'' JNull)) (\<lambda>h.
       if truthy h then bindE (jstr h) (\<lambda>t. bindE (json_loads t) (\<lambda>j. Inr (Some j))) else Inr None)"

definition manifest_dirty :: "json \<Rightarrow> json res" where
  "manifest_dirty m =
     bindE (manifest_hibernation m) (\<lambda>h.
       case h of None \<Rightarrow> Inl (AttributeError ''get'') | Some j \<Rightarrow> jget j ''dirty'' (JBool False))"

definition hibernation_field :: "string \<Rightarrow> json \<Rightarrow> json res" where
  "hibernation_field k m =
     bindE (manifest_hibernation m) (\<lambda>h.
       jget (case h of None \<Rightarrow> jempty | Some j \<Rightarrow> if truthy j then j else jempty) k JNull)"

definition hibernation_commit :: "json \<Rightarrow> json res" where
  "hibernation_commit = hibernation_field ''commit''"

definition hibernation_branch :: "json \<Rightarrow> json res" where
  "hibernation_branch = hibernation_field ''branch''"

definition manifest_url :: "json \<Rightarrow> string res" where
  "manifest_url m =
     bindE (jitems m [''spec'', ''routing'', ''host'']) (\<lambda>host.
     bindE (bindE (jitems m [''spec'', ''routing'', ''path'']) jstr) (\<lambda>p.
     bindE (bindE (jitems m [''spec'', ''auth'']) (\<lambda>a. jget a ''token'' (JStr []))) (\<lambda>token.
     let url = ''https://'' @ py_str host @ rstrip (\<lambda>c. c = CHR ''/'') p in
     if truthy token then
       bindE (jlen token) (\<lambda>n. Inr (if 0 < n then url @ ''?token='' @ py_str token else url))
     else Inr url)))"

section \<open>Reading back a session's address\<close>

definition host_text :: "string \<Rightarrow> bool" where
  "host_text h \<longleftrightarrow> h \<noteq> [] \<and> list_all (\<lambda>c. \<not> ends_host c) h"

lemma takeWhile_stop: "list_all P xs \<Longrightarrow> \<not> P c \<Longrightarrow> takeWhile P (xs @ c # ys) = xs"
  by (induction xs) auto

lemma dropWhile_stop: "list_all P xs \<Longrightarrow> \<not> P c \<Longrightarrow> dropWhile P (xs @ c # ys) = c # ys"
  by (induction xs) auto

lemma split_https: "split_scheme (''https://'' @ r) = (''https'', r)"
  by (simp add: split_scheme_def)

lemma server_url_split:
  "server_url cfg s = ''https://'' @ ingress_host (cfg_sessions cfg) @ CHR ''/'' #
     ''sessions/'' @ srv_name s @ (if registered s then [] else ''?token='' @ user_username (srv_user s))"
  by (simp add: server_url_def)

lemma server_url_host:
  assumes "host_text (ingress_host (cfg_sessions cfg))"
  shows "url_netloc (server_url cfg s) = ingress_host (cfg_sessions cfg)"
  unfolding server_url_split url_netloc_def split_https snd_conv
  using assms by (intro takeWhile_stop) (simp_all add: host_text_def ends_host_def)

lemma server_url_path:
  assumes "host_text (ingress_host (cfg_sessions cfg))" and "host_text (srv_name s)"
  shows "url_path (server_url cfg s) = ''/sessions/'' @ srv_name s"
proof -
  let ?q = "if registered s then [] else ''?token='' @ user_username (srv_user s)"
  have name: "list_all (\<lambda>c. c \<notin> set ''?#'') (''/sessions/'' @ srv_name s)"
    using assms(2) by (auto simp: host_text_def ends_host_def list_all_iff)
  have "dropWhile (\<lambda>c. \<not> ends_host c) (snd (split_scheme (server_url cfg s))) = CHR ''/'' # ''sessions/'' @ srv_name s @ ?q"
    unfolding server_url_split split_https snd_conv
    using assms(1) by (intro dropWhile_stop) (simp_all add: host_text_def ends_host_def)
  then have "url_path (server_url cfg s) = takeWhile (\<lambda>c. c \<notin> set ''?#'') (''/sessions/'' @ srv_name s @ ?q)"
    by (simp add: url_path_def)
  also have "\<dots> = ''/sessions/'' @ srv_name s"
  proof (cases "registered s")
    case True
    have "takeWhile (\<lambda>c. c \<notin> set ''?#'') (''/sessions/'' @ srv_name s) = ''/sessions/'' @ srv_name s"
      using name by (simp only: takeWhile_eq_all_conv list_all_iff)
    with True show ?thesis by simp
  next
    case False
    then show ?thesis
      using takeWhile_stop [OF name, of "CHR ''?''" "''token='' @ user_username (srv_user s)"] by simp
  qed
  finally show ?thesis .
qed

lemma rstrip_keep: "xs \<noteq> [] \<Longrightarrow> \<not> P (last xs) \<Longrightarrow> rstrip P xs = xs"
  by (cases xs rule: rev_cases) (auto simp: rstrip_def)

text \<open>
  C27. The address that is read back from a session's manifest is the address that the session was given:
  host and path come from the routing, and the token of an anonymous session from its authentication.
\<close>

theorem manifest_url_roundtrip:
  assumes "host_text (ingress_host (cfg_sessions cfg))" and "host_text (srv_name s)"
    and "registered s \<or> user_username (srv_user s) \<noteq> []"
  shows "manifest_url (manifest_json cfg s ps) = Inr (server_url cfg s)"
proof -
  have name: "srv_name s \<noteq> []" "last (srv_name s) \<noteq> CHR ''/''"
    using assms(2) last_in_set [of "srv_name s"]
    by (auto simp: host_text_def ends_host_def list_all_iff)
  have "rstrip (\<lambda>c. c = CHR ''/'') (''/sessions/'' @ srv_name s) = ''/sessions/'' @ srv_name s"
    using name by (intro rstrip_keep) simp_all
  moreover have "manifest_url (manifest_json cfg s ps) = Inr (''https://'' @ url_netloc (server_url cfg s)
      @ rstrip (\<lambda>c. c = CHR ''/'') (url_path (server_url cfg s))
      @ (if registered s then [] else ''?token='' @ user_username (srv_user s)))"
    using assms(3) by (auto simp: manifest_url_def manifest_json_def session_auth_def Let_def)
  ultimately show ?thesis
    by (simp only: server_url_host [OF assms(1)] server_url_path [OF assms(1, 2)])
      (simp add: server_url_def)
qed

theorem manifest_url_roundtrip_witness:
  "manifest_url (manifest_json example_config small_server []) = Inr ''https://renku.example.org/sessions/jane-1?token=jane''"
proof -
  have "host_text (ingress_host (cfg_sessions example_config))" "host_text (srv_name small_server)"
    by code_simp+
  moreover have "user_username (srv_user small_server) \<noteq> []" by code_simp
  moreover have "server_url example_config small_server = ''https://renku.example.org/sessions/jane-1?token=jane''"
    by code_simp
  ultimately show ?thesis using manifest_url_roundtrip by fastforce
qed

section \<open>Reading back a session's options\<close>

lemma read_lfs_wf:
  assumes "\<forall>p \<in> set ps. wf_patch p"
  shows "foldE read_lfs opts ps = foldE read_lfs_patch opts (all_ops ps)"
  using assms
proof (induction ps arbitrary: opts)
  case (Cons p ps)
  then obtain ops where p: "p = json_patch ops" by (auto simp: wf_patch_def)
  have "jget p ''patch'' (JArr []) = Inr (JArr ops)" by (simp add: p json_patch_def)
  then show ?case using Cons by (simp add: read_lfs_def p foldE_append)
qed simp

lemma read_lfs_patch_op:
  "read_lfs_patch opts (patch_op verb p v) =
     (if p = init_path ''-'' then bindE (bindE (jget v ''env'' (JArr [])) jiter) (\<lambda>envs. foldE read_lfs_env opts envs)
      else Inr opts)"
  by (simp add: read_lfs_patch_def patch_op_def)

lemma read_lfs_init_ops:
  assumes "\<forall>q \<in> set qs. wf_op q"
  shows "foldE read_lfs_patch opts qs = foldE read_lfs_patch opts (filter on_init qs)"
  using assms
proof (induction qs arbitrary: opts)
  case (Cons q qs)
  then obtain verb p v where q: "q = patch_op verb p v" by (auto simp: wf_op_def)
  show ?case
    using Cons by (cases "on_init q") (simp_all add: q read_lfs_patch_op on_init_def)
qed simp

definition lfs_name :: string where
  "lfs_name = ''GIT_CLONE_LFS_AUTO_FETCH''"

lemma read_lfs_env_json:
  "read_lfs_env opts (env_json n v) =
     Inr (if n = lfs_name then dset ''lfs_auto_fetch'' (JBool (v = JStr ''1'')) opts else opts)"
  by (simp add: read_lfs_env_def env_json_def lfs_name_def)

lemma read_lfs_env_other:
  assumes "\<forall>e \<in> set es. \<exists>n v. e = env_json n v \<and> n \<noteq> lfs_name"
  shows "foldE read_lfs_env opts es = Inr opts"
  using assms by (induction es) (auto simp: read_lfs_env_json)

lemma git_clone_env_lfs:
  obtains e es where "git_clone_env cfg s =
      e # env_json lfs_name (JStr (if so_lfs_auto_fetch (srv_options s) = Some True then ''1'' else ''0'')) # es"
    and "\<forall>e' \<in> set (e # es). \<exists>n v. e' = env_json n v \<and> n \<noteq> lfs_name"
proof
  show "git_clone_env cfg s =
      hd (git_clone_env cfg s) #
      env_json lfs_name (JStr (if so_lfs_auto_fetch (srv_options s) = Some True then ''1'' else ''0'')) #
      drop 2 (git_clone_env cfg s)"
    by (simp add: git_clone_env_def Let_def lfs_name_def)
  show "\<forall>e' \<in> set (hd (git_clone_env cfg s) # drop 2 (git_clone_env cfg s)). \<exists>n v. e' = env_json n v \<and> n \<noteq> lfs_name"
    by (auto simp: git_clone_env_def Let_def lfs_name_def sentry_env_vars_def)
qed

lemma read_lfs_storage_mounts: "foldE read_lfs_patch opts (storage_mount_ops s) = Inr opts"
proof -
  have "foldE read_lfs_patch opts (map (\<lambda>(i, st). storage_mount_op i st) xs) = Inr opts" for xs
    by (induction xs) (auto simp: storage_mount_op_def read_lfs_patch_op)
  then show ?thesis by (simp add: storage_mount_ops_def)
qed

lemma read_lfs_git_clone:
  "read_lfs_patch opts (add_op (init_path ''-'') (git_clone_container cfg s)) =
     Inr (dset ''lfs_auto_fetch'' (JBool (so_lfs_auto_fetch (srv_options s) = Some True)) opts)"
proof -
  obtain e es where env: "git_clone_env cfg s =
      e # env_json lfs_name (JStr (if so_lfs_auto_fetch (srv_options s) = Some True then ''1'' else ''0'')) # es"
    and other: "\<forall>e' \<in> set (e # es). \<exists>n v. e' = env_json n v \<and> n \<noteq> lfs_name"
    by (rule git_clone_env_lfs)
  from other obtain n v where e: "e = env_json n v" "n \<noteq> lfs_name" by auto
  have "jget (git_clone_container cfg s) ''env'' (JArr []) = Inr (JArr (git_clone_env cfg s))"
    by (simp add: git_clone_container_def)
  then show ?thesis
    using other by (auto simp: read_lfs_patch_op env e read_lfs_env_json read_lfs_env_other)
qed

lemma read_lfs_no_env:
  "read_lfs_patch opts (add_op (init_path ''-'') (init_certificates_container cfg)) = Inr opts"
  "read_lfs_patch opts (add_op (init_path ''-'') (download_image_container s)) = Inr opts"
  by (simp_all add: read_lfs_patch_op init_certificates_container_def download_image_container_def
      dget_append split: option.splits)

lemma read_lfs_user_secrets:
  "read_lfs_patch opts (add_op (init_path ''-'') (init_user_secrets_container cfg s us)) = Inr opts"
proof -
  have "foldE read_lfs_env opts
      [env_json ''DATA_SERVICE_URL'' (JStr (data_service_url cfg)),
       env_json ''RENKU_ACCESS_TOKEN'' (JStr (str_opt (user_access_token (srv_user s)))),
       env_json ''ENCRYPTED_SECRETS_MOUNT_PATH'' (JStr ''/encrypted''),
       env_json ''DECRYPTED_SECRETS_MOUNT_PATH'' (JStr ''/decrypted'')] = Inr opts"
    by (simp add: read_lfs_env_json lfs_name_def)
  then show ?thesis by (simp only: read_lfs_patch_op) (simp add: init_user_secrets_container_def)
qed

lemma read_lfs_session:
  assumes "all_patches cfg s = Inr ps"
  shows "foldE read_lfs opts ps = Inr
    (if srv_repositories s = [] then opts
     else dset ''lfs_auto_fetch'' (JBool (so_lfs_auto_fetch (srv_options s) = Some True)) opts)"
proof -
  have wf: "\<forall>p \<in> set ps. wf_patch p" by (rule all_patches_shaped [OF assms])
  then have ops: "\<forall>q \<in> set (all_ops ps). wf_op q"
    by (fastforce simp: all_ops_def wf_patch_def)
  have "foldE read_lfs opts ps = foldE read_lfs_patch opts (init_ops ps)"
    unfolding read_lfs_wf [OF wf] read_lfs_init_ops [OF ops] init_ops_def ..
  also have "\<dots> = Inr
    (if srv_repositories s = [] then opts
     else dset ''lfs_auto_fetch'' (JBool (so_lfs_auto_fetch (srv_options s) = Some True)) opts)"
    unfolding all_patches_init_ops [OF assms]
    by (cases "srv_user_secrets s")
      (simp_all add: foldE_append read_lfs_user_secrets read_lfs_no_env read_lfs_git_clone read_lfs_storage_mounts)
  finally show ?thesis .
qed



end
