(* ===== verification/Datetime.thy ===== *)
theory Datetime
  imports Json
begin

text \<open>
  \<open>datetime.datetime\<close> as the service uses it: reading and printing the extended ISO 8601 format,
  differences and comparison.  A value is its wall clock time in microseconds from 1970 and, when it
  is aware of a time zone, the offset of the zone in seconds.  The basic format and week dates, which
  \<open>fromisoformat\<close> reads as well, are not modelled: no value of the service is written in them.
\<close>

datatype datetime = DT (wall: int) (utc_offset: "int option")

section \<open>The calendar\<close>

definition leap_year :: "int \<Rightarrow> bool" where
  "leap_year y \<longleftrightarrow> y mod 4 = 0 \<and> (y mod 100 \<noteq> 0 \<or> y mod 400 = 0)"

definition month_days :: "int \<Rightarrow> int \<Rightarrow> int" where
  "month_days y m =
     (if m = 2 then (if leap_year y then 29 else 28) else if m \<in> {4, 6, 9, 11} then 30 else 31)"

text \<open>Days of the proleptic Gregorian calendar from 1970-01-01; years start in March in the middle.\<close>

definition days_from_civil :: "int \<Rightarrow> int \<Rightarrow> int \<Rightarrow> int" where
  "days_from_civil y m d =
     (let y' = (if m \<le> 2 then y - 1 else y); mp = (m + 9) mod 12 in
      365 * y' + y' div 4 - y' div 100 + y' div 400 + (153 * mp + 2) div 5 + d - 1 - 719468)"

definition civil_from_days :: "int \<Rightarrow> int \<times> int \<times> int" where
  "civil_from_days n =
     (let z = n + 719468; era = z div 146097; doe = z mod 146097;
          yoe = (doe - doe div 1460 + doe div 36524 - doe div 146096) div 365;
          doy = doe - (365 * yoe + yoe div 4 - yoe div 100);
          mp = (5 * doy + 2) div 153; d = doy - (153 * mp + 2) div 5 + 1;
          m = (if mp < 10 then mp + 3 else mp - 9)
      in (yoe + era * 400 + (if m \<le> 2 then 1 else 0), m, d))"

section \<open>Reading\<close>

text \<open>A field of exactly \<open>n\<close> digits at the start of a text.\<close>

definition digits_field :: "nat \<Rightarrow> string \<Rightarrow> (int \<times> string) option" where
  "digits_field n s =
     (if length (take n s) = n \<and> list_all is_digit (take n s)
      then Some (int (parse_digits (take n s)), drop n s) else None)"

definition after_char :: "char \<Rightarrow> string \<Rightarrow> string option" where
  "after_char c s = (case s of d # r \<Rightarrow> if d = c then Some r else None | [] \<Rightarrow> None)"

definition bindO :: "'a option \<Rightarrow> ('a \<Rightarrow> 'b option) \<Rightarrow> 'b option" where
  "bindO x f = (case x of None \<Rightarrow> None | Some y \<Rightarrow> f y)"

definition read_date :: "string \<Rightarrow> (int \<times> string) option" where
  "read_date s =
     bindO (digits_field 4 s) (\<lambda>(y, s). bindO (after_char CHR ''-'' s) (\<lambda>s.
     bindO (digits_field 2 s) (\<lambda>(m, s). bindO (after_char CHR ''-'' s) (\<lambda>s.
     bindO (digits_field 2 s) (\<lambda>(d, s).
       if 1 \<le> y \<and> 1 \<le> m \<and> m \<le> 12 \<and> 1 \<le> d \<and> d \<le> month_days y m
       then Some (days_from_civil y m d, s) else None)))))"

text \<open>Hours and minutes, then seconds and a fraction if they are there: microseconds of the day.\<close>

definition read_fraction :: "string \<Rightarrow> int \<times> string" where
  "read_fraction s =
     (case s of
        c # r \<Rightarrow>
          if (c = CHR ''.'' \<or> c = CHR '','') \<and> takeWhile is_digit r \<noteq> []
          then (let f = take 6 (takeWhile is_digit r) in
                (int (parse_digits f) * 10 ^ (6 - length f), dropWhile is_digit r))
          else (0, s)
      | [] \<Rightarrow> (0, s))"

definition read_clock :: "string \<Rightarrow> (int \<times> string) option" where
  "read_clock s =
     bindO (digits_field 2 s) (\<lambda>(h, s). bindO (after_char CHR '':'' s) (\<lambda>s.
     bindO (digits_field 2 s) (\<lambda>(mi, s).
     let (sec, us, r) =
       (case bindO (after_char CHR '':'' s) (digits_field 2) of
          Some (sec, r) \<Rightarrow> (let (us, r) = read_fraction r in (sec, us, r))
        | None \<Rightarrow> (0, 0, s))
     in if h < 24 \<and> mi < 60 \<and> sec < 60
        then Some (((h * 60 + mi) * 60 + sec) * 10 ^ 6 + us, r) else None)))"

definition read_zone :: "string \<Rightarrow> int option option" where
  "read_zone s =
     (case s of
        [] \<Rightarrow> Some None
      | c # r \<Rightarrow>
          if c = CHR ''Z'' then (if r = [] then Some (Some 0) else None)
          else if c = CHR ''+'' \<or> c = CHR ''-'' then
            (case read_clock r of
               Some (us, []) \<Rightarrow> if us mod 10 ^ 6 = 0 then Some (Some ((if c = CHR ''-'' then -1 else 1) * (us div 10 ^ 6))) else None
             | _ \<Rightarrow> None)
          else None)"

definition fromisoformat :: "string \<Rightarrow> datetime res" where
  "fromisoformat s =
     (case bindO (read_date s) (\<lambda>(days, r).
             case r of
               [] \<Rightarrow> Some (DT (days * 86400 * 10 ^ 6) None)
             | _ # t \<Rightarrow> bindO (read_clock t) (\<lambda>(us, z). bindO (read_zone z) (\<lambda>off.
                 Some (DT (days * 86400 * 10 ^ 6 + us) off)))) of
        Some d \<Rightarrow> Inr d
      | None \<Rightarrow> Inl (ValueError ''Invalid isoformat string''))"

section \<open>Printing\<close>

definition padded :: "nat \<Rightarrow> int \<Rightarrow> string" where
  "padded n i = (let s = show_nat (nat i) in replicate (n - length s) CHR ''0'' @ s)"

definition show_clock :: "int \<Rightarrow> string" where
  "show_clock sec = padded 2 (sec div 3600) @ '':'' @ padded 2 (sec div 60 mod 60)"

definition isoformat_seconds :: "datetime \<Rightarrow> string" where
  "isoformat_seconds t =
     (let sec = wall t div 10 ^ 6; (y, m, d) = civil_from_days (sec div 86400); clock = sec mod 86400 in
      padded 4 y @ ''-'' @ padded 2 m @ ''-'' @ padded 2 d @ ''T'' @ show_clock clock @ '':'' @ padded 2 (clock mod 60))"

definition show_zone :: "int option \<Rightarrow> string" where
  "show_zone off =
     (case off of
        None \<Rightarrow> []
      | Some n \<Rightarrow> (if n < 0 then ''-'' else ''+'') @ show_clock \<bar>n\<bar> @
          (if \<bar>n\<bar> mod 60 = 0 then [] else '':'' @ padded 2 (\<bar>n\<bar> mod 60)))"

text \<open>\<open>isoformat()\<close> and \<open>isoformat(timespec='seconds')\<close>.\<close>

definition isoformat :: "datetime \<Rightarrow> string" where
  "isoformat t =
     isoformat_seconds t @ (if wall t mod 10 ^ 6 = 0 then [] else ''.'' @ padded 6 (wall t mod 10 ^ 6))
       @ show_zone (utc_offset t)"

definition isoformat_to_seconds :: "datetime \<Rightarrow> string" where
  "isoformat_to_seconds t = isoformat_seconds t @ show_zone (utc_offset t)"

section \<open>Differences\<close>

text \<open>\<open>(a - b)\<close> in microseconds: both aware or both naive.\<close>

definition dt_sub :: "datetime \<Rightarrow> datetime \<Rightarrow> int res" where
  "dt_sub a b =
     (case (utc_offset a, utc_offset b) of
        (None, None) \<Rightarrow> Inr (wall a - wall b)
      | (Some m, Some n) \<Rightarrow> Inr (wall a - m * 10 ^ 6 - (wall b - n * 10 ^ 6))
      | _ \<Rightarrow> Inl (TypeError ''can't subtract offset-naive and offset-aware datetimes''))"

definition total_seconds :: "int \<Rightarrow> pynum" where
  "total_seconds us = pn_div (PInt us) (PInt (10 ^ 6))"

end
