(* ===== verification/Responses.thy ===== *)
theory Responses
  imports Manifest Datetime
begin

text \<open>
  The responses that describe sessions (\<open>api/schemas/servers_get.py\<close>, the annotations of
  \<open>config/static.py\<close>): failure messages, the steps of a start with their states, warnings about
  culling, resources, and the dump of the schema.  The current time is a parameter.
\<close>

section \<open>Annotations\<close>

definition required_annotation_names :: "string list" where
  "required_annotation_names =
     [''renku.io/namespace'', ''renku.io/projectName'', ''renku.io/branch'', ''renku.io/commit-sha'',
      ''renku.io/default_image_used'', ''renku.io/repository'']"

definition optional_annotation_names :: "string list" where
  "optional_annotation_names =
     [''renku.io/hibernation'', ''renku.io/hibernationBranch'', ''renku.io/hibernationCommitSha'',
      ''renku.io/hibernationDirty'', ''renku.io/hibernationSynchronized'', ''renku.io/hibernationDate'',
      ''renku.io/hibernatedSecondsThreshold'', ''renku.io/lastActivityDate'', ''renku.io/idleSecondsThreshold'',
      ''renku.io/servername'', ''renku.io/username'', ''renku.io/git-host'', ''renku.io/gitlabProjectId'',
      ''renku.io/resourceClassId'', ''jupyter.org/servername'', ''jupyter.org/username'',
      ''renku.io/renkuVersion'', ''renku.io/launcherId'', ''renku.io/projectId'']"

record annotation_name =
  an_prefix :: string
  an_name :: string
  an_required :: bool

definition annotation_from_str :: "string \<Rightarrow> bool \<Rightarrow> annotation_name res" where
  "annotation_from_str v req =
     (case splits CHR ''/'' v of
        [p, n] \<Rightarrow> Inr \<lparr>an_prefix = p, an_name = n, an_required = req\<rparr>
      | _ \<Rightarrow> Inl (ValueError ''Expected to find prefix and name in the annotation''))"

definition dots_to_underscores :: "string \<Rightarrow> string" where
  "dots_to_underscores s = map (\<lambda>c. if c = CHR ''.'' then CHR ''_'' else c) s"

definition get_field_name :: "annotation_name \<Rightarrow> bool \<Rightarrow> string" where
  "get_field_name a sanitized =
     (let sep = (if endswith (an_prefix a) ''/'' then [] else ''/'') in
      if sanitized then dots_to_underscores (an_prefix a) @ sep @ dots_to_underscores (an_name a)
      else an_prefix a @ sep @ an_name a)"

definition endpoint_annotations :: "annotation_name list res" where
  "endpoint_annotations =
     bindE (mapE (\<lambda>n. annotation_from_str n True) required_annotation_names) (\<lambda>r.
     bindE (mapE (\<lambda>n. annotation_from_str n False) optional_annotation_names) (\<lambda>opt. Inr (r @ opt)))"

text \<open>
  \<open>sanitize_dict\<close>: loading with one string field per annotation; the keys that are no field are kept.
  A missing required field, a null and a value that is no text are validation errors.
\<close>

definition load_annotation :: "json \<Rightarrow> annotation_name \<Rightarrow> (string \<times> json) list res" where
  "load_annotation anns a =
     bindE (jget anns (get_field_name a False) (JArr [])) (\<lambda>v.
       case v of
         JStr s \<Rightarrow> Inr [(get_field_name a True, v)]
       | JArr _ \<Rightarrow> if an_required a \<or> jcontains anns (get_field_name a False) = Inr True
           then Inl (Validation (get_field_name a False)) else Inr []
       | _ \<Rightarrow> Inl (Validation (get_field_name a False)))"

definition sanitize_dict :: "json \<Rightarrow> (string, json) dict res" where
  "sanitize_dict anns =
     bindE endpoint_annotations (\<lambda>names.
     bindE (concatE (load_annotation anns) names) (\<lambda>loaded.
     bindE (as_dict anns) (\<lambda>d.
     Inr (dmerge loaded (filter (\<lambda>(k, _). k \<notin> (\<lambda>a. get_field_name a False) ` set names) d)))))"

text \<open>The dump of the loaded annotations: each field that is there, under its original name.\<close>

definition dump_annotations :: "(string, json) dict \<Rightarrow> json res" where
  "dump_annotations d =
     bindE endpoint_annotations (\<lambda>names.
     Inr (JObj (concat (map (\<lambda>a.
       case dget d (get_field_name a True) of
         None \<Rightarrow> []
       | Some v \<Rightarrow> [(get_field_name a False, if v = JNull then JNull else JStr (py_str v))]) names))))"

section \<open>Failures\<close>

definition exit_code_of :: "json \<Rightarrow> json res" where
  "exit_code_of container_status =
     bindE (jget container_status ''lastState'' jempty) (\<lambda>ls.
     bindE (as_dict ls) (\<lambda>d.
       jget (if d = [] then jempty else snd (last d)) ''exitCode'' (JStr ''unknown'')))"

definition default_server_error_message :: string where
  "default_server_error_message =
     ''The server shut down unexpectedly. Please ensure that your Dockerfile is correct and up-to-date.''"

definition exit_code_msg_xref :: "(int \<times> string) list" where
  "exit_code_msg_xref =
     [(125, ''The command to start the server was invoked but it did not complete successfully. Please make sure your Dockerfile is correct and up-to-date.''),
      (126, ''The command to start the server cannot be invoked. Please make sure your Dockerfile is correct and up-to-date.''),
      (127, ''The image does not contain the required command to start the server. Please make sure your Dockerfile is correct and up-to-date.''),
      (128, ''The server shut down unexpectedly. Please ensure that your Dockerfile is correct and up-to-date. In some cases this can be the result of low disk space, please restart your server with more storage.''),
      (134, default_server_error_message),
      (137, ''The server was terminated by the cluster. Potentially because of consuming too much resources. Please restart your server and request more memory and storage.''),
      (139, default_server_error_message), (143, default_server_error_message),
      (200, ''Cannot clone repository: Unhandled git error.''),
      (201, ''Cannot clone repository: Git remote server is unavailable. Try again later.''),
      (202, ''Deprecated: Cannot clone repository: Autosave branch name is in an unexpected format and cannot be processed.''),
      (203, ''Cannot clone repository: No disk space left on device, please stop this session and start a new one with more storage.''),
      (204, ''Cannot clone repository: Requested branch doesn't exist on remote.''),
      (205, ''Cannot clone repository: Error fetching submodules.''),
      (206, ''Cloud storage path conflicts: The mounted cloud storage should not overwrite existing folders in the session, please revise your mount locations and relaunch your session.''),
      (207, ''The mount paths for cloud storage must be absolute.'')]"

definition get_user_correctable_message :: "json \<Rightarrow> string res" where
  "get_user_correctable_message exit_code =
     (if not_a_number exit_code then
        (if hashable exit_code then Inr default_server_error_message else Inl (TypeError ''unhashable type''))
      else
        Inr (case List.find (\<lambda>(k, _). of_int k = val (num_of exit_code)) exit_code_msg_xref of
          Some (_, m) \<Rightarrow> m | None \<Rightarrow> default_server_error_message))"

fun failed_message_of :: "nat \<Rightarrow> json list \<Rightarrow> string res" where
  "failed_message_of n [] = Inr
     (''There are failures in '' @ show_nat n @ '' auxiliary server containers. Please restart your session as this may be an intermittent problem. If issues persist contact your administrator or the Renku team.'')"
| "failed_message_of n (c # cs) =
     bindE (exit_code_of c) (\<lambda>code.
     bindE (jget c ''name'' (JStr ''Unknown'')) (\<lambda>name.
       if name = JStr ''git-clone'' \<or> name = JStr ''jupyter-server'' then get_user_correctable_message code
       else failed_message_of n cs))"

definition get_failed_message :: "json list \<Rightarrow> string option res" where
  "get_failed_message failed_containers =
     (if failed_containers = [] then Inr None
      else bindE (failed_message_of (length failed_containers) failed_containers) (\<lambda>m. Inr (Some m)))"

definition is_zero :: "json \<Rightarrow> bool" where
  "is_zero v \<longleftrightarrow> \<not> not_a_number v \<and> val (num_of v) = 0"

definition container_failed :: "json \<Rightarrow> bool res" where
  "container_failed c =
     bindE (jpath c [''state'', ''terminated'', ''exitCode''] (JInt 0)) (\<lambda>e1.
       if \<not> is_zero e1 then Inr True
       else bindE (jpath c [''lastState'', ''terminated'', ''exitCode''] (JInt 0)) (\<lambda>e2. Inr (\<not> is_zero e2)))"

text \<open>A comprehension with a condition.\<close>

fun filterE :: "('a \<Rightarrow> bool res) \<Rightarrow> 'a list \<Rightarrow> 'a list res" where
  "filterE P [] = Inr []"
| "filterE P (x # xs) =
     bindE (P x) (\<lambda>b. bindE (filterE P xs) (\<lambda>ys. Inr (if b then x # ys else ys)))"

definition get_failed_containers :: "json list \<Rightarrow> json list res" where
  "get_failed_containers = filterE container_failed"

definition get_all_container_statuses :: "json \<Rightarrow> json list res" where
  "get_all_container_statuses m =
     bindE (bindE (jitem m ''status'') (\<lambda>s. jpath s [''mainPod'', ''status'', ''containerStatuses''] (JArr []))) (\<lambda>a.
     bindE (bindE (jitem m ''status'') (\<lambda>s. jpath s [''mainPod'', ''status'', ''initContainerStatuses''] (JArr []))) (\<lambda>b.
     bindE (japp a b) jiter))"

section \<open>Unschedulable sessions\<close>

text \<open>\<open>re.split(r",\ (?=[0-9])|:\ (?=[0-9])", s)\<close>.\<close>

fun split_reasons :: "string \<Rightarrow> string \<Rightarrow> string list" where
  "split_reasons acc [] = [rev acc]"
| "split_reasons acc (c # s) =
     (if (c = CHR '','' \<or> c = CHR '':'') \<and> take 1 s = '' '' \<and> list_ex is_digit (take 1 (drop 1 s))
      then rev acc # split_reasons [] (drop 1 s)
      else split_reasons (c # acc) s)"

definition initial_test :: "string \<Rightarrow> bool" where
  "initial_test msg \<longleftrightarrow>
     (let a = takeWhile is_digit msg; r = drop (length a) msg; b = takeWhile is_digit (drop 1 r) in
      a \<noteq> [] \<and> take 1 r = ''/'' \<and> b \<noteq> [] \<and> startswith (drop (Suc (length b)) r) '' nodes are available'')"

text \<open>\<open>int(x.split(" ")[0])\<close>; underscores between digits, which \<open>int\<close> skips, are not modelled.\<close>

definition leading_int :: "string \<Rightarrow> nat option" where
  "leading_int x =
     (let t = hd (splits CHR '' '' x) in
      if t \<noteq> [] \<and> list_all is_digit t then Some (parse_digits t) else None)"

definition condition_time :: "json \<Rightarrow> datetime res" where
  "condition_time c =
     bindE (bindE (jitem c ''lastTransitionTime'') jstr) (\<lambda>t. fromisoformat (rstrip (\<lambda>c. c = CHR ''Z'') t))"

text \<open>\<open>sorted(..., reverse=True)\<close> keeps the order of equal keys; two kinds of times do not compare.\<close>

definition sorted_conditions :: "json list \<Rightarrow> json list res" where
  "sorted_conditions conditions =
     bindE (mapE condition_time conditions) (\<lambda>ts.
     if length (remdups (map (\<lambda>t. utc_offset t = None) ts)) > 1
     then Inl (TypeError ''can't compare offset-naive and offset-aware datetimes'')
     else
       Inr (map snd (sort_key (\<lambda>(t, _). - (wall t - (case utc_offset t of None \<Rightarrow> 0 | Some n \<Rightarrow> n * 10 ^ 6)))
         (zip ts conditions))))"

definition likely_reason :: "string \<Rightarrow> string" where
  "likely_reason msg =
     (let msg_parts = split_reasons [] (rstrip (\<lambda>c. c = CHR ''.'') msg) in
      if \<not> initial_test msg \<or> length msg_parts < 2 then msg
      else
        (let rest = tl msg_parts; keys = map leading_int rest in
         if None \<in> set keys then msg
         else
           (let best = hd (sort_key (\<lambda>x. - int (the (leading_int x))) rest);
                reason = lstrip (\<lambda>c. is_digit c \<or> c = CHR '' '') best
            in ''Your session cannot be scheduled due to insufficent resources. The most likely reason is: '' @
               [CHR 0x27] @ reason @ [CHR 0x27] @
               ''. You may wait for resources to free up or you can adjust the specific resource and restart your session.'')))"

definition get_unschedulable_message :: "json \<Rightarrow> string option res" where
  "get_unschedulable_message pod =
     bindE (jpath pod [''status'', ''phase''] JNull) (\<lambda>phase.
     bindE (bindE (jpath pod [''status'', ''conditions''] (JArr [])) jiter) (\<lambda>conditions.
     bindE (sorted_conditions conditions) (\<lambda>cs.
     if phase \<noteq> JStr ''Pending'' then Inr None
     else case cs of
       [] \<Rightarrow> Inr None
     | c # _ \<Rightarrow>
         bindE (jget c ''reason'' JNull) (\<lambda>r.
         if r \<noteq> JStr ''Unschedulable'' then Inr None
         else
           bindE (jget c ''message'' JNull) (\<lambda>msg.
           if \<not> truthy msg then Inr None
           else case msg of
             JStr m \<Rightarrow> Inr (Some (likely_reason m))
           | _ \<Rightarrow> Inl (TypeError ''expected string or bytes-like object''))))))"

section \<open>The steps of a start\<close>

definition user_is_anonymous :: "json \<Rightarrow> bool res" where
  "user_is_anonymous m =
     bindE (jpath m [''metadata'', ''annotations''] jempty) (\<lambda>annotations.
     let starts = (\<lambda>x. bindE (bindE x jstr) (\<lambda>t. Inr (startswith t ''anon-''))) in
     bindE (starts (jget annotations (renku_annotation_prefix @ ''userId'') (JStr []))) (\<lambda>a.
     if \<not> a then Inr False else
     bindE (starts (jget annotations (renku_annotation_prefix @ ''username'') (JStr []))) (\<lambda>b.
     if \<not> b then Inr False else starts (jpath m [''metadata'', ''name''] (JStr [])))))"

definition init_container_name_desc_xref :: "(string \<times> string) list" where
  "init_container_name_desc_xref =
     [(''init-certificates'', ''Initialization''), (''download-image'', ''Downloading server image''),
      (''git-clone'', ''Cloning and configuring the repository'')]"

definition container_name_desc_xref :: "(string \<times> string) list" where
  "container_name_desc_xref =
     [(''git-proxy'', ''Git credentials services''),
      (''oauth2-proxy'', ''Authentication and proxying services''),
      (''passthrough-proxy'', ''Proxying services''), (''git-sidecar'', ''Auxiliary session services''),
      (''jupyter-server'', ''Starting session'')]"

definition all_waiting :: "string list \<Rightarrow> json" where
  "all_waiting names = JObj (fold (\<lambda>n. dset n (JStr ''waiting'')) names [])"

definition step_json :: "string \<Rightarrow> json \<Rightarrow> json" where
  "step_json desc status = JObj [(''step'', JStr desc), (''status'', status)]"

definition step_of :: "json \<Rightarrow> string \<times> string \<Rightarrow> json list res" where
  "step_of summary xref =
     bindE (jcontains summary (fst xref)) (\<lambda>there.
       if there then bindE (jitem summary (fst xref)) (\<lambda>status. Inr [step_json (snd xref) status]) else Inr [])"

definition get_status_breakdown :: "notebooks_config \<Rightarrow> json \<Rightarrow> json list res" where
  "get_status_breakdown cfg m =
     bindE (jpath m [''status'', ''containerStates'', ''init''] jempty) (\<lambda>init_summary.
     bindE (jpath m [''status'', ''containerStates'', ''regular''] jempty) (\<lambda>summary.
     bindE (jpath m [''status'', ''state''] JNull) (\<lambda>current_state.
     let starting = (current_state = JNull \<or> current_state = JStr ''starting'');
         default = (\<lambda>names s. if \<not> starting then Inr s
           else bindE (jlen s) (\<lambda>n. if n = 0 then bindE (names ()) (\<lambda>ns. Inr (all_waiting ns)) else Inr s)) in
     bindE (default (\<lambda>_. Inr (init_container_list (cfg_sessions cfg))) init_summary) (\<lambda>init_summary.
     bindE (default (\<lambda>_. bindE (user_is_anonymous m) (\<lambda>anon.
         Inr (if anon then containers_anonymous (cfg_sessions cfg) else containers_registered (cfg_sessions cfg))))
       summary) (\<lambda>summary.
     bindE (concatE (step_of init_summary) init_container_name_desc_xref) (\<lambda>a.
     bindE (concatE (step_of summary) container_name_desc_xref) (\<lambda>b. Inr (a @ b))))))))"

definition step_ready :: "json \<Rightarrow> bool" where
  "step_ready st \<longleftrightarrow> jitem st ''status'' = Inr (JStr ''ready'')"

definition get_starting_message :: "json list \<Rightarrow> string option res" where
  "get_starting_message step_summary =
     bindE (mapE (\<lambda>st. bindE (bindE (jitem st ''step'') jstr) (\<lambda>d. Inr (lower d)))
         (filter (\<lambda>st. \<not> step_ready st) step_summary)) (\<lambda>steps_not_ready.
       if steps_not_ready \<noteq> []
       then Inr (Some (''Steps with non-ready statuses: '' @ join '', '' steps_not_ready @ ''.''))
       else Inr None)"

section \<open>Warnings\<close>

text \<open>A number in a comparison; a \<open>bool\<close> is one.\<close>

definition as_number :: "json \<Rightarrow> pynum res" where
  "as_number v = (if not_a_number v then Inl (TypeError ''not supported between instances'') else Inr (num_of v))"

definition parse_time :: "json \<Rightarrow> datetime res" where
  "parse_time v =
     (case v of JStr s \<Rightarrow> fromisoformat s | _ \<Rightarrow> Inl (TypeError ''fromisoformat: argument must be str''))"

definition seconds_since :: "datetime \<Rightarrow> datetime \<Rightarrow> pynum res" where
  "seconds_since now t = bindE (dt_sub now t) (\<lambda>us. Inr (total_seconds us))"

text \<open>\<open>max(x, 0)\<close>: of equal values the first.\<close>

definition max0 :: "pynum \<Rightarrow> pynum" where
  "max0 x = (if val x < 0 then PInt 0 else x)"

definition warning_json :: "string \<Rightarrow> bool \<Rightarrow> json" where
  "warning_json message critical = JObj [(''message'', JStr message), (''critical'', JBool critical)]"

definition culling_threshold :: "json \<Rightarrow> string \<Rightarrow> pynum res" where
  "culling_threshold m k = bindE (jpath m [''spec'', ''culling'', k] (JInt 0)) as_number"

definition below_warning :: "notebooks_config \<Rightarrow> pynum \<Rightarrow> bool" where
  "below_warning cfg remaining \<longleftrightarrow> val remaining < of_int (termination_warning_seconds (cfg_sessions cfg))"

definition idle_warning :: "notebooks_config \<Rightarrow> datetime \<Rightarrow> json \<Rightarrow> json list res" where
  "idle_warning cfg now m =
     bindE (jpath m [''metadata'', ''annotations''] jempty) (\<lambda>annotations.
     bindE (jget annotations ''renku.io/lastActivityDate'' JNull) (\<lambda>last_activity.
     bindE (culling_threshold m ''idleSecondsThreshold'') (\<lambda>threshold.
     if \<not> (0 < val threshold \<and> truthy last_activity) then Inr []
     else
       bindE (parse_time last_activity) (\<lambda>t.
       bindE (seconds_since now t) (\<lambda>idle_seconds.
       let remaining = pn_sub threshold idle_seconds in
       bindE (user_is_anonymous m) (\<lambda>anon.
       Inr [warning_json (''Server is idle and will be '' @ (if anon then ''deleted'' else ''hibernated'')
              @ '' in '' @ py_str (jnum (max0 remaining)) @ '' seconds.'') (below_warning cfg remaining)]))))))"

definition hibernation_warning :: "notebooks_config \<Rightarrow> datetime \<Rightarrow> json \<Rightarrow> json list res" where
  "hibernation_warning cfg now m =
     bindE (jpath m [''metadata'', ''annotations''] jempty) (\<lambda>annotations.
     bindE (jget annotations ''renku.io/hibernationDate'' JNull) (\<lambda>hibernated_at.
     bindE (jpath m [''spec'', ''culling'', ''hibernatedSecondsThreshold''] (JInt 0)) (\<lambda>thr.
     if \<not> truthy hibernated_at then Inr []
     else
       bindE (as_number thr) (\<lambda>threshold.
       if \<not> 0 < val threshold then Inr []
       else
         bindE (user_is_anonymous m) (\<lambda>anon.
         if anon then Inr []
         else
           bindE (parse_time hibernated_at) (\<lambda>t.
           bindE (seconds_since now t) (\<lambda>hibernated_seconds.
           let remaining = pn_sub threshold hibernated_seconds in
           Inr [warning_json (''Server is hibernated and will be terminated in ''
                  @ py_str (jnum (max0 threshold)) @ '' seconds.'') (below_warning cfg remaining)])))))))"

definition age_warning :: "notebooks_config \<Rightarrow> datetime \<Rightarrow> datetime \<Rightarrow> json \<Rightarrow> json list res" where
  "age_warning cfg now started m =
     bindE (jpath m [''spec'', ''culling'', ''maxAgeSecondsThreshold''] (JInt 0)) (\<lambda>thr.
     bindE (seconds_since now started) (\<lambda>age.
     bindE (as_number thr) (\<lambda>threshold.
     let remaining = pn_sub threshold age in
     Inr (if 0 < val threshold \<and> below_warning cfg remaining
          then [warning_json (''Server is reaching the maximum session age and will be terminated in ''
                  @ py_str (jnum (max0 remaining)) @ '' seconds.'') True]
          else []))))"

definition default_image_warning :: "notebooks_config \<Rightarrow> json \<Rightarrow> json list res" where
  "default_image_warning cfg m =
     bindE (using_default_image cfg m) (\<lambda>d.
       Inr (if d then [JObj [(''message'', JStr ''Server was started using the default image.'')]] else []))"

section \<open>The status\<close>

definition event_message :: "json \<Rightarrow> string \<Rightarrow> json list res" where
  "event_message events component =
     bindE (jget events component jempty) (\<lambda>e.
     bindE (jget e ''message'' JNull) (\<lambda>msg. Inr (if msg = JNull then [] else [msg])))"

definition failure_message :: "json \<Rightarrow> json list \<Rightarrow> json res" where
  "failure_message m container_statuses =
     bindE (get_failed_containers container_statuses) (\<lambda>failed.
     bindE (bindE (jpath m [''status'', ''mainPod''] jempty) get_unschedulable_message) (\<lambda>unschedulable.
     bindE (jpath m [''status'', ''events''] jempty) (\<lambda>events.
     bindE (jkeys events) (\<lambda>components.
     bindE (concatE (event_message events) (sort components)) (\<lambda>event_based.
     case unschedulable of
       Some msg \<Rightarrow> Inr (JStr msg)
     | None \<Rightarrow>
         (case event_based of
            msg # _ \<Rightarrow> Inr msg
          | [] \<Rightarrow> bindE (get_failed_message failed) (\<lambda>msg. Inr (jopt msg))))))))"

text \<open>
  \<open>now\<close> and \<open>now2\<close> are the two readings of the clock.
\<close>

definition get_status :: "notebooks_config \<Rightarrow> datetime \<Rightarrow> datetime \<Rightarrow> datetime \<Rightarrow> json \<Rightarrow> json res" where
  "get_status cfg now now2 started m =
     bindE (jpath m [''status'', ''state''] (JStr ''starting'')) (\<lambda>state.
     bindE (get_all_container_statuses m) (\<lambda>statuses.
     bindE (if state = JStr ''failed'' then bindE (failure_message m statuses) (\<lambda>msg. Inr [(''message'', msg)])
            else Inr []) (\<lambda>failure.
     bindE (get_status_breakdown cfg m) (\<lambda>details.
     bindE (if state = JStr ''starting''
            then bindE (get_starting_message details) (\<lambda>msg. Inr [(''message'', jopt msg)]) else Inr []) (\<lambda>starting.
     bindE (default_image_warning cfg m) (\<lambda>w1.
     bindE (idle_warning cfg now m) (\<lambda>w2.
     bindE (hibernation_warning cfg now m) (\<lambda>w3.
     bindE (age_warning cfg now2 started m) (\<lambda>w4.
     Inr (JObj ([(''state'', state)] @ failure @ [(''details'', JArr details)] @ starting @
       [(''totalNumContainers'', JInt (int (length details))),
        (''readyNumContainers'', JInt (int (length (filter step_ready details)))),
        (''warnings'', JArr (w1 @ w2 @ w3 @ w4))])))))))))))"

section \<open>Resources\<close>

text \<open>\<open>Field.deserialize\<close>: \<open>None\<close> is refused before the field's own conversion.\<close>

definition field_deserialize :: "(json \<Rightarrow> 'a res) \<Rightarrow> json \<Rightarrow> 'a res" where
  "field_deserialize f v = (if v = JNull then Inl (Validation ''Field may not be null.'') else f v)"

definition requested :: "(string, json) dict \<Rightarrow> string \<Rightarrow> string \<Rightarrow> (json \<Rightarrow> json res) \<Rightarrow> (string \<times> json) list res" where
  "requested opts k target f =
     (case dget opts k of None \<Rightarrow> Inr [] | Some v \<Rightarrow> bindE (field_deserialize f v) (\<lambda>x. Inr [(target, x)]))"

definition get_resource_requests :: "notebooks_config \<Rightarrow> json \<Rightarrow> (string, json) dict res" where
  "get_resource_requests cfg m =
     bindE (manifest_server_options cfg m) (\<lambda>opts.
     bindE (requested opts ''cpu_request'' ''cpu'' (\<lambda>v. bindE (cpu_deserialize v) (\<lambda>x. Inr (jnum x)))) (\<lambda>cpu.
     bindE (requested opts ''mem_request'' ''memory'' (\<lambda>v. bindE (byte_size_deserialize v) (\<lambda>x. Inr (JInt x)))) (\<lambda>mem.
     bindE (if dget opts ''disk_request'' = Some JNull \<or> dget opts ''disk_request'' = Some (JStr []) then Inr []
            else requested opts ''disk_request'' ''storage'' (\<lambda>v. bindE (byte_size_deserialize v) (\<lambda>x. Inr (JInt x)))) (\<lambda>disk.
     bindE (requested opts ''gpu_request'' ''gpu'' (\<lambda>v. bindE (gpu_deserialize v) (\<lambda>x. Inr (JInt x)))) (\<lambda>gpu.
     Inr (cpu @ mem @ disk @ filter (\<lambda>(_, x). 0 < val (num_of x)) gpu))))))"

definition cpu_usage :: "json \<Rightarrow> (string \<times> json) list res" where
  "cpu_usage usage =
     bindE (jcontains usage ''cpuMillicores'') (\<lambda>there.
       if \<not> there then Inr []
       else bindE (jitem usage ''cpuMillicores'') (\<lambda>v.
         if not_a_number v then Inl (TypeError ''unsupported operand type(s) for /'')
         else Inr [(''cpu'', jnum (pn_div (num_of v) (PInt 1000)))]))"

definition memory_usage :: "json \<Rightarrow> (string \<times> json) list res" where
  "memory_usage usage =
     bindE (jcontains usage ''memoryBytes'') (\<lambda>there.
       if there then bindE (jitem usage ''memoryBytes'') (\<lambda>v. Inr [(''memory'', v)]) else Inr [])"

definition disk_usage :: "json \<Rightarrow> (string \<times> json) list res" where
  "disk_usage usage =
     bindE (jcontains usage ''disk'') (\<lambda>there.
       if \<not> there then Inr []
       else bindE (jitem usage ''disk'') (\<lambda>disk.
         bindE (jcontains disk ''usedBytes'') (\<lambda>used.
           if used then bindE (jitem disk ''usedBytes'') (\<lambda>v. Inr [(''storage'', v)]) else Inr [])))"

definition get_resource_usage :: "json \<Rightarrow> (string, json) dict res" where
  "get_resource_usage m =
     bindE (jpath m [''status'', ''mainPod'', ''resourceUsage''] jempty) (\<lambda>usage.
     bindE (cpu_usage usage) (\<lambda>cpu. bindE (memory_usage usage) (\<lambda>mem. bindE (disk_usage usage) (\<lambda>disk.
       Inr (cpu @ mem @ disk)))))"

section \<open>The dump\<close>

text \<open>
  What marshmallow writes for a value: a text field writes the text of any value but \<open>None\<close>, a
  field that the value has not is left out, unknown keys are left out.
\<close>

definition str_field :: "json \<Rightarrow> json" where
  "str_field v = (if v = JNull then JNull else JStr (py_str v))"

definition opt_field :: "(string, json) dict \<Rightarrow> string \<Rightarrow> (json \<Rightarrow> json res) \<Rightarrow> (string \<times> json) list res" where
  "opt_field d k f =
     (case dget d k of None \<Rightarrow> Inr [] | Some v \<Rightarrow> bindE (f v) (\<lambda>x. Inr [(k, x)]))"

definition dump_step :: "json \<Rightarrow> json res" where
  "dump_step st =
     bindE (as_dict st) (\<lambda>d.
     bindE (opt_field d ''step'' (\<lambda>v. Inr (str_field v))) (\<lambda>a.
     bindE (opt_field d ''status'' (\<lambda>v. Inr (str_field v))) (\<lambda>b. Inr (JObj (a @ b)))))"

definition dump_warning :: "json \<Rightarrow> json res" where
  "dump_warning w =
     bindE (as_dict w) (\<lambda>d.
     bindE (opt_field d ''message'' (\<lambda>v. Inr (str_field v))) (\<lambda>a.
     Inr (JObj (a @ [(''critical'', case dget d ''critical'' of Some c \<Rightarrow> c | None \<Rightarrow> JBool False)]))))"

definition dump_all :: "(json \<Rightarrow> json res) \<Rightarrow> json \<Rightarrow> json res" where
  "dump_all f v = bindE (jiter v) (\<lambda>xs. bindE (mapE f xs) (\<lambda>ys. Inr (JArr ys)))"

definition dump_status :: "json \<Rightarrow> json res" where
  "dump_status s =
     bindE (as_dict s) (\<lambda>d.
     bindE (opt_field d ''state'' (\<lambda>v. Inr (str_field v))) (\<lambda>state.
     bindE (opt_field d ''message'' (\<lambda>v. Inr (str_field v))) (\<lambda>msg.
     bindE (opt_field d ''details'' (dump_all dump_step)) (\<lambda>details.
     bindE (opt_field d ''totalNumContainers'' Inr) (\<lambda>total.
     bindE (opt_field d ''readyNumContainers'' Inr) (\<lambda>ready.
     bindE (opt_field d ''warnings'' (dump_all dump_warning)) (\<lambda>warnings.
     Inr (JObj (state @ msg @ details @ total @ ready @ warnings)))))))))"

definition size_field :: "json \<Rightarrow> json res" where
  "size_field v = bindE (byte_size_serialize v) (\<lambda>s. Inr (JStr s))"

definition dump_requests :: "(string, json) dict \<Rightarrow> json res" where
  "dump_requests d =
     bindE (opt_field d ''cpu'' cpu_serialize) (\<lambda>cpu.
     bindE (opt_field d ''memory'' size_field) (\<lambda>mem.
     bindE (opt_field d ''storage'' size_field) (\<lambda>disk.
     bindE (opt_field d ''gpu'' (\<lambda>v. bindE (gpu_serialize v) (\<lambda>i. Inr (JInt i)))) (\<lambda>gpu.
     Inr (JObj (cpu @ mem @ disk @ gpu))))))"

definition dump_usage :: "(string, json) dict \<Rightarrow> json res" where
  "dump_usage d =
     bindE (opt_field d ''cpu'' cpu_serialize) (\<lambda>cpu.
     bindE (opt_field d ''memory'' size_field) (\<lambda>mem.
     bindE (opt_field d ''storage'' size_field) (\<lambda>disk. Inr (JObj (cpu @ mem @ disk)))))"

definition dump_storage :: "existing_storage \<Rightarrow> json" where
  "dump_storage st = JObj [(''remote'', es_remote st), (''type'', JStr (es_type st))]"

text \<open>\<open>re.sub(r"Z$", "+00:00", t)\<close>.\<close>

definition zulu_to_offset :: "string \<Rightarrow> string" where
  "zulu_to_offset t = (if endswith t ''Z'' then butlast t @ ''+00:00'' else t)"

definition started_at :: "json \<Rightarrow> datetime res" where
  "started_at m =
     bindE (jitems m [''metadata'', ''creationTimestamp'']) (\<lambda>v.
       case v of JStr t \<Rightarrow> fromisoformat (zulu_to_offset t)
       | _ \<Rightarrow> Inl (TypeError ''expected string or bytes-like object''))"

text \<open>The annotations of a session with the flag for the default image.\<close>

definition response_annotations :: "notebooks_config \<Rightarrow> json \<Rightarrow> (string, json) dict res" where
  "response_annotations cfg m =
     bindE (bindE (manifest_annotations m) as_dict) (\<lambda>anns.
     bindE (using_default_image cfg m) (\<lambda>d.
     sanitize_dict (JObj (dset (renku_annotation_prefix @ ''default_image_used'') (JStr (if d then ''True'' else ''False'')) anns))))"

definition notebook_response :: "notebooks_config \<Rightarrow> datetime \<Rightarrow> datetime \<Rightarrow> json \<Rightarrow> json res" where
  "notebook_response cfg now now2 m =
     bindE (started_at m) (\<lambda>started.
     bindE (response_annotations cfg m) (\<lambda>anns.
     bindE (manifest_name m) (\<lambda>name.
     bindE (bindE (jitem m ''status'') (\<lambda>s. jpath s [''mainPod'', ''name''] JNull)) (\<lambda>pod_name.
     bindE (get_status cfg now now2 started m) (\<lambda>status.
     bindE (manifest_url m) (\<lambda>url.
     bindE (get_resource_requests cfg m) (\<lambda>req.
     bindE (get_resource_usage m) (\<lambda>usage.
     bindE (manifest_image m) (\<lambda>image.
     bindE (if truthy (cloud_storage_enabled cfg)
            then bindE (manifest_cloudstorage cfg m) (\<lambda>ss. Inr [(''cloudstorage'', JArr (map dump_storage ss))])
            else Inr []) (\<lambda>storage.
     bindE (dump_annotations anns) (\<lambda>annotations.
     bindE (dump_status status) (\<lambda>status_dump.
     bindE (dump_requests req) (\<lambda>req_dump.
     bindE (dump_usage usage) (\<lambda>usage_dump.
     Inr (JObj ([(''annotations'', annotations), (''name'', str_field name),
       (''state'', JObj [(''pod_name'', pod_name)]), (''started'', JStr (isoformat started)),
       (''status'', status_dump), (''url'', JStr url),
       (''resources'', JObj [(''requests'', req_dump), (''usage'', usage_dump)]),
       (''image'', str_field image)] @ storage))))))))))))))))"

text \<open>\<open>ServersGetResponse\<close> of a dict of sessions.\<close>

definition servers_get_response :: "notebooks_config \<Rightarrow> datetime \<Rightarrow> datetime \<Rightarrow> (string \<times> json) list \<Rightarrow> json res" where
  "servers_get_response cfg now now2 servers =
     bindE (mapE (\<lambda>(n, m). bindE (notebook_response cfg now now2 m) (\<lambda>r. Inr (n, r))) servers) (\<lambda>rs.
       Inr (JObj [(''servers'', JObj rs)]))"

text \<open>\<open>fields.String\<close> on a value that is present.\<close>

definition query_text :: "json \<Rightarrow> json res" where
  "query_text v = (case v of JStr s \<Rightarrow> Inr v | JNull \<Rightarrow> Inl (Validation ''Field may not be null.'')
     | _ \<Rightarrow> Inl (Validation ''Not a valid string.''))"

end
