(* ===== verification/ResponseFacts.thy ===== *)
theory ResponseFacts
  imports Responses
begin

text \<open>
  What the responses tell a client: annotations survive, the steps and their counts agree, and the
  warning of a hibernated session.
\<close>

section \<open>Annotations survive a response\<close>

definition annotation_names :: "string list" where
  "annotation_names = required_annotation_names @ optional_annotation_names"

definition known_annotations :: "annotation_name list" where
  "known_annotations =
     map (\<lambda>(req, n). \<lparr>an_prefix = hd (splits CHR ''/'' n), an_name = last (splits CHR ''/'' n), an_required = req\<rparr>)
       (map (Pair True) required_annotation_names @ map (Pair False) optional_annotation_names)"

lemma endpoint_annotations_eq: "endpoint_annotations = Inr known_annotations"
  by code_simp

lemma known_names: "map (\<lambda>a. get_field_name a False) known_annotations = annotation_names"
  by code_simp

lemma known_sanitized: "map (\<lambda>a. get_field_name a True) known_annotations = map dots_to_underscores annotation_names"
  by code_simp

lemma known_required: "map an_required known_annotations = map (\<lambda>n. n \<in> set required_annotation_names) annotation_names"
  by code_simp

lemma distinct_sanitized: "distinct (map dots_to_underscores annotation_names)"
  by code_simp

lemma concatE_eq: "(\<And>x. x \<in> set xs \<Longrightarrow> f x = Inr (g x)) \<Longrightarrow> concatE f xs = Inr (concat (map g xs))"
proof -
  assume "\<And>x. x \<in> set xs \<Longrightarrow> f x = Inr (g x)"
  then have "mapE f xs = Inr (map g xs)" by (induction xs) simp_all
  then show ?thesis by (simp add: concatE_def)
qed

definition text_valued :: "(string, json) dict \<Rightarrow> bool" where
  "text_valued d \<longleftrightarrow> list_all (\<lambda>(_, v). case v of JStr _ \<Rightarrow> True | _ \<Rightarrow> False) d"

definition has_required :: "(string, json) dict \<Rightarrow> bool" where
  "has_required d \<longleftrightarrow> list_all (\<lambda>n. dget d n \<noteq> None) required_annotation_names"

definition no_sanitized_keys :: "(string, json) dict \<Rightarrow> bool" where
  "no_sanitized_keys d \<longleftrightarrow> list_all (\<lambda>n. dget d (dots_to_underscores n) = None) annotation_names"

lemma text_valued_dget: "text_valued d \<Longrightarrow> dget d k = Some v \<Longrightarrow> \<exists>t. v = JStr t"
  by (induction d) (auto simp: text_valued_def split: if_splits json.splits)

lemma known_facts:
  assumes "a \<in> set known_annotations"
  shows "get_field_name a False \<in> set annotation_names"
    and "get_field_name a True = dots_to_underscores (get_field_name a False)"
    and "an_required a \<longleftrightarrow> get_field_name a False \<in> set required_annotation_names"
proof -
  from assms obtain i where i: "i < length known_annotations" "a = known_annotations ! i"
    by (auto simp: in_set_conv_nth)
  have len: "length known_annotations = length annotation_names"
    by (metis known_names length_map)
  have "get_field_name a False = annotation_names ! i"
    using i by (metis known_names nth_map)
  moreover have "get_field_name a True = dots_to_underscores (annotation_names ! i)"
    using i len by (metis known_sanitized nth_map)
  moreover have "an_required a = (annotation_names ! i \<in> set required_annotation_names)"
    using i len by (metis (mono_tags, lifting) known_required nth_map)
  ultimately show "get_field_name a False \<in> set annotation_names"
    "get_field_name a True = dots_to_underscores (get_field_name a False)"
    "an_required a \<longleftrightarrow> get_field_name a False \<in> set required_annotation_names"
    using i(1) len by simp_all
qed

definition pick :: "(string \<Rightarrow> 'a) \<Rightarrow> (string, json) dict \<Rightarrow> string \<Rightarrow> ('a \<times> json) list" where
  "pick f d n = (case dget d n of None \<Rightarrow> [] | Some v \<Rightarrow> [(f n, v)])"

lemma load_known:
  assumes "text_valued d" and "has_required d" and "a \<in> set known_annotations"
  shows "load_annotation (JObj d) a = Inr (pick dots_to_underscores d (get_field_name a False))"
proof (cases "dget d (get_field_name a False)")
  case None
  then have "\<not> an_required a"
    using assms(2) known_facts(3) [OF assms(3)] by (auto simp: has_required_def list_all_iff)
  with None show ?thesis by (simp add: load_annotation_def pick_def jcontains_def)
next
  case (Some v)
  with text_valued_dget [OF assms(1)] obtain t where "v = JStr t" by blast
  with Some show ?thesis
    by (simp add: load_annotation_def pick_def known_facts(2) [OF assms(3)])
qed

lemma dget_pick:
  assumes "distinct (map f ns)" and "n \<in> set ns"
  shows "dget (concat (map (pick f d) ns)) (f n) = dget d n"
  using assms
proof (induction ns)
  case (Cons m ns)
  have other: "dget (concat (map (pick f d) ns)) k = None" if "k \<notin> f ` set ns" for k
    using that by (induction ns) (auto simp: pick_def dget_append split: option.splits)
  have m: "dget (pick f d m @ xs) k = (if k = f m \<and> dget d m \<noteq> None then dget d m else dget xs k)" for xs k
    by (auto simp: pick_def split: option.splits)
  show ?case
  proof (cases "n = m")
    case True
    then show ?thesis using Cons.prems other [of "f m"] by (simp add: m)
  next
    case False
    then have "n \<in> set ns" using Cons.prems by simp
    then have "f n \<in> f ` set ns" by (rule imageI)
    then have "f n \<noteq> f m" using Cons.prems(1) by (metis distinct.simps(2) list.simps(9) set_map)
    then show ?thesis using Cons False by (simp add: m)
  qed
qed simp

lemma dget_filter: "dget (filter (\<lambda>(k, _). P k) d) k = (if P k then dget d k else None)"
  by (induction d) auto

lemma distinct_keys_filter: "distinct (map fst d) \<Longrightarrow> distinct (map fst (filter P d))"
  by (induction d) auto

lemma sanitize_dict_known:
  assumes "text_valued d" and "has_required d" 
  shows "sanitize_dict (JObj d) = Inr (dmerge (concat (map (pick dots_to_underscores d) annotation_names))
    (filter (\<lambda>(k, _). k \<notin> set annotation_names) d))"
proof -
  have "concatE (load_annotation (JObj d)) known_annotations =
      Inr (concat (map (\<lambda>a. pick dots_to_underscores d (get_field_name a False)) known_annotations))"
    by (rule concatE_eq) (rule load_known [OF assms])
  moreover have "map (\<lambda>a. pick dots_to_underscores d (get_field_name a False)) known_annotations =
      map (pick dots_to_underscores d) annotation_names"
    by (simp add: known_names [symmetric] comp_def)
  moreover have "(\<lambda>a. get_field_name a False) ` set known_annotations = set annotation_names"
    by (simp only: known_names [symmetric] set_map)
  ultimately show ?thesis
    by (simp add: sanitize_dict_def endpoint_annotations_eq)
qed

text \<open>
  C34. Loading the annotations of a session and dumping them keeps every annotation of the endpoint with its
  value, in the order of the schema, and leaves out the others.
\<close>

theorem annotations_roundtrip:
  assumes "text_valued d" and "has_required d" and "no_sanitized_keys d" and "distinct (map fst d)"
  shows "bindE (sanitize_dict (JObj d)) dump_annotations = Inr (JObj (concat (map (pick id d) annotation_names)))"
proof -
  let ?l = "dmerge (concat (map (pick dots_to_underscores d) annotation_names))
    (filter (\<lambda>(k, _). k \<notin> set annotation_names) d)"
  have l: "dget ?l (dots_to_underscores n) = dget d n" if "n \<in> set annotation_names" for n
    using that assms(3, 4)
    by (simp add: dget_dmerge distinct_keys_filter dget_filter dget_pick [OF distinct_sanitized]
        no_sanitized_keys_def list_all_iff)
  have "(case dget ?l (get_field_name a True) of None \<Rightarrow> []
      | Some v \<Rightarrow> [(get_field_name a False, if v = JNull then JNull else JStr (py_str v))])
    = pick id d (get_field_name a False)" if "a \<in> set known_annotations" for a
    using l [OF known_facts(1) [OF that]] text_valued_dget [OF assms(1), of "get_field_name a False"]
    by (force simp: known_facts(2) [OF that] pick_def split: option.splits)
  then have "concat (map (\<lambda>a. case dget ?l (get_field_name a True) of None \<Rightarrow> []
      | Some v \<Rightarrow> [(get_field_name a False, if v = JNull then JNull else JStr (py_str v))]) known_annotations)
    = concat (map (\<lambda>a. pick id d (get_field_name a False)) known_annotations)"
    by (metis (no_types, lifting) map_eq_conv)
  also have "\<dots> = concat (map (pick id d) annotation_names)"
    by (simp add: known_names [symmetric] comp_def)
  finally show ?thesis
    by (simp add: sanitize_dict_known [OF assms(1, 2)] dump_annotations_def endpoint_annotations_eq)
qed

theorem annotations_roundtrip_witness:
  "bindE (sanitize_dict (JObj [(''renku.io/namespace'', JStr ''a''), (''renku.io/projectName'', JStr ''b''),
       (''renku.io/userId'', JStr ''x''), (''renku.io/branch'', JStr ''main''), (''renku.io/commit-sha'', JStr ''c0''),
       (''renku.io/default_image_used'', JStr ''False''), (''renku.io/repository'', JStr []),
       (''renku.io/launcherId'', JStr ''1'')])) dump_annotations =
   Inr (JObj [(''renku.io/namespace'', JStr ''a''), (''renku.io/projectName'', JStr ''b''),
       (''renku.io/branch'', JStr ''main''), (''renku.io/commit-sha'', JStr ''c0''),
       (''renku.io/default_image_used'', JStr ''False''), (''renku.io/repository'', JStr []),
       (''renku.io/launcherId'', JStr ''1'')])"
proof -
  let ?d = "[(''renku.io/namespace'', JStr ''a''), (''renku.io/projectName'', JStr ''b''),
       (''renku.io/userId'', JStr ''x''), (''renku.io/branch'', JStr ''main''), (''renku.io/commit-sha'', JStr ''c0''),
       (''renku.io/default_image_used'', JStr ''False''), (''renku.io/repository'', JStr []),
       (''renku.io/launcherId'', JStr ''1'')]"
  have "text_valued ?d" "has_required ?d" "no_sanitized_keys ?d" "distinct (map fst ?d)" by code_simp+
  note r = annotations_roundtrip [OF this]
  have "concat (map (pick id ?d) annotation_names) =
     [(''renku.io/namespace'', JStr ''a''), (''renku.io/projectName'', JStr ''b''),
       (''renku.io/branch'', JStr ''main''), (''renku.io/commit-sha'', JStr ''c0''),
       (''renku.io/default_image_used'', JStr ''False''), (''renku.io/repository'', JStr []),
       (''renku.io/launcherId'', JStr ''1'')]" by code_simp
  with r show ?thesis by (simp only:)
qed

section \<open>Every session's annotations\<close>

definition nulls_empty :: "(string, json) dict \<Rightarrow> (string, json) dict" where
  "nulls_empty = map (\<lambda>(k, v). (k, if v = JNull then JStr [] else v))"

lemma dget_nulls_empty: "dget (nulls_empty d) k = map_option (\<lambda>v. if v = JNull then JStr [] else v) (dget d k)"
  by (induction d) (auto simp: nulls_empty_def)

text \<open>The annotations of a session: texts or nulls, under the prefix of the service.\<close>

definition session_annotation :: "string \<times> json \<Rightarrow> bool" where
  "session_annotation kv \<longleftrightarrow>
     take 9 (fst kv) = renku_annotation_prefix \<and> (snd kv = JNull \<or> (\<exists>t. snd kv = JStr t))"

lemma set_dset: "set (dset k v d) \<subseteq> insert (k, v) (set d)"
  by (induction k v d rule: dset.induct) auto

lemma session_annotation_dset:
  "list_all session_annotation d \<Longrightarrow> session_annotation (k, v) \<Longrightarrow> list_all session_annotation (dset k v d)"
  using set_dset [of k v d] by (auto simp: list_all_iff)

lemma session_annotation_renku [simp]:
  "session_annotation (renku n, v) \<longleftrightarrow> v = JNull \<or> (\<exists>t. v = JStr t)"
  by (simp add: session_annotation_def renku_def renku_annotation_prefix_def)

lemma jopt_text [simp]: "jopt x = JNull \<or> (\<exists>t. jopt x = JStr t)"
  by (cases x) auto

lemma get_annotations_wf:
  "list_all session_annotation (get_annotations cfg s)" "distinct (map fst (get_annotations cfg s))"
proof -
  have base: "list_all session_annotation (base_annotations s)"
    by (auto simp: base_annotations_def Let_def split: option.split intro!: session_annotation_dset)
  show "list_all session_annotation (get_annotations cfg s)"
    using base by (auto simp: annotations_defs Let_def split: server_kind.split option.split intro!: session_annotation_dset)
  have "distinct (map fst (base_annotations s))"
    by (auto simp: base_annotations_def Let_def renku_def renku_annotation_prefix_def split: option.split intro!: distinct_dset)
  then show "distinct (map fst (get_annotations cfg s))"
    by (auto simp: annotations_defs Let_def split: server_kind.split option.split intro!: distinct_dset)
qed

definition listed_annotations :: "notebooks_config \<Rightarrow> user_server \<Rightarrow> string \<Rightarrow> (string, json) dict" where
  "listed_annotations cfg s flag =
     dset (renku ''default_image_used'') (JStr flag) (nulls_empty (get_annotations cfg s))"

lemma dget_get_annotations:
  "dget (get_annotations cfg s) (renku ''servername'') = Some (JStr (srv_name s))"
  "dget (get_annotations cfg s) (renku ''username'') = Some (JStr (user_username (srv_user s)))"
  by (auto simp: annotations_defs base_annotations_def renku_def Let_def split: server_kind.split option.split)

lemma dset_present: "dget d k \<noteq> None \<Longrightarrow> dget (dset k' v d) k \<noteq> None"
  by simp

lemma base_present:
  assumes "n \<in> set required_annotation_names" and "n \<noteq> renku ''default_image_used''"
  shows "dget (base_annotations s) n \<noteq> None"
proof -
  have "\<exists>k \<in> {''commit-sha'', ''branch'', ''namespace'', ''projectName'', ''repository''}. n = renku k"
    using assms by (auto simp: required_annotation_names_def renku_def renku_annotation_prefix_def)
  moreover have "dget (base_annotations s) (renku k) \<noteq> None"
    if "k \<in> {''commit-sha'', ''branch'', ''namespace'', ''projectName'', ''repository''}" for k
    using that unfolding base_annotations_def Let_def
    by (elim insertE) (simp_all add: renku_def split: option.split)
  ultimately show ?thesis by blast
qed

lemma required_present:
  assumes "n \<in> set required_annotation_names" and "n \<noteq> renku ''default_image_used''"
  shows "dget (get_annotations cfg s) n \<noteq> None"
  using base_present [OF assms, of s] unfolding annotations_defs Let_def
  by (auto simp only: split: server_kind.split option.split intro!: dset_present)

lemma nulls_empty_keys [simp]: "map fst (nulls_empty d) = map fst d"
  by (induction d) (auto simp: nulls_empty_def)

lemma text_valued_dset: "text_valued d \<Longrightarrow> text_valued (dset k (JStr t) d)"
  using set_dset [of k "JStr t" d] by (fastforce simp: text_valued_def list_all_iff)

lemma listed_annotations_wf:
  "text_valued (listed_annotations cfg s flag)" "has_required (listed_annotations cfg s flag)"
  "no_sanitized_keys (listed_annotations cfg s flag)" "distinct (map fst (listed_annotations cfg s flag))"
proof -
  have all: "list_all session_annotation (get_annotations cfg s)" by (rule get_annotations_wf)
  have "text_valued (nulls_empty (get_annotations cfg s))"
    using all by (auto simp: text_valued_def nulls_empty_def list_all_iff session_annotation_def split: json.splits)
  then show "text_valued (listed_annotations cfg s flag)"
    by (simp add: listed_annotations_def text_valued_dset)
  have "dget (listed_annotations cfg s flag) n \<noteq> None" if "n \<in> set required_annotation_names" for n
    using required_present [OF that, of cfg s] by (simp add: listed_annotations_def dget_nulls_empty)
  then show "has_required (listed_annotations cfg s flag)"
    by (simp add: has_required_def list_all_iff)
  have other: "dget (listed_annotations cfg s flag) k = None" if "take 9 k \<noteq> renku_annotation_prefix" for k
  proof -
    have "dget (get_annotations cfg s) k = None"
      using all that by (induction "get_annotations cfg s") (auto simp: dget_def map_of_eq_None_iff list_all_iff session_annotation_def)
    moreover have "renku ''default_image_used'' \<noteq> k"
      using that by (auto simp: renku_def renku_annotation_prefix_def)
    ultimately show ?thesis by (simp add: listed_annotations_def dget_nulls_empty)
  qed
  have "list_all (\<lambda>n. take 9 (dots_to_underscores n) \<noteq> renku_annotation_prefix) annotation_names"
    by code_simp
  with other show "no_sanitized_keys (listed_annotations cfg s flag)"
    by (auto simp: no_sanitized_keys_def list_all_iff)
  show "distinct (map fst (listed_annotations cfg s flag))"
    using get_annotations_wf(2) by (simp add: listed_annotations_def distinct_dset)
qed

lemma distinct_annotation_names: "distinct annotation_names"
  by code_simp

text \<open>
  Whatever session the service starts, of Renku 1 or 2, its annotations, with the empty text that the
  cluster stores for a null, load and dump without a validation error, and the session's name and its
  user's name are among those that the response has.
\<close>

theorem session_annotations_listed:
  "\<exists>kvs. bindE (sanitize_dict (JObj (listed_annotations cfg s flag))) dump_annotations = Inr (JObj kvs)
     \<and> dget kvs (renku ''servername'') = Some (JStr (srv_name s))
     \<and> dget kvs (renku ''username'') = Some (JStr (user_username (srv_user s)))
     \<and> dget kvs (renku ''default_image_used'') = Some (JStr flag)"
proof -
  have kept: "dget (concat (map (pick id (listed_annotations cfg s flag)) annotation_names)) n
      = dget (listed_annotations cfg s flag) n" if "n \<in> set annotation_names" for n
    using dget_pick [of id annotation_names n] that distinct_annotation_names by simp
  have "renku n \<in> set annotation_names" if "n \<in> {''servername'', ''username'', ''default_image_used''}" for n
    using that by (auto simp: renku_def renku_annotation_prefix_def annotation_names_def
        required_annotation_names_def optional_annotation_names_def)
  note kept [OF this]
  then show ?thesis
    using annotations_roundtrip [OF listed_annotations_wf, of cfg s flag] dget_get_annotations [of cfg s]
    by (simp add: listed_annotations_def dget_nulls_empty) (simp add: renku_def)
qed

section \<open>The steps of a start\<close>

definition step_name :: "json \<Rightarrow> json" where
  "step_name st = (case jitem st ''step'' of Inr n \<Rightarrow> n | Inl _ \<Rightarrow> JNull)"

definition all_steps :: "string list" where
  "all_steps = map snd (init_container_name_desc_xref @ container_name_desc_xref)"

lemma step_of_cases:
  assumes "step_of summary xref = Inr ds"
  shows "ds = [] \<or> (\<exists>status. ds = [step_json (snd xref) status])"
  using assms by (auto simp: step_of_def bindE_Inr_iff split: if_splits)

lemma steps_subseq:
  assumes "concatE (step_of summary) xrefs = Inr ds"
  shows "subseq (map step_name ds) (map (JStr \<circ> snd) xrefs)"
    and "\<forall>d \<in> set ds. \<exists>n status. d = step_json n status"
proof -
  from assms obtain dss where dss: "mapE (step_of summary) xrefs = Inr dss" "ds = concat dss"
    by (auto simp: concatE_def bindE_Inr_iff)
  have "subseq (map step_name (concat dss)) (map (JStr \<circ> snd) xrefs)
      \<and> (\<forall>d \<in> set (concat dss). \<exists>n status. d = step_json n status)"
    using dss(1)
  proof (induction xrefs arbitrary: dss)
    case (Cons x xs)
    then obtain d rest where d: "step_of summary x = Inr d" "mapE (step_of summary) xs = Inr rest" "dss = d # rest"
      by (auto simp: bindE_Inr_iff)
    from step_of_cases [OF d(1)] Cons.IH [OF d(2)] d(3) show ?case
      by (auto simp: step_name_def step_json_def)
  qed simp
  with dss(2) show "subseq (map step_name ds) (map (JStr \<circ> snd) xrefs)"
    "\<forall>d \<in> set ds. \<exists>n status. d = step_json n status" by simp_all
qed

lemma breakdown_facts:
  assumes "get_status_breakdown cfg m = Inr ds"
  shows "subseq (map step_name ds) (map JStr all_steps)"
    and "\<forall>d \<in> set ds. \<exists>n status. d = step_json n status"
proof -
  from assms obtain s1 s2 a b where ds: "ds = a @ b"
    and a: "concatE (step_of s1) init_container_name_desc_xref = Inr a"
    and b: "concatE (step_of s2) container_name_desc_xref = Inr b"
    unfolding get_status_breakdown_def Let_def by (auto simp: bindE_Inr_iff)
  show "subseq (map step_name ds) (map JStr all_steps)"
    unfolding ds all_steps_def map_append map_map
    by (rule list_emb_append_mono [OF steps_subseq(1) [OF a] steps_subseq(1) [OF b]])
  show "\<forall>d \<in> set ds. \<exists>n status. d = step_json n status"
    using steps_subseq(2) [OF a] steps_subseq(2) [OF b] ds by auto
qed

text \<open>
  The steps that a response lists are steps of the fixed list, each at most once and in the order of
  that list, whatever containers the session has and in whatever order the cluster names them.
\<close>

theorem status_steps_in_order:
  assumes "get_status_breakdown cfg m = Inr ds"
  shows "subseq (map step_name ds) (map JStr all_steps) \<and> distinct (map step_name ds) \<and> length ds \<le> 8"
proof -
  note sub = breakdown_facts(1) [OF assms]
  have d: "distinct (map JStr all_steps)" by code_simp
  have "length (map step_name ds) \<le> length (map JStr all_steps)" by (rule list_emb_length [OF sub])
  also have "\<dots> = 8" by code_simp
  moreover from sub d have "distinct (map step_name ds)"
    by (auto simp only: subseq_conv_nths distinct_nthsI)
  ultimately show ?thesis using sub by simp
qed

lemma get_starting_message_None:
  assumes "\<forall>d \<in> set ds. \<exists>n status. d = step_json n status"
  shows "get_starting_message ds = Inr None \<longleftrightarrow> filter step_ready ds = ds"
proof -
  have "mapE (\<lambda>st. bindE (bindE (jitem st ''step'') jstr) (\<lambda>d. Inr (lower d))) xs
      = Inr (map (\<lambda>st. case step_name st of JStr d \<Rightarrow> lower d | _ \<Rightarrow> []) xs)"
    if "\<forall>d \<in> set xs. \<exists>n status. d = step_json n status" for xs
    using that by (induction xs) (auto simp: step_json_def step_name_def)
  from this [of "filter (\<lambda>st. \<not> step_ready st) ds"] assms
  show ?thesis
    by (auto simp: get_starting_message_def filter_id_conv filter_empty_conv)
qed

lemma filter_all_iff: "filter P xs = xs \<longleftrightarrow> length (filter P xs) = length xs"
proof
  assume "length (filter P xs) = length xs"
  then show "filter P xs = xs"
  proof (induction xs)
    case (Cons x xs)
    then show ?case using length_filter_le [of P xs] by (cases "P x") simp_all
  qed simp
qed simp

lemma get_status_InrD:
  assumes "get_status cfg now now2 st m = Inr s"
  obtains state details failure starting ws where
    "jpath m [''status'', ''state''] (JStr ''starting'') = Inr state"
    "get_status_breakdown cfg m = Inr details"
    "(if state = JStr ''failed'' then bindE (bindE (get_all_container_statuses m) (failure_message m))
        (\<lambda>msg. Inr [(''message'', msg)]) else Inr []) = Inr failure"
    "(if state = JStr ''starting''
      then bindE (get_starting_message details) (\<lambda>msg. Inr [(''message'', jopt msg)]) else Inr []) = Inr starting"
    "s = JObj ([(''state'', state)] @ failure @ [(''details'', JArr details)] @ starting @
       [(''totalNumContainers'', JInt (int (length details))),
        (''readyNumContainers'', JInt (int (length (filter step_ready details)))), (''warnings'', JArr ws)])"
proof -
  from assms obtain state statuses failure details starting w1 w2 w3 w4 where
    "jpath m [''status'', ''state''] (JStr ''starting'') = Inr state"
    "get_all_container_statuses m = Inr statuses"
    "(if state = JStr ''failed'' then bindE (failure_message m statuses) (\<lambda>msg. Inr [(''message'', msg)])
            else Inr []) = Inr failure"
    "get_status_breakdown cfg m = Inr details"
    "(if state = JStr ''starting''
            then bindE (get_starting_message details) (\<lambda>msg. Inr [(''message'', jopt msg)]) else Inr []) = Inr starting"
    "JObj ([(''state'', state)] @ failure @ [(''details'', JArr details)] @ starting @
       [(''totalNumContainers'', JInt (int (length details))),
        (''readyNumContainers'', JInt (int (length (filter step_ready details)))),
        (''warnings'', JArr (w1 @ w2 @ w3 @ w4))]) = s"
    unfolding get_status_def bindE_Inr_iff sum.inject by (elim exE conjE)
  then show thesis by (intro that [of state details failure starting "w1 @ w2 @ w3 @ w4"]) (simp_all only: bindE_simps)
qed

text \<open>
  C35. The counts of a status: the total is the number of the steps, the ready ones are at most that, and a
  session that is starting has a message exactly while a step is not ready.
\<close>

theorem status_counts:
  assumes "get_status cfg now now2 st m = Inr s"
  shows "\<exists>details ready. get_status_breakdown cfg m = Inr details
    \<and> jitem s ''details'' = Inr (JArr details)
    \<and> jitem s ''totalNumContainers'' = Inr (JInt (int (length details)))
    \<and> jitem s ''readyNumContainers'' = Inr (JInt (int ready)) \<and> ready \<le> length details
    \<and> (jitem s ''state'' = Inr (JStr ''starting'') \<longrightarrow>
         (jitem s ''message'' = Inr JNull \<longleftrightarrow> ready = length details))"
  using assms
proof (rule get_status_InrD)
  fix state details failure starting ws
  assume details: "get_status_breakdown cfg m = Inr details"
    and failure: "(if state = JStr ''failed'' then bindE (bindE (get_all_container_statuses m) (failure_message m))
        (\<lambda>msg. Inr [(''message'', msg)]) else Inr []) = Inr failure"
    and starting: "(if state = JStr ''starting''
      then bindE (get_starting_message details) (\<lambda>msg. Inr [(''message'', jopt msg)]) else Inr []) = Inr starting"
    and s: "s = JObj ([(''state'', state)] @ failure @ [(''details'', JArr details)] @ starting @
       [(''totalNumContainers'', JInt (int (length details))),
        (''readyNumContainers'', JInt (int (length (filter step_ready details)))), (''warnings'', JArr ws)])"
  have f: "failure = [] \<or> (state \<noteq> JStr ''starting'' \<and> (\<exists>v. failure = [(''message'', v)]))"
    using failure by (auto simp: bindE_Inr_iff split: if_splits)
  have g: "starting = [] \<or> (\<exists>v. starting = [(''message'', v)])"
    using starting by (auto simp: bindE_Inr_iff split: if_splits)
  have msg: "jitem s ''message'' = Inr JNull \<longleftrightarrow> get_starting_message details = Inr None"
    if "state = JStr ''starting''"
  proof -
    from starting that obtain t where t: "get_starting_message details = Inr t" "starting = [(''message'', jopt t)]"
      by (auto simp: bindE_Inr_iff)
    have "jitem s ''message'' = Inr (jopt t)" using f that by (auto simp: s t)
    then show ?thesis by (cases t) (simp_all add: t)
  qed
  have ready: "get_starting_message details = Inr None \<longleftrightarrow> length (filter step_ready details) = length details"
    unfolding get_starting_message_None [OF breakdown_facts(2) [OF details]] by (rule filter_all_iff)
  have state: "jitem s ''state'' = Inr state" by (simp add: s)
  have items: "jitem s ''details'' = Inr (JArr details)"
    "jitem s ''totalNumContainers'' = Inr (JInt (int (length details)))"
    "jitem s ''readyNumContainers'' = Inr (JInt (int (length (filter step_ready details))))"
    using f g by (auto simp: s)
  show ?thesis
    using details items msg ready state
    by (intro exI [of _ details] exI [of _ "length (filter step_ready details)"]) simp
qed

text \<open>
  The warning of a hibernated session names its whole threshold as the time that is left, at any time
  of the hibernation: it does not count down, as the warnings of idle and of old sessions do.
\<close>

theorem hibernation_warning_constant:
  assumes "hibernation_warning cfg now m = Inr [w]"
  shows "\<exists>threshold. culling_threshold m ''hibernatedSecondsThreshold'' = Inr threshold \<and> 0 < val threshold
    \<and> jitem w ''message'' = Inr (JStr (''Server is hibernated and will be terminated in ''
          @ py_str (jnum threshold) @ '' seconds.''))"
  using assms unfolding hibernation_warning_def Let_def
  by (auto simp: bindE_Inr_iff culling_threshold_def max0_def warning_json_def split: if_splits)

definition status_manifest :: "string \<Rightarrow> json" where
  "status_manifest state =
     JObj [(''metadata'', JObj [(''name'', JStr ''jane-1''), (''creationTimestamp'', JStr ''2024-05-01T10:00:00Z''),
        (''annotations'', JObj [(''renku.io/userId'', JStr ''u1''), (''renku.io/username'', JStr ''jane''),
            (''renku.io/hibernationDate'', JStr ''2024-05-01T12:00:00+00:00'')])]),
       (''spec'', JObj [(''jupyterServer'', JObj [(''image'', JStr ''img'')]),
           (''culling'', JObj [(''hibernatedSecondsThreshold'', JInt 86400)])]),
       (''status'', JObj [(''state'', JStr state),
           (''containerStates'', JObj [(''init'', JObj [(''git-clone'', JStr ''ready'')]),
              (''regular'', JObj [(''jupyter-server'', JStr ''executing''), (''git-proxy'', JStr ''ready'')])])])]"

lemma status_manifest_breakdown:
  "get_status_breakdown example_config (status_manifest ''starting'') =
     Inr [step_json ''Cloning and configuring the repository'' (JStr ''ready''),
          step_json ''Git credentials services'' (JStr ''ready''), step_json ''Starting session'' (JStr ''executing'')]"
  by code_simp

theorem status_steps_in_order_witness:
  "subseq (map step_name [step_json ''Cloning and configuring the repository'' (JStr ''ready''),
          step_json ''Git credentials services'' (JStr ''ready''), step_json ''Starting session'' (JStr ''executing'')])
     (map JStr all_steps)"
  using status_steps_in_order [OF status_manifest_breakdown] by blast

lemma hibernation_date:
  "fromisoformat ''2024-05-01T12:00:00+00:00'' = Inr (DT 1714564800000000 (Some 0))"
  by (simp add: fromisoformat_def read_date_def digits_field_def bindO_def after_char_def is_digit_def code_def
      parse_digits_def digit_val_def month_days_def days_from_civil_def read_clock_def read_zone_def
      read_fraction_def Let_def)

lemma status_manifest_user: "user_is_anonymous (status_manifest state) = Inr False"
  by (simp add: user_is_anonymous_def status_manifest_def renku_annotation_prefix_def Let_def)

lemma status_manifest_warning:
  "hibernation_warning example_config (DT 1714651200000000 (Some 0)) (status_manifest state) =
     Inr [warning_json ''Server is hibernated and will be terminated in 86400 seconds.'' True]"
proof -
  have b: "val (pn_sub (PInt 86400) (total_seconds 86400000000)) = 0"
    by (simp add: total_seconds_def to_float_def)
  have "digit_char 0 = CHR ''0''" "digit_char 4 = CHR ''4''" "digit_char 6 = CHR ''6''" "digit_char 8 = CHR ''8''"
    by code_simp+
  then have c: "show_int 86400 = ''86400''" by (simp add: show_int_def show_nat.simps)
  have d: "0 < termination_warning_seconds (cfg_sessions example_config)" by code_simp
  show ?thesis
    using status_manifest_user [of state] b c d
    by (simp add: hibernation_warning_def status_manifest_def parse_time_def hibernation_date seconds_since_def
        dt_sub_def as_number_def not_a_number_def below_warning_def max0_def)
qed

theorem hibernation_warning_constant_witness:
  "jitem (warning_json ''Server is hibernated and will be terminated in 86400 seconds.'' True) ''message''
     = Inr (JStr (''Server is hibernated and will be terminated in '' @ py_str (jnum (PInt 86400)) @ '' seconds.''))"
proof -
  have "culling_threshold (status_manifest s) ''hibernatedSecondsThreshold'' = Inr (PInt 86400)" for s
    by (simp add: culling_threshold_def status_manifest_def as_number_def not_a_number_def)
  with hibernation_warning_constant [OF status_manifest_warning] show ?thesis by auto
qed

theorem status_counts_witness:
  "\<exists>s ready. get_status example_config (DT 1714651200000000 (Some 0)) (DT 1714651200000000 (Some 0))
      (DT 1714557600000000 (Some 0)) (status_manifest ''starting'') = Inr s
    \<and> jitem s ''totalNumContainers'' = Inr (JInt 3) \<and> jitem s ''readyNumContainers'' = Inr (JInt (int ready))
    \<and> ready \<le> 3"
proof -
  have i: "idle_warning example_config now (status_manifest ''starting'') = Inr []" for now
    by (simp add: idle_warning_def culling_threshold_def status_manifest_def as_number_def not_a_number_def)
  have a: "age_warning example_config now started (status_manifest ''starting'') =
      bindE (seconds_since now started) (\<lambda>_. Inr [])" for now started
    by (simp add: age_warning_def status_manifest_def as_number_def not_a_number_def)
  have d: "default_image_warning example_config (status_manifest ''starting'') = Inr []"
    by code_simp
  have g: "get_all_container_statuses (status_manifest ''starting'') = Inr []"
    by (simp add: get_all_container_statuses_def status_manifest_def)
  have ready: "step_ready (step_json n v) \<longleftrightarrow> v = JStr ''ready''" for n v
    by (simp add: step_ready_def step_json_def)
  have st: "jpath (status_manifest ''starting'') [''status'', ''state''] (JStr ''starting'') = Inr (JStr ''starting'')"
    by (simp add: status_manifest_def)
  obtain msg where m: "get_starting_message [step_json ''Cloning and configuring the repository'' (JStr ''ready''),
      step_json ''Git credentials services'' (JStr ''ready''), step_json ''Starting session'' (JStr ''executing'')] = Inr msg"
    by (simp add: get_starting_message_def step_json_def step_ready_def)
  have "\<exists>s. get_status example_config (DT 1714651200000000 (Some 0)) (DT 1714651200000000 (Some 0))
      (DT 1714557600000000 (Some 0)) (status_manifest ''starting'') = Inr s"
    by (simp add: get_status_def i a d g st [simplified] m [simplified] ready status_manifest_breakdown status_manifest_warning seconds_since_def dt_sub_def)
  then obtain s where s: "get_status example_config (DT 1714651200000000 (Some 0)) (DT 1714651200000000 (Some 0))
      (DT 1714557600000000 (Some 0)) (status_manifest ''starting'') = Inr s" by blast
  from status_counts [OF s] s show ?thesis
    by (auto simp: status_manifest_breakdown)
qed

end
