(* ===== verification/Image.thy ===== *)
theory Image
  imports Regex Http Codec Paths
begin

text \<open>
  Docker images (\<open>api/classes/image.py\<close>): parsing an image name with the nine patterns of
  \<open>Image.from_path\<close>, and the queries that \<open>ImageRepoDockerAPI\<close> makes to a registry for the token,
  the manifest, the configuration and the working directory of an image.
\<close>

section \<open>The patterns\<close>

definition is_alnum :: "char \<Rightarrow> bool" where
  "is_alnum c \<longleftrightarrow> is_letter c \<or> is_digit c"

text \<open>\<open>[a-zA-Z0-9_\-]\<close>, \<open>[a-zA-Z0-9\._\-]\<close>, and the same with a colon or a slash.\<close>

definition host_char :: "char \<Rightarrow> bool" where
  "host_char c \<longleftrightarrow> is_alnum c \<or> c \<in> set ''_-''"

definition name_char :: "char \<Rightarrow> bool" where
  "name_char c \<longleftrightarrow> is_alnum c \<or> c \<in> set ''._-''"

definition port_char :: "char \<Rightarrow> bool" where
  "port_char c \<longleftrightarrow> name_char c \<or> c = CHR '':''"

definition path_char :: "char \<Rightarrow> bool" where
  "path_char c \<longleftrightarrow> name_char c \<or> c = CHR ''/''"

abbreviation chr_is :: "char \<Rightarrow> char \<Rightarrow> bool" where
  "chr_is d \<equiv> (\<lambda>c. c = d)"

text \<open>\<open>(?P<hostname>(?<=^)[a-zA-Z0-9_\-]{1,}\.[a-zA-Z0-9\._\-:]{1,}(?=\/))\<close>.\<close>

definition hostname_rx :: rx where
  "hostname_rx = Group ''hostname''
     (seqs [Bol, Rep 1 host_char, One (chr_is CHR ''.''), Rep 1 port_char, Ahead (chr_is CHR ''/'')])"

definition docker_username_rx :: rx where
  "docker_username_rx = Group ''username'' (seqs [Bol, Rep 1 is_alnum, Ahead (chr_is CHR ''/'')])"

definition username_rx :: rx where
  "username_rx = Group ''username''
     (seqs [Behind (chr_is CHR ''/''), Rep 1 name_char, Ahead (chr_is CHR ''/'')])"

text \<open>\<open>(?:(?<=\/)|(?<=^))\<close> and \<open>(?:(?=:)|(?=@)|(?=$))\<close>.\<close>

definition image_start :: rx where
  "image_start = Alt (Behind (chr_is CHR ''/'')) Bol"

definition image_stop :: rx where
  "image_stop = Alt (Ahead (chr_is CHR '':'')) (Alt (Ahead (chr_is CHR ''@'')) Eol)"

definition docker_image_rx :: rx where
  "docker_image_rx = Group ''image'' (seqs [image_start, Rep 1 name_char, image_stop])"

definition image_rx :: rx where
  "image_rx = Group ''image'' (seqs [image_start, Rep 1 path_char, image_stop])"

definition sha_rx :: rx where
  "sha_rx = Group ''tag'' (seqs [Behind (chr_is CHR ''@''), Rep 1 port_char, Eol])"

definition tag_rx :: rx where
  "tag_rx = Group ''tag'' (seqs [Behind (chr_is CHR '':''), Rep 1 name_char, Eol])"

definition build_re :: "rx list \<Rightarrow> rx" where
  "build_re parts = seqs (Bol # parts @ [Eol])"

abbreviation slash_rx :: rx where "slash_rx \<equiv> One (chr_is CHR ''/'')"
abbreviation colon_rx :: rx where "colon_rx \<equiv> One (chr_is CHR '':'')"
abbreviation at_rx :: rx where "at_rx \<equiv> One (chr_is CHR ''@'')"

text \<open>\<open>regexes\<close>: each pattern with the defaults that complete its match.\<close>

definition image_regexes :: "(rx \<times> (string, string) dict) list" where
  "image_regexes =
    [(build_re [docker_image_rx],
       [(''hostname'', ''registry-1.docker.io''), (''username'', ''library''), (''tag'', ''latest'')]),
     (build_re [docker_username_rx, slash_rx, docker_image_rx],
       [(''hostname'', ''registry-1.docker.io''), (''tag'', ''latest'')]),
     (build_re [docker_image_rx, colon_rx, tag_rx],
       [(''hostname'', ''registry-1.docker.io''), (''username'', ''library'')]),
     (build_re [docker_username_rx, slash_rx, docker_image_rx, colon_rx, tag_rx],
       [(''hostname'', ''registry-1.docker.io'')]),
     (build_re [docker_image_rx, at_rx, sha_rx],
       [(''hostname'', ''registry-1.docker.io''), (''username'', ''library'')]),
     (build_re [docker_username_rx, slash_rx, docker_image_rx, at_rx, sha_rx],
       [(''hostname'', ''registry-1.docker.io'')]),
     (build_re [hostname_rx, slash_rx, username_rx, slash_rx, image_rx], [(''tag'', ''latest'')]),
     (build_re [hostname_rx, slash_rx, username_rx, slash_rx, image_rx, colon_rx, tag_rx], []),
     (build_re [hostname_rx, slash_rx, username_rx, slash_rx, image_rx, at_rx, sha_rx], [])]"

section \<open>Parsing\<close>

record image =
  im_hostname :: string
  im_name :: string
  im_tag :: string

definition image_of_groups :: "(string, string) dict \<Rightarrow> image" where
  "image_of_groups d =
     \<lparr>im_hostname = group d ''hostname'', im_name = group d ''username'' @ ''/'' @ group d ''image'',
      im_tag = group d ''tag''\<rparr>"

text \<open>\<open>matches\<close>: one entry for each pattern that matches the whole name.\<close>

definition interpretations :: "string \<Rightarrow> image list" where
  "interpretations p =
     concat (map (\<lambda>(regex, fill).
       case re_match regex p of
         None \<Rightarrow> []
       | Some d \<Rightarrow> [image_of_groups (dmerge d fill)]) image_regexes)"

definition from_path :: "string \<Rightarrow> image res" where
  "from_path p =
     (case interpretations p of
        [i] \<Rightarrow> Inr i
      | [] \<Rightarrow> Inl (api ImageParseError (''Cannot parse the image '' @ p))
      | _ \<Rightarrow> Inl (api ImageParseError (''Cannot parse the image '' @ p @ '', too many interpretations'')))"

section \<open>The registry\<close>

record image_repo =
  ir_hostname :: string
  ir_oauth2_token :: "string option"

definition repo_api :: "image \<Rightarrow> image_repo" where
  "repo_api i = \<lparr>ir_hostname = im_hostname i, ir_oauth2_token = None\<rparr>"

definition with_oauth2_token :: "string \<Rightarrow> image_repo \<Rightarrow> image_repo" where
  "with_oauth2_token t r = \<lparr>ir_hostname = ir_hostname r, ir_oauth2_token = Some t\<rparr>"

definition docker_v2 :: string where
  "docker_v2 = ''application/vnd.docker.distribution.manifest.v2+json''"

definition docker_v2_list :: string where
  "docker_v2_list = ''application/vnd.docker.distribution.manifest.list.v2+json''"

definition oci_v1_manifest :: string where
  "oci_v1_manifest = ''application/vnd.oci.image.manifest.v1+json''"

definition oci_v1_index :: string where
  "oci_v1_index = ''application/vnd.oci.image.index.v1+json''"

text \<open>Header names are compared without case.\<close>

definition header_get :: "http_response \<Rightarrow> string \<Rightarrow> string option" where
  "header_get r k = dget (map (\<lambda>(n, v). (lower n, v)) (resp_headers r)) (lower k)"

definition urlsafe_b64 :: "string \<Rightarrow> string" where
  "urlsafe_b64 s =
     map (\<lambda>c. if c = CHR ''+'' then CHR ''-'' else if c = CHR ''/'' then CHR ''_'' else c)
       (b64encode (map code s))"

definition manifest_url :: "string \<Rightarrow> image \<Rightarrow> string \<Rightarrow> string" where
  "manifest_url host i ref = ''https://'' @ host @ ''/v2/'' @ im_name i @ ''/manifests/'' @ ref"

text \<open>
  \<open>try: requests.get(...) except requests.ConnectionError\<close>: the connection errors are the
  \<open>RequestsError ''ConnectionError''\<close> of the model.
\<close>

definition get_or_none :: "'w http \<Rightarrow> string \<Rightarrow> ('w, http_response option) eff" where
  "get_or_none http url =
     catchC (bindC (http_get http url None None) (\<lambda>r. ret (Some r)))
       (\<lambda>e. if e = RequestsError ''ConnectionError'' then ret None else raise e)"

text \<open>
  The token endpoint's answer; \<open>www_auth\<close> is \<open>WWWAuthenticate.from_header\<close>, which gives the
  parameters of the header or nothing.
\<close>

definition get_docker_token ::
  "'w http \<Rightarrow> (string \<Rightarrow> (string, string) dict option) \<Rightarrow> image_repo \<Rightarrow> image \<Rightarrow> ('w, string option) eff" where
  "get_docker_token http www_auth r i =
     bindC (get_or_none http (manifest_url (ir_hostname r) i (im_tag i))) (\<lambda>auth_req.
     case auth_req of
       None \<Rightarrow> ret None
     | Some a \<Rightarrow>
         (case (if resp_status a = 401 then header_get a ''Www-Authenticate'' else None) of
            None \<Rightarrow> ret None
          | Some h \<Rightarrow>
              (case www_auth h of
                 None \<Rightarrow> ret None
               | Some params \<Rightarrow>
                   (case dget params ''realm'' of
                      None \<Rightarrow> raise (KeyError ''realm'')
                    | Some realm \<Rightarrow>
                        if realm = [] then ret None
                        else
                          bindC (http_get http realm
                              (Some ((''Accept'', ''application/json'') #
                                 (case ir_oauth2_token r of
                                    None \<Rightarrow> []
                                  | Some t \<Rightarrow>
                                      if t = [] then []
                                      else [(''Authorization'', ''Basic '' @ urlsafe_b64 (''oauth2:'' @ t))])))
                              (Some (map (\<lambda>(k, v). (k, JStr v)) (filter (\<lambda>kv. fst kv \<noteq> ''realm'') params)))) (\<lambda>token_req.
                          if resp_status token_req \<noteq> 200 then ret None
                          else (case resp_body token_req of
                              Inl _ \<Rightarrow> ret None
                            | Inr res_dict \<Rightarrow>
                                bindC (liftE (jget res_dict ''token'' JNull)) (\<lambda>token.
                                  ret (if truthy token then Some (py_str token) else None))))))))"

text \<open>
  The requests for a manifest: one for each media type, with the token if there is one, until one
  answers 200.
\<close>

fun try_accepts ::
  "'w http \<Rightarrow> string \<Rightarrow> (string, string) dict \<Rightarrow> string list \<Rightarrow> ('w, http_response option) eff" where
  "try_accepts http url auth [] = ret None"
| "try_accepts http url auth (m # ms) =
     bindC (http_get http url (Some ((''Accept'', m) # auth)) None) (\<lambda>res.
       if resp_status res \<noteq> 200 then try_accepts http url auth ms else ret (Some res))"

definition platform_matches :: "string \<Rightarrow> string \<Rightarrow> json \<Rightarrow> bool res" where
  "platform_matches arch os manifest =
     bindE (jget manifest ''platform'' jempty) (\<lambda>platform.
     bindE (jget platform ''architecture'' JNull) (\<lambda>a.
     if a \<noteq> JStr arch then Inr False
     else bindE (jget platform ''os'' JNull) (\<lambda>s. Inr (s = JStr os))))"

text \<open>\<open>next(filter(p, xs), {})\<close> stops at the first element that passes.\<close>

fun first_match :: "(json \<Rightarrow> bool res) \<Rightarrow> json list \<Rightarrow> json res" where
  "first_match p [] = Inr jempty"
| "first_match p (x # xs) = bindE (p x) (\<lambda>b. if b then Inr x else first_match p xs)"

definition manifest_body :: "http_response \<Rightarrow> json option res" where
  "manifest_body res =
     (case header_get res ''Content-Type'' of
        Some t \<Rightarrow>
          if t \<in> {docker_v2, oci_v1_manifest} then bindE (resp_body res) (\<lambda>j. Inr (Some j)) else Inr None
      | None \<Rightarrow> Inr None)"

definition select_manifest :: "string \<Rightarrow> string \<Rightarrow> json \<Rightarrow> json res" where
  "select_manifest arch os index_parsed =
     bindE (bindE (jget index_parsed ''manifests'' (JArr [])) jiter) (first_match (platform_matches arch os))"

definition get_image_manifest ::
  "'w http \<Rightarrow> (string \<Rightarrow> (string, string) dict option) \<Rightarrow> image_repo \<Rightarrow> image \<Rightarrow> string \<Rightarrow> string
   \<Rightarrow> ('w, json option) eff" where
  "get_image_manifest http www_auth r i arch os =
     (if im_hostname i \<noteq> ir_hostname r then
        raise (api ImageParseError (''The image hostname '' @ im_hostname i @
          '' does not match the image repository '' @ ir_hostname r))
      else
        bindC (get_docker_token http www_auth r i) (\<lambda>token.
        let auth = (case token of None \<Rightarrow> [] | Some t \<Rightarrow> [(''Authorization'', ''Bearer '' @ t)]) in
        bindC (try_accepts http (manifest_url (im_hostname i) i (im_tag i)) auth
            [docker_v2, oci_v1_manifest, oci_v1_index]) (\<lambda>found.
        case found of
          None \<Rightarrow> ret None
        | Some res \<Rightarrow>
            if header_get res ''Content-Type'' \<in> {Some docker_v2_list, Some oci_v1_index} then
              bindC (liftE (bindE (resp_body res) (select_manifest arch os))) (\<lambda>manifest.
              bindC (liftE (jget manifest ''digest'' JNull)) (\<lambda>image_digest.
              if \<not> truthy manifest \<or> \<not> truthy image_digest then ret None
              else
                bindC (liftE (jget manifest ''mediaType'' JNull)) (\<lambda>media_type.
                let accept = (if media_type = JStr oci_v1_manifest then oci_v1_manifest else docker_v2) in
                bindC (try_accepts http (manifest_url (im_hostname i) i (py_str image_digest)) auth
                    [accept, oci_v1_manifest]) (\<lambda>found2.
                case found2 of
                  None \<Rightarrow> ret None
                | Some res2 \<Rightarrow> liftE (manifest_body res2)))))
            else liftE (manifest_body res))))"

definition default_arch :: string where "default_arch = ''amd64''"
definition default_os :: string where "default_os = ''linux''"

definition image_exists ::
  "'w http \<Rightarrow> (string \<Rightarrow> (string, string) dict option) \<Rightarrow> image_repo \<Rightarrow> image \<Rightarrow> ('w, bool) eff" where
  "image_exists http www_auth r i =
     bindC (get_image_manifest http www_auth r i default_arch default_os) (\<lambda>m. ret (m \<noteq> None))"

text \<open>The token of the second request is put into the header even when there is none.\<close>

definition get_image_config ::
  "'w http \<Rightarrow> (string \<Rightarrow> (string, string) dict option) \<Rightarrow> image_repo \<Rightarrow> image \<Rightarrow> ('w, json option) eff" where
  "get_image_config http www_auth r i =
     bindC (get_image_manifest http www_auth r i default_arch default_os) (\<lambda>manifest.
     case manifest of
       None \<Rightarrow> ret None
     | Some m \<Rightarrow>
         bindC (liftE (jpath m [''config'', ''digest''] JNull)) (\<lambda>config_digest.
         if config_digest = JNull then ret None
         else
           bindC (get_docker_token http www_auth r i) (\<lambda>token.
           bindC (http_get http
               (''https://'' @ im_hostname i @ ''/v2/'' @ im_name i @ ''/blobs/'' @ py_str config_digest)
               (Some [(''Accept'', ''application/json''),
                  (''Authorization'', ''Bearer '' @ (case token of None \<Rightarrow> ''None'' | Some t \<Rightarrow> t))]) None) (\<lambda>res.
           if resp_status res \<noteq> 200 then ret None
           else bindC (liftE (resp_body res)) (\<lambda>j. ret (Some j))))))"

definition workdir_of_config :: "json \<Rightarrow> path option res" where
  "workdir_of_config config =
     bindE (jget config ''config'' jempty) (\<lambda>nested_config.
     if nested_config = JNull then Inr None
     else
       bindE (jget nested_config ''WorkingDir'' (JStr ''/'')) (\<lambda>workdir.
       case workdir of
         JStr s \<Rightarrow> Inr (Some (path_of (if s = [] then ''/'' else s)))
       | _ \<Rightarrow> Inl (TypeError ''expected str, bytes or os.PathLike object'')))"

definition image_workdir ::
  "'w http \<Rightarrow> (string \<Rightarrow> (string, string) dict option) \<Rightarrow> image_repo \<Rightarrow> image \<Rightarrow> ('w, path option) eff" where
  "image_workdir http www_auth r i =
     bindC (get_image_config http www_auth r i) (\<lambda>config.
     case config of None \<Rightarrow> ret None | Some c \<Rightarrow> liftE (workdir_of_config c))"

section \<open>What the patterns accept\<close>

definition host_shape :: "string \<Rightarrow> bool" where
  "host_shape h \<longleftrightarrow>
     (\<exists>x y. h = x @ CHR ''.'' # y \<and> x \<noteq> [] \<and> list_all host_char x \<and> y \<noteq> [] \<and> list_all port_char y)"

definition word_of :: "(char \<Rightarrow> bool) \<Rightarrow> string \<Rightarrow> bool" where
  "word_of P w \<longleftrightarrow> w \<noteq> [] \<and> list_all P w"

lemma Rep1_iff:
  "(b', a', c') \<in> set (mt (Rep 1 P) (b, a, c)) \<longleftrightarrow>
     (\<exists>w. word_of P w \<and> a = w @ a' \<and> b' = rev w @ b \<and> c' = c)"
  unfolding mt_Rep_iff word_of_def by (auto simp: Suc_le_eq)

lemma hostname_rx_iff:
  "(b', a', c') \<in> set (mt hostname_rx (b, a, c)) \<longleftrightarrow>
     b = [] \<and> (\<exists>h xs. host_shape h \<and> a' = CHR ''/'' # xs \<and> a = h @ a' \<and> b' = rev h
       \<and> c' = dset ''hostname'' h c)"
proof
  assume "(b', a', c') \<in> set (mt hostname_rx (b, a, c))"
  then show "b = [] \<and> (\<exists>h xs. host_shape h \<and> a' = CHR ''/'' # xs \<and> a = h @ a' \<and> b' = rev h
       \<and> c' = dset ''hostname'' h c)"
  proof -
    assume "(b', a', c') \<in> set (mt hostname_rx (b, a, c))"
    then obtain x y xs where p: "b = []" "a' = CHR ''/'' # xs" "word_of host_char x" "word_of port_char y"
      and a: "a = x @ CHR ''.'' # y @ a'" "b' = rev y @ CHR ''.'' # rev x"
      and c: "c' = dset ''hostname'' (take (length a - length a') a) c"
      unfolding hostname_rx_def seqs.simps mt_Group_iff mt_Seq_iff mt_anchor_iff mt_look_iff
        mt_One_iff Rep1_iff
      by auto
    have "host_shape (x @ CHR ''.'' # y)"
      using p(3,4) unfolding host_shape_def word_of_def by blast
    moreover have "take (length a - length a') a = x @ CHR ''.'' # y" by (simp add: a)
    ultimately show ?thesis
      using p(1,2) a c by (intro conjI exI [of _ "x @ CHR ''.'' # y"] exI [of _ xs]) simp_all
  qed
next
  assume "b = [] \<and> (\<exists>h xs. host_shape h \<and> a' = CHR ''/'' # xs \<and> a = h @ a' \<and> b' = rev h
       \<and> c' = dset ''hostname'' h c)"
  then obtain x y xs where p: "b = []" "a' = CHR ''/'' # xs" "a = (x @ CHR ''.'' # y) @ a'"
    "b' = rev (x @ CHR ''.'' # y)" "c' = dset ''hostname'' (x @ CHR ''.'' # y) c"
    "word_of host_char x" "word_of port_char y"
    by (auto simp: host_shape_def word_of_def)
  have dot: "(rev (x @ CHR ''.'' # y), a', c)
      \<in> set (mt (seqs [Bol, Rep 1 host_char, One (chr_is CHR ''.''), Rep 1 port_char, Ahead (chr_is CHR ''/'')])
          ([], (x @ CHR ''.'' # y) @ a', c))"
    unfolding seqs.simps mt_Seq_iff mt_anchor_iff mt_look_iff mt_One_iff Rep1_iff
    using p(2,6,7) by (intro exI conjI refl) auto
  then show "(b', a', c') \<in> set (mt hostname_rx (b, a, c))"
    unfolding hostname_rx_def p by (rule mt_GroupI [unfolded p])
qed

lemma docker_username_rx_iff:
  "(b', a', c') \<in> set (mt docker_username_rx (b, a, c)) \<longleftrightarrow>
     b = [] \<and> (\<exists>u xs. word_of is_alnum u \<and> a' = CHR ''/'' # xs \<and> a = u @ a' \<and> b' = rev u
       \<and> c' = dset ''username'' u c)"
  unfolding docker_username_rx_def seqs.simps mt_Group_iff mt_Seq_iff mt_anchor_iff mt_look_iff Rep1_iff
  by auto

lemma username_rx_iff:
  "(b', a', c') \<in> set (mt username_rx (b, a, c)) \<longleftrightarrow>
     (\<exists>ys. b = CHR ''/'' # ys) \<and> (\<exists>u xs. word_of name_char u \<and> a' = CHR ''/'' # xs \<and> a = u @ a'
       \<and> b' = rev u @ b \<and> c' = dset ''username'' u c)"
  unfolding username_rx_def seqs.simps mt_Group_iff mt_Seq_iff mt_anchor_iff mt_look_iff Rep1_iff
  by auto

definition stops :: "string \<Rightarrow> bool" where
  "stops a \<longleftrightarrow> at_end a \<or> (\<exists>x xs. a = x # xs \<and> x \<in> {CHR '':'', CHR ''@''})"

definition starts :: "string \<Rightarrow> bool" where
  "starts b \<longleftrightarrow> b = [] \<or> (\<exists>ys. b = CHR ''/'' # ys)"

lemma image_start_iff: "q \<in> set (mt image_start (b, a, c)) \<longleftrightarrow> starts b \<and> q = (b, a, c)"
  unfolding image_start_def mt_Alt_iff mt_anchor_iff mt_look_iff starts_def by auto

lemma image_stop_iff: "q \<in> set (mt image_stop (b, a, c)) \<longleftrightarrow> stops a \<and> q = (b, a, c)"
  unfolding image_stop_def mt_Alt_iff mt_anchor_iff mt_look_iff stops_def by auto

lemma docker_image_rx_iff:
  "(b', a', c') \<in> set (mt docker_image_rx (b, a, c)) \<longleftrightarrow>
     starts b \<and> (\<exists>w. word_of name_char w \<and> stops a' \<and> a = w @ a' \<and> b' = rev w @ b
       \<and> c' = dset ''image'' w c)"
  unfolding docker_image_rx_def seqs.simps mt_Group_iff mt_Seq_iff image_start_iff image_stop_iff Rep1_iff
  by auto

lemma image_rx_iff:
  "(b', a', c') \<in> set (mt image_rx (b, a, c)) \<longleftrightarrow>
     starts b \<and> (\<exists>w. word_of path_char w \<and> stops a' \<and> a = w @ a' \<and> b' = rev w @ b
       \<and> c' = dset ''image'' w c)"
  unfolding image_rx_def seqs.simps mt_Group_iff mt_Seq_iff image_start_iff image_stop_iff Rep1_iff
  by auto

lemma sha_rx_iff:
  "(b', a', c') \<in> set (mt sha_rx (b, a, c)) \<longleftrightarrow>
     (\<exists>ys. b = CHR ''@'' # ys) \<and> (\<exists>w. word_of port_char w \<and> at_end a' \<and> a = w @ a' \<and> b' = rev w @ b
       \<and> c' = dset ''tag'' w c)"
  unfolding sha_rx_def seqs.simps mt_Group_iff mt_Seq_iff mt_anchor_iff mt_look_iff Rep1_iff
  by auto

lemma tag_rx_iff:
  "(b', a', c') \<in> set (mt tag_rx (b, a, c)) \<longleftrightarrow>
     (\<exists>ys. b = CHR '':'' # ys) \<and> (\<exists>w. word_of name_char w \<and> at_end a' \<and> a = w @ a' \<and> b' = rev w @ b
       \<and> c' = dset ''tag'' w c)"
  unfolding tag_rx_def seqs.simps mt_Group_iff mt_Seq_iff mt_anchor_iff mt_look_iff Rep1_iff
  by auto

lemma chr_rx_iff:
  "(b', a', c') \<in> set (mt (One (chr_is d)) (b, a, c)) \<longleftrightarrow> a = d # a' \<and> b' = d # b \<and> c' = c"
  unfolding mt_One_iff by auto

text \<open>The text of a name: the part before the tag, and the tag with its separator.\<close>

definition tagged :: "string \<Rightarrow> nat \<Rightarrow> string \<Rightarrow> bool" where
  "tagged t k a \<longleftrightarrow>
     k = 0 \<and> t = a
     \<or> k = 1 \<and> (\<exists>w. word_of name_char w \<and> t = CHR '':'' # w @ a)
     \<or> k = 2 \<and> (\<exists>w. word_of port_char w \<and> t = CHR ''@'' # w @ a)"

lemmas part_iffs = hostname_rx_iff docker_username_rx_iff username_rx_iff docker_image_rx_iff
  image_rx_iff sha_rx_iff tag_rx_iff chr_rx_iff

lemma stops_simps [simp]: "stops (CHR '':'' # xs)" "stops (CHR ''@'' # xs)" "at_end a \<Longrightarrow> stops a"
  by (simp_all add: stops_def)

text \<open>The three ways a pattern ends.\<close>

definition tail_rx :: "nat \<Rightarrow> rx list" where
  "tail_rx k = (if k = 0 then [] else if k = 1 then [colon_rx, tag_rx] else [at_rx, sha_rx])"

lemma seqs_Cons: "xs \<noteq> [] \<Longrightarrow> seqs (x # xs) = Seq x (seqs xs)"
  by (cases xs) simp_all

lemma tail_dest:
  assumes "(b', a', c') \<in> set (mt (seqs (tail_rx k @ [Eol])) (b, a, c))" and "k \<le> 2"
  shows "tagged a k a' \<and> at_end a'"
proof -
  consider "k = 0" | "k = 1" | "k = 2" using assms(2) by linarith
  then show ?thesis
    using assms(1)
    by cases (auto simp: tail_rx_def mt_Seq_iff part_iffs mt_anchor_iff tagged_def)
qed

lemma build_re_eq:
  "build_re (docker_image_rx # r) = Seq Bol (Seq docker_image_rx (seqs (r @ [Eol])))"
  "build_re (docker_username_rx # slash_rx # docker_image_rx # r)
     = Seq Bol (Seq docker_username_rx (Seq slash_rx (Seq docker_image_rx (seqs (r @ [Eol])))))"
  "build_re (hostname_rx # slash_rx # username_rx # slash_rx # image_rx # r)
     = Seq Bol (Seq hostname_rx (Seq slash_rx (Seq username_rx (Seq slash_rx
         (Seq image_rx (seqs (r @ [Eol])))))))"
  by (simp_all add: build_re_def seqs_Cons)

lemma docker_shape:
  assumes "(b', a', c') \<in> set (mt (build_re (docker_image_rx # tail_rx k)) ([], s, []))" and "k \<le> 2"
  shows "\<exists>w t. word_of name_char w \<and> tagged t k a' \<and> at_end a' \<and> s = w @ t"
proof -
  from assms(1) obtain w b1 a1 c1 where "word_of name_char w" "s = w @ a1"
    and t: "(b', a', c') \<in> set (mt (seqs (tail_rx k @ [Eol])) (b1, a1, c1))"
    unfolding build_re_eq mt_Seq_iff part_iffs mt_anchor_iff by blast
  with tail_dest [OF t assms(2)] show ?thesis by blast
qed

lemma user_shape:
  assumes "(b', a', c') \<in> set (mt (build_re (docker_username_rx # slash_rx # docker_image_rx # tail_rx k)) ([], s, []))"
    and "k \<le> 2"
  shows "\<exists>u w t. word_of is_alnum u \<and> word_of name_char w \<and> tagged t k a' \<and> at_end a'
    \<and> s = u @ CHR ''/'' # w @ t"
proof -
  from assms(1) obtain u w b1 a1 c1 where "word_of is_alnum u" "word_of name_char w"
    "s = u @ CHR ''/'' # w @ a1"
    and t: "(b', a', c') \<in> set (mt (seqs (tail_rx k @ [Eol])) (b1, a1, c1))"
    unfolding build_re_eq mt_Seq_iff part_iffs mt_anchor_iff by blast
  with tail_dest [OF t assms(2)] show ?thesis by blast
qed

lemma host_image_shape:
  assumes "(b', a', c') \<in> set (mt
      (build_re (hostname_rx # slash_rx # username_rx # slash_rx # image_rx # tail_rx k)) ([], s, []))"
    and "k \<le> 2"
  shows "\<exists>h u w t. host_shape h \<and> word_of name_char u \<and> word_of path_char w \<and> tagged t k a' \<and> at_end a'
    \<and> s = h @ CHR ''/'' # u @ CHR ''/'' # w @ t"
proof -
  from assms(1) obtain h u w b1 a1 c1 where "host_shape h" "word_of name_char u" "word_of path_char w"
    "s = h @ CHR ''/'' # u @ CHR ''/'' # w @ a1"
    and t: "(b', a', c') \<in> set (mt (seqs (tail_rx k @ [Eol])) (b1, a1, c1))"
    unfolding build_re_eq mt_Seq_iff part_iffs mt_anchor_iff by blast
  with tail_dest [OF t assms(2)] show ?thesis by blast
qed

section \<open>At most one interpretation\<close>

text \<open>Which pattern can match a name is decided by its slashes, its at sign and its colons.\<close>

definition slashes :: "string \<Rightarrow> nat" where
  "slashes s = length (filter (\<lambda>c. c = CHR ''/'') s)"

definition after_host :: "string \<Rightarrow> string" where
  "after_host s = (if CHR ''/'' \<in> set s then dropWhile (\<lambda>c. c \<noteq> CHR ''/'') s else s)"

definition pattern_key :: "string \<Rightarrow> nat \<times> nat" where
  "pattern_key s =
     (min 2 (slashes s),
      if CHR ''@'' \<in> set s then 2 else if CHR '':'' \<in> set (after_host s) then 1 else 0)"

lemma sep_codes: "code CHR ''/'' = 47" "code CHR '':'' = 58" "code CHR ''@'' = 64" "code CHR ''.'' = 46"
  by (simp_all add: code_def)

lemma not_sep:
  "is_alnum c \<Longrightarrow> c \<notin> {CHR ''/'', CHR '':'', CHR ''@''}"
  "name_char c \<Longrightarrow> c \<notin> {CHR ''/'', CHR '':'', CHR ''@''}"
  "host_char c \<Longrightarrow> c \<notin> {CHR ''/'', CHR '':'', CHR ''@''}"
  "port_char c \<Longrightarrow> c \<notin> {CHR ''/'', CHR ''@''}"
  "path_char c \<Longrightarrow> c \<notin> {CHR '':'', CHR ''@''}"
  by (auto simp: is_alnum_def name_char_def host_char_def port_char_def path_char_def is_letter_def
      is_upper_def is_lower_def is_digit_def sep_codes)

lemma word_not_in:
  "word_of is_alnum w \<Longrightarrow> set w \<inter> {CHR ''/'', CHR '':'', CHR ''@''} = {}"
  "word_of name_char w \<Longrightarrow> set w \<inter> {CHR ''/'', CHR '':'', CHR ''@''} = {}"
  "word_of port_char w \<Longrightarrow> set w \<inter> {CHR ''/'', CHR ''@''} = {}"
  "word_of path_char w \<Longrightarrow> set w \<inter> {CHR '':'', CHR ''@''} = {}"
  using not_sep by (fastforce simp: word_of_def list_all_iff)+

lemma host_not_in: "host_shape h \<Longrightarrow> set h \<inter> {CHR ''/'', CHR ''@''} = {}"
  using not_sep by (fastforce simp: host_shape_def list_all_iff)

lemma at_end_not_in: "at_end a \<Longrightarrow> set a \<inter> {CHR ''/'', CHR '':'', CHR ''@''} = {}"
  by (cases a) (auto simp: at_end_Cons sep_codes)

lemma slashes_append [simp]: "slashes (s @ t) = slashes s + slashes t"
  by (simp add: slashes_def)

lemma slashes_Cons [simp]: "slashes (c # t) = (if c = CHR ''/'' then Suc (slashes t) else slashes t)"
  by (simp add: slashes_def)

lemma slashes_none: "CHR ''/'' \<notin> set s \<Longrightarrow> slashes s = 0"
  by (induction s) (auto simp: slashes_def)

lemma tagged_facts:
  assumes "tagged t k a" "at_end a"
  shows "CHR ''/'' \<notin> set t" "(if CHR ''@'' \<in> set t then 2 else if CHR '':'' \<in> set t then 1 else 0) = k"
  using assms at_end_not_in [OF assms(2)] word_not_in
  by (auto simp: tagged_def)

lemma dropWhile_host: "CHR ''/'' \<notin> set h \<Longrightarrow> dropWhile (\<lambda>c. c \<noteq> CHR ''/'') (h @ CHR ''/'' # r) = CHR ''/'' # r"
  by (induction h) auto

lemma docker_key:
  assumes "word_of name_char w" "tagged t k a" "at_end a"
  shows "pattern_key (w @ t) = (0, k)"
proof -
  have "CHR ''/'' \<notin> set (w @ t)"
    using word_not_in(2) [OF assms(1)] tagged_facts(1) [OF assms(2,3)] by auto
  then show ?thesis
    using word_not_in(2) [OF assms(1)] tagged_facts(2) [OF assms(2,3)]
    by (auto simp: pattern_key_def after_host_def slashes_none)
qed

lemma user_key:
  assumes "word_of is_alnum u" "word_of name_char w" "tagged t k a" "at_end a"
  shows "pattern_key (u @ CHR ''/'' # w @ t) = (1, k)"
proof -
  have n: "CHR ''/'' \<notin> set u" "CHR ''/'' \<notin> set w" "CHR ''/'' \<notin> set t"
    using word_not_in(1) [OF assms(1)] word_not_in(2) [OF assms(2)] tagged_facts(1) [OF assms(3,4)]
    by auto
  show ?thesis
    using word_not_in(1) [OF assms(1)] word_not_in(2) [OF assms(2)] tagged_facts(2) [OF assms(3,4)]
    by (auto simp: pattern_key_def after_host_def dropWhile_host n slashes_none)
qed

lemma host_key:
  assumes "host_shape h" "word_of name_char u" "word_of path_char w" "tagged t k a" "at_end a"
  shows "pattern_key (h @ CHR ''/'' # u @ CHR ''/'' # w @ t) = (2, k)"
proof -
  have n: "CHR ''/'' \<notin> set h" using host_not_in [OF assms(1)] by auto
  show ?thesis
    using host_not_in [OF assms(1)] word_not_in(2) [OF assms(2)] word_not_in(4) [OF assms(3)]
      tagged_facts(2) [OF assms(4,5)]
    by (auto simp: pattern_key_def after_host_def dropWhile_host n)
qed

definition regex_key :: "nat \<Rightarrow> nat \<times> nat" where
  "regex_key n = (if n < 6 then (n mod 2, n div 2) else (2, n - 6))"

lemma image_regexes_eq:
  "map fst image_regexes =
     [build_re (docker_image_rx # tail_rx 0), build_re (docker_username_rx # slash_rx # docker_image_rx # tail_rx 0),
      build_re (docker_image_rx # tail_rx 1), build_re (docker_username_rx # slash_rx # docker_image_rx # tail_rx 1),
      build_re (docker_image_rx # tail_rx 2), build_re (docker_username_rx # slash_rx # docker_image_rx # tail_rx 2),
      build_re (hostname_rx # slash_rx # username_rx # slash_rx # image_rx # tail_rx 0),
      build_re (hostname_rx # slash_rx # username_rx # slash_rx # image_rx # tail_rx 1),
      build_re (hostname_rx # slash_rx # username_rx # slash_rx # image_rx # tail_rx 2)]"
  by (simp add: image_regexes_def tail_rx_def)

lemma match_key:
  assumes "k \<le> 2"
  shows "re_match (build_re (docker_image_rx # tail_rx k)) s = Some d \<Longrightarrow> pattern_key s = (0, k)"
    "re_match (build_re (docker_username_rx # slash_rx # docker_image_rx # tail_rx k)) s = Some d
       \<Longrightarrow> pattern_key s = (1, k)"
    "re_match (build_re (hostname_rx # slash_rx # username_rx # slash_rx # image_rx # tail_rx k)) s = Some d
       \<Longrightarrow> pattern_key s = (2, k)"
proof -
  show "re_match (build_re (docker_image_rx # tail_rx k)) s = Some d \<Longrightarrow> pattern_key s = (0, k)"
    by (elim re_match_SomeE) (use assms docker_key in \<open>blast dest: docker_shape\<close>)
  show "re_match (build_re (docker_username_rx # slash_rx # docker_image_rx # tail_rx k)) s = Some d
       \<Longrightarrow> pattern_key s = (1, k)"
    by (elim re_match_SomeE) (use assms user_key in \<open>blast dest: user_shape\<close>)
  show "re_match (build_re (hostname_rx # slash_rx # username_rx # slash_rx # image_rx # tail_rx k)) s = Some d
       \<Longrightarrow> pattern_key s = (2, k)"
    by (elim re_match_SomeE) (use assms host_key in \<open>blast dest: host_image_shape\<close>)
qed

lemma length_image_regexes: "length image_regexes = 9"
  by (simp add: image_regexes_def)

lemma interpretations_split:
  "interpretations s = concat (map (\<lambda>n. case re_match (fst (image_regexes ! n)) s of
       None \<Rightarrow> [] | Some d \<Rightarrow> [image_of_groups (dmerge d (snd (image_regexes ! n)))]) [0..<9])"
proof -
  have "map f image_regexes = map (\<lambda>n. f (image_regexes ! n)) [0..<9]" for f :: "rx \<times> (string, string) dict \<Rightarrow> image list"
    by (rule nth_equalityI) (simp_all add: length_image_regexes)
  then show ?thesis unfolding interpretations_def split_def by simp
qed

lemma regex_match_key:
  assumes "n < 9" "re_match (fst (image_regexes ! n)) s = Some d"
  shows "pattern_key s = regex_key n"
proof -
  have eq: "fst (image_regexes ! n) = map fst image_regexes ! n"
    using assms(1) by (simp add: length_image_regexes)
  have "n \<in> {0, 1, 2, 3, 4, 5, 6, 7, 8}" using assms(1) by auto
  then show ?thesis
    using assms(2) match_key [of 0 s d] match_key [of 1 s d] match_key [of 2 s d]
    unfolding eq image_regexes_eq by (auto simp: regex_key_def)
qed

lemma regex_key_inj: "m < 9 \<Longrightarrow> n < 9 \<Longrightarrow> regex_key m = regex_key n \<Longrightarrow> m = n"
  unfolding regex_key_def by (auto split: if_splits) presburger+

lemma interpretations_unique:
  assumes "n < 9" "re_match (fst (image_regexes ! n)) s = Some d"
  shows "interpretations s = [image_of_groups (dmerge d (snd (image_regexes ! n)))]"
proof -
  have other: "re_match (fst (image_regexes ! m)) s = None" if "m < 9" "m \<noteq> n" for m
    using regex_match_key [OF assms] regex_match_key [OF that(1)] regex_key_inj [OF that(1) assms(1)] that(2)
    by (metis option.exhaust)
  have "interpretations s = concat (map (\<lambda>m. if m = n
      then [image_of_groups (dmerge d (snd (image_regexes ! n)))] else []) [0..<9])"
    unfolding interpretations_split
    by (rule arg_cong [of _ _ concat], rule map_cong) (use assms(2) other in auto)
  also have "\<dots> = [image_of_groups (dmerge d (snd (image_regexes ! n)))]"
  proof -
    have one: "concat (map (\<lambda>m. if m = n then [x] else []) ms) = [x]" if "distinct ms" "n \<in> set ms" for x and ms :: "nat list"
      using that
    proof (induction ms)
      case (Cons m ms)
      have "concat (map (\<lambda>m. if m = n then [x] else []) ms) = []" if "n \<notin> set ms"
        using that by (induction ms) auto
      with Cons show ?case by (cases "m = n") auto
    qed simp
    show ?thesis by (rule one) (use assms(1) in simp_all)
  qed
  finally show ?thesis .
qed

lemma interpretations_le_1: "length (interpretations s) \<le> 1"
proof (cases "\<exists>n < 9. re_match (fst (image_regexes ! n)) s \<noteq> None")
  case True
  then show ?thesis using interpretations_unique by fastforce
next
  case False
  then have "interpretations s = []" unfolding interpretations_split by auto
  then show ?thesis by simp
qed

text \<open>
  No image name has more than one interpretation: at most one of the nine patterns matches,
  so the error for too many interpretations is never raised, and parsing either gives the image of
  the one match or the plain parse error.
\<close>

theorem image_unambiguous:
  "length (interpretations p) \<le> 1 \<and>
   from_path p = (case interpretations p of
      [] \<Rightarrow> Inl (api ImageParseError (''Cannot parse the image '' @ p)) | i # _ \<Rightarrow> Inr i)"
  using interpretations_le_1 [of p] by (auto simp: from_path_def split: list.splits)

section \<open>Names of images in a registry\<close>

lemma split_at_sep:
  "d \<notin> set x \<Longrightarrow> d \<notin> set y \<Longrightarrow> x @ d # r = y @ d # q \<Longrightarrow> x = y \<and> r = q"
proof (induction x arbitrary: y)
  case Nil
  then show ?case by (cases y) auto
next
  case (Cons c x)
  then show ?case by (cases y) auto
qed

lemma tagged_match:
  assumes "host_shape h" "word_of name_char u" "word_of path_char i" "word_of name_char t"
  shows "(rev t @ CHR '':'' # rev i @ CHR ''/'' # rev u @ CHR ''/'' # rev h, [],
      [(''hostname'', h), (''username'', u), (''image'', i), (''tag'', t)])
    \<in> set (mt (build_re (hostname_rx # slash_rx # username_rx # slash_rx # image_rx # tail_rx 1))
        ([], h @ CHR ''/'' # u @ CHR ''/'' # i @ CHR '':'' # t, []))"
proof -
  let ?c1 = "[(''hostname'', h)]" and ?c2 = "[(''hostname'', h), (''username'', u)]"
    and ?c3 = "[(''hostname'', h), (''username'', u), (''image'', i)]"
  let ?r1 = "CHR ''/'' # u @ CHR ''/'' # i @ CHR '':'' # t"
    and ?r2 = "CHR ''/'' # i @ CHR '':'' # t" and ?r3 = "CHR '':'' # t"
  have 1: "(rev h, ?r1, ?c1) \<in> set (mt hostname_rx ([], h @ ?r1, []))"
    unfolding hostname_rx_iff using assms(1) by simp
  have 2: "(rev u @ CHR ''/'' # rev h, ?r2, ?c2)
      \<in> set (mt username_rx (CHR ''/'' # rev h, u @ ?r2, ?c1))"
    unfolding username_rx_iff using assms(2) by simp
  have 3: "(rev i @ CHR ''/'' # rev u @ CHR ''/'' # rev h, ?r3, ?c3)
      \<in> set (mt image_rx (CHR ''/'' # rev u @ CHR ''/'' # rev h, i @ ?r3, ?c2))"
    unfolding image_rx_iff using assms(3) by (simp add: starts_def)
  have 4: "(rev t @ CHR '':'' # rev i @ CHR ''/'' # rev u @ CHR ''/'' # rev h, [],
      [(''hostname'', h), (''username'', u), (''image'', i), (''tag'', t)])
      \<in> set (mt tag_rx (CHR '':'' # rev i @ CHR ''/'' # rev u @ CHR ''/'' # rev h, t, ?c3))"
    unfolding tag_rx_iff using assms(4) by simp
  have s: "(d # b, a, c) \<in> set (mt (One (chr_is d)) (b, d # a, c))" for d b a c
    by (rule mt_OneI) simp
  have tl: "seqs (tail_rx 1 @ [Eol]) = Seq colon_rx (Seq tag_rx Eol)" by (simp add: tail_rx_def)
  show ?thesis
    unfolding build_re_eq tl
    by (rule mt_SeqI [OF mt_BolI], rule mt_SeqI [OF 1], rule mt_SeqI [OF s], rule mt_SeqI [OF 2],
        rule mt_SeqI [OF s], rule mt_SeqI [OF 3], rule mt_SeqI [OF s], rule mt_SeqI [OF 4],
        rule mt_EolI) simp
qed

lemma tagged_groups:
  assumes "(b', a', c') \<in> set (mt (build_re (hostname_rx # slash_rx # username_rx # slash_rx # image_rx # tail_rx 1))
        ([], s, []))"
  obtains h u i t where "host_shape h" "word_of name_char u" "word_of path_char i" "word_of name_char t"
    "at_end a'" "s = h @ CHR ''/'' # u @ CHR ''/'' # i @ CHR '':'' # t @ a'"
    "c' = [(''hostname'', h), (''username'', u), (''image'', i), (''tag'', t)]"
proof -
  have tl: "seqs (tail_rx 1 @ [Eol]) = Seq colon_rx (Seq tag_rx Eol)" by (simp add: tail_rx_def)
  from assms obtain h u i t c1 c2 c3 where
    "host_shape h" "word_of name_char u" "word_of path_char i" "word_of name_char t" "at_end a'"
    "s = h @ CHR ''/'' # u @ CHR ''/'' # i @ CHR '':'' # t @ a'"
    "c1 = dset ''hostname'' h []" "c2 = dset ''username'' u c1" "c3 = dset ''image'' i c2"
    "c' = dset ''tag'' t c3"
    unfolding build_re_eq tl mt_Seq_iff part_iffs mt_anchor_iff by blast
  with that show thesis by simp
qed

lemma tagged_re_match:
  assumes "host_shape h" "word_of name_char u" "word_of path_char i" "word_of name_char t"
  shows "re_match (build_re (hostname_rx # slash_rx # username_rx # slash_rx # image_rx # tail_rx 1))
        (h @ CHR ''/'' # u @ CHR ''/'' # i @ CHR '':'' # t)
      = Some [(''hostname'', h), (''username'', u), (''image'', i), (''tag'', t)]"
proof (rule re_match_unique [OF tagged_match [OF assms]])
  fix b' a' c'
  assume "(b', a', c') \<in> set (mt (build_re (hostname_rx # slash_rx # username_rx # slash_rx # image_rx # tail_rx 1))
        ([], h @ CHR ''/'' # u @ CHR ''/'' # i @ CHR '':'' # t, []))"
  then obtain h' u' i' t' where d: "host_shape h'" "word_of name_char u'" "word_of path_char i'"
      "word_of name_char t'" "at_end a'"
    and eq: "h @ CHR ''/'' # u @ CHR ''/'' # i @ CHR '':'' # t
      = h' @ CHR ''/'' # u' @ CHR ''/'' # i' @ CHR '':'' # t' @ a'"
    and c': "c' = [(''hostname'', h'), (''username'', u'), (''image'', i'), (''tag'', t')]"
    by (rule tagged_groups)
  have h: "h = h'" and r: "u @ CHR ''/'' # i @ CHR '':'' # t = u' @ CHR ''/'' # i' @ CHR '':'' # t' @ a'"
    using split_at_sep [OF _ _ eq] host_not_in [OF assms(1)] host_not_in [OF d(1)] by auto
  have u: "u = u'" and q: "i @ CHR '':'' # t = i' @ CHR '':'' # t' @ a'"
    using split_at_sep [OF _ _ r] word_not_in(2) [OF assms(2)] word_not_in(2) [OF d(2)] by auto
  have i: "i = i'" and t: "t = t' @ a'"
    using split_at_sep [OF _ _ q] word_not_in(4) [OF assms(3)] word_not_in(4) [OF d(3)] by auto
  have "a' = []"
  proof (rule ccontr)
    assume "a' \<noteq> []"
    then obtain x where x: "a' = [x]" "code x = 10" using d(5) by (cases a') (auto simp: at_end_Cons)
    with t have "name_char x" using assms(4) by (auto simp: word_of_def)
    with x(2) show False
      by (auto simp: name_char_def is_alnum_def is_letter_def is_upper_def is_lower_def is_digit_def
          code_def)
  qed
  with h u i t c' show "c' = [(''hostname'', h), (''username'', u), (''image'', i), (''tag'', t)]" by simp
qed

text \<open>
  C38. Parsing inverts printing: for every host with a dot, user or group, path of the image, also
  with slashes, and tag over the characters of the patterns, the printed name
  \<open>host/group/path:tag\<close> is parsed to exactly that host, name and tag.
\<close>

theorem image_roundtrip:
  assumes "host_shape h" "word_of name_char u" "word_of path_char i" "word_of name_char t"
  shows "from_path (h @ ''/'' @ u @ ''/'' @ i @ '':'' @ t)
    = Inr \<lparr>im_hostname = h, im_name = u @ ''/'' @ i, im_tag = t\<rparr>"
proof -
  have rx: "image_regexes ! 7 = (build_re (hostname_rx # slash_rx # username_rx # slash_rx # image_rx # tail_rx 1), [])"
    by (simp add: image_regexes_def tail_rx_def)
  have "re_match (fst (image_regexes ! 7)) (h @ ''/'' @ u @ ''/'' @ i @ '':'' @ t)
      = Some [(''hostname'', h), (''username'', u), (''image'', i), (''tag'', t)]"
    using tagged_re_match [OF assms] by (simp add: rx)
  from interpretations_unique [OF _ this] show ?thesis
    by (simp add: from_path_def rx dmerge_def image_of_groups_def group_def)
qed

theorem image_roundtrip_witness:
  "from_path (''gitlab.io:5050'' @ ''/'' @ ''group'' @ ''/'' @ ''sub/project'' @ '':'' @ ''1.0'')
    = Inr \<lparr>im_hostname = ''gitlab.io:5050'', im_name = ''group'' @ ''/'' @ ''sub/project'', im_tag = ''1.0''\<rparr>"
proof (rule image_roundtrip)
  have "''gitlab.io:5050'' = ''gitlab'' @ CHR ''.'' # ''io:5050'' \<and> ''gitlab'' \<noteq> [] \<and>
      list_all host_char ''gitlab'' \<and> ''io:5050'' \<noteq> [] \<and> list_all port_char ''io:5050''"
    by code_simp
  then show "host_shape ''gitlab.io:5050''" unfolding host_shape_def by blast
qed code_simp+

end
