(* ===== verification/Handlers.thy ===== *)
theory Handlers
  imports ResponseFacts Image KubernetesUtil
begin

text \<open>
  The request handlers of \<open>api/notebooks.py\<close> except the launch of a session, the schemas of their
  requests and responses, and the request to the sidecar of \<open>util/repository.py\<close>.  What the handlers
  reach is a record: the configuration, the cluster client, HTTP, and the clock.
\<close>

record 'w service =
  sv_cfg :: notebooks_config
  sv_defaults :: options_defaults
  sv_k8s :: "'w k8s_client"
  sv_http :: "'w http"
  sv_www_auth :: "string \<Rightarrow> (string, string) dict option"
  sv_clock :: "('w, datetime) eff"

text \<open>\<open>NotebookResponse().dump(UserServerManifest(m))\<close> reads the clock twice.\<close>

definition respond :: "'w service \<Rightarrow> json \<Rightarrow> ('w, json) eff" where
  "respond sv m =
     bindC (sv_clock sv) (\<lambda>now. bindC (sv_clock sv) (\<lambda>now2. liftE (notebook_response (sv_cfg sv) now now2 m)))"

section \<open>\<open>version\<close>\<close>

text \<open>\<open>fields.Boolean\<close> dumps the words for truth and falsehood as what they say.\<close>

definition truthy_words :: "string list" where
  "truthy_words = [''t'', ''T'', ''true'', ''True'', ''TRUE'', ''on'', ''On'', ''ON'', ''y'', ''Y'', ''yes'', ''Yes'', ''YES'', ''1'']"

definition falsy_words :: "string list" where
  "falsy_words = [''f'', ''F'', ''false'', ''False'', ''FALSE'', ''off'', ''Off'', ''OFF'', ''n'', ''N'', ''no'', ''No'', ''NO'', ''0'']"

definition bool_field :: "json \<Rightarrow> json" where
  "bool_field v =
     (case v of
        JNull \<Rightarrow> JNull
      | JStr s \<Rightarrow> JBool (if s \<in> set truthy_words then True else if s \<in> set falsy_words then False else s \<noteq> [])
      | _ \<Rightarrow> JBool (truthy v))"

definition threshold_json :: "culling_config \<Rightarrow> json" where
  "threshold_json c = JObj [(''idle'', JInt (idle_seconds c)), (''hibernation'', JInt (hibernated_seconds c))]"

definition version_response :: "notebooks_config \<Rightarrow> json \<times> int" where
  "version_response cfg =
     (JObj [(''name'', JStr ''renku-notebooks''),
        (''versions'', JArr [JObj
          [(''data'', JObj
             [(''anonymousSessionsEnabled'', JBool (anonymous_sessions_enabled cfg)),
              (''cloudstorageEnabled'', bool_field (cloud_storage_enabled cfg)),
              (''sshEnabled'', JBool (cfg_ssh_enabled cfg)),
              (''defaultCullingThresholds'', JObj
                 [(''registered'', threshold_json (culling_registered (cfg_sessions cfg))),
                  (''anonymous'', threshold_json (culling_anonymous (cfg_sessions cfg)))])]),
           (''version'', JStr (service_version cfg))]])], 200)"

section \<open>Reading sessions\<close>

definition attribute_matches :: "json \<Rightarrow> string \<times> json \<Rightarrow> bool res" where
  "attribute_matches server kv =
     bindE (manifest_annotations server) (\<lambda>a.
     bindE (jget a (renku_annotation_prefix @ fst kv) JNull) (\<lambda>v. Inr (v = snd kv)))"

definition add_matching ::
  "(string \<times> json) list \<Rightarrow> (json, json) dict \<Rightarrow> json \<Rightarrow> (json, json) dict res" where
  "add_matching filter_attrs found server =
     bindE (mapE (attribute_matches server) filter_attrs) (\<lambda>bs.
       if list_all id bs then bindE (manifest_name server) (\<lambda>n. Inr (dset n server found)) else Inr found)"

definition filter_servers :: "(string, json) dict \<Rightarrow> json list \<Rightarrow> (json, json) dict res" where
  "filter_servers query_params servers =
     foldE (add_matching (filter (\<lambda>(_, v). v \<noteq> JNull) query_params)) [] servers"

definition user_servers :: "'w service \<Rightarrow> user \<Rightarrow> (string, json) dict \<Rightarrow> ('w, json) eff" where
  "user_servers sv u query_params =
     bindC (list_servers (sv_k8s sv) (user_safe_username u)) (\<lambda>listed.
     bindC (liftE (jiter listed)) (\<lambda>servers.
     bindC (liftE (filter_servers query_params servers)) (\<lambda>filtered.
     bindC (sv_clock sv) (\<lambda>now. bindC (sv_clock sv) (\<lambda>now2.
     liftE (servers_get_response (sv_cfg sv) now now2 (map (\<lambda>(k, v). (py_str k, v)) filtered)))))))"

definition user_server :: "'w service \<Rightarrow> user \<Rightarrow> string \<Rightarrow> ('w, json) eff" where
  "user_server sv u server_name =
     bindC (get_server (sv_k8s sv) server_name (user_safe_username u)) (\<lambda>server.
     case server of
       None \<Rightarrow> raise (api MissingResourceError (''The server '' @ server_name @ '' does not exist.''))
     | Some m \<Rightarrow> respond sv m)"

section \<open>The schema of a patch\<close>

record patch_body =
  pb_state :: "string option"
  pb_resource_class_id :: "int option"

text \<open>\<open>int(s)\<close>; underscores between digits are not modelled.\<close>

definition int_of_text :: "string \<Rightarrow> int option" where
  "int_of_text t =
     (let (neg, ds) = split_sign (strip is_space t) in
      if ds \<noteq> [] \<and> list_all is_digit ds
      then Some (if neg then - int (parse_digits ds) else int (parse_digits ds)) else None)"

text \<open>\<open>fields.Int\<close>.\<close>

definition int_field :: "json \<Rightarrow> int res" where
  "int_field v =
     (let invalid = Inl (Validation ''Not a valid integer.'') in
      case v of
        JNull \<Rightarrow> Inl (Validation ''Field may not be null.'')
      | JInt i \<Rightarrow> Inr i
      | JFloat q \<Rightarrow> Inr (pn_trunc (PFloat q))
      | JStr s \<Rightarrow> (case int_of_text s of Some i \<Rightarrow> Inr i | None \<Rightarrow> invalid)
      | _ \<Rightarrow> invalid)"

definition patch_states :: "string list" where
  "patch_states = [''running'', ''hibernated'']"

section \<open>The status of a repository\<close>

text \<open>Every failure to reach the sidecar counts as no status; a reply that is not JSON raises.\<close>

definition repository_status :: "'w service \<Rightarrow> string \<Rightarrow> string option \<Rightarrow> ('w, json option) eff" where
  "repository_status sv server_name access_token =
     bindC (catchC
         (bindC (http_post (sv_http sv)
              (''https://'' @ ingress_host (cfg_sessions (sv_cfg sv)) @ ''/sessions/'' @ server_name @ ''/sidecar/jsonrpc'')
              (Some ((''Content-Type'', ''application/json'') #
                 (case access_token of
                    None \<Rightarrow> []
                  | Some t \<Rightarrow> if t = [] then [] else [(''Authorization'', ''Bearer '' @ t)])))
              (JObj [(''jsonrpc'', JStr ''2.0''), (''id'', JInt 0), (''method'', JStr ''git/get_status'')]))
            (\<lambda>r. if is_http_error r then ret None else ret (Some r)))
         (\<lambda>_. ret None)) (\<lambda>response.
     case response of
       None \<Rightarrow> ret None
     | Some r \<Rightarrow>
         bindC (liftE (resp_body r)) (\<lambda>body.
         bindC (liftE (jget body ''result'' jempty)) (\<lambda>x. ret (Some x))))"

section \<open>\<open>patch_server\<close>\<close>

text \<open>What the handler reads of the session it found; \<open>None\<close> has no \<open>get\<close>.\<close>

definition py_get :: "json option \<Rightarrow> string list \<Rightarrow> json \<Rightarrow> json res" where
  "py_get server ks d = (case server of None \<Rightarrow> Inl (AttributeError ''get'') | Some m \<Rightarrow> jpath m ks d)"

definition present :: "json option \<Rightarrow> bool" where
  "present server \<longleftrightarrow> (case server of None \<Rightarrow> False | Some m \<Rightarrow> truthy m)"

definition currently_hibernated :: "json option \<Rightarrow> bool res" where
  "currently_hibernated server =
     bindE (py_get server [''spec'', ''jupyterServer'', ''hibernated''] (JBool False)) (\<lambda>v. Inr (truthy v))"

definition currently_failing :: "json option \<Rightarrow> bool res" where
  "currently_failing server =
     bindE (py_get server [''status'', ''state''] (JStr ''running'')) (\<lambda>v. Inr (v = JStr ''failed''))"

definition json_op :: "string \<Rightarrow> string \<Rightarrow> json \<Rightarrow> json" where
  "json_op verb path v = JObj [(''op'', JStr verb), (''path'', JStr path), (''value'', v)]"

definition class_patch :: "notebooks_config \<Rightarrow> json option \<Rightarrow> int \<Rightarrow> server_options \<Rightarrow> json res" where
  "class_patch cfg server rc options =
     bindE
       (if str_truthy (so_priority_class options)
        then Inr [json_op ''replace'' ''/metadata/labels/renku.io~1quota'' (jopt (so_priority_class options))]
        else bindE (py_get server [''metadata'', ''labels'', ''renku.io/quota''] JNull) (\<lambda>q.
          Inr (if truthy q
               then [JObj [(''op'', JStr ''remove''), (''path'', JStr ''/metadata/labels/renku.io~1quota'')]] else [])))
       (\<lambda>quota.
       Inr (JArr
        ([json_op ''replace'' ''/spec/jupyterServer/resources''
            (to_k8s_resources (enforce_cpu_limits (cfg_sessions cfg)) options),
          json_op ''replace'' ''/metadata/annotations/renku.io~1resourceClassId'' (JStr (show_int rc))] @ quota)))"

definition priority_patch :: "server_options \<Rightarrow> json" where
  "priority_patch options =
     JArr [json_op ''replace'' ''/spec/template/spec/priorityClassName'' (jopt (so_priority_class options))]"

definition change_class ::
  "'w service \<Rightarrow> user \<Rightarrow> string \<Rightarrow> json option \<Rightarrow> int \<Rightarrow> ('w, json) eff" where
  "change_class sv u server_name server rc =
     bindC (cfg_validate (sv_cfg sv) (sv_defaults sv) (sv_http sv) (Some u) rc None) (\<lambda>options.
     bindC (liftE (class_patch (sv_cfg sv) server rc options)) (\<lambda>patch.
     bindC (K8sClient.patch_server (sv_k8s sv) server_name (user_safe_username u) patch) (\<lambda>new_server.
     bindC (patch_statefulset (sv_k8s sv) server_name (priority_patch options)) (\<lambda>_.
     ret new_server))))"

text \<open>The annotations of a hibernation, from the status of the repository if there is one.\<close>

definition blank_status :: "(string, json) dict" where
  "blank_status = [(''branch'', JStr []), (''commit'', JStr []), (''dirty'', JStr []), (''synchronized'', JStr [])]"

definition hibernation_status :: "json option \<Rightarrow> (string, json) dict res" where
  "hibernation_status status =
     (case status of
        None \<Rightarrow> Inr blank_status
      | Some st \<Rightarrow>
          if \<not> truthy st then Inr blank_status
          else
            bindE (jget st ''branch'' (JStr [])) (\<lambda>b.
            bindE (jget st ''commit'' (JStr [])) (\<lambda>c.
            bindE (jget st ''clean'' (JBool True)) (\<lambda>clean.
            bindE (jget st ''ahead'' (JInt 0)) (\<lambda>ahead.
            bindE (jget st ''behind'' (JInt 0)) (\<lambda>behind.
            Inr [(''branch'', b), (''commit'', c), (''dirty'', JBool (\<not> truthy clean)),
                 (''synchronized'', JBool (is_zero ahead \<and> is_zero behind))]))))))"

definition hibernation_patch :: "(string, json) dict \<Rightarrow> datetime \<Rightarrow> json" where
  "hibernation_patch h0 now =
     (let h = h0 @ [(''date'', JStr (isoformat_to_seconds now))];
          field = (\<lambda>k. case dget h k of Some v \<Rightarrow> v | None \<Rightarrow> JNull) in
      JObj
       [(''metadata'', JObj [(''annotations'', JObj
          [(''renku.io/hibernation'', JStr (json_dumps (JObj h))),
           (''renku.io/hibernationBranch'', field ''branch''), (''renku.io/hibernationCommitSha'', field ''commit''),
           (''renku.io/hibernationDirty'', JStr (lower (py_str (field ''dirty'')))),
           (''renku.io/hibernationSynchronized'', JStr (lower (py_str (field ''synchronized'')))),
           (''renku.io/hibernationDate'', field ''date'')])]),
        (''spec'', JObj [(''jupyterServer'', JObj [(''hibernated'', JBool True)])])])"

definition hibernate :: "'w service \<Rightarrow> user \<Rightarrow> string \<Rightarrow> json option \<Rightarrow> ('w, json) eff" where
  "hibernate sv u server_name server =
     bindC (liftE (bindE (py_get server [''spec'', ''patches''] (JArr [])) jiter)) (\<lambda>patches.
     bindC (liftE (find_container patches ''git-sidecar'')) (\<lambda>sidecar.
     bindC (if sidecar = None then ret None
            else repository_status sv server_name (user_access_token u)) (\<lambda>status.
     bindC (liftE (hibernation_status status)) (\<lambda>h.
     bindC (sv_clock sv) (\<lambda>now.
     K8sClient.patch_server (sv_k8s sv) server_name (user_safe_username u) (hibernation_patch h now))))))"

definition resume_patch :: json where
  "resume_patch = JObj [(''spec'', JObj [(''jupyterServer'', JObj [(''hibernated'', JBool False)])])]"

definition resume :: "'w service \<Rightarrow> user \<Rightarrow> string \<Rightarrow> ('w, json) eff" where
  "resume sv u server_name =
     bindC (patch_tokens (sv_k8s sv) server_name
         \<lparr>rt_access_token = user_access_token u, rt_refresh_token = user_refresh_token u\<rparr>
         \<lparr>gt_expires_at = user_git_token_expires_at u, gt_access_token = user_git_token u\<rparr>) (\<lambda>_.
     K8sClient.patch_server (sv_k8s sv) server_name (user_safe_username u) resume_patch)"

text \<open>
  The session of the response; \<open>server\<close> is the session as it was found.  A session that is hibernated
  already is answered with what was found, even when its class has just changed.
\<close>

definition patched_server ::
  "'w service \<Rightarrow> user \<Rightarrow> string \<Rightarrow> patch_body \<Rightarrow> json option \<Rightarrow> json option \<Rightarrow> ('w, json option) eff" where
  "patched_server sv u server_name body server new_server =
     (if pb_state body = Some ''hibernated'' then
        bindC (liftE (currently_hibernated server)) (\<lambda>hib.
        if present server \<and> hib then ret server
        else bindC (hibernate sv u server_name server) (\<lambda>m. ret (Some m)))
      else if pb_state body = Some ''running'' then
        bindC (resume sv u server_name) (\<lambda>m. ret (Some m))
      else ret new_server)"

definition patch_server :: "'w service \<Rightarrow> user \<Rightarrow> string \<Rightarrow> patch_body \<Rightarrow> ('w, json \<times> int) eff" where
  "patch_server sv u server_name body =
     (if \<not> pvs_enabled (cfg_sessions (sv_cfg sv)) then raise (Api (new_error PVDisabledError None None))
      else if user_anonymous u then raise (Api (new_error AnonymousUserPatchError None None))
      else
        bindC (get_server (sv_k8s sv) server_name (user_safe_username u)) (\<lambda>server.
        bindC (liftE (currently_hibernated server)) (\<lambda>hib.
        bindC (liftE (currently_failing server)) (\<lambda>failing.
        let rc = (case pb_resource_class_id body of Some i \<Rightarrow> if i = 0 then None else Some i | None \<Rightarrow> None) in
        if present server \<and> \<not> (hib \<or> failing) \<and> rc \<noteq> None then
          raise (api UserInputError ''The resource class can be changed only if the server is hibernated or failing'')
        else
          bindC (case rc of
              None \<Rightarrow> ret server
            | Some i \<Rightarrow> bindC (change_class sv u server_name server i) (\<lambda>m. ret (Some m))) (\<lambda>new_server.
          bindC (patched_server sv u server_name body server new_server) (\<lambda>answer.
          case answer of
            None \<Rightarrow> raise (TypeError ''NoneType object is not subscriptable'')
          | Some m \<Rightarrow> bindC (respond sv m) (\<lambda>j. ret (j, 200))))))))"

section \<open>The other handlers\<close>

definition stop_server :: "'w service \<Rightarrow> user \<Rightarrow> bool \<Rightarrow> string \<Rightarrow> ('w, string \<times> int) eff" where
  "stop_server sv u forced server_name =
     bindC (delete_server (sv_k8s sv) server_name (user_safe_username u) forced) (\<lambda>_. ret ([], 204))"

definition choice_fields :: "(string \<times> (json \<Rightarrow> json)) list \<Rightarrow> json \<Rightarrow> json res" where
  "choice_fields fs v =
     bindE (as_dict v) (\<lambda>d. bindE (concatE (\<lambda>(k, f). opt_field d k (\<lambda>x. Inr (f x))) fs) (\<lambda>kvs. Inr (JObj kvs)))"

definition int_text_list :: "json \<Rightarrow> json" where
  "int_text_list v = (case v of JArr xs \<Rightarrow> JArr (map str_field xs) | _ \<Rightarrow> v)"

definition base_choice :: "(string \<times> (json \<Rightarrow> json)) list" where
  "base_choice = [(''order'', id), (''displayName'', str_field), (''type'', str_field)]"

text \<open>\<open>ui_choices\<close> are the choices that the configuration has loaded from its file.\<close>

definition server_options_response :: "notebooks_config \<Rightarrow> (string, json) dict \<Rightarrow> json res" where
  "server_options_response cfg ui_choices =
     bindE (opt_field ui_choices ''defaultUrl''
         (choice_fields (base_choice @ [(''default'', str_field), (''options'', int_text_list)]))) (\<lambda>url.
     bindE (opt_field ui_choices ''lfs_auto_fetch'' (choice_fields (base_choice @ [(''default'', bool_field)]))) (\<lambda>lfs.
     Inr (JObj (url @ lfs @
       [(''cloudstorage'', JObj [(''enabled'', bool_field (cloud_storage_enabled cfg))])]))))"

text \<open>The logs with the texts of the known field, which are the same.\<close>

definition dump_logs :: "(string, string) dict \<Rightarrow> json" where
  "dump_logs logs =
     JObj (map (\<lambda>(k, v). (k, JStr v))
       (dmerge logs (case dget logs ''jupyter-server'' of None \<Rightarrow> [] | Some v \<Rightarrow> [(''jupyter-server'', v)])))"

definition server_logs :: "'w service \<Rightarrow> user \<Rightarrow> int \<Rightarrow> string \<Rightarrow> ('w, json) eff" where
  "server_logs sv u max_lines server_name =
     bindC (get_server_logs (sv_k8s sv) server_name (user_safe_username u) (Some max_lines)) (\<lambda>logs.
     ret (dump_logs logs))"

definition check_docker_image :: "'w service \<Rightarrow> user \<Rightarrow> string \<Rightarrow> ('w, string \<times> int) eff" where
  "check_docker_image sv u image_url =
     bindC (liftE (from_path image_url)) (\<lambda>parsed_image.
     let repo = (case user_git_token u of
            Some t \<Rightarrow> if im_hostname parsed_image = cfg_git_registry (sv_cfg sv) \<and> t \<noteq> []
              then with_oauth2_token t (repo_api parsed_image) else repo_api parsed_image
          | None \<Rightarrow> repo_api parsed_image) in
     bindC (image_exists (sv_http sv) (sv_www_auth sv) repo parsed_image) (\<lambda>there.
     ret ([], if there then 200 else 404)))"

end
