(* ===== verification/Launch.thy ===== *)
theory Launch
  imports Handlers
begin

text \<open>
  Launching a session (\<open>launch_notebook\<close>, \<open>renku_2_launch_notebook_helper\<close> and
  \<open>launch_notebook_helper\<close> of \<open>api/notebooks.py\<close>, \<open>util/cryptography.py\<close>): the image, the resources,
  the storages, the session object, its start and the secrets that it needs.
\<close>

text \<open>
  What a launch reaches beyond the other handlers: GitLab through \<open>python-gitlab\<close>, the escaping of
  \<open>escapism\<close>, and the key derivation of \<open>cryptography\<close> with its URL-safe base 64 text.
\<close>

record 'w launch_service = "'w service" +
  ls_get_project :: "string \<Rightarrow> ('w, gitlab_project) eff"
  ls_lookup :: "gitlab_project option \<Rightarrow> 'w gitlab_lookup"
  ls_gitlab_user :: "json \<times> json"
  ls_escape :: "string \<Rightarrow> string"
  ls_encryption_key :: "string \<Rightarrow> string \<Rightarrow> string"

text \<open>The arguments that both kinds of launch share.\<close>

record launch_args =
  la_image :: "string option"
  la_resource_class_id :: "int option"
  la_storage :: "pynum option"
  la_environment_variables :: "(string, string) dict"
  la_user_secrets :: "(string list \<times> string) option"     \<comment> \<open>the ids and the mount path\<close>
  la_default_url :: "string option"
  la_lfs_auto_fetch :: "bool option"
  la_cloudstorage :: "storage_request list"
  la_server_options :: options_arg

section \<open>\<open>User.get_renku_project\<close>\<close>

definition get_renku_project :: "'w launch_service \<Rightarrow> string \<Rightarrow> ('w, gitlab_project option) eff" where
  "get_renku_project sv namespace_project =
     catchC (bindC (ls_get_project sv namespace_project) (\<lambda>p. ret (Some p))) (\<lambda>_. ret None)"

section \<open>\<open>get_user_key\<close>\<close>

definition bearer :: "string option \<Rightarrow> (string, string) dict" where
  "bearer t = [(''Authorization'', ''Bearer '' @ (case t of None \<Rightarrow> ''None'' | Some x \<Rightarrow> x))]"

text \<open>A reply that is not 200 is logged with its body, so a body that is not JSON raises.\<close>

definition get_user_key :: "'w launch_service \<Rightarrow> string option \<Rightarrow> ('w, string option) eff" where
  "get_user_key sv access_token =
     (let url = data_service_url (sv_cfg sv) in
      bindC (http_get (sv_http sv) (url @ ''/user'') (Some (bearer access_token)) None) (\<lambda>r1.
      bindC (liftE (resp_body r1)) (\<lambda>user_info.
      if resp_status r1 \<noteq> 200 then ret None
      else
        bindC (liftE (jitem user_info ''id'')) (\<lambda>user_id.
        bindC (http_get (sv_http sv) (url @ ''/user/secret_key'') (Some (bearer access_token)) None) (\<lambda>r2.
        bindC (liftE (resp_body r2)) (\<lambda>user_key.
        if resp_status r2 \<noteq> 200 then ret None
        else
          bindC (liftE (bindE (jitem user_key ''secret_key'') jstr)) (\<lambda>secret_key.
          bindC (liftE (jstr user_id)) (\<lambda>salt.
          ret (Some (ls_encryption_key sv secret_key salt))))))))))"

section \<open>The image\<close>

text \<open>The image of the session, the image to inspect, the registry, and the two flags.\<close>

record image_choice =
  ic_image :: string
  ic_parsed :: image
  ic_repo :: image_repo
  ic_private :: bool
  ic_default :: bool

definition requested_image :: "'w launch_service \<Rightarrow> user \<Rightarrow> string \<Rightarrow> ('w, image_choice) eff" where
  "requested_image sv u img =
     bindC (liftE (from_path img)) (\<lambda>parsed_image.
     bindC (image_exists (sv_http sv) (sv_www_auth sv) (repo_api parsed_image) parsed_image) (\<lambda>publicly.
     let token = (if \<not> publicly \<and> im_hostname parsed_image = cfg_git_registry (sv_cfg sv) \<and> str_truthy (user_git_token u)
                  then user_git_token u else None);
         repo = (case token of None \<Rightarrow> repo_api parsed_image | Some t \<Rightarrow> with_oauth2_token t (repo_api parsed_image)) in
     bindC (if token = None then ret False else image_exists (sv_http sv) (sv_www_auth sv) repo parsed_image) (\<lambda>privately.
     if \<not> privately \<and> \<not> publicly then
       bindC (liftE (from_path (default_image (cfg_sessions (sv_cfg sv))))) (\<lambda>parsed_default.
       ret \<lparr>ic_image = default_image (cfg_sessions (sv_cfg sv)), ic_parsed = parsed_default, ic_repo = repo,
            ic_private = False, ic_default = True\<rparr>)
     else
       ret \<lparr>ic_image = img, ic_parsed = parsed_image, ic_repo = repo, ic_private = privately, ic_default = False\<rparr>)))"

text \<open>A project that is read without credentials has no visibility: it is public.\<close>

definition project_private :: "gitlab_project \<Rightarrow> bool" where
  "project_private p \<longleftrightarrow> (case glp_visibility p of None \<Rightarrow> False | Some v \<Rightarrow> v \<noteq> ''public'')"

definition commit_image :: "'w launch_service \<Rightarrow> user \<Rightarrow> gitlab_project \<Rightarrow> string \<Rightarrow> ('w, image_choice) eff" where
  "commit_image sv u p commit_sha =
     (let registry = cfg_git_registry (sv_cfg sv); name = lower (glp_path_with_namespace p); tag = take 7 commit_sha;
          img = registry @ ''/'' @ name @ '':'' @ tag;
          parsed_image = \<lparr>im_hostname = registry, im_name = name, im_tag = tag\<rparr>;
          repo = (case user_git_token u of
              Some t \<Rightarrow> if project_private p \<and> t \<noteq> [] then with_oauth2_token t (repo_api parsed_image) else repo_api parsed_image
            | None \<Rightarrow> repo_api parsed_image) in
      bindC (image_exists (sv_http sv) (sv_www_auth sv) repo parsed_image) (\<lambda>there.
      if \<not> there then
        raise (api MissingResourceError
          (''Cannot start the session because the following the image '' @ img @
           '' does not exist or the user does not have the permissions to access it.''))
      else
        ret \<lparr>ic_image = img, ic_parsed = parsed_image, ic_repo = repo, ic_private = project_private p,
             ic_default = False\<rparr>))"

definition choose_image ::
  "'w launch_service \<Rightarrow> user \<Rightarrow> string option \<Rightarrow> (gitlab_project \<times> string) option \<Rightarrow> ('w, image_choice) eff" where
  "choose_image sv u img project =
     (if str_truthy img then requested_image sv u (the img)
      else (case project of
          Some (p, commit_sha) \<Rightarrow> commit_image sv u p commit_sha
        | None \<Rightarrow> raise (api UserInputError ''Cannot determine which Docker image to use.'')))"

section \<open>Storages\<close>

definition cfg_get_storage ::
  "'w service \<Rightarrow> user option \<Rightarrow> string \<Rightarrow> string \<Rightarrow> ('w, cloud_storage_config) eff" where
  "cfg_get_storage sv =
     (if cfg_dummy_stores (sv_cfg sv) then dummy_get_storage_by_id
      else get_storage_by_id (sv_http sv) (data_service_url (sv_cfg sv)))"

definition cfg_validate_configuration :: "'w service \<Rightarrow> json \<Rightarrow> ('w, unit) eff" where
  "cfg_validate_configuration sv =
     (if cfg_dummy_stores (sv_cfg sv) then dummy_validate_storage_configuration
      else validate_storage_configuration (sv_http sv) (data_service_url (sv_cfg sv)))"

fun mapC :: "('a \<Rightarrow> ('w, 'b) eff) \<Rightarrow> 'a list \<Rightarrow> ('w, 'b list) eff" where
  "mapC f [] = ret []"
| "mapC f (x # xs) = bindC (f x) (\<lambda>y. bindC (mapC f xs) (\<lambda>ys. ret (y # ys)))"

definition launch_storages ::
  "'w launch_service \<Rightarrow> user \<Rightarrow> string \<Rightarrow> path \<Rightarrow> storage_request list \<Rightarrow> ('w, rclone_storage list) eff" where
  "launch_storages sv u endpoint work_dir requests =
     (if requests = [] then ret []
      else
        bindC (get_user_key sv (user_access_token u)) (\<lambda>key.
        let user_secret_key = (case key of None \<Rightarrow> [] | Some k \<Rightarrow> k) in
        bindC (catchC
            (mapC (\<lambda>r. storage_from_schema (cfg_get_storage (service.truncate sv)) (cfg_validate_configuration (service.truncate sv))
                       r u endpoint (absolute (sv_cfg sv) work_dir) user_secret_key) requests)
            (\<lambda>e. case e of Validation m \<Rightarrow> raise (api UserInputError (''Couldn't load cloud storage config: '' @ m))
                        | _ \<Rightarrow> raise e)) (\<lambda>storages.
        bindC (liftE (check_mounts (map rs_mount_folder storages))) (\<lambda>_. ret storages))))"

section \<open>Secrets of a session\<close>

definition owner_reference :: "string \<Rightarrow> json \<Rightarrow> json" where
  "owner_reference server_name uid =
     JObj [(''apiVersion'', JStr ''amalthea.dev/v1alpha1''), (''kind'', JStr ''JupyterServer''),
       (''name'', JStr server_name), (''uid'', uid)]"

text \<open>\<open>_on_error\<close> deletes the session that has just been started.\<close>

definition on_secret_error :: "'w launch_service \<Rightarrow> user \<Rightarrow> string \<Rightarrow> string \<Rightarrow> ('w, unit) eff" where
  "on_secret_error sv u server_name error_msg =
     bindC (delete_server (sv_k8s sv) server_name (user_safe_username u) True) (\<lambda>_. raise (RuntimeError error_msg))"

definition create_secret :: "'w launch_service \<Rightarrow> user \<Rightarrow> string \<Rightarrow> json \<Rightarrow> string \<Rightarrow> ('w, unit) eff" where
  "create_secret sv u server_name payload type_message =
     bindC (catchC
         (bindC (http_post (sv_http sv) (secrets_storage_service_url (sv_cfg sv) @ ''/api/secrets/kubernetes'')
             (Some [(''Authorization'', ''bearer '' @ (case user_access_token u of None \<Rightarrow> ''None'' | Some t \<Rightarrow> t))]) payload)
           (\<lambda>r. ret (Some r)))
         (\<lambda>e. if e = RequestsError ''ConnectionError'' then ret None else raise e)) (\<lambda>response.
     case response of
       None \<Rightarrow> on_secret_error sv u server_name
         (type_message @ '' storage service could not be contacted ConnectionError'')
     | Some r \<Rightarrow>
         if resp_status r = 201 then ret ()
         else bindC (liftE (resp_body r)) (\<lambda>j.
           on_secret_error sv u server_name (type_message @ '' could not be created '' @ py_str j)))"

definition user_secret_payload :: "string \<Rightarrow> json \<Rightarrow> k8s_user_secrets \<Rightarrow> json" where
  "user_secret_payload ns owner k8s_user_secret =
     JObj [(''name'', JStr (us_name k8s_user_secret)), (''namespace'', JStr ns),
       (''secret_ids'', JArr (map JStr (us_secret_ids k8s_user_secret))), (''owner_references'', JArr [owner])]"

definition storage_secret_payload :: "string \<Rightarrow> json \<Rightarrow> string \<Rightarrow> rclone_storage \<Rightarrow> json" where
  "storage_secret_payload ns owner base_name st =
     JObj [(''name'', JStr (base_name @ ''-secrets'')), (''namespace'', JStr ns),
       (''secret_ids'', JArr (map fst (rs_secrets st))), (''owner_references'', JArr [owner]),
       (''key_mapping'', JObj (map (\<lambda>(k, v). (py_str k, v)) (rs_secrets st)))]"

text \<open>Starting the session has given each storage its name \<open>base_name\<close>.\<close>

definition storage_base_name :: "string \<Rightarrow> nat \<Rightarrow> string" where
  "storage_base_name server_name i = server_name @ ''-ds-'' @ show_nat i"

fun each :: "('a \<Rightarrow> ('w, unit) eff) \<Rightarrow> 'a list \<Rightarrow> ('w, unit) eff" where
  "each f [] = ret ()"
| "each f (x # xs) = bindC (f x) (\<lambda>_. each f xs)"

definition create_secrets :: "'w launch_service \<Rightarrow> user \<Rightarrow> user_server \<Rightarrow> json \<Rightarrow> ('w, unit) eff" where
  "create_secrets sv u s uid =
     (let owner = owner_reference (srv_name s) uid; ns = preferred_namespace (sv_k8s sv) in
      bindC (case srv_user_secrets s of
          None \<Rightarrow> ret ()
        | Some k \<Rightarrow> create_secret sv u (srv_name s) (user_secret_payload ns owner k) ''User secrets'') (\<lambda>_.
      each (\<lambda>(i, st).
          if rs_secrets st = [] then ret ()
          else create_secret sv u (srv_name s)
                 (storage_secret_payload ns owner (storage_base_name (srv_name s) i) st) ''Saved storage secrets'')
        (enumerate 0 (srv_cloudstorage s))))"

section \<open>\<open>launch_notebook_helper\<close>\<close>

datatype launch_kind =
    LaunchRenku1 (lk_namespace: string) (lk_project: string) (lk_branch: string) (lk_commit: string)
      (lk_gl_project: gitlab_project)
  | LaunchRenku2 (lk_project_id: string) (lk_launcher_id: string) (lk_repositories: "json list")

definition launch_project :: "launch_kind \<Rightarrow> (gitlab_project \<times> string) option" where
  "launch_project kind =
     (case kind of LaunchRenku1 ns project branch commit p \<Rightarrow> Some (p, commit) | LaunchRenku2 _ _ _ \<Rightarrow> None)"

definition gl_project_path :: "launch_kind \<Rightarrow> string" where
  "gl_project_path kind = (case kind of LaunchRenku1 ns project branch commit p \<Rightarrow> glp_path p | LaunchRenku2 _ _ _ \<Rightarrow> [])"

definition storage_endpoint :: "launch_kind \<Rightarrow> string" where
  "storage_endpoint kind = (case kind of LaunchRenku1 _ _ _ _ _ \<Rightarrow> ''storage'' | LaunchRenku2 _ _ _ \<Rightarrow> ''data_connectors'')"

definition make_server ::
  "notebooks_config \<Rightarrow> server_args \<Rightarrow> launch_kind \<Rightarrow> user_server res" where
  "make_server cfg a kind =
     (case kind of
        LaunchRenku1 ns project branch commit p \<Rightarrow> Inr (renku1_server cfg a ns project (Some branch) (Some commit) (Some p))
      | LaunchRenku2 project_id launcher_id repositories \<Rightarrow>
          bindE (mapE repository_from_dict repositories) (\<lambda>rs. Inr (renku2_server cfg a project_id launcher_id rs)))"

definition username_too_long :: "string \<Rightarrow> exc" where
  "username_too_long n =
     api_detail UserInputError
       (''A username cannot be longer than 63 characters, your username is '' @ show_nat (length n) @ '' characters long.'')
       ''This can occur if your username has been changed manually or by an admin.''"

text \<open>The resources, validated by the service that the configuration names.\<close>

definition chosen_options :: "'w launch_service \<Rightarrow> user \<Rightarrow> launch_args \<Rightarrow> ('w, server_options) eff" where
  "chosen_options sv u a =
     (let cfg = sv_cfg sv; d = sv_defaults sv; http = sv_http sv in
      launch_options (cfg_validate cfg d http) (cfg_find cfg d http) (cfg_default_class cfg http) d u
        (la_resource_class_id a) (la_storage a) (la_server_options a) (la_default_url a) (la_lfs_auto_fetch a))"

text \<open>Everything up to the session object.\<close>

definition prepare_server ::
  "'w launch_service \<Rightarrow> user \<Rightarrow> string \<Rightarrow> launch_args \<Rightarrow> launch_kind \<Rightarrow> ('w, user_server) eff" where
  "prepare_server sv u server_name a kind =
     (let cfg = sv_cfg sv; http = sv_http sv in
      bindC (choose_image sv u (la_image a) (launch_project kind)) (\<lambda>choice.
      bindC (chosen_options sv u a) (\<lambda>options.
      bindC (image_workdir http (sv_www_auth sv) (ic_repo choice) (ic_parsed choice)) (\<lambda>workdir.
      let mount_path = path_join (case workdir of None \<Rightarrow> path_of ''/'' | Some p \<Rightarrow> p) (path_of ''work'');
          server_work_dir = path_join mount_path (path_of (gl_project_path kind)) in
      bindC (launch_storages sv u (storage_endpoint kind) server_work_dir (la_cloudstorage a)) (\<lambda>storages.
      bindC (liftE (make_server cfg
          \<lparr>sa_user = u, sa_gitlab_user = ls_gitlab_user sv, sa_name = server_name, sa_image = Some (ic_image choice),
           sa_options = options, sa_env = la_environment_variables a,
           sa_user_secrets = map_option (\<lambda>(ids, mount).
             \<lparr>us_name = server_name @ ''-secret'', us_secret_ids = ids, us_mount_path = mount\<rparr>) (la_user_secrets a),
           sa_cloudstorage = storages, sa_workspace_mount_path = mount_path, sa_work_dir = server_work_dir,
           sa_is_image_private = ic_private choice, sa_namespace = preferred_namespace (sv_k8s sv)\<rparr> kind)) (\<lambda>s.
      if 63 < length (user_safe_username u) then raise (username_too_long (user_safe_username u))
      else ret s))))))"

definition launch_lookup :: "'w launch_service \<Rightarrow> launch_kind \<Rightarrow> 'w gitlab_lookup" where
  "launch_lookup sv kind =
     ls_lookup sv (case kind of LaunchRenku1 _ _ _ _ p \<Rightarrow> Some p | LaunchRenku2 _ _ _ \<Rightarrow> None)"

text \<open>A new session: created, its secrets created with it as their owner, and described.\<close>

definition launch_new ::
  "'w launch_service \<Rightarrow> user \<Rightarrow> string \<Rightarrow> launch_args \<Rightarrow> launch_kind \<Rightarrow> ('w, json \<times> int) eff" where
  "launch_new sv u server_name a kind =
     bindC (prepare_server sv u server_name a kind) (\<lambda>s.
     bindC (start (sv_cfg sv) (sv_k8s sv) (launch_lookup sv kind)
         (cfg_git_providers (sv_cfg sv) (sv_http sv) (Some u)) s) (\<lambda>started.
     case started of
       None \<Rightarrow> raise (TypeError ''NoneType object is not subscriptable'')
     | Some manifest \<Rightarrow>
         bindC (liftE (jitems manifest [''metadata'', ''uid''])) (\<lambda>uid.
         bindC (create_secrets sv u s uid) (\<lambda>_.
         bindC (respond (service.truncate sv) manifest) (\<lambda>j. ret (j, 201))))))"

definition launch_notebook_helper ::
  "'w launch_service \<Rightarrow> user \<Rightarrow> string \<Rightarrow> launch_args \<Rightarrow> launch_kind \<Rightarrow> ('w, json \<times> int) eff" where
  "launch_notebook_helper sv u server_name a kind =
     bindC (get_server (sv_k8s sv) server_name (user_safe_username u)) (\<lambda>server.
     if present server then
       bindC (respond (service.truncate sv) (the server)) (\<lambda>j. ret (j, 200))
     else launch_new sv u server_name a kind)"

section \<open>The two endpoints\<close>

definition launch_notebook ::
  "'w launch_service \<Rightarrow> user \<Rightarrow> string \<Rightarrow> string \<Rightarrow> string \<Rightarrow> string \<Rightarrow> launch_args \<Rightarrow> ('w, json \<times> int) eff" where
  "launch_notebook sv u ns project branch commit_sha a =
     bindC (liftE (renku_1_make_server_name (ls_escape sv) (user_safe_username u) ns project branch commit_sha)) (\<lambda>server_name.
     bindC (get_renku_project sv (ns @ ''/'' @ project)) (\<lambda>gl_project.
     case gl_project of
       None \<Rightarrow> raise (AttributeError ''path'')
     | Some p \<Rightarrow> launch_notebook_helper sv u server_name a (LaunchRenku1 ns project branch commit_sha p)))"

definition renku_2_launch_notebook_helper ::
  "'w launch_service \<Rightarrow> user \<Rightarrow> string \<Rightarrow> string \<Rightarrow> json list \<Rightarrow> launch_args \<Rightarrow> ('w, json \<times> int) eff" where
  "renku_2_launch_notebook_helper sv u project_id launcher_id repositories a =
     bindC (liftE (renku_2_make_server_name (user_safe_username u) project_id launcher_id)) (\<lambda>server_name.
     launch_notebook_helper sv u server_name a (LaunchRenku2 project_id launcher_id repositories))"

end
