(* ===== verification/MergePatch.thy ===== *)
theory MergePatch
  imports K8sClient
begin

text \<open>
  Merge patches: what the Kubernetes API makes of an object that the service sends as a patch.
\<close>

text \<open>
  A merge patch (RFC 7386), as the Kubernetes API applies an object that is sent as a patch: members are
  merged, a null removes a member, anything else replaces.
\<close>

fun merge :: "json \<Rightarrow> json \<Rightarrow> json"
  and merge_members :: "(string \<times> json) list \<Rightarrow> (string, json) dict \<Rightarrow> (string, json) dict" where
  "merge (JObj ps) target = JObj (merge_members ps (case target of JObj d \<Rightarrow> d | _ \<Rightarrow> []))"
| "merge p target = p"
| "merge_members [] d = d"
| "merge_members ((k, v) # ps) d =
     merge_members ps
       (if v = JNull then dremove k d
        else dset k (merge v (case dget d k of Some x \<Rightarrow> x | None \<Rightarrow> JNull)) d)"

lemma dget_dremove [simp]: "dget (dremove k d) k' = (if k' = k then None else dget d k')"
  by (induction d) (auto simp: dremove_def)

lemma merge_members_other: "k \<notin> fst ` set ps \<Longrightarrow> dget (merge_members ps d) k = dget d k"
  by (induction ps arbitrary: d) (auto split: if_splits)

lemma merge_members_append: "merge_members (ps @ qs) d = merge_members qs (merge_members ps d)"
  by (induction ps arbitrary: d) auto

lemma dget_merge_texts:
  assumes "distinct (map fst ps)" and "list_all (\<lambda>(_, v). \<exists>s. v = JStr s) ps"
  shows "dget (merge_members ps d) k = (case dget ps k of Some v \<Rightarrow> Some v | None \<Rightarrow> dget d k)"
  using assms
proof (induction ps arbitrary: d)
  case (Cons p ps)
  obtain q s where p: "p = (q, JStr s)" using Cons.prems(2) by (cases p) auto
  have "dget ps q = None" using Cons.prems(1) p by (simp add: dget_def map_of_eq_None_iff)
  with Cons p show ?case by (auto split: option.splits)
qed simp

end
