(* ===== verification/HandlerFacts.thy ===== *)
theory HandlerFacts
  imports Handlers MergePatch
begin

text \<open>
  What the handlers promise: the list of sessions is exact, what a patch refuses, leaves alone and
  changes.
\<close>

section \<open>Listing sessions\<close>

definition matches :: "(string, json) dict \<Rightarrow> json \<Rightarrow> bool" where
  "matches query m \<longleftrightarrow>
     list_all (\<lambda>(k, v). v = JNull \<or> attribute_matches m (k, v) = Inr True) query"

lemma mapE_bools:
  assumes "mapE f xs = Inr bs"
  shows "list_all id bs \<longleftrightarrow> list_all (\<lambda>x. f x = Inr True) xs"
  using assms by (induction xs arbitrary: bs) (auto simp: bindE_Inr_iff)

lemma add_matching_Inr:
  assumes "add_matching (filter (\<lambda>(_, v). v \<noteq> JNull) query) found m = Inr found'"
  shows "if matches query m then \<exists>n. manifest_name m = Inr n \<and> found' = dset n m found else found' = found"
proof -
  have "list_all (\<lambda>x. attribute_matches m x = Inr True) (filter (\<lambda>(_, v). v \<noteq> JNull) query) \<longleftrightarrow> matches query m"
    by (auto simp: matches_def list_all_iff)
  then show ?thesis
    using assms mapE_bools by (fastforce simp: add_matching_def bindE_Inr_iff split: if_splits)
qed

lemma filter_servers_keeps:
  assumes "foldE (add_matching (filter (\<lambda>(_, v). v \<noteq> JNull) query)) found ms = Inr result" and "dget found k \<noteq> None"
  shows "dget result k \<noteq> None"
  using assms
proof (induction ms arbitrary: found)
  case (Cons x xs)
  then obtain f1 where f1: "add_matching (filter (\<lambda>(_, v). v \<noteq> JNull) query) found x = Inr f1"
    "foldE (add_matching (filter (\<lambda>(_, v). v \<noteq> JNull) query)) f1 xs = Inr result" by (auto simp: bindE_Inr_iff)
  have "dget f1 k \<noteq> None" using add_matching_Inr [OF f1(1)] Cons.prems(2) by (auto split: if_splits)
  with f1(2) show ?case by (rule Cons.IH)
qed simp

lemma filter_servers_fold:
  assumes "foldE (add_matching (filter (\<lambda>(_, v). v \<noteq> JNull) query)) found ms = Inr result"
  shows "(dget result n = Some m \<longrightarrow> dget found n = Some m \<or> (m \<in> set ms \<and> matches query m \<and> manifest_name m = Inr n))
    \<and> (m' \<in> set ms \<and> matches query m' \<longrightarrow> (\<exists>n'. manifest_name m' = Inr n' \<and> dget result n' \<noteq> None))"
  using assms
proof (induction ms arbitrary: found)
  case (Cons x xs)
  then obtain f1 where f1: "add_matching (filter (\<lambda>(_, v). v \<noteq> JNull) query) found x = Inr f1"
    "foldE (add_matching (filter (\<lambda>(_, v). v \<noteq> JNull) query)) f1 xs = Inr result" by (auto simp: bindE_Inr_iff)
  note step = add_matching_Inr [OF f1(1)]
  have "dget result n' \<noteq> None" if "matches query x" "manifest_name x = Inr n'" for n'
    using step that by (intro filter_servers_keeps [OF f1(2)]) auto
  with step Cons.IH [OF f1(2)] show ?case by (auto split: if_splits)
qed simp

text \<open>
  C20. The list of sessions has exactly the sessions that match the query: what it has under a name is a
  session of that name that matches every given attribute, and every matching session is listed under its
  name.  A query without attributes lists them all.
\<close>

theorem filter_servers_exact:
  assumes "filter_servers query ms = Inr result"
  shows "(\<forall>n m. dget result n = Some m \<longrightarrow> m \<in> set ms \<and> matches query m \<and> manifest_name m = Inr n)
    \<and> (\<forall>m \<in> set ms. matches query m \<longrightarrow> (\<exists>n. manifest_name m = Inr n \<and> dget result n \<noteq> None))"
  using filter_servers_fold [OF assms [unfolded filter_servers_def]] by (metis dget_Nil option.distinct(1))

definition named_session :: "string \<Rightarrow> string \<Rightarrow> json" where
  "named_session n branch =
     JObj [(''metadata'', JObj [(''name'', JStr n), (''annotations'', JObj [(''renku.io/branch'', JStr branch)])])]"

theorem filter_servers_exact_witness:
  "dget [(JStr ''b'', named_session ''b'' ''dev'')] (JStr ''b'') = Some (named_session ''b'' ''dev'')
   \<and> matches [(''branch'', JStr ''dev'')] (named_session ''b'' ''dev'')
   \<and> dget [(JStr ''b'', named_session ''b'' ''dev'')] (JStr ''a'') = None"
proof -
  have "filter_servers [(''branch'', JStr ''dev'')] [named_session ''a'' ''main'', named_session ''b'' ''dev''] =
      Inr [(JStr ''b'', named_session ''b'' ''dev'')]"
    by code_simp
  from filter_servers_exact [OF this] show ?thesis by simp
qed

section \<open>Patching a session\<close>

text \<open>The service of the examples: the cluster of \<open>example_cluster\<close>, a clock that stands still.\<close>

definition example_service :: "cluster service" where
  "example_service =
     \<lparr>sv_cfg = example_config, sv_defaults = \<lparr>defaultUrl = ''/lab'', lfs_default = False\<rparr>, sv_k8s = example_client,
      sv_http = (\<lambda>_. raise (RequestsError ''no route to host'')), sv_www_auth = (\<lambda>_. None),
      sv_clock = ret (DT 0 (Some 0))\<rparr>"

definition example_named :: "string \<Rightarrow> bool \<Rightarrow> json" where
  "example_named n hib = JObj
     [(''metadata'', JObj [(''name'', JStr n), (''namespace'', JStr ''renku''),
        (''labels'', JObj [(''renku.io/safe-username'', JStr ''jane'')])]),
      (''spec'', JObj [(''jupyterServer'', JObj [(''hibernated'', JBool hib)])])]"

lemma example_lookup:
  "get_server example_client n ''jane'' [(n, example_named n hib)] = (Inr (Some (example_named n hib)), [(n, example_named n hib)])"
  by (simp add: get_server_def or_bypass_def catchC_def cache_get_server_def catch_requests_def http_get_def example_client_def
      bindC_def cache_unavailable_def get_server_from_api_def ns_get_server_def catch_api_def mem_client_def mem_get_def
      if_truthy_def example_named_def owned_by_def server_owner_def is_subclass_def mro_eq)

lemma example_named_state:
  "truthy (example_named n hib)" "currently_hibernated (Some (example_named n hib)) = Inr hib"
  "currently_failing (Some (example_named n hib)) = Inr False"
  by (simp_all add: example_named_def currently_hibernated_def currently_failing_def py_get_def)

lemma example_service_facts:
  "sv_k8s example_service = example_client" "user_safe_username example_user = ''jane''"
  "pvs_enabled (cfg_sessions (sv_cfg example_service))" "\<not> user_anonymous example_user"
  "reads_only (sv_clock example_service)"
  by (auto simp: example_service_def example_user_def example_config_def example_sessions_def)

text \<open>
  C19. The resource class of a session that is neither hibernated nor failing is not changed: the request
  is refused with a \<open>UserInputError\<close> before anything is sent to the cluster or to the data service.
\<close>

theorem class_change_refused:
  assumes "reads_passive (sv_k8s sv)"
    and "get_server (sv_k8s sv) name (user_safe_username u) w = (Inr (Some m), w1)" and "truthy m"
    and "currently_hibernated (Some m) = Inr False" and "currently_failing (Some m) = Inr False"
    and "pvs_enabled (cfg_sessions (sv_cfg sv))" and "\<not> user_anonymous u"
    and "pb_resource_class_id body = Some i" and "i \<noteq> 0"
  shows "patch_server sv u name body w =
    (Inl (api UserInputError ''The resource class can be changed only if the server is hibernated or failing''), w)"
proof -
  have "w1 = w" using reads_onlyD [OF reads_only_get_server [OF assms(1)] assms(2)] .
  with assms show ?thesis by (simp add: patch_server_def bindC_eval present_def Let_def)
qed

theorem class_change_refused_witness:
  "patch_server example_service example_user ''jane-a'' \<lparr>pb_state = None, pb_resource_class_id = Some 3\<rparr>
       [(''jane-a'', example_named ''jane-a'' False)] =
    (Inl (api UserInputError ''The resource class can be changed only if the server is hibernated or failing''),
     [(''jane-a'', example_named ''jane-a'' False)])"
  by (rule class_change_refused [where i = 3 and m = "example_named ''jane-a'' False"])
    (simp_all add: example_service_facts example_reads_passive example_lookup example_named_state)

text \<open>
  A patch of a session that does not exist, or that another user owns, fails with an
  \<open>AttributeError\<close>, an internal error, although the handler documents a 404.
\<close>

theorem patch_missing_session:
  assumes "get_server (sv_k8s sv) name (user_safe_username u) w = (Inr None, w')"
    and "pvs_enabled (cfg_sessions (sv_cfg sv))" and "\<not> user_anonymous u"
  shows "patch_server sv u name body w = (Inl (AttributeError ''get''), w')"
  using assms by (simp add: patch_server_def bindC_eval currently_hibernated_def py_get_def)

theorem patch_missing_session_witness:
  "patch_server example_service example_user ''joe-b'' \<lparr>pb_state = Some ''running'', pb_resource_class_id = None\<rparr> example_cluster
     = (Inl (AttributeError ''get''), example_cluster)"
proof (rule patch_missing_session)
  have "get_server example_client ''joe-b'' ''jane'' example_cluster = (Inr None, example_cluster)" by code_simp
  then show "get_server (sv_k8s example_service) ''joe-b'' (user_safe_username example_user) example_cluster
      = (Inr None, example_cluster)"
    by (simp only: example_service_facts)
qed (simp_all add: example_service_facts)

text \<open>
  C18. Hibernating a session that is hibernated is idempotent: it sends no request to change anything, and
  the response describes the session as it was found.
\<close>

theorem hibernate_idempotent:
  assumes "reads_passive (sv_k8s sv)" and "reads_only (sv_clock sv)"
    and "pvs_enabled (cfg_sessions (sv_cfg sv))" and "\<not> user_anonymous u"
    and "get_server (sv_k8s sv) name (user_safe_username u) w = (Inr (Some m), w1)"
    and "truthy m" and "currently_hibernated (Some m) = Inr True" and "currently_failing (Some m) = Inr f"
  shows "\<exists>r. patch_server sv u name \<lparr>pb_state = Some ''hibernated'', pb_resource_class_id = None\<rparr> w = (r, w)
    \<and> (\<forall>answer. r = Inr answer \<longrightarrow> (\<exists>j. respond sv m w = (Inr j, w) \<and> answer = (j, 200)))"
proof -
  have w1: "w1 = w" using reads_onlyD [OF reads_only_get_server [OF assms(1)] assms(5)] .
  have "reads_only (respond sv m)"
    unfolding respond_def by (intro reads_only_bindC assms(2)) auto
  then obtain x where x: "respond sv m w = (x, w)" by (metis reads_onlyD surj_pair)
  have "patch_server sv u name \<lparr>pb_state = Some ''hibernated'', pb_resource_class_id = None\<rparr> w =
      bindC (respond sv m) (\<lambda>j. ret (j, 200)) w"
    using assms(3-8) w1 by (simp add: patch_server_def bindC_eval patched_server_def present_def Let_def)
  with x show ?thesis by (cases x) (simp_all add: bindC_eval)
qed

theorem hibernate_idempotent_witness:
  "\<exists>r. patch_server example_service example_user ''jane-a'' \<lparr>pb_state = Some ''hibernated'', pb_resource_class_id = None\<rparr>
        [(''jane-a'', example_named ''jane-a'' True)] = (r, [(''jane-a'', example_named ''jane-a'' True)])"
  using hibernate_idempotent [of example_service example_user "''jane-a''" "[(''jane-a'', example_named ''jane-a'' True)]"
      "example_named ''jane-a'' True" "[(''jane-a'', example_named ''jane-a'' True)]" False]
  by (simp add: example_service_facts example_reads_passive example_lookup example_named_state) blast

section \<open>What a hibernation changes\<close>

definition jupyter_field :: "string \<Rightarrow> json \<Rightarrow> json res" where
  "jupyter_field k m = jitems m [''spec'', ''jupyterServer'', k]"

text \<open>A session object: metadata with annotations, a specification of its server.\<close>

definition session_object :: "json \<Rightarrow> bool" where
  "session_object m \<longleftrightarrow>
     (\<exists>d meta anns spec js. m = JObj d \<and> dget d ''metadata'' = Some (JObj meta) \<and> dget meta ''annotations'' = Some (JObj anns)
        \<and> dget d ''spec'' = Some (JObj spec) \<and> dget spec ''jupyterServer'' = Some (JObj js))"

lemma merge_spec:
  assumes "session_object m" and "p = JObj [(''spec'', JObj [(''jupyterServer'', JObj [(''hibernated'', JBool b)])])]"
  shows "session_object (merge p m) \<and> currently_hibernated (Some (merge p m)) = Inr b
    \<and> (\<forall>k. k \<noteq> ''hibernated'' \<longrightarrow> jupyter_field k (merge p m) = jupyter_field k m)
    \<and> manifest_annotations (merge p m) = manifest_annotations m"
  using assms
  by (auto simp: session_object_def currently_hibernated_def py_get_def jupyter_field_def manifest_annotations_def)

definition hibernation_annotations :: "(string, json) dict \<Rightarrow> datetime \<Rightarrow> (string, json) dict" where
  "hibernation_annotations h now =
     (case jitems (hibernation_patch h now) [''metadata'', ''annotations''] of Inr (JObj d) \<Rightarrow> d | _ \<Rightarrow> [])"

lemma hibernation_patch_eq:
  "hibernation_patch h now =
     JObj [(''metadata'', JObj [(''annotations'', JObj (hibernation_annotations h now))]),
       (''spec'', JObj [(''jupyterServer'', JObj [(''hibernated'', JBool True)])])]"
  by (simp add: hibernation_annotations_def hibernation_patch_def Let_def)

lemma hibernation_annotation_keys:
  "fst ` set (hibernation_annotations h now) =
     {''renku.io/hibernation'', ''renku.io/hibernationBranch'', ''renku.io/hibernationCommitSha'',
      ''renku.io/hibernationDirty'', ''renku.io/hibernationSynchronized'', ''renku.io/hibernationDate''}"
  by (simp add: hibernation_annotations_def hibernation_patch_def Let_def)

lemma merge_hibernation:
  assumes "session_object m"
  shows "session_object (merge (hibernation_patch h now) m)
    \<and> currently_hibernated (Some (merge (hibernation_patch h now) m)) = Inr True
    \<and> (\<forall>k. k \<noteq> ''hibernated'' \<longrightarrow> jupyter_field k (merge (hibernation_patch h now) m) = jupyter_field k m)
    \<and> (\<exists>anns. manifest_annotations m = Inr (JObj anns)
         \<and> manifest_annotations (merge (hibernation_patch h now) m) = Inr (JObj (merge_members (hibernation_annotations h now) anns)))"
  using assms
  by (auto simp: session_object_def currently_hibernated_def py_get_def jupyter_field_def manifest_annotations_def
      hibernation_patch_eq)

text \<open>
  C17. Hibernating and resuming a session: merged into the session, the patch of the first marks it as
  hibernated and the patch of the second undoes that, and both leave the rest of its server, such as image
  and resources, as it was.
\<close>

theorem hibernate_resume:
  assumes "session_object m"
  shows "currently_hibernated (Some (merge (hibernation_patch h now) m)) = Inr True
    \<and> currently_hibernated (Some (merge resume_patch (merge (hibernation_patch h now) m))) = Inr False
    \<and> (k \<noteq> ''hibernated'' \<longrightarrow> jupyter_field k (merge resume_patch (merge (hibernation_patch h now) m)) = jupyter_field k m)"
  using merge_hibernation [OF assms, of h now]
    merge_spec [of "merge (hibernation_patch h now) m" resume_patch False]
  by (simp add: resume_patch_def)

text \<open>
  The state of a hibernation that the handler stores is never read back: it is stored under a name
  with the prefix of the service, and \<open>UserServerManifest.hibernation\<close> looks for one without it.
\<close>

theorem hibernation_unread:
  assumes "session_object m"
  shows "manifest_hibernation (merge (hibernation_patch h now) m) = manifest_hibernation m"
proof -
  from merge_hibernation [OF assms, of h now] obtain anns where
    "manifest_annotations m = Inr (JObj anns)"
    "manifest_annotations (merge (hibernation_patch h now) m) = Inr (JObj (merge_members (hibernation_annotations h now) anns))"
    by blast
  moreover have "dget (merge_members (hibernation_annotations h now) anns) ''hibernation'' = dget anns ''hibernation''"
    by (rule merge_members_other) (simp add: hibernation_annotation_keys)
  ultimately show ?thesis by (simp add: manifest_hibernation_def)
qed

definition patched_session :: json where
  "patched_session =
     JObj [(''metadata'', JObj [(''name'', JStr ''jane-a''), (''annotations'', JObj [])]),
       (''spec'', JObj [(''jupyterServer'', JObj [(''image'', JStr ''img''), (''hibernated'', JBool False)])])]"

lemma patched_session_object: "session_object patched_session"
  by (simp add: session_object_def patched_session_def)

theorem hibernate_resume_witness:
  "jupyter_field ''image'' (merge resume_patch (merge (hibernation_patch blank_status (DT 0 (Some 0))) patched_session))
     = jupyter_field ''image'' patched_session"
  using hibernate_resume [OF patched_session_object, of blank_status "DT 0 (Some 0)" "''image''"] by simp

theorem hibernation_unread_witness:
  "manifest_hibernation (merge (hibernation_patch blank_status (DT 0 (Some 0))) patched_session)
     = manifest_hibernation patched_session"
  by (rule hibernation_unread [OF patched_session_object])

section \<open>The version\<close>

text \<open>
  The setting for cloud storage may be a text, like the other flags, but is not parsed as they are: of
  the text \<open>false\<close> the service reports that cloud storage is disabled, and then treats it as enabled.
\<close>

theorem storage_flag_disagrees:
  assumes "cloud_storage_enabled cfg = JStr ''false''"
  shows "\<exists>v data. jitem (fst (version_response cfg)) ''versions'' = Inr (JArr [v]) \<and> jitem v ''data'' = Inr data
      \<and> jitem data ''cloudstorageEnabled'' = Inr (JBool False)
      \<and> (notebook_response cfg now now2 m = Inr j \<longrightarrow> (\<exists>ss. jitem j ''cloudstorage'' = Inr (JArr ss)))"
  using assms
  by (auto simp: version_response_def bool_field_def truthy_words_def falsy_words_def notebook_response_def bindE_Inr_iff)

theorem storage_flag_disagrees_witness:
  "\<exists>v data. jitem (fst (version_response (example_config\<lparr>cloud_storage_enabled := JStr ''false''\<rparr>))) ''versions'' = Inr (JArr [v])
     \<and> jitem v ''data'' = Inr data \<and> jitem data ''cloudstorageEnabled'' = Inr (JBool False)"
proof -
  have "cloud_storage_enabled (example_config\<lparr>cloud_storage_enabled := JStr ''false''\<rparr>) = JStr ''false''" by simp
  from storage_flag_disagrees [OF this, of "DT 0 None" "DT 0 None" JNull JNull] show ?thesis by blast
qed

end
