(* ===== verification/LaunchFacts.thy ===== *)
theory LaunchFacts
  imports Launch HandlerFacts
begin

text \<open>
  What a launch promises: which image it takes, the shape of the session it starts, that it is
  idempotent, and what becomes of the session's secrets.
\<close>

section \<open>The image\<close>

lemma requested_image_cases:
  assumes "requested_image sv u img w = (Inr c, w')"
  obtains i where "from_path img = Inr i" "ir_hostname (ic_repo c) = im_hostname i"
    and "ir_oauth2_token (ic_repo c) \<noteq> None \<Longrightarrow>
          im_hostname i = cfg_git_registry (sv_cfg sv) \<and> ir_oauth2_token (ic_repo c) = user_git_token u"
    and "(ic_default c \<and> ic_image c = default_image (cfg_sessions (sv_cfg sv))
            \<and> from_path (ic_image c) = Inr (ic_parsed c) \<and> \<not> ic_private c)
       \<or> (\<not> ic_default c \<and> ic_image c = img \<and> ic_parsed c = i
            \<and> (ic_private c \<longrightarrow> ir_oauth2_token (ic_repo c) \<noteq> None)
            \<and> (\<exists>r wa wb. image_exists (sv_http sv) (sv_www_auth sv) r i wa = (Inr True, wb)))"
proof -
  from assms obtain i where i: "from_path img = Inr i"
    by (auto simp: requested_image_def bindC_Inr_iff)
  from assms obtain publicly w1 where pub: "image_exists (sv_http sv) (sv_www_auth sv) (repo_api i) i w = (Inr publicly, w1)"
    by (auto simp: requested_image_def bindC_Inr_iff i)
  define token where "token = (if \<not> publicly \<and> im_hostname i = cfg_git_registry (sv_cfg sv) \<and> str_truthy (user_git_token u)
                  then user_git_token u else None)"
  define repo where "repo = (case token of None \<Rightarrow> repo_api i | Some t \<Rightarrow> with_oauth2_token t (repo_api i))"
  have "bindC (if token = None then ret False else image_exists (sv_http sv) (sv_www_auth sv) repo i) (\<lambda>privately.
     if \<not> privately \<and> \<not> publicly then
       bindC (liftE (from_path (default_image (cfg_sessions (sv_cfg sv))))) (\<lambda>parsed_default.
       ret \<lparr>ic_image = default_image (cfg_sessions (sv_cfg sv)), ic_parsed = parsed_default, ic_repo = repo,
            ic_private = False, ic_default = True\<rparr>)
     else
       ret \<lparr>ic_image = img, ic_parsed = i, ic_repo = repo, ic_private = privately, ic_default = False\<rparr>) w1 = (Inr c, w')"
    using assms unfolding requested_image_def token_def repo_def
    by (simp add: i pub bindC_eval Let_def)
  then obtain privately w2 where
    priv: "(if token = None then ret False else image_exists (sv_http sv) (sv_www_auth sv) repo i) w1 = (Inr privately, w2)"
    and rest: "(if \<not> privately \<and> \<not> publicly then
       bindC (liftE (from_path (default_image (cfg_sessions (sv_cfg sv))))) (\<lambda>parsed_default.
       ret \<lparr>ic_image = default_image (cfg_sessions (sv_cfg sv)), ic_parsed = parsed_default, ic_repo = repo,
            ic_private = False, ic_default = True\<rparr>)
     else
       ret \<lparr>ic_image = img, ic_parsed = i, ic_repo = repo, ic_private = privately, ic_default = False\<rparr>) w2 = (Inr c, w')"
    unfolding bindC_Inr_iff by blast
  have r: "ic_repo c = repo" using rest by (auto simp: bindC_Inr_iff split: if_splits)
  have host: "ir_hostname repo = im_hostname i"
    by (simp add: repo_def repo_api_def with_oauth2_token_def split: option.split)
  have tok: "ir_oauth2_token repo = token"
    by (simp add: repo_def repo_api_def with_oauth2_token_def split: option.split)
  show thesis
  proof (rule that [OF i])
    show "ir_hostname (ic_repo c) = im_hostname i" by (simp add: r host)
    show "im_hostname i = cfg_git_registry (sv_cfg sv) \<and> ir_oauth2_token (ic_repo c) = user_git_token u"
      if "ir_oauth2_token (ic_repo c) \<noteq> None"
      using that by (auto simp: r tok token_def split: if_splits)
    show "(ic_default c \<and> ic_image c = default_image (cfg_sessions (sv_cfg sv))
            \<and> from_path (ic_image c) = Inr (ic_parsed c) \<and> \<not> ic_private c)
       \<or> (\<not> ic_default c \<and> ic_image c = img \<and> ic_parsed c = i
            \<and> (ic_private c \<longrightarrow> ir_oauth2_token (ic_repo c) \<noteq> None)
            \<and> (\<exists>r wa wb. image_exists (sv_http sv) (sv_www_auth sv) r i wa = (Inr True, wb)))"
    proof (cases "\<not> privately \<and> \<not> publicly")
      case True
      with rest show ?thesis by (auto simp: bindC_Inr_iff)
    next
      case False
      with rest have c: "c = \<lparr>ic_image = img, ic_parsed = i, ic_repo = repo, ic_private = privately, ic_default = False\<rparr>"
        by (auto split: if_splits)
      have "privately \<Longrightarrow> token \<noteq> None" using priv by (auto split: if_splits)
      moreover have "\<exists>r wa wb. image_exists (sv_http sv) (sv_www_auth sv) r i wa = (Inr True, wb)"
        using False pub priv by (cases publicly; force split: if_splits)
      ultimately show ?thesis by (simp add: c tok)
    qed
  qed
qed

lemma commit_image_cases:
  assumes "commit_image sv u p commit_sha w = (Inr c, w')"
  shows "\<not> ic_default c" and "ir_hostname (ic_repo c) = cfg_git_registry (sv_cfg sv)"
    and "ir_oauth2_token (ic_repo c) \<noteq> None \<Longrightarrow> ir_oauth2_token (ic_repo c) = user_git_token u"
    and "image_exists (sv_http sv) (sv_www_auth sv) (ic_repo c) (ic_parsed c) w = (Inr True, w')"
  using assms
  by (auto simp: commit_image_def Let_def bindC_Inr_iff repo_api_def with_oauth2_token_def split: if_splits option.splits)


text \<open>
  When a requested image does not exist, the default image is used but inspected with the client of
  the requested image's registry; if the two registries differ the launch fails with an
  \<open>ImageParseError\<close> and no session is started.
\<close>

theorem default_image_other_registry:
  assumes "la_image a = Some img" and "img \<noteq> []"
    and "requested_image sv u img w = (Inr c, w1)" and "ic_default c"
    and "from_path img = Inr i" and "im_hostname (ic_parsed c) \<noteq> im_hostname i"
    and "chosen_options sv u a w1 = (Inr options, w2)"
  shows "\<exists>m. prepare_server sv u server_name a kind w = (Inl (api ImageParseError m), w2)"
proof -
  from assms(3) have "ir_hostname (ic_repo c) = im_hostname i"
    by (rule requested_image_cases) (simp add: assms(5))
  with assms(6) have "image_workdir (sv_http sv) (sv_www_auth sv) (ic_repo c) (ic_parsed c) w2 =
      (Inl (api ImageParseError (''The image hostname '' @ im_hostname (ic_parsed c) @
          '' does not match the image repository '' @ im_hostname i)), w2)"
    by (simp add: image_workdir_def get_image_config_def get_image_manifest_def bindC_eval)
  then obtain m where "image_workdir (sv_http sv) (sv_www_auth sv) (ic_repo c) (ic_parsed c) w2 =
      (Inl (api ImageParseError m), w2)" by blast
  then show ?thesis
    using assms(1-3, 7) by (intro exI [of _ m]) (simp add: prepare_server_def choose_image_def str_truthy_def bindC_eval Let_def)
qed

section \<open>The session object\<close>

lemma launch_storages_checked:
  assumes "launch_storages sv u e wd rs w = (Inr storages, w')"
  shows "check_mounts (map rs_mount_folder storages) = Inr ()"
  using assms by (auto simp: launch_storages_def check_mounts_def bindC_Inr_iff Let_def split: if_splits)

lemma make_server_fields:
  assumes "make_server cfg a kind = Inr s"
  shows "srv_name s = sa_name a" "srv_user s = sa_user a" "srv_image s = sa_image a" "srv_options s = sa_options a"
    "srv_cloudstorage s = sa_cloudstorage a" "srv_user_secrets s = sa_user_secrets a"
  using assms
  by (auto simp: make_server_def renku1_server_def renku2_server_def user_server_init_def bindE_Inr_iff
      split: launch_kind.splits)

lemma prepare_server_InrD:
  assumes "prepare_server sv u server_name a kind w = (Inr s, w')"
  obtains choice options w1 w2 storages w3 wd where
    "choose_image sv u (la_image a) (launch_project kind) w = (Inr choice, w1)"
    "chosen_options sv u a w1 = (Inr options, w2)"
    "launch_storages sv u (storage_endpoint kind) wd (la_cloudstorage a) w3 = (Inr storages, w')"
    "srv_name s = server_name" "srv_user s = u" "srv_image s = Some (ic_image choice)" "srv_options s = options"
    "srv_cloudstorage s = storages" "length (user_safe_username u) \<le> 63"
proof -
  let ?mp = "\<lambda>wd. path_join (case wd of None \<Rightarrow> path_of ''/'' | Some p \<Rightarrow> p) (path_of ''work'')"
  let ?wd = "\<lambda>wd. path_join (?mp wd) (path_of (gl_project_path kind))"
  let ?args = "\<lambda>choice options storages wd.
    \<lparr>sa_user = u, sa_gitlab_user = ls_gitlab_user sv, sa_name = server_name, sa_image = Some (ic_image choice),
           sa_options = options, sa_env = la_environment_variables a,
           sa_user_secrets = map_option (\<lambda>(ids, mount).
             \<lparr>us_name = server_name @ ''-secret'', us_secret_ids = ids, us_mount_path = mount\<rparr>) (la_user_secrets a),
           sa_cloudstorage = storages, sa_workspace_mount_path = ?mp wd, sa_work_dir = ?wd wd,
           sa_is_image_private = ic_private choice, sa_namespace = preferred_namespace (sv_k8s sv)\<rparr>"
  from assms obtain choice options wd storages s' w1 w2 w3 w4 w5 where
    "choose_image sv u (la_image a) (launch_project kind) w = (Inr choice, w1)"
    "chosen_options sv u a w1 = (Inr options, w2)"
    and st: "launch_storages sv u (storage_endpoint kind) (?wd wd) (la_cloudstorage a) w3 = (Inr storages, w4)"
    and mk: "liftE (make_server (sv_cfg sv) (?args choice options storages wd) kind) w4 = (Inr s', w5)"
    and fin: "(if 63 < length (user_safe_username u) then raise (username_too_long (user_safe_username u)) else ret s') w5
      = (Inr s, w')"
    unfolding prepare_server_def Let_def bindC_Inr_iff by blast
  moreover from mk have "make_server (sv_cfg sv) (?args choice options storages wd) kind = Inr s'" and "w5 = w4"
    by (auto split: sum.splits)
  moreover from fin have "s' = s" "w5 = w'" "length (user_safe_username u) \<le> 63" by (auto split: if_splits)
  ultimately show thesis
    using make_server_fields [of "sv_cfg sv" "?args choice options storages wd" kind s] by (intro that) simp_all
qed


section \<open>The launch\<close>

text \<open>
  Launching is idempotent: while a session of that name belongs to the user, another launch changes
  nothing and answers 200 with that session.
\<close>

theorem launch_existing:
  assumes "reads_passive (sv_k8s sv)" and "reads_only (sv_clock sv)"
    and "get_server (sv_k8s sv) server_name (user_safe_username u) w = (Inr (Some m), w1)" and "truthy m"
  shows "\<exists>r. launch_notebook_helper sv u server_name a kind w = (r, w)
    \<and> (\<forall>j code. r = Inr (j, code) \<longrightarrow> code = 200 \<and> respond (service.truncate sv) m w = (Inr j, w))"
proof -
  have w1: "w1 = w" using reads_onlyD [OF reads_only_get_server [OF assms(1)] assms(3)] .
  have "reads_only (respond (service.truncate sv) m)"
    unfolding respond_def using assms(2) by (intro reads_only_bindC) (auto simp: service.truncate_def)
  then obtain x where x: "respond (service.truncate sv) m w = (x, w)" by (metis reads_onlyD surj_pair)
  have "launch_notebook_helper sv u server_name a kind w = bindC (respond (service.truncate sv) m) (\<lambda>j. ret (j, 200)) w"
    using assms(3, 4) w1 by (simp add: launch_notebook_helper_def bindC_eval present_def)
  with x show ?thesis by (cases x) (simp_all add: bindC_eval)
qed

text \<open>
  A launch for a GitLab project that the user cannot see fails with an \<open>AttributeError\<close>, an internal
  error, before the errors of the start that name the missing project can be reported.
\<close>

theorem launch_missing_project:
  assumes "renku_1_make_server_name (ls_escape sv) (user_safe_username u) ns project branch commit_sha = Inr server_name"
    and "ls_get_project sv (ns @ ''/'' @ project) w = (Inl e, w')"
  shows "launch_notebook sv u ns project branch commit_sha a w = (Inl (AttributeError ''path''), w')"
  using assms by (simp add: launch_notebook_def get_renku_project_def bindC_eval catchC_eval)

section \<open>Secrets\<close>

lemma create_secret_InrD:
  assumes "create_secret sv u n p t w = (Inr (), w')"
  shows "\<exists>r. http_post (sv_http sv) (secrets_storage_service_url (sv_cfg sv) @ ''/api/secrets/kubernetes'')
             (Some [(''Authorization'', ''bearer '' @ (case user_access_token u of None \<Rightarrow> ''None'' | Some t \<Rightarrow> t))]) p w = (Inr r, w')
      \<and> resp_status r = 201"
proof -
  have never: "on_secret_error sv u n m w1 \<noteq> (Inr x, w2)" for m w1 x w2
    by (auto simp: on_secret_error_def bindC_Inr_iff)
  show ?thesis
    using assms never
    by (auto simp: create_secret_def bindC_Inr_iff catchC_eval catchC_def split: option.splits if_splits sum.splits prod.splits)
qed

definition accepted :: "'w launch_service \<Rightarrow> user \<Rightarrow> json \<Rightarrow> bool" where
  "accepted sv u p \<longleftrightarrow>
     (\<exists>r w w'. http_post (sv_http sv) (secrets_storage_service_url (sv_cfg sv) @ ''/api/secrets/kubernetes'')
             (Some [(''Authorization'', ''bearer '' @ (case user_access_token u of None \<Rightarrow> ''None'' | Some t \<Rightarrow> t))]) p w = (Inr r, w')
      \<and> resp_status r = 201)"

lemma create_secret_accepted: "create_secret sv u n p t w = (Inr (), w') \<Longrightarrow> accepted sv u p"
  unfolding accepted_def by (blast dest: create_secret_InrD)

lemma each_Inr:
  assumes "each f xs w = (Inr (), w')" and "x \<in> set xs"
  shows "\<exists>w1 w2. f x w1 = (Inr (), w2)"
  using assms by (induction xs arbitrary: w) (auto simp: bindC_Inr_iff)

text \<open>
  When the secrets of a launch are done, the secrets service has answered 201 for the user's secrets,
  if there are any, and for every storage that has saved secrets, each under the name that the session
  mounts.
\<close>

theorem secrets_all_created:
  assumes "create_secrets sv u s uid w = (Inr (), w')"
  shows "(\<forall>k. srv_user_secrets s = Some k \<longrightarrow>
      accepted sv u (user_secret_payload (preferred_namespace (sv_k8s sv)) (owner_reference (srv_name s) uid) k))
    \<and> (\<forall>i < length (srv_cloudstorage s). rs_secrets (srv_cloudstorage s ! i) \<noteq> [] \<longrightarrow>
      accepted sv u (storage_secret_payload (preferred_namespace (sv_k8s sv)) (owner_reference (srv_name s) uid)
        (storage_base_name (srv_name s) i) (srv_cloudstorage s ! i)))"
proof -
  let ?own = "owner_reference (srv_name s) uid" and ?ns = "preferred_namespace (sv_k8s sv)"
  let ?f = "\<lambda>(i, st). if rs_secrets st = [] then ret ()
          else create_secret sv u (srv_name s)
                 (storage_secret_payload ?ns ?own (storage_base_name (srv_name s) i) st) ''Saved storage secrets''"
  from assms obtain w1 where
    k: "(case srv_user_secrets s of None \<Rightarrow> ret ()
        | Some k \<Rightarrow> create_secret sv u (srv_name s) (user_secret_payload ?ns ?own k) ''User secrets'') w = (Inr (), w1)"
    and e: "each ?f (enumerate 0 (srv_cloudstorage s)) w1 = (Inr (), w')"
    unfolding create_secrets_def Let_def bindC_Inr_iff by auto
  have "accepted sv u (user_secret_payload ?ns ?own k')" if "srv_user_secrets s = Some k'" for k'
    using k that by (auto dest: create_secret_accepted)
  moreover have "accepted sv u (storage_secret_payload ?ns ?own (storage_base_name (srv_name s) i) (srv_cloudstorage s ! i))"
    if "i < length (srv_cloudstorage s)" "rs_secrets (srv_cloudstorage s ! i) \<noteq> []" for i
  proof -
    have "(i, srv_cloudstorage s ! i) \<in> set (enumerate 0 (srv_cloudstorage s))"
      using that(1) by (simp add: in_set_enumerate_eq)
    from each_Inr [OF e this] that(2) show ?thesis by (auto dest: create_secret_accepted)
  qed
  ultimately show ?thesis by blast
qed

text \<open>
  When a secret cannot be created, because the secrets service cannot be reached or refuses it, the
  session that has just been started is deleted and the launch fails.
\<close>

theorem failed_secret_deletes_session:
  assumes "http_post (sv_http sv) (secrets_storage_service_url (sv_cfg sv) @ ''/api/secrets/kubernetes'')
             (Some [(''Authorization'', ''bearer '' @ (case user_access_token u of None \<Rightarrow> ''None'' | Some t \<Rightarrow> t))]) p w = (answer, w1)"
    and "answer = Inl (RequestsError ''ConnectionError'') \<or> (\<exists>r j. answer = Inr r \<and> resp_status r \<noteq> 201 \<and> resp_body r = Inr j)"
    and "delete_server (sv_k8s sv) n (user_safe_username u) True w1 = (Inr (), w2)"
  shows "\<exists>m. create_secret sv u n p t w = (Inl (RuntimeError m), w2)"
proof -
  have del: "on_secret_error sv u n m w1 = (Inl (RuntimeError m), w2)" for m
    by (simp add: on_secret_error_def bindC_eval assms(3))
  from assms(2) show ?thesis
  proof (elim disjE exE conjE)
    assume "answer = Inl (RequestsError ''ConnectionError'')"
    with assms(1) show ?thesis
      by (simp add: create_secret_def bindC_eval catchC_eval del)
  next
    fix r j
    assume "answer = Inr r" "resp_status r \<noteq> 201" "resp_body r = Inr j"
    with assms(1) show ?thesis
      by (simp add: create_secret_def bindC_eval catchC_eval del)
  qed
qed

section \<open>Examples\<close>

definition example_launch :: "(string \<Rightarrow> http_response) \<Rightarrow> cluster launch_service" where
  "example_launch reply =
     \<lparr>sv_cfg = example_config\<lparr>cfg_dummy_stores := True\<rparr>, sv_defaults = \<lparr>defaultUrl = ''/lab'', lfs_default = False\<rparr>,
      sv_k8s = example_client, sv_http = (\<lambda>rq. ret (reply (hr_url rq))), sv_www_auth = (\<lambda>_. None),
      sv_clock = ret (DT 0 (Some 0)), ls_get_project = (\<lambda>_. raise (RequestsError ''404'')),
      ls_lookup = (\<lambda>_. no_lookup), ls_gitlab_user = (JNull, JNull), ls_escape = id, ls_encryption_key = (\<lambda>k s. k @ s)\<rparr>"

definition no_image :: "string \<Rightarrow> http_response" where
  "no_image url = \<lparr>resp_status = 404, resp_headers = [], resp_body = Inr JNull\<rparr>"

definition any_image :: "string \<Rightarrow> http_response" where
  "any_image url = \<lparr>resp_status = 200, resp_headers = [(''Content-Type'', docker_v2)], resp_body = Inr jempty\<rparr>"

lemma example_image_path: "from_path ''gitlab.io/a/b:c'' = Inr \<lparr>im_hostname = ''gitlab.io'', im_name = ''a/b'', im_tag = ''c''\<rparr>"
  by code_simp

lemma default_image_path: "from_path (default_image (cfg_sessions example_config)) = Inr \<lparr>im_hostname = ''registry-1.docker.io'', im_name = ''renku/singleuser'', im_tag = ''latest''\<rparr>"
  by code_simp

definition launch_a :: launch_args where
  "launch_a = \<lparr>la_image = Some ''gitlab.io/a/b:c'', la_resource_class_id = Some 1, la_storage = Some (PInt 1),
     la_environment_variables = [], la_user_secrets = Some ([''s1''], ''/secrets''), la_default_url = None,
     la_lfs_auto_fetch = None, la_cloudstorage = [], la_server_options = NoOptions\<rparr>"

lemma example_launch_facts:
  "sv_http (example_launch reply) = (\<lambda>rq. ret (reply (hr_url rq)))" "sv_www_auth (example_launch reply) = (\<lambda>_. None)"
  "sv_k8s (example_launch reply) = example_client" "cfg_sessions (sv_cfg (example_launch reply)) = cfg_sessions example_config"
  "cfg_git_registry (sv_cfg (example_launch reply)) = cfg_git_registry example_config"
  "cfg_dummy_stores (sv_cfg (example_launch reply))"
  "secrets_storage_service_url (sv_cfg (example_launch reply)) = secrets_storage_service_url example_config"
  by (simp_all add: example_launch_def)

lemma no_image_exists:
  "im_hostname i = ir_hostname r \<Longrightarrow> image_exists (\<lambda>rq. ret (no_image (hr_url rq))) (\<lambda>_. None) r i w = (Inr False, w)"
  by (simp add: image_exists_def get_image_manifest_def get_docker_token_def get_or_none_def http_get_def no_image_def
      bindC_eval catchC_eval)

lemma any_image_manifest:
  "im_hostname i = ir_hostname r \<Longrightarrow>
     get_image_manifest (\<lambda>rq. ret (any_image (hr_url rq))) (\<lambda>_. None) r i arch os w = (Inr (Some jempty), w)"
  by (simp add: get_image_manifest_def get_docker_token_def get_or_none_def http_get_def any_image_def
      bindC_eval catchC_eval header_get_def manifest_body_def docker_v2_def docker_v2_list_def oci_v1_index_def)

lemma requested_missing:
  "requested_image (example_launch no_image) example_user ''gitlab.io/a/b:c'' w =
     (Inr \<lparr>ic_image = ''renku/singleuser:latest'',
           ic_parsed = \<lparr>im_hostname = ''registry-1.docker.io'', im_name = ''renku/singleuser'', im_tag = ''latest''\<rparr>,
           ic_repo = \<lparr>ir_hostname = ''gitlab.io'', ir_oauth2_token = None\<rparr>, ic_private = False, ic_default = True\<rparr>, w)"
proof -
  have "''gitlab.io'' \<noteq> cfg_git_registry example_config" "default_image (cfg_sessions example_config) = ''renku/singleuser:latest''"
    by (simp_all add: example_config_def example_sessions_def)
  then show ?thesis
    using default_image_path
    by (simp add: requested_image_def example_image_path example_launch_facts no_image_exists bindC_eval repo_api_def Let_def)
qed

lemma requested_found:
  "requested_image (example_launch any_image) example_user ''gitlab.io/a/b:c'' w =
     (Inr \<lparr>ic_image = ''gitlab.io/a/b:c'', ic_parsed = \<lparr>im_hostname = ''gitlab.io'', im_name = ''a/b'', im_tag = ''c''\<rparr>,
           ic_repo = \<lparr>ir_hostname = ''gitlab.io'', ir_oauth2_token = None\<rparr>, ic_private = False, ic_default = False\<rparr>, w)"
  by (simp add: requested_image_def example_image_path example_launch_facts image_exists_def any_image_manifest bindC_eval repo_api_def Let_def)

lemma example_options:
  "\<exists>options. chosen_options (example_launch reply) example_user launch_a w = (Inr options, w)"
  by (simp add: chosen_options_def Let_def launch_options_def launch_a_def cfg_validate_def example_launch_facts dummy_validate_class_storage_def bindC_eval)

theorem default_image_other_registry_witness:
  "\<exists>m. prepare_server (example_launch no_image) example_user ''jane-1'' launch_a (LaunchRenku2 ''p'' ''l'' []) example_cluster
     = (Inl (api ImageParseError m), example_cluster)"
proof -
  obtain options where o: "chosen_options (example_launch no_image) example_user launch_a example_cluster = (Inr options, example_cluster)"
    using example_options by blast
  show ?thesis
    by (rule default_image_other_registry [OF _ _ requested_missing _ example_image_path _ o]) (simp_all add: launch_a_def)
qed

lemma example_prepared:
  "\<exists>s. prepare_server (example_launch any_image) example_user ''jane-1'' launch_a (LaunchRenku2 ''p'' ''l'' []) example_cluster
     = (Inr s, example_cluster)"
proof -
  have i: "choose_image (example_launch any_image) example_user (la_image launch_a) None w =
     (Inr \<lparr>ic_image = ''gitlab.io/a/b:c'', ic_parsed = \<lparr>im_hostname = ''gitlab.io'', im_name = ''a/b'', im_tag = ''c''\<rparr>,
           ic_repo = \<lparr>ir_hostname = ''gitlab.io'', ir_oauth2_token = None\<rparr>, ic_private = False, ic_default = False\<rparr>, w)" for w
    using requested_found [of w] by (simp add: choose_image_def launch_a_def str_truthy_def)
  have wd: "image_workdir (sv_http (example_launch any_image)) (sv_www_auth (example_launch any_image))
      \<lparr>ir_hostname = ''gitlab.io'', ir_oauth2_token = None\<rparr>
      \<lparr>im_hostname = ''gitlab.io'', im_name = ''a/b'', im_tag = ''c''\<rparr> w = (Inr None, w)" for w
    by (simp add: image_workdir_def get_image_config_def example_launch_facts any_image_manifest bindC_eval)
  have st: "launch_storages (example_launch any_image) example_user e p (la_cloudstorage launch_a) w = (Inr [], w)" for e p w
    by (simp add: launch_storages_def launch_a_def)
  have n: "length (user_safe_username example_user) \<le> 63" by (simp add: example_user_def)
  obtain options where o: "chosen_options (example_launch any_image) example_user launch_a example_cluster = (Inr options, example_cluster)"
    using example_options by blast
  show ?thesis
    using n by (simp add: prepare_server_def Let_def launch_project_def i o wd st bindC_eval make_server_def not_less)
qed



theorem launch_existing_witness:
  "\<exists>r. launch_notebook_helper (example_launch no_image) example_user ''jane-a'' launch_a (LaunchRenku2 ''p'' ''l'' [])
        [(''jane-a'', example_named ''jane-a'' False)] = (r, [(''jane-a'', example_named ''jane-a'' False)])"
proof -
  have p: "reads_passive (sv_k8s (example_launch no_image))"
    by (simp add: example_launch_facts example_reads_passive)
  have c: "reads_only (sv_clock (example_launch no_image))" by (auto simp: example_launch_def)
  have g: "get_server (sv_k8s (example_launch no_image)) ''jane-a'' (user_safe_username example_user)
      [(''jane-a'', example_named ''jane-a'' False)] = (Inr (Some (example_named ''jane-a'' False)), [(''jane-a'', example_named ''jane-a'' False)])"
    by (simp add: example_launch_facts example_service_facts example_lookup)
  from launch_existing [OF p c g example_named_state(1)] show ?thesis by blast
qed

theorem launch_missing_project_witness:
  "launch_notebook (example_launch no_image) example_user ''ns'' ''proj'' ''main'' ''abc'' launch_a example_cluster
     = (Inl (AttributeError ''path''), example_cluster)"
proof -
  obtain n where "renku_1_make_server_name id ''jane'' ''ns'' ''proj'' ''main'' ''abc'' = Inr n"
    by (simp add: renku_1_make_server_name_def make_server_name_prefix_def)
  moreover have "ls_escape (example_launch no_image) = id" "user_safe_username example_user = ''jane''"
    by (simp_all add: example_launch_def example_user_def)
  ultimately show ?thesis
    by (intro launch_missing_project) (simp_all add: example_launch_def)
qed

definition created_reply :: "string \<Rightarrow> http_response" where
  "created_reply url = \<lparr>resp_status = 201, resp_headers = [], resp_body = Inr JNull\<rparr>"

definition secret_server :: user_server where
  "secret_server = example_server\<lparr>srv_user_secrets := Some \<lparr>us_name = ''jane-1-secret'', us_secret_ids = [''s1''], us_mount_path = ''/s''\<rparr>\<rparr>"

theorem secrets_all_created_witness:
  "accepted (example_launch created_reply) example_user (user_secret_payload ''renku'' (owner_reference ''jane-1'' (JStr ''u''))
     \<lparr>us_name = ''jane-1-secret'', us_secret_ids = [''s1''], us_mount_path = ''/s''\<rparr>)"
proof -
  have "create_secrets (example_launch created_reply) example_user secret_server (JStr ''u'') example_cluster = (Inr (), example_cluster)"
    by (simp add: create_secrets_def secret_server_def example_server_def create_secret_def http_post_def example_launch_facts
        created_reply_def bindC_eval catchC_eval Let_def)
  moreover have "preferred_namespace (sv_k8s (example_launch created_reply)) = ''renku''" by code_simp
  moreover have "srv_name secret_server = ''jane-1''" by (simp add: secret_server_def example_server_def)
  moreover have "srv_user_secrets secret_server = Some \<lparr>us_name = ''jane-1-secret'', us_secret_ids = [''s1''], us_mount_path = ''/s''\<rparr>"
    by (simp add: secret_server_def)
  ultimately show ?thesis using secrets_all_created by metis
qed

theorem failed_secret_deletes_session_witness:
  "\<exists>m. create_secret (example_launch no_image) example_user ''jane-a'' JNull ''User secrets'' example_cluster
     = (Inl (RuntimeError m), dremove ''jane-a'' example_cluster)"
proof (rule failed_secret_deletes_session)
  show "http_post (sv_http (example_launch no_image)) (secrets_storage_service_url (sv_cfg (example_launch no_image)) @ ''/api/secrets/kubernetes'')
             (Some [(''Authorization'', ''bearer '' @ (case user_access_token example_user of None \<Rightarrow> ''None'' | Some t \<Rightarrow> t))]) JNull example_cluster
      = (Inr (no_image []), example_cluster)"
    by (simp add: http_post_def example_launch_facts no_image_def)
  show "Inr (no_image []) = Inl (RequestsError ''ConnectionError'') \<or>
      (\<exists>r j. Inr (no_image []) = Inr r \<and> resp_status r \<noteq> 201 \<and> resp_body r = Inr j)"
    by (simp add: no_image_def)
  have "delete_server example_client ''jane-a'' ''jane'' True example_cluster = (Inr (), dremove ''jane-a'' example_cluster)"
    by code_simp
  then show "delete_server (sv_k8s (example_launch no_image)) ''jane-a'' (user_safe_username example_user) True example_cluster
      = (Inr (), dremove ''jane-a'' example_cluster)"
    by (simp only: example_launch_facts example_service_facts)
qed

end
