(* ===== verification/ClusterStore.thy ===== *)
theory ClusterStore
  imports HandlerFacts
begin

text \<open>
  The cluster client (\<open>api/classes/k8s_client.py\<close>) over a cluster that stores what it is sent: from the
  laws of the Kubernetes API for one namespace and of the cache follows one law per operation of the
  client, in terms of the sessions that the client sees in its two namespaces.
\<close>

section \<open>Computations that keep a view of the world\<close>

definition preserves :: "('w \<Rightarrow> 'v) \<Rightarrow> ('w, 'a) eff \<Rightarrow> bool" where
  "preserves v m \<longleftrightarrow> (\<forall>w r w'. m w = (r, w') \<longrightarrow> v w' = v w)"

lemma preservesD: "preserves v m \<Longrightarrow> m w = (r, w') \<Longrightarrow> v w' = v w"
  by (simp add: preserves_def)

lemma preserves_ret [intro, simp]: "preserves v (ret x)"
  by (simp add: preserves_def)

lemma preserves_raise [intro, simp]: "preserves v (raise e)"
  by (simp add: preserves_def)

lemma preserves_liftE [intro, simp]: "preserves v (liftE r)"
  by (auto simp: preserves_def split: sum.splits)

lemma preserves_bindC [intro]: "preserves v m \<Longrightarrow> (\<And>x. preserves v (f x)) \<Longrightarrow> preserves v (bindC m f)"
  unfolding preserves_def bindC_def by (auto split: prod.splits sum.splits)

lemma preserves_catchC [intro]: "preserves v m \<Longrightarrow> (\<And>e. preserves v (h e)) \<Longrightarrow> preserves v (catchC m h)"
  unfolding preserves_def catchC_def by (auto split: prod.splits sum.splits)

lemma preserves_catch_api [intro]: "preserves v m \<Longrightarrow> (\<And>st. preserves v (h st)) \<Longrightarrow> preserves v (catch_api m h)"
  unfolding catch_api_def by (rule preserves_catchC) (auto split: exc.splits)

lemma reads_only_keeps: "reads_only m \<Longrightarrow> preserves v m"
  by (auto simp: preserves_def dest: reads_onlyD)

section \<open>A cluster that stores what it is sent\<close>

text \<open>The objects of a world: for every namespace and name the object, if there is one.\<close>

type_synonym 'w cluster_view = "'w \<Rightarrow> string \<Rightarrow> string \<Rightarrow> json option"

definition put :: "(string \<Rightarrow> string \<Rightarrow> json option) \<Rightarrow> string \<Rightarrow> string \<Rightarrow> json option \<Rightarrow> string \<Rightarrow> string \<Rightarrow> json option" where
  "put V ns n x = V(ns := (V ns)(n := x))"

text \<open>
  The laws of one namespace.  A successful read returns the stored object; no object is there when the
  answer is 400 or 404.  A successful merge patch stores the merged object and returns it; a successful
  deletion removes the object.  Whatever fails changes nothing: any request may fail, and the API refuses
  patches that would make an object of another kind.  Stateful sets and secrets are not among the objects.
\<close>

definition faithful :: "'w cluster_view \<Rightarrow> 'w ns_client \<Rightarrow> bool" where
  "faithful v c \<longleftrightarrow>
     (\<forall>n w r w'. get_object c n w = (r, w') \<longrightarrow> v w' = v w
        \<and> (\<forall>j. r = Inr j \<longrightarrow> v w (namespace c) n = Some j)
        \<and> (\<forall>st. r = Inl (K8sApi st) \<and> st \<in> {400, 404} \<longrightarrow> v w (namespace c) n = None))
   \<and> (\<forall>n p w r w'. patch_merge c n p w = (r, w') \<longrightarrow>
        (case r of
           Inl _ \<Rightarrow> v w' = v w
         | Inr j \<Rightarrow> \<exists>m. v w (namespace c) n = Some m \<and> j = merge p m \<and> v w' = put (v w) (namespace c) n (Some j)))
   \<and> (\<forall>n g w r w'. delete_object c n g w = (r, w') \<longrightarrow>
        (case r of Inl _ \<Rightarrow> v w' = v w | Inr _ \<Rightarrow> v w' = put (v w) (namespace c) n None))
   \<and> (\<forall>n. preserves v (read_statefulset c n)) \<and> (\<forall>n p. preserves v (patch_statefulset_api c n p))
   \<and> (\<forall>n. preserves v (read_secret c n)) \<and> (\<forall>n p. preserves v (patch_secret c n p))"

text \<open>
  The laws of the cluster: both namespaces are faithful, every object is a session that names its
  namespace, and the cache, where it answers, answers what the namespaces hold.
\<close>

definition faithful_cluster :: "'w cluster_view \<Rightarrow> 'w k8s_client \<Rightarrow> bool" where
  "faithful_cluster v k \<longleftrightarrow>
     faithful v (renku_ns_client k) \<and> (\<forall>c. session_ns_client k = Some c \<longrightarrow> faithful v c)
   \<and> (\<forall>w ns n j. v w ns n = Some j \<longrightarrow>
        session_object j \<and> jpath j [''metadata'', ''namespace''] JNull = Inr (JStr ns))
   \<and> (\<forall>n w r w'. cache_get_server (js_cache_of k) n w = (r, w') \<longrightarrow> v w' = v w
        \<and> (\<forall>found. r = Inr found \<longrightarrow> (\<exists>w''. get_server_from_api k n w = (Inr found, w''))))"

text \<open>The session of a name: the namespace for sessions comes first.\<close>

definition sessions :: "'w k8s_client \<Rightarrow> (string \<Rightarrow> string \<Rightarrow> json option) \<Rightarrow> string \<Rightarrow> json option" where
  "sessions k V n =
     (case session_ns_client k of
        None \<Rightarrow> V (namespace (renku_ns_client k)) n
      | Some c \<Rightarrow> (case V (namespace c) n of Some j \<Rightarrow> Some j | None \<Rightarrow> V (namespace (renku_ns_client k)) n))"

text \<open>A namespace of the client in which alone the name is taken.\<close>

definition only_in :: "'w k8s_client \<Rightarrow> (string \<Rightarrow> string \<Rightarrow> json option) \<Rightarrow> string \<Rightarrow> 'w ns_client \<Rightarrow> json \<Rightarrow> bool" where
  "only_in k V n c j \<longleftrightarrow> V (namespace c) n = Some j
     \<and> (c = renku_ns_client k \<and> (\<forall>d. session_ns_client k = Some d \<longrightarrow> V (namespace d) n = None)
        \<or> session_ns_client k = Some c \<and> V (namespace (renku_ns_client k)) n = None)"

lemma session_object_truthy: "session_object j \<Longrightarrow> truthy j"
  by (auto simp: session_object_def)

lemma faithfulD:
  assumes "faithful v c"
  shows "get_object c n w = (r, w') \<Longrightarrow> v w' = v w
      \<and> (\<forall>j. r = Inr j \<longrightarrow> v w (namespace c) n = Some j)
      \<and> (\<forall>st. r = Inl (K8sApi st) \<and> st \<in> {400, 404} \<longrightarrow> v w (namespace c) n = None)"
    and "patch_merge c n p w = (r, w') \<Longrightarrow>
      (case r of
         Inl _ \<Rightarrow> v w' = v w
       | Inr j \<Rightarrow> \<exists>m. v w (namespace c) n = Some m \<and> j = merge p m \<and> v w' = put (v w) (namespace c) n (Some j))"
    and "delete_object c n g w = (q, w') \<Longrightarrow>
      (case q of Inl _ \<Rightarrow> v w' = v w | Inr _ \<Rightarrow> v w' = put (v w) (namespace c) n None)"
    and "preserves v (read_statefulset c n)" and "preserves v (patch_statefulset_api c n p)"
    and "preserves v (read_secret c n)" and "preserves v (patch_secret c n p)"
  using assms by (simp_all add: faithful_def)

lemma faithful_get:
  assumes "faithful v c" and "ns_get_server c n w = (r, w')"
  shows "v w' = v w \<and> (\<forall>found. r = Inr found \<longrightarrow> found = v w (namespace c) n)"
proof -
  obtain r0 w0 where g: "get_object c n w = (r0, w0)" by (cases "get_object c n w")
  from faithfulD(1) [OF assms(1) g] assms(2) g show ?thesis
    by (cases r0)
      (auto simp: ns_get_server_def catch_api_def catchC_eval bindC_eval split: exc.splits if_splits)
qed

lemma api_lookup:
  assumes "faithful_cluster v k" and "get_server_from_api k n w = (r, w')"
  shows "v w' = v w \<and> (\<forall>found. r = Inr found \<longrightarrow> found = sessions k (v w) n)
    \<and> (\<forall>j. r = Inr (Some j) \<longrightarrow> (\<exists>c. only_in k (v w) n c j))"
proof -
  from assms(1) have r: "faithful v (renku_ns_client k)"
    and s: "\<And>c. session_ns_client k = Some c \<Longrightarrow> faithful v c"
    and truthy: "\<And>w ns n j. v w ns n = Some j \<Longrightarrow> truthy j"
    unfolding faithful_cluster_def by (blast intro: session_object_truthy)+
  have it: "if_truthy x = (case x of None \<Rightarrow> [] | Some j \<Rightarrow> [j])" if "x = v w0 ns n" for x w0 ns
    using truthy [of w0 ns n] that by (auto simp: if_truthy_def split: option.split)
  show ?thesis
  proof (cases "session_ns_client k")
    case None
    obtain r2 w2 where g: "ns_get_server (renku_ns_client k) n w = (r2, w2)" by fastforce
    note f = faithful_get [OF r g]
    show ?thesis
    proof (cases r2)
      case (Inl e)
      with assms(2) g None f show ?thesis by (auto simp: get_server_from_api_def bindC_eval)
    next
      case (Inr y)
      with f have y: "y = v w (namespace (renku_ns_client k)) n" "v w2 = v w" by auto
      from assms(2) g None Inr have "r = Inr (case if_truthy y of [] \<Rightarrow> None | s # _ \<Rightarrow> Some s)" "w' = w2"
        by (cases y, auto simp: get_server_from_api_def bindC_eval Let_def if_truthy_def split: if_splits)
      with None y(2) show ?thesis
        unfolding it [OF y(1)] unfolding y(1)
        by (cases "v w (namespace (renku_ns_client k)) n") (simp_all add: sessions_def only_in_def)
    qed
  next
    case (Some c)
    obtain r1 w1 where g1: "ns_get_server c n w = (r1, w1)" by fastforce
    obtain r2 w2 where g2: "ns_get_server (renku_ns_client k) n w1 = (r2, w2)" by fastforce
    note f1 = faithful_get [OF s [OF Some] g1] and f2 = faithful_get [OF r g2]
    show ?thesis
    proof (cases r1)
      case (Inl e)
      with assms(2) g1 Some f1 show ?thesis by (auto simp: get_server_from_api_def bindC_eval)
    next
      case r1: (Inr x)
      show ?thesis
      proof (cases r2)
        case (Inl e)
        with assms(2) g1 g2 Some f1 f2 r1 show ?thesis by (auto simp: get_server_from_api_def bindC_eval)
      next
        case (Inr y)
        with r1 f1 f2 have x: "x = v w (namespace c) n" and y: "y = v w1 (namespace (renku_ns_client k)) n"
          and w: "v w1 = v w" "v w2 = v w" by auto
        have run: "get_server_from_api k n w =
          (if 1 < length (if_truthy x @ if_truthy y) then
             raise (api ProgrammingError (''Expected less than two results for searching for server '' @
               n @ '', but got '' @ show_nat (length (if_truthy x @ if_truthy y))))
           else ret (case if_truthy x @ if_truthy y of [] \<Rightarrow> None | s # _ \<Rightarrow> Some s)) w2"
          using g1 g2 r1 Inr by (simp add: get_server_from_api_def bindC_eval Let_def Some)
        show ?thesis
          using assms(2) Some w unfolding run it [OF x] it [OF y] unfolding x y w(1)
          by (cases "v w (namespace c) n"; cases "v w (namespace (renku_ns_client k)) n")
            (auto simp: sessions_def only_in_def)
      qed
    qed
  qed
qed

section \<open>The contract of the cluster client\<close>

text \<open>The session of a name, with the user's label.\<close>

definition owned :: "string \<Rightarrow> string \<Rightarrow> (string \<Rightarrow> json option) \<Rightarrow> string \<Rightarrow> json \<Rightarrow> bool" where
  "owned label u S n m \<longleftrightarrow> S n = Some m \<and> server_owner label m = Inr (JStr u)"

text \<open>
  What a handler may rely on: a lookup finds the user's session and changes nothing; a patch and a
  deletion need a session of the user's under that name, change that session and no other, and change
  nothing when they fail.
\<close>

locale session_store =
  fixes lookup :: "string \<Rightarrow> string \<Rightarrow> ('w, json option) eff"
    and patch :: "string \<Rightarrow> string \<Rightarrow> json \<Rightarrow> ('w, json) eff"
    and delete :: "string \<Rightarrow> string \<Rightarrow> bool \<Rightarrow> ('w, unit) eff"
    and label :: string and view :: "'w \<Rightarrow> string \<Rightarrow> json option" and ok :: bool
  assumes lookup_law: "ok \<Longrightarrow> lookup n u w = (r, w') \<Longrightarrow>
      view w' = view w \<and> (\<forall>m. r = Inr (Some m) \<longrightarrow> owned label u (view w) n m)
      \<and> (r = Inr None \<longrightarrow> \<not> (\<exists>m. owned label u (view w) n m))"
    and patch_law: "ok \<Longrightarrow> patch n u (JObj ps) w = (q, w') \<Longrightarrow>
      (case q of
         Inl _ \<Rightarrow> view w' = view w
       | Inr j \<Rightarrow> \<exists>m. owned label u (view w) n m \<and> j = merge (JObj ps) m \<and> view w' = (view w)(n := Some j))"
    and delete_law: "ok \<Longrightarrow> delete n u f w = (d, w') \<Longrightarrow>
      (case d of Inl _ \<Rightarrow> view w' = view w | Inr _ \<Rightarrow> (\<exists>m. owned label u (view w) n m) \<and> view w' = (view w)(n := None))"
begin

lemma lookup_keeps: "ok \<Longrightarrow> preserves view (lookup n u)"
  unfolding preserves_def using lookup_law by blast

end

lemma sessions_put:
  assumes "only_in k V n c j"
  shows "sessions k V n = Some j \<and> sessions k (put V (namespace c) n x) = (sessions k V)(n := x)"
  using assms by (auto simp: only_in_def sessions_def put_def fun_eq_iff split: option.splits)

lemma client_lookup:
  assumes "faithful_cluster v k" and "get_server k n u w = (r, w')"
  shows "v w' = v w \<and> (\<forall>m. r = Inr (Some m) \<longrightarrow>
    owned (username_label k) u (sessions k (v w)) n m \<and> (\<exists>c. only_in k (v w) n c m))
    \<and> (r = Inr None \<longrightarrow> \<not> (\<exists>m. owned (username_label k) u (sessions k (v w)) n m))"
proof -
  have cache: "v w1 = v w \<and> (\<forall>found. r1 = Inr found \<longrightarrow> (\<exists>w''. get_server_from_api k n w = (Inr found, w'')))"
    if "cache_get_server (js_cache_of k) n w = (r1, w1)" for w r1 w1
    using assms(1) that unfolding faithful_cluster_def by blast
  obtain r1 w1 where c: "cache_get_server (js_cache_of k) n w = (r1, w1)" by fastforce
  obtain r2 w2 where o: "or_bypass k (cache_get_server (js_cache_of k) n) (get_server_from_api k n) w = (r2, w2)" by fastforce
  obtain r3 w3 where a: "get_server_from_api k n w1 = (r3, w3)" by fastforce
  have cw: "v w1 = v w" using cache [OF c] ..
  have w2: "v w2 = v w"
    using o c a cw api_lookup [OF assms(1) a] by (cases r1) (auto simp: or_bypass_def catchC_eval split: if_splits)
  have found: "x = sessions k (v w) n \<and> (\<forall>j. x = Some j \<longrightarrow> (\<exists>c. only_in k (v w) n c j))" if x: "r2 = Inr x" for x
  proof (cases r1)
    case (Inl e)
    with o c a x have "r3 = Inr x" by (auto simp: or_bypass_def catchC_eval split: if_splits)
    with api_lookup [OF assms(1) a] cw show ?thesis by auto
  next
    case (Inr y)
    with o c x have "r1 = Inr x" by (simp add: or_bypass_def catchC_eval)
    with cache [OF c] obtain w'' where "get_server_from_api k n w = (Inr x, w'')" by blast
    from api_lookup [OF assms(1) this] show ?thesis by auto
  qed
  have r: "r = bindE r2 (owned_by (username_label k) u)" "w' = w2"
    using assms(2) o by (cases r2; auto simp: get_server_def bindC_eval split: sum.splits)+
  have "owned (username_label k) u (sessions k (v w)) n m \<and> (\<exists>c. only_in k (v w) n c m)" if m: "r = Inr (Some m)" for m
  proof -
    from m r obtain x where x: "r2 = Inr x" "owned_by (username_label k) u x = Inr (Some m)"
      by (auto simp: bindE_Inr_iff)
    from owned_by_Some [OF x(2)] have xm: "x = Some m" and own: "truthy m \<Longrightarrow> server_owner (username_label k) m = Inr (JStr u)"
      by auto
    from found [OF x(1)] xm obtain c where c: "only_in k (v w) n c m" by blast
    then have "truthy m"
      using assms(1) unfolding faithful_cluster_def only_in_def by (blast intro: session_object_truthy)
    with own c sessions_put [OF c] show ?thesis by (auto simp: owned_def)
  qed
  moreover have "\<not> owned (username_label k) u (sessions k (v w)) n m" if "r = Inr None" for m
  proof
    assume own: "owned (username_label k) u (sessions k (v w)) n m"
    from that r obtain x where x: "r2 = Inr x" "owned_by (username_label k) u x = Inr None"
      by (auto simp: bindE_Inr_iff)
    with found [OF x(1)] own show False by (auto simp: owned_def owned_by_def split: if_splits)
  qed
  ultimately show ?thesis using w2 r(2) by blast
qed

text \<open>The client of the namespace that an object names is the one that stores it.\<close>

lemma with_namespace_of_found:
  assumes "faithful_cluster v k" and "only_in k (v w) n c m"
  shows "with_namespace_of k m act = act c" and "faithful v c"
proof -
  from assms have ns: "jpath m [''metadata'', ''namespace''] JNull = Inr (JStr (namespace c))"
    unfolding faithful_cluster_def only_in_def by blast
  from assms(2) have c: "c = renku_ns_client k \<or> session_ns_client k = Some c \<and> namespace c \<noteq> namespace (renku_ns_client k)"
    by (auto simp: only_in_def)
  then show "with_namespace_of k m act = act c"
    by (auto simp: with_namespace_of_def ns fun_eq_iff bindC_eval simp del: jpath.simps)
  from c assms(1) show "faithful v c" unfolding faithful_cluster_def by blast
qed

lemma client_guarded:
  assumes "faithful_cluster v k"
    and "guarded (get_server k n u) missing (\<lambda>m. with_namespace_of k m act) w = (r, w')"
  obtains e where "r = Inl e" "v w' = v w"
  | m c w1 where "owned (username_label k) u (sessions k (v w)) n m" "only_in k (v w) n c m" "v w1 = v w"
      "faithful v c" "act c w1 = (r, w')"
proof -
  obtain r0 w0 where g: "get_server k n u w = (r0, w0)" by fastforce
  note l = client_lookup [OF assms(1) g]
  show thesis
  proof (cases "\<exists>m. r0 = Inr (Some m) \<and> truthy m")
    case True
    then obtain m where m: "r0 = Inr (Some m)" "truthy m" by blast
    with l obtain c where c: "only_in k (v w) n c m" and own: "owned (username_label k) u (sessions k (v w)) n m" by blast
    note f = with_namespace_of_found [OF assms(1) c]
    have "act c w0 = (r, w')" using assms(2) g m by (simp add: guarded_def bindC_eval f(1))
    with that(2) own c l f(2) show thesis by blast
  next
    case False
    with assms(2) g l that(1) show thesis
      by (auto simp: guarded_def bindC_def split: sum.splits option.splits if_splits)
  qed
qed

lemma client_patch:
  assumes "faithful_cluster v k" and "K8sClient.patch_server k n u (JObj ps) w = (r, w')"
  shows "case r of
      Inl _ \<Rightarrow> v w' = v w
    | Inr j \<Rightarrow> \<exists>m. owned (username_label k) u (sessions k (v w)) n m \<and> j = merge (JObj ps) m
        \<and> sessions k (v w') = (sessions k (v w))(n := Some j)"
  using assms(2) unfolding K8sClient.patch_server_def
proof (rule client_guarded [OF assms(1)])
  fix m c w1
  assume own: "owned (username_label k) u (sessions k (v w)) n m" and c: "only_in k (v w) n c m"
    and w1: "v w1 = v w" and f: "faithful v c" and a: "ns_patch_server c n (JObj ps) w1 = (r, w')"
  obtain r2 w2 where p: "patch_merge c n (JObj ps) w1 = (r2, w2)" by fastforce
  have m: "v w (namespace c) n = Some m" using c by (simp add: only_in_def)
  show ?thesis
    using a p faithfulD(2) [OF f p] own sessions_put [OF c] w1 m
    by (cases r2) (auto simp: ns_patch_server_def catch_api_def catchC_eval split: exc.splits simp del: merge.simps)
qed auto

lemma client_delete:
  assumes "faithful_cluster v k" and "delete_server k n u f w = (r, w')"
  shows "case r of
      Inl _ \<Rightarrow> v w' = v w
    | Inr _ \<Rightarrow> (\<exists>m. owned (username_label k) u (sessions k (v w)) n m)
        \<and> sessions k (v w') = (sessions k (v w))(n := None)"
  using assms(2) unfolding delete_server_def
proof (rule client_guarded [OF assms(1)])
  fix m c w1
  assume own: "owned (username_label k) u (sessions k (v w)) n m" and c: "only_in k (v w) n c m"
    and w1: "v w1 = v w" and fc: "faithful v c" and a: "bindC (ns_delete_server c n f) (\<lambda>_. ret ()) w1 = (r, w')"
  obtain r2 w2 where p: "delete_object c n (if f then Some 0 else None) w1 = (r2, w2)" by fastforce
  show ?thesis
    using a p faithfulD(3) [OF fc p] own sessions_put [OF c] w1
    by (cases r2) (auto simp: ns_delete_server_def catch_api_def catchC_def bindC_def split: exc.splits)
qed auto

interpretation store: session_store "get_server k" "K8sClient.patch_server k" "delete_server k" "username_label k"
    "\<lambda>w. sessions k (v w)" "faithful_cluster v k" for k :: "'w k8s_client" and v :: "'w cluster_view"
proof unfold_locales
  show "sessions k (v w') = sessions k (v w) \<and> (\<forall>m. r = Inr (Some m) \<longrightarrow> owned (username_label k) u (sessions k (v w)) n m)
      \<and> (r = Inr None \<longrightarrow> \<not> (\<exists>m. owned (username_label k) u (sessions k (v w)) n m))"
    if "faithful_cluster v k" "get_server k n u w = (r, w')" for n u w r w'
    using client_lookup [OF that] by simp
  show "case r of
      Inl _ \<Rightarrow> sessions k (v w') = sessions k (v w)
    | Inr j \<Rightarrow> \<exists>m. owned (username_label k) u (sessions k (v w)) n m \<and> j = merge (JObj ps) m
        \<and> sessions k (v w') = (sessions k (v w))(n := Some j)"
    if "faithful_cluster v k" "K8sClient.patch_server k n u (JObj ps) w = (r, w')" for n u ps w r w'
    using client_patch [OF that] by (auto split: sum.splits)
  show "case r of Inl _ \<Rightarrow> sessions k (v w') = sessions k (v w)
    | Inr _ \<Rightarrow> (\<exists>m. owned (username_label k) u (sessions k (v w)) n m) \<and> sessions k (v w') = (sessions k (v w))(n := None)"
    if "faithful_cluster v k" "delete_server k n u f w = (r, w')" for n u f w r w'
    using client_delete [OF that] by (auto split: sum.splits)
qed

end
