(* ===== verification/Lifecycle.thy ===== *)
theory Lifecycle
  imports ClusterStore
begin

text \<open>
  The life of a session as an abstract machine, and the handlers of \<open>api/notebooks.py\<close> that implement it:
  hibernating, resuming and stopping a session.
\<close>

section \<open>The life of a session\<close>

datatype session_request = Hibernate | Resume | Stop bool

text \<open>The requests by the handlers that serve them.\<close>

definition handle_request :: "'w service \<Rightarrow> user \<Rightarrow> string \<Rightarrow> session_request \<Rightarrow> ('w, unit) eff" where
  "handle_request sv u n q =
     (case q of
        Hibernate \<Rightarrow> bindC (patch_server sv u n \<lparr>pb_state = Some ''hibernated'', pb_resource_class_id = None\<rparr>) (\<lambda>_. ret ())
      | Resume \<Rightarrow> bindC (patch_server sv u n \<lparr>pb_state = Some ''running'', pb_resource_class_id = None\<rparr>) (\<lambda>_. ret ())
      | Stop forced \<Rightarrow> bindC (stop_server sv u forced n) (\<lambda>_. ret ()))"

text \<open>The abstract machine: what a request of a user for a name does to the sessions.\<close>

inductive session_step ::
  "string \<Rightarrow> string \<Rightarrow> string \<Rightarrow> session_request \<Rightarrow> (string \<Rightarrow> json option) \<Rightarrow> (string \<Rightarrow> json option) \<Rightarrow> bool"
  for label u n where
  hibernated: "owned label u S n m \<Longrightarrow> session_step label u n Hibernate S (S(n := Some (merge (hibernation_patch h now) m)))"
| already_hibernated: "owned label u S n m \<Longrightarrow> currently_hibernated (Some m) = Inr True \<Longrightarrow>
    session_step label u n Hibernate S S"
| resumed: "owned label u S n m \<Longrightarrow> session_step label u n Resume S (S(n := Some (merge resume_patch m)))"
| stopped: "owned label u S n m \<Longrightarrow> session_step label u n (Stop forced) S (S(n := None))"

inductive_cases session_step_elims:
  "session_step label u n Hibernate S S'" "session_step label u n Resume S S'" "session_step label u n (Stop f) S S'"

text \<open>A computation that takes a step, or fails and leaves the view alone.\<close>

definition performs :: "('w \<Rightarrow> 'v) \<Rightarrow> ('v \<Rightarrow> 'v \<Rightarrow> bool) \<Rightarrow> ('w, 'a) eff \<Rightarrow> bool" where
  "performs v P m \<longleftrightarrow> (\<forall>w r w'. m w = (r, w') \<longrightarrow> P (v w) (v w') \<or> (\<exists>e. r = Inl e) \<and> v w' = v w)"

lemma performsD: "performs v P m \<Longrightarrow> m w = (r, w') \<Longrightarrow> P (v w) (v w') \<or> (\<exists>e. r = Inl e) \<and> v w' = v w"
  unfolding performs_def by blast

lemma performs_raise [intro, simp]: "performs v P (raise e)"
  by (simp add: performs_def)

lemma performs_after [intro]: "preserves v m \<Longrightarrow> (\<And>x. performs v P (f x)) \<Longrightarrow> performs v P (bindC m f)"
  unfolding preserves_def performs_def bindC_def by (auto split: prod.splits sum.splits) metis+

lemma performs_before [intro]: "performs v P m \<Longrightarrow> (\<And>x. preserves v (f x)) \<Longrightarrow> performs v P (bindC m f)"
  unfolding preserves_def performs_def bindC_def by (auto split: prod.splits sum.splits)

lemma performs_mono: "performs v P m \<Longrightarrow> (\<And>S S'. P S S' \<Longrightarrow> Q S S') \<Longrightarrow> performs v Q m"
  unfolding performs_def by blast

abbreviation sessions_of :: "'w service \<Rightarrow> 'w cluster_view \<Rightarrow> 'w \<Rightarrow> string \<Rightarrow> json option" where
  "sessions_of sv v w \<equiv> sessions (sv_k8s sv) (v w)"

definition quiet_environment :: "'w cluster_view \<Rightarrow> 'w service \<Rightarrow> bool" where
  "quiet_environment v sv \<longleftrightarrow> (\<forall>rq. preserves v (sv_http sv rq)) \<and> preserves v (sv_clock sv)"

lemma sessions_object: "faithful_cluster v k \<Longrightarrow> sessions k (v w) n = Some m \<Longrightarrow> session_object m"
  unfolding faithful_cluster_def by (auto simp: sessions_def split: option.splits)

lemma preserves_sessions: "preserves v m \<Longrightarrow> preserves (\<lambda>w. sessions k (v w)) m"
  by (simp add: preserves_def)

lemma preserves_respond: "quiet_environment v sv \<Longrightarrow> preserves v (respond sv m)"
  unfolding respond_def quiet_environment_def by auto

lemma preserves_repository_status: "quiet_environment v sv \<Longrightarrow> preserves v (repository_status sv n t)"
  unfolding repository_status_def http_post_def quiet_environment_def
  by (intro preserves_bindC preserves_catchC) (auto split: option.split)

lemma preserves_patch_tokens:
  assumes "faithful_cluster v k"
  shows "preserves v (patch_tokens k n t g)"
proof -
  have f: "faithful v (preferred_client k)"
    using assms by (auto simp: faithful_cluster_def preferred_client_def split: option.split)
  show ?thesis
    unfolding patch_tokens_def ns_patch_statefulset_tokens_def ns_patch_image_pull_secret_def Let_def
    by (intro preserves_bindC preserves_catch_api faithfulD(4,6) [OF f])
      (auto intro!: preserves_bindC faithfulD(5,7) [OF f] split: option.split)
qed

lemma patch_performs:
  assumes "faithful_cluster v (sv_k8s sv)"
  shows "performs (sessions_of sv v) (\<lambda>S S'. \<exists>m. owned (username_label (sv_k8s sv)) u S n m \<and> S' = S(n := Some (merge (JObj ps) m)))
    (K8sClient.patch_server (sv_k8s sv) n u (JObj ps))"
  unfolding performs_def
proof (intro allI impI)
  fix w r w'
  assume "K8sClient.patch_server (sv_k8s sv) n u (JObj ps) w = (r, w')"
  from store.patch_law [OF assms this]
  show "(\<exists>m. owned (username_label (sv_k8s sv)) u (sessions_of sv v w) n m
        \<and> sessions_of sv v w' = (sessions_of sv v w)(n := Some (merge (JObj ps) m)))
    \<or> (\<exists>e. r = Inl e) \<and> sessions_of sv v w' = sessions_of sv v w"
    by (cases r) (auto simp del: merge.simps)
qed

lemma hibernate_performs:
  assumes "faithful_cluster v (sv_k8s sv)" and "quiet_environment v sv"
  shows "performs (sessions_of sv v)
    (session_step (username_label (sv_k8s sv)) (user_safe_username u) n Hibernate) (hibernate sv u n server)"
proof -
  have p: "performs (sessions_of sv v) (session_step (username_label (sv_k8s sv)) (user_safe_username u) n Hibernate)
      (K8sClient.patch_server (sv_k8s sv) n (user_safe_username u) (hibernation_patch h now))" for h now
    using patch_performs [OF assms(1), of "user_safe_username u" n]
    unfolding hibernation_patch_eq
    by (rule performs_mono) (auto intro: hibernated simp flip: hibernation_patch_eq)
  have k: "preserves (sessions_of sv v) (repository_status sv n t)" "preserves (sessions_of sv v) (sv_clock sv)" for t
    using assms(2) preserves_repository_status [OF assms(2)] by (simp_all add: preserves_sessions quiet_environment_def)
  show ?thesis
    unfolding hibernate_def by (intro performs_after p k preserves_liftE) (auto intro: k)
qed

lemma resume_performs:
  assumes "faithful_cluster v (sv_k8s sv)"
  shows "performs (sessions_of sv v)
    (session_step (username_label (sv_k8s sv)) (user_safe_username u) n Resume) (resume sv u n)"
proof -
  have p: "performs (sessions_of sv v) (session_step (username_label (sv_k8s sv)) (user_safe_username u) n Resume)
      (K8sClient.patch_server (sv_k8s sv) n (user_safe_username u) resume_patch)"
    using patch_performs [OF assms(1), of "user_safe_username u" n]
    unfolding resume_patch_def
    by (rule performs_mono) (auto intro: resumed simp flip: resume_patch_def)
  show ?thesis
    unfolding resume_def by (intro performs_after p preserves_sessions preserves_patch_tokens assms)
qed


text \<open>A patch without a resource class: the lookup, the change, the response.\<close>

definition answer_patched :: "'w service \<Rightarrow> user \<Rightarrow> string \<Rightarrow> string \<Rightarrow> json option \<Rightarrow> ('w, json \<times> int) eff" where
  "answer_patched sv u n state server =
     bindC (patched_server sv u n \<lparr>pb_state = Some state, pb_resource_class_id = None\<rparr> server server) (\<lambda>answer.
     case answer of
       None \<Rightarrow> raise (TypeError ''NoneType object is not subscriptable'')
     | Some m \<Rightarrow> bindC (respond sv m) (\<lambda>j. ret (j, 200)))"

lemma patch_server_run:
  assumes "patch_server sv u n \<lparr>pb_state = Some state, pb_resource_class_id = None\<rparr> w = (r, w')"
    and "get_server (sv_k8s sv) n (user_safe_username u) w = (r0, w0)"
  shows "(\<exists>server. r0 = Inr server \<and> answer_patched sv u n state server w0 = (r, w'))
    \<or> (\<exists>e. r = Inl e) \<and> (w' = w \<or> w' = w0)"
proof (cases r0)
  case (Inl e)
  with assms show ?thesis by (auto simp: patch_server_def bindC_eval split: if_splits)
next
  case (Inr server)
  with assms show ?thesis
    by (cases "currently_hibernated server"; cases "currently_failing server")
      (auto simp: patch_server_def answer_patched_def bindC_eval Let_def split: if_splits)
qed

lemma preserves_answer:
  assumes "quiet_environment v sv"
  shows "preserves v (case answer of None \<Rightarrow> raise (TypeError ''NoneType object is not subscriptable'')
     | Some m \<Rightarrow> bindC (respond sv m) (\<lambda>j. ret (j, 200 :: int)))"
  by (auto split: option.split intro!: preserves_bindC preserves_respond assms)

lemma answer_performs:
  assumes "faithful_cluster v (sv_k8s sv)" and "quiet_environment v sv"
    and "(q, state) \<in> {(Hibernate, ''hibernated''), (Resume, ''running'')}"
    and "q = Hibernate \<Longrightarrow> currently_hibernated server \<noteq> Inr True"
  shows "performs (sessions_of sv v) (session_step (username_label (sv_k8s sv)) (user_safe_username u) n q)
    (answer_patched sv u n state server)"
  unfolding answer_patched_def
proof (rule performs_before)
  show "performs (sessions_of sv v) (session_step (username_label (sv_k8s sv)) (user_safe_username u) n q)
    (patched_server sv u n \<lparr>pb_state = Some state, pb_resource_class_id = None\<rparr> server server)"
    using assms(3, 4) hibernate_performs [OF assms(1, 2), of u n server] resume_performs [OF assms(1), of u n]
    by (cases "currently_hibernated server")
      (auto simp: patched_server_def intro!: performs_after performs_before)
qed (rule preserves_sessions, rule preserves_answer [OF assms(2)])

lemma patched_performs:
  assumes "faithful_cluster v (sv_k8s sv)" and "quiet_environment v sv"
    and "(q, state) \<in> {(Hibernate, ''hibernated''), (Resume, ''running'')}"
  shows "performs (sessions_of sv v) (session_step (username_label (sv_k8s sv)) (user_safe_username u) n q)
    (patch_server sv u n \<lparr>pb_state = Some state, pb_resource_class_id = None\<rparr>)"
  unfolding performs_def
proof (intro allI impI)
  let ?step = "session_step (username_label (sv_k8s sv)) (user_safe_username u) n q" and ?S = "sessions_of sv v"
  fix w r w'
  assume run: "patch_server sv u n \<lparr>pb_state = Some state, pb_resource_class_id = None\<rparr> w = (r, w')"
  obtain r0 w0 where g: "get_server (sv_k8s sv) n (user_safe_username u) w = (r0, w0)" by fastforce
  note l = store.lookup_law [OF assms(1) g]
  from patch_server_run [OF run g]
  show "?step (?S w) (?S w') \<or> (\<exists>e. r = Inl e) \<and> ?S w' = ?S w"
  proof (elim disjE exE conjE)
    fix server
    assume r0: "r0 = Inr server" and rest: "answer_patched sv u n state server w0 = (r, w')"
    show ?thesis
    proof (cases "q = Hibernate \<and> currently_hibernated server = Inr True")
      case True
      then obtain m where m: "server = Some m" by (cases server) (simp_all add: currently_hibernated_def py_get_def)
      with l r0 True have own: "owned (username_label (sv_k8s sv)) (user_safe_username u) (?S w) n m" by simp
      then have "truthy m"
        using sessions_object [OF assms(1)] by (auto simp: owned_def intro: session_object_truthy)
      with True m assms(3) have "answer_patched sv u n state server =
          bindC (respond sv m) (\<lambda>j. ret (j, 200))"
        by (simp add: answer_patched_def patched_server_def present_def bindC_eval fun_eq_iff)
      then have "preserves v (answer_patched sv u n state server)"
        by (auto intro!: preserves_respond assms(2))
      from preservesD [OF this rest] l have "?S w' = ?S w" by simp
      with own True m show ?thesis by (auto intro: already_hibernated)
    next
      case False
      then have "performs ?S ?step (answer_patched sv u n state server)"
        by (intro answer_performs assms) blast
      from performsD [OF this rest] l show ?thesis by simp
    qed
  qed (use l in auto)
qed

text \<open>Where a session is in its life, for a user.\<close>

datatype phase = Absent | Running | Hibernated

definition phase_of :: "string \<Rightarrow> string \<Rightarrow> (string \<Rightarrow> json option) \<Rightarrow> string \<Rightarrow> phase" where
  "phase_of label u S n =
     (case S n of
        None \<Rightarrow> Absent
      | Some m \<Rightarrow>
          if server_owner label m \<noteq> Inr (JStr u) then Absent
          else if currently_hibernated (Some m) = Inr True then Hibernated else Running)"

fun phase_after :: "session_request \<Rightarrow> phase" where
  "phase_after Hibernate = Hibernated"
| "phase_after Resume = Running"
| "phase_after (Stop forced) = Absent"

lemma owned_phase: "owned label u S n m \<Longrightarrow> phase_of label u S n \<noteq> Absent"
  by (simp add: owned_def phase_of_def)

lemma merge_owner:
  assumes "session_object m"
  shows "server_owner label (merge (hibernation_patch h now) m) = server_owner label m"
    and "server_owner label (merge resume_patch m) = server_owner label m"
  using assms
  by (auto simp: session_object_def server_owner_def hibernation_patch_eq resume_patch_def)

lemma step_phase:
  assumes "session_step label u n q S S'" and "\<And>m. S n = Some m \<Longrightarrow> session_object m"
  shows "phase_of label u S n \<noteq> Absent \<and> phase_of label u S' n = phase_after q \<and> (\<forall>n'. n' \<noteq> n \<longrightarrow> S' n' = S n')"
  using assms
proof (induction rule: session_step.induct)
  case (hibernated S m h now)
  then have m: "session_object m" by (simp add: owned_def)
  with merge_hibernation [OF m, of h now] hibernated show ?case
    by (auto simp: phase_of_def owned_def merge_owner simp del: merge.simps)
next
  case (already_hibernated S m)
  then show ?case by (simp add: phase_of_def owned_def)
next
  case (resumed S m)
  then have m: "session_object m" by (simp add: owned_def)
  with merge_spec [OF m, of resume_patch False] resumed show ?case
    by (auto simp: phase_of_def owned_def merge_owner resume_patch_def [symmetric] simp del: merge.simps)
next
  case (stopped S m)
  then show ?case by (auto simp: phase_of_def owned_def)
qed

lemma handle_request_performs:
  assumes "faithful_cluster v (sv_k8s sv)" and "quiet_environment v sv"
  shows "performs (sessions_of sv v)
    (session_step (username_label (sv_k8s sv)) (user_safe_username u) n q) (handle_request sv u n q)"
proof (cases q)
  case (Stop forced)
  have "performs (sessions_of sv v)
    (session_step (username_label (sv_k8s sv)) (user_safe_username u) n q)
    (delete_server (sv_k8s sv) n (user_safe_username u) forced)"
    unfolding performs_def Stop
  proof (intro allI impI)
    fix w r w'
    assume "delete_server (sv_k8s sv) n (user_safe_username u) forced w = (r, w')"
    from store.delete_law [OF assms(1) this]
    show "session_step (username_label (sv_k8s sv)) (user_safe_username u) n (Stop forced) (sessions_of sv v w) (sessions_of sv v w')
      \<or> (\<exists>e. r = Inl e) \<and> sessions_of sv v w' = sessions_of sv v w"
      by (cases r) (auto intro: stopped)
  qed
  with Stop show ?thesis by (auto simp: handle_request_def stop_server_def)
qed (auto simp: handle_request_def intro!: performs_before patched_performs assms)


section \<open>Other users\<close>

lemma step_other_owner:
  assumes "session_step label u n q S S'" and "owned label u' S n' m" and "u' \<noteq> u"
  shows "owned label u' S' n' m"
  using assms by (induction rule: session_step.induct) (auto simp: owned_def)

lemma others_keep:
  assumes "faithful_cluster v (sv_k8s sv)" and "quiet_environment v sv"
    and "owned (username_label (sv_k8s sv)) owner (sessions_of sv v w) n m" and "user_safe_username u \<noteq> owner"
    and "handle_request sv u n' q w = (r, w')"
  shows "owned (username_label (sv_k8s sv)) owner (sessions_of sv v w') n m"
proof -
  from performsD [OF handle_request_performs [OF assms(1, 2)] assms(5)]
  have "session_step (username_label (sv_k8s sv)) (user_safe_username u) n' q (sessions_of sv v w) (sessions_of sv v w')
    \<or> sessions_of sv v w' = sessions_of sv v w" by blast
  with assms(3, 4) show ?thesis by (auto dest: step_other_owner)
qed

section \<open>Examples\<close>

text \<open>
  A cluster of one namespace that takes only sessions of that namespace, without a cache.
\<close>

definition is_object :: "json res \<Rightarrow> bool" where
  "is_object r \<longleftrightarrow> (case r of Inr (JObj _) \<Rightarrow> True | _ \<Rightarrow> False)"

lemma is_object_iff: "is_object r \<longleftrightarrow> (\<exists>d. r = Inr (JObj d))"
  by (auto simp: is_object_def split: sum.splits json.splits)

definition valid_session :: "json \<Rightarrow> bool" where
  "valid_session j \<longleftrightarrow>
     is_object (jitems j [''metadata'', ''annotations'']) \<and> is_object (jitems j [''spec'', ''jupyterServer''])
     \<and> jpath j [''metadata'', ''namespace''] JNull = Inr (JStr ''renku'')"

definition strict_view :: "cluster cluster_view" where
  "strict_view w ns n =
     (if ns = ''renku'' then (case dget w n of Some j \<Rightarrow> if valid_session j then Some j else None | None \<Rightarrow> None) else None)"

definition strict_client :: "cluster ns_client" where
  "strict_client =
     \<lparr>namespace = ''renku'',
      get_object = (\<lambda>n w. case strict_view w ''renku'' n of Some j \<Rightarrow> (Inr j, w) | None \<Rightarrow> (Inl (K8sApi 404), w)),
      list_objects = (\<lambda>_. raise (K8sApi 404)), create_object = mem_create, patch_json = mem_patch,
      patch_merge = (\<lambda>n p w. case strict_view w ''renku'' n of
          None \<Rightarrow> (Inl (K8sApi 404), w)
        | Some m \<Rightarrow> if valid_session (merge p m) then (Inr (merge p m), dset n (merge p m) w) else (Inl (K8sApi 422), w)),
      delete_object = (\<lambda>n g w. case strict_view w ''renku'' n of
          None \<Rightarrow> (Inl (K8sApi 404), w) | Some m \<Rightarrow> (Inr m, dremove n w)),
      read_statefulset = (\<lambda>_. raise (K8sApi 404)), patch_statefulset_api = (\<lambda>_ _. raise (K8sApi 404)),
      read_secret = (\<lambda>_. raise (K8sApi 404)), patch_secret = (\<lambda>_ _. raise (K8sApi 404)),
      read_pod_log = (\<lambda>_ _ _. raise (K8sApi 404))\<rparr>"

definition strict_service :: "cluster service" where
  "strict_service = example_service\<lparr>sv_k8s := example_client\<lparr>renku_ns_client := strict_client\<rparr>\<rparr>"

lemma strict_facts:
  "sv_k8s strict_service = example_client\<lparr>renku_ns_client := strict_client\<rparr>"
  "username_label example_client = ''renku.io/safe-username''"
  by (simp_all add: strict_service_def example_client_def)

lemma valid_session_object:
  assumes "valid_session j"
  shows "session_object j" and "jpath j [''metadata'', ''namespace''] JNull = Inr (JStr ''renku'')"
proof -
  from assms obtain a js where a: "jitems j [''metadata'', ''annotations''] = Inr (JObj a)"
    "jitems j [''spec'', ''jupyterServer''] = Inr (JObj js)"
    and ns: "jpath j [''metadata'', ''namespace''] JNull = Inr (JStr ''renku'')"
    unfolding valid_session_def is_object_iff by blast
  from a obtain d meta spec where "j = JObj d" "dget d ''metadata'' = Some (JObj meta)" "dget meta ''annotations'' = Some (JObj a)"
    "dget d ''spec'' = Some (JObj spec)" "dget spec ''jupyterServer'' = Some (JObj js)"
    by (auto simp: bindE_Inr_iff jitem_Inr_iff)
  then show "session_object j" unfolding session_object_def by blast
  show "jpath j [''metadata'', ''namespace''] JNull = Inr (JStr ''renku'')" by (fact ns)
qed

lemma strict_view_changes:
  "valid_session j \<Longrightarrow> strict_view (dset n j w) = put (strict_view w) ''renku'' n (Some j)"
  "strict_view (dremove n w) = put (strict_view w) ''renku'' n None"
  by (auto simp: strict_view_def put_def fun_eq_iff)

lemma strict_faithful: "faithful strict_view strict_client"
  unfolding faithful_def
proof (intro conjI allI impI; (elim conjE)?)
  fix n p w r w'
  assume "patch_merge strict_client n p w = (r, w')"
  then show "case r of
           Inl _ \<Rightarrow> strict_view w' = strict_view w
         | Inr j \<Rightarrow> \<exists>m. strict_view w (namespace strict_client) n = Some m \<and> j = merge p m
             \<and> strict_view w' = put (strict_view w) (namespace strict_client) n (Some j)"
    by (auto simp: strict_client_def strict_view_changes split: option.splits if_splits simp del: merge.simps)
next
  fix n g w r w'
  assume "delete_object strict_client n g w = (r, w')"
  then show "case r of Inl _ \<Rightarrow> strict_view w' = strict_view w
      | Inr _ \<Rightarrow> strict_view w' = put (strict_view w) (namespace strict_client) n None"
    by (auto simp: strict_client_def strict_view_changes split: option.splits)
qed (auto simp: strict_client_def preserves_def split: option.splits)

lemma strict_cluster: "faithful_cluster strict_view (sv_k8s strict_service)"
proof -
  have "cache_get_server (js_cache_of (example_client\<lparr>renku_ns_client := strict_client\<rparr>)) n w = (Inl cache_unavailable, w)" for n w
    by (simp add: cache_get_server_def catch_requests_def http_get_def example_client_def bindC_eval catchC_eval)
  then show ?thesis
    using strict_faithful
    by (auto simp: faithful_cluster_def strict_facts example_client_def strict_view_def valid_session_object
        split: if_splits option.splits simp del: jpath.simps)
qed

lemma strict_quiet: "quiet_environment v strict_service"
  by (simp add: quiet_environment_def strict_service_def example_service_def)

definition strict_session :: json where
  "strict_session =
     JObj [(''metadata'', JObj [(''name'', JStr ''jane-a''), (''namespace'', JStr ''renku''),
         (''labels'', JObj [(''renku.io/safe-username'', JStr ''jane'')]), (''annotations'', JObj [])]),
       (''spec'', JObj [(''jupyterServer'', JObj [(''image'', JStr ''img''), (''hibernated'', JBool False)])])]"


end
