(* ===== verification/LaunchRun.thy ===== *)
theory LaunchRun
  imports LaunchFacts Lifecycle
begin

text \<open>
  A launch from end to end: what has happened when the service answers that it has created a
  session, composed from the facts about the preparation, the manifest, the cluster client, the
  secrets and the response.
\<close>

section \<open>The parts\<close>

lemma resolve_repositories_keeps:
  "resolve_repositories fetch s w = (Inr s', w') \<Longrightarrow> srv_name s' = srv_name s \<and> srv_user s' = srv_user s"
  by (auto simp: resolve_repositories_def with_providers_def bindC_Inr_iff split: if_splits)

lemma get_session_manifest_InrD:
  assumes "get_session_manifest cfg fetch s w = (Inr m, w')"
  obtains s' ps where "m = manifest_json cfg s' ps" "srv_name s' = srv_name s" "srv_user s' = srv_user s"
proof -
  from assms obtain ps s' w1 where "get_patches cfg fetch s w = (Inr (ps, s'), w1)" "m = manifest_json cfg s' ps"
    by (auto simp: get_session_manifest_def bindC_Inr_iff)
  then show thesis
    using that [of s' ps] by (auto simp: get_patches_def bindC_Inr_iff split: if_splits dest!: resolve_repositories_keeps)
qed

lemma start_InrD:
  assumes "start cfg k gl fetch s w = (Inr r, w')"
  obtains w1 w2 manifest where "get_start_errors gl s w = (Inr [], w1)"
    "get_session_manifest cfg fetch s w1 = (Inr manifest, w2)"
    "create_server k manifest (user_safe_username (srv_user s)) w2 = (Inr r, w')"
  using assms by (auto simp: start_def bindC_Inr_iff split: if_splits)

lemma launch_created_InrD:
  assumes "launch_notebook_helper sv u server_name a kind w = (Inr (j, 201), w')"
  obtains found s m uid w1 w2 w3 w4 where
    "get_server (sv_k8s sv) server_name (user_safe_username u) w = (Inr found, w1)" "\<not> present found"
    "prepare_server sv u server_name a kind w1 = (Inr s, w2)"
    "start (sv_cfg sv) (sv_k8s sv) (launch_lookup sv kind)
       (cfg_git_providers (sv_cfg sv) (sv_http sv) (Some u)) s w2 = (Inr (Some m), w3)"
    "jitems m [''metadata'', ''uid''] = Inr uid"
    "create_secrets sv u s uid w3 = (Inr (), w4)"
    "respond (service.truncate sv) m w4 = (Inr j, w')"
proof -
  let ?start = "start (sv_cfg sv) (sv_k8s sv) (launch_lookup sv kind)
          (cfg_git_providers (sv_cfg sv) (sv_http sv) (Some u))"
  let ?finish = "\<lambda>s started. case started of
         None \<Rightarrow> raise (TypeError ''NoneType object is not subscriptable'')
       | Some manifest \<Rightarrow>
           bindC (liftE (jitems manifest [''metadata'', ''uid''])) (\<lambda>uid.
           bindC (create_secrets sv u s uid) (\<lambda>_.
           bindC (respond (service.truncate sv) manifest) (\<lambda>j. ret (j, 201 :: int))))"
  from assms obtain found w1 where g: "get_server (sv_k8s sv) server_name (user_safe_username u) w = (Inr found, w1)"
      "\<not> present found"
    and rest: "bindC (prepare_server sv u server_name a kind) (\<lambda>s. bindC (?start s) (?finish s)) w1 = (Inr (j, 201), w')"
    by (auto simp: launch_notebook_helper_def launch_new_def bindC_Inr_iff split: if_splits)
  from rest obtain s w2 started w3 where s: "prepare_server sv u server_name a kind w1 = (Inr s, w2)"
    "?start s w2 = (Inr started, w3)" and fin: "?finish s started w3 = (Inr (j, 201), w')"
    unfolding bindC_Inr_iff by blast
  from fin obtain m uid w4 where "started = Some m" "jitems m [''metadata'', ''uid''] = Inr uid"
    "create_secrets sv u s uid w3 = (Inr (), w4)" "respond (service.truncate sv) m w4 = (Inr j, w')"
    by (auto simp: bindC_Inr_iff split: option.splits sum.splits)
  with g s show thesis by (intro that) simp_all
qed

text \<open>
  C6. A launch that answers 201: there was no session of that name for the user; the manifest that was
  composed for the prepared session has that name and carries the user's label; the cluster client was
  asked to create it and returned an object; the secrets of the user and of the storages were accepted by
  the secrets service with that object as their owner; and the response describes that object.
\<close>

theorem launch_creates_own_session:
  assumes "launch_notebook_helper sv u server_name a kind w = (Inr (j, 201), w')"
  shows "\<exists>found s manifest m uid w1 w2 w3 w4 w5 w6.
      get_server (sv_k8s sv) server_name (user_safe_username u) w = (Inr found, w1) \<and> \<not> present found
    \<and> prepare_server sv u server_name a kind w1 = (Inr s, w2)
    \<and> get_session_manifest (sv_cfg sv) (cfg_git_providers (sv_cfg sv) (sv_http sv) (Some u)) s w3 = (Inr manifest, w4)
    \<and> jpath manifest [''metadata'', ''name''] JNull = Inr (JStr server_name)
    \<and> server_owner username_label_name manifest = Inr (JStr (user_safe_username u))
    \<and> create_server (sv_k8s sv) manifest (user_safe_username u) w4 = (Inr (Some m), w5)
    \<and> jitems m [''metadata'', ''uid''] = Inr uid
    \<and> (\<forall>k. srv_user_secrets s = Some k \<longrightarrow>
        accepted sv u (user_secret_payload (preferred_namespace (sv_k8s sv)) (owner_reference server_name uid) k))
    \<and> (\<forall>i < length (srv_cloudstorage s). rs_secrets (srv_cloudstorage s ! i) \<noteq> [] \<longrightarrow>
        accepted sv u (storage_secret_payload (preferred_namespace (sv_k8s sv)) (owner_reference server_name uid)
          (storage_base_name server_name i) (srv_cloudstorage s ! i)))
    \<and> respond (service.truncate sv) m w6 = (Inr j, w')"
  using assms
proof (rule launch_created_InrD)
  fix found s m uid w1 w2 w5 w6
  assume g: "get_server (sv_k8s sv) server_name (user_safe_username u) w = (Inr found, w1)" "\<not> present found"
    and s: "prepare_server sv u server_name a kind w1 = (Inr s, w2)"
    and st: "start (sv_cfg sv) (sv_k8s sv) (launch_lookup sv kind)
       (cfg_git_providers (sv_cfg sv) (sv_http sv) (Some u)) s w2 = (Inr (Some m), w5)"
    and uid: "jitems m [''metadata'', ''uid''] = Inr uid"
    and sec: "create_secrets sv u s uid w5 = (Inr (), w6)"
    and r: "respond (service.truncate sv) m w6 = (Inr j, w')"
  from s have n: "srv_name s = server_name" "srv_user s = u" by (auto elim: prepare_server_InrD)
  from st obtain w3 w4 manifest
    where m: "get_session_manifest (sv_cfg sv) (cfg_git_providers (sv_cfg sv) (sv_http sv) (Some u)) s w3 = (Inr manifest, w4)"
      and c: "create_server (sv_k8s sv) manifest (user_safe_username u) w4 = (Inr (Some m), w5)"
    by (auto elim!: start_InrD simp: n)
  from m have "jpath manifest [''metadata'', ''name''] JNull = Inr (JStr server_name)"
    "server_owner username_label_name manifest = Inr (JStr (user_safe_username u))"
    by (auto elim!: get_session_manifest_InrD simp: manifest_json_owner n simp del: jpath.simps)
  with g s m c uid r secrets_all_created [OF sec] show ?thesis
    unfolding n by blast
qed

text \<open>A composed manifest asks for a session that runs.\<close>

lemma manifest_json_running: "currently_hibernated (Some (manifest_json cfg s ps)) = Inr False"
  by (simp add: currently_hibernated_def py_get_def manifest_json_def)

section \<open>An example\<close>

text \<open>
  A cluster that gives a session that is created an identity and a status, a registry that has every
  image, and a secrets service that accepts every secret.
\<close>

definition running_session :: "string \<Rightarrow> string \<Rightarrow> json" where
  "running_session n u = JObj
     [(''metadata'', JObj
         [(''name'', JStr n), (''namespace'', JStr ''renku''), (''uid'', JStr ''u-1''),
          (''creationTimestamp'', JStr ''1970-01-01T00:00:00Z''),
          (''labels'', JObj [(''renku.io/safe-username'', JStr u)]),
          (''annotations'', JObj (map (\<lambda>a. (a, JStr [])) required_annotation_names))]),
      (''spec'', JObj
         [(''auth'', jempty),
          (''jupyterServer'', JObj [(''defaultUrl'', JStr ''/lab''), (''image'', JStr ''gitlab.io/a/b:c''),
             (''resources'', JObj [(''requests'', jempty)])]),
          (''routing'', JObj [(''host'', JStr ''renku.example.org''), (''path'', JStr (''/sessions/'' @ n))]),
          (''storage'', JObj [(''size'', JStr [])]), (''patches'', JArr [])]),
      (''status'', JObj [(''state'', JStr ''running''), (''mainPod'', JObj [(''name'', JStr (n @ ''-0''))])])]"


definition okay :: "'a res \<Rightarrow> bool" where
  "okay r \<longleftrightarrow> (case r of Inr _ \<Rightarrow> True | Inl _ \<Rightarrow> False)"

lemma okay_iff: "okay r \<longleftrightarrow> (\<exists>x. r = Inr x)"
  by (auto simp: okay_def split: sum.splits)

lemma okay_notebook_response:
  assumes "started_at m = Inr t" and "okay (response_annotations cfg m)" and "okay (manifest_name m)"
    and "okay (bindE (jitem m ''status'') (\<lambda>s. jpath s [''mainPod'', ''name''] JNull))"
    and "okay (bindE (get_status cfg now now2 t m) dump_status)" and "okay (Manifest.manifest_url m)"
    and "okay (bindE (get_resource_requests cfg m) dump_requests)" and "okay (bindE (get_resource_usage m) dump_usage)"
    and "okay (manifest_image m)" and "okay (manifest_cloudstorage cfg m)"
  shows "okay (notebook_response cfg now now2 m)"
  using assms unfolding okay_iff
  by (auto simp: notebook_response_def dump_annotations_def endpoint_annotations_eq bindE_Inr_iff simp del: jpath.simps)

lemma running_response:
  "\<exists>j. notebook_response (example_config\<lparr>cfg_dummy_stores := True\<rparr>) (DT 0 (Some 0)) (DT 0 (Some 0))
     (running_session ''jane-1'' ''jane'') = Inr j"
proof -
  have "started_at (running_session ''jane-1'' ''jane'') = Inr (DT 0 (Some 0))"
    by code_simp
  then show ?thesis
    unfolding okay_iff [symmetric] by (rule okay_notebook_response) code_simp+
qed

definition live_create :: "json \<Rightarrow> (cluster, json) eff" where
  "live_create m w =
     (case (jitems m [''metadata'', ''name''], server_owner username_label_name m) of
        (Inr (JStr n), Inr (JStr u)) \<Rightarrow>
          if dget w n = None \<and> currently_hibernated (Some m) = Inr False then (Inr m, dset n (running_session n u) w) else (Inl (K8sApi 409), w)
      | _ \<Rightarrow> (Inl (K8sApi 400), w))"

definition live_client :: "cluster k8s_client" where
  "live_client = example_client\<lparr>renku_ns_client := strict_client\<lparr>create_object := live_create\<rparr>\<rparr>"

definition live_launch :: "cluster launch_service" where
  "live_launch = (example_launch any_image)
     \<lparr>sv_k8s := live_client,
      sv_http := (\<lambda>rq. ret (if hr_method rq = ''GET'' then any_image (hr_url rq)
        else \<lparr>resp_status = 201, resp_headers = [], resp_body = Inr JNull\<rparr>))\<rparr>"

definition live_user :: user where
  "live_user = example_user\<lparr>user_anonymous := True\<rparr>"

lemma live_facts:
  "sv_k8s live_launch = live_client" "sv_www_auth live_launch = (\<lambda>_. None)"
  "sv_cfg live_launch = example_config\<lparr>cfg_dummy_stores := True\<rparr>" "user_safe_username live_user = ''jane''"
  "sv_clock live_launch = ret (DT 0 (Some 0))" "user_access_token live_user = Some ''t''"
  "sv_defaults live_launch = \<lparr>defaultUrl = ''/lab'', lfs_default = False\<rparr>"
  "ls_gitlab_user live_launch = (JNull, JNull)"
  by (simp_all add: live_launch_def example_launch_def live_user_def example_user_def)

lemma live_image:
  "im_hostname i = ir_hostname r \<Longrightarrow> get_image_manifest (sv_http live_launch) (\<lambda>_. None) r i arch os w = (Inr (Some jempty), w)"
  by (simp add: get_image_manifest_def get_docker_token_def get_or_none_def http_get_def any_image_def live_launch_def
      bindC_eval catchC_eval header_get_def manifest_body_def docker_v2_def docker_v2_list_def oci_v1_index_def)

definition live_server :: user_server where
  "live_server =
     \<lparr>srv_user = live_user, srv_gitlab_user = (JNull, JNull), srv_name = ''jane-1'',
      srv_image = Some ''gitlab.io/a/b:c'', srv_options = dummy_options \<lparr>defaultUrl = ''/lab'', lfs_default = False\<rparr>,
      srv_env = [], srv_user_secrets = Some \<lparr>us_name = ''jane-1-secret'', us_secret_ids = [''s1''], us_mount_path = ''/secrets''\<rparr>,
      srv_cloudstorage = [],
      srv_workspace_mount_path = Path ''/'' [''work''], srv_work_dir = Path ''/'' [''work''],
      srv_is_image_private = False, srv_repositories = [], srv_git_providers = [], srv_idle_seconds = 43200,
      srv_hibernated_seconds = 1, srv_kind = Renku2 ''p'' ''l'', srv_namespace = ''renku''\<rparr>"

lemma live_prepared:
  "prepare_server live_launch live_user ''jane-1'' launch_a (LaunchRenku2 ''p'' ''l'' []) w = (Inr live_server, w)"
proof -
  have i: "choose_image live_launch live_user (la_image launch_a) None w =
     (Inr \<lparr>ic_image = ''gitlab.io/a/b:c'', ic_parsed = \<lparr>im_hostname = ''gitlab.io'', im_name = ''a/b'', im_tag = ''c''\<rparr>,
           ic_repo = \<lparr>ir_hostname = ''gitlab.io'', ir_oauth2_token = None\<rparr>, ic_private = False, ic_default = False\<rparr>, w)"
    by (simp add: choose_image_def launch_a_def str_truthy_def requested_image_def example_image_path live_facts
        image_exists_def live_image bindC_eval repo_api_def Let_def)
  have wd: "image_workdir (sv_http live_launch) (sv_www_auth live_launch)
      \<lparr>ir_hostname = ''gitlab.io'', ir_oauth2_token = None\<rparr>
      \<lparr>im_hostname = ''gitlab.io'', im_name = ''a/b'', im_tag = ''c''\<rparr> w = (Inr None, w)"
    by (simp add: image_workdir_def get_image_config_def live_facts live_image bindC_eval)
  have st: "launch_storages live_launch live_user e p (la_cloudstorage launch_a) w = (Inr [], w)" for e p
    by (simp add: launch_storages_def launch_a_def)
  have o: "chosen_options live_launch live_user launch_a w = (Inr (dummy_options \<lparr>defaultUrl = ''/lab'', lfs_default = False\<rparr>), w)"
    by (simp add: chosen_options_def Let_def launch_options_def launch_a_def cfg_validate_def live_facts
        dummy_validate_class_storage_def bindC_eval dummy_options_def post_init_def bare_options_def)
  have p: "path_join (path_of ''/'') (path_of ''work'') = Path ''/'' [''work'']"
    "path_join (Path ''/'' [''work'']) (path_of (gl_project_path (LaunchRenku2 ''p'' ''l'' []))) = Path ''/'' [''work'']"
    "preferred_namespace live_client = ''renku''"
    by code_simp+
  have a: "la_user_secrets launch_a = Some ([''s1''], ''/secrets'')" "la_environment_variables launch_a = []"
    by (simp_all add: launch_a_def)
  have t: "idle_threshold (example_config\<lparr>cfg_dummy_stores := True\<rparr>) live_user (dummy_options \<lparr>defaultUrl = ''/lab'', lfs_default = False\<rparr>) = 43200"
    "hibernation_threshold (example_config\<lparr>cfg_dummy_stores := True\<rparr>) live_user (dummy_options \<lparr>defaultUrl = ''/lab'', lfs_default = False\<rparr>) = 1"
    by (simp_all add: idle_threshold_def hibernation_threshold_def dummy_options_def post_init_def bare_options_def
        live_user_def example_config_def example_sessions_def)
  show ?thesis
    using i wd o
    by (simp add: prepare_server_def Let_def launch_project_def st bindC_eval make_server_def p live_facts
        renku2_server_def user_server_init_def live_server_def a t)
qed

lemma live_run:
  obtains ps where "get_patches (example_config\<lparr>cfg_dummy_stores := True\<rparr>) fetch live_server w = (Inr (ps, live_server), w)"
    and "agree (env_assignments ps)"
proof -
  have "\<exists>ps. all_patches (example_config\<lparr>cfg_dummy_stores := True\<rparr>) live_server = Inr ps"
    by (simp add: all_patches_def small_simps live_server_def live_user_def dummy_options_def post_init_def)
  then obtain ps where ps: "all_patches (example_config\<lparr>cfg_dummy_stores := True\<rparr>) live_server = Inr ps" ..
  have "distinct (map fst (env_assignments ps))"
    using ps
    by (auto simp: small_simps live_server_def live_user_def dummy_options_def post_init_def all_patches_defs)
  moreover from ps have "get_patches (example_config\<lparr>cfg_dummy_stores := True\<rparr>) fetch live_server w = (Inr (ps, live_server), w)"
    by (auto simp: get_patches_def all_patches_def bindE_Inr_iff bindC_def resolve_repositories_def
        live_server_def split: if_splits)
  ultimately show ?thesis using that agree_distinct by blast
qed
lemma live_create_server:
  assumes "jpath m [''metadata'', ''name''] JNull = Inr (JStr ''jane-1'')"
    and "jitems m [''metadata'', ''name''] = Inr (JStr ''jane-1'')"
    and "server_owner username_label_name m = Inr (JStr ''jane'')" and "currently_hibernated (Some m) = Inr False"
  shows "create_server live_client m ''jane'' [] =
    (Inr (Some (running_session ''jane-1'' ''jane'')), [(''jane-1'', running_session ''jane-1'' ''jane'')])"
proof -
  have g: "get_server live_client ''jane-1'' ''jane'' [] = (Inr None, [])"
    by code_simp
  have c: "create_object (preferred_client live_client) m [] = (Inr m, [(''jane-1'', running_session ''jane-1'' ''jane'')])"
    using assms by (simp add: preferred_client_def live_client_def example_client_def live_create_def del: jitems.simps)
  have r: "retry_default (sleep live_client) (\<lambda>x. x = None) ''get_server'' (ns_get_server (preferred_client live_client) ''jane-1'')
      [(''jane-1'', running_session ''jane-1'' ''jane'')] =
    (Inr (Some (running_session ''jane-1'' ''jane'')), [(''jane-1'', running_session ''jane-1'' ''jane'')])"
    by code_simp
  show ?thesis
    using r by (simp add: create_server_def ns_create_server_def bindC_eval assms(1) g c catch_api_def catchC_eval del: jpath.simps)
qed

lemma live_start:
  "start (sv_cfg live_launch) (sv_k8s live_launch) gl fetch live_server [] =
    (Inr (Some (running_session ''jane-1'' ''jane'')), [(''jane-1'', running_session ''jane-1'' ''jane'')])"
proof (rule live_run [of fetch "[]"])
  fix ps
  assume run: "get_patches (example_config\<lparr>cfg_dummy_stores := True\<rparr>) fetch live_server [] = (Inr (ps, live_server), [])"
    and agree: "agree (env_assignments ps)"
  have n: "srv_name live_server = ''jane-1''" "srv_user live_server = live_user" "srv_kind live_server = Renku2 ''p'' ''l''"
    "srv_image live_server \<noteq> None"
    by (simp_all add: live_server_def)
  let ?m = "manifest_json (sv_cfg live_launch) live_server ps"
  have "get_session_manifest (sv_cfg live_launch) fetch live_server [] = (Inr ?m, [])"
    using get_session_manifest_agree [OF run agree] unfolding live_facts .
  moreover have "create_server live_client ?m ''jane'' [] =
      (Inr (Some (running_session ''jane-1'' ''jane'')), [(''jane-1'', running_session ''jane-1'' ''jane'')])"
    by (rule live_create_server)
      (simp_all only: manifest_json_owner manifest_json_running n live_facts, simp add: manifest_json_def n)
  ultimately show ?thesis
    by (simp add: start_def get_start_errors_def branch_exists_def commit_sha_exists_def base_start_errors_def n live_facts bindC_eval)
qed

lemma live_launched:
  obtains j where "launch_notebook_helper live_launch live_user ''jane-1'' launch_a (LaunchRenku2 ''p'' ''l'' []) [] =
    (Inr (j, 201), [(''jane-1'', running_session ''jane-1'' ''jane'')])"
proof -
  obtain j where j: "notebook_response (example_config\<lparr>cfg_dummy_stores := True\<rparr>) (DT 0 (Some 0)) (DT 0 (Some 0))
     (running_session ''jane-1'' ''jane'') = Inr j"
    using running_response by blast
  have g: "get_server live_client ''jane-1'' ''jane'' [] = (Inr None, [])"
    by code_simp
  have u: "jitems (running_session ''jane-1'' ''jane'') [''metadata'', ''uid''] = Inr (JStr ''u-1'')"
    by (simp add: running_session_def)
  have s: "create_secrets live_launch live_user live_server uid w = (Inr (), w)" for uid w
    by (simp add: create_secrets_def live_server_def create_secret_def http_post_def live_facts live_launch_def
        bindC_eval catchC_eval Let_def)
  have p: "bindC (liftE (jitems (running_session ''jane-1'' ''jane'') [''metadata'', ''uid''])) f w = f (JStr ''u-1'') w" for f w
    by (simp only: u) (simp add: bindC_eval)
  show thesis
    by (rule that [of j])
      (simp add: launch_notebook_helper_def launch_new_def live_facts g present_def bindC_eval live_prepared live_start
        [unfolded live_facts] p s respond_def j u service.truncate_def del: jitems.simps)
qed

theorem launch_creates_own_session_witness:
  "\<exists>manifest m uid w1 w2.
      server_owner username_label_name manifest = Inr (JStr ''jane'')
    \<and> create_server live_client manifest ''jane'' w1 = (Inr (Some m), w2)
    \<and> jitems m [''metadata'', ''uid''] = Inr uid"
proof (rule live_launched)
  fix j
  assume "launch_notebook_helper live_launch live_user ''jane-1'' launch_a (LaunchRenku2 ''p'' ''l'' []) [] =
    (Inr (j, 201), [(''jane-1'', running_session ''jane-1'' ''jane'')])"
  from launch_creates_own_session [OF this] show ?thesis unfolding live_facts by blast
qed
end
