(* ===== verification/LaunchLife.thy ===== *)
theory LaunchLife
  imports LaunchRun
begin

text \<open>
  A launch in the life cycle of \<open>Lifecycle\<close>: what a launch reads leaves the sessions alone, creating a
  session stores the composed object, and a launch whose secrets are refused takes its session away again.
\<close>

section \<open>What a launch reads\<close>

named_theorems preserves_intros

lemmas [preserves_intros] = preserves_ret preserves_raise preserves_liftE preserves_bindC preserves_catchC preserves_catch_api

lemma preserves_if [preserves_intros]:
  "(b \<Longrightarrow> preserves v x) \<Longrightarrow> (\<not> b \<Longrightarrow> preserves v y) \<Longrightarrow> preserves v (if b then x else y)"
  by simp

lemma preserves_option [preserves_intros]:
  "preserves v x \<Longrightarrow> (\<And>a. preserves v (f a)) \<Longrightarrow> preserves v (case z of None \<Rightarrow> x | Some a \<Rightarrow> f a)"
  by (simp split: option.split)

lemma preserves_sum [preserves_intros]:
  "(\<And>a. preserves v (f a)) \<Longrightarrow> (\<And>b. preserves v (g b)) \<Longrightarrow> preserves v (case z of Inl a \<Rightarrow> f a | Inr b \<Rightarrow> g b)"
  by (simp split: sum.split)

lemma preserves_prod [preserves_intros]:
  "(\<And>a b. preserves v (f a b)) \<Longrightarrow> preserves v (case z of (a, b) \<Rightarrow> f a b)"
  by (simp split: prod.split)

definition quiet_http :: "('w \<Rightarrow> 'v) \<Rightarrow> 'w http \<Rightarrow> bool" where
  "quiet_http v http \<longleftrightarrow> (\<forall>rq. preserves v (http rq))"

lemma quiet_requests [preserves_intros]:
  assumes "quiet_http v http"
  shows "preserves v (http_get http url h p)" "preserves v (http_post http url h b)"
  using assms by (simp_all add: quiet_http_def http_get_def http_post_def)

lemma preserves_get_or_none [preserves_intros]: "quiet_http v http \<Longrightarrow> preserves v (get_or_none http url)"
  unfolding get_or_none_def by (intro preserves_intros)

lemma preserves_docker_token [preserves_intros]: "quiet_http v http \<Longrightarrow> preserves v (get_docker_token http wa r i)"
  unfolding get_docker_token_def by (intro preserves_intros)

lemma preserves_try_accepts [preserves_intros]: "quiet_http v http \<Longrightarrow> preserves v (try_accepts http url a ms)"
  by (induction ms) (auto intro!: preserves_intros)

lemma preserves_image_manifest [preserves_intros]: "quiet_http v http \<Longrightarrow> preserves v (get_image_manifest http wa r i arch os)"
  unfolding get_image_manifest_def Let_def by (intro preserves_intros)

lemma preserves_image [preserves_intros]:
  assumes "quiet_http v http"
  shows "preserves v (image_exists http wa r i)" "preserves v (get_image_config http wa r i)" "preserves v (image_workdir http wa r i)"
  unfolding image_exists_def image_workdir_def get_image_config_def by (intro preserves_intros assms)+


lemma preserves_pools [preserves_intros]:
  assumes "quiet_http v http"
  shows "preserves v (get_resource_pools http url u q)"
  unfolding get_resource_pools_def by (intro preserves_intros assms)

lemma preserves_crc [preserves_intros]:
  assumes "quiet_http v http"
  shows "preserves v (cfg_validate cfg d http u rc s)" "preserves v (cfg_find cfg d http u q)"
    "preserves v (cfg_default_class cfg http)"
  unfolding cfg_validate_def cfg_find_def cfg_default_class_def
  by (simp_all add: dummy_validate_class_storage_def dummy_find_acceptable_class_def dummy_get_default_class_def
      validate_class_storage_def find_acceptable_class_def get_default_class_def preserves_intros assms)

lemma preserves_add_providers [preserves_intros]: "quiet_http v http \<Longrightarrow> preserves v (add_providers http a b ps cs)"
  by (induction cs arbitrary: ps) (auto simp: get_oauth2_provider_def intro!: preserves_intros)

lemma preserves_providers [preserves_intros]:
  assumes "quiet_http v http"
  shows "preserves v (cfg_git_providers cfg http u)"
proof -
  have "preserves v (get_oauth2_connections http url u)" for url
    unfolding get_oauth2_connections_def by (intro preserves_intros assms)
  then show ?thesis
    unfolding cfg_git_providers_def
    by (auto simp: dummy_get_providers_def get_providers_def intro!: preserves_intros assms split: option.split)
qed

definition quiet_launch :: "'w cluster_view \<Rightarrow> 'w launch_service \<Rightarrow> bool" where
  "quiet_launch v sv \<longleftrightarrow>
     quiet_environment v (service.truncate sv) \<and> (\<forall>n. preserves v (ls_get_project sv n))
   \<and> (\<forall>p n. preserves v (get_branch (ls_lookup sv p) n) \<and> preserves v (get_commit (ls_lookup sv p) n))
   \<and> (\<forall>d. preserves v (sleep (sv_k8s sv) d))"

lemma quiet_launch_http [preserves_intros]: "quiet_launch v sv \<Longrightarrow> quiet_http v (sv_http sv)"
  by (simp add: quiet_launch_def quiet_http_def quiet_environment_def service.truncate_def)

lemma preserves_choose_image [preserves_intros]:
  assumes "quiet_launch v sv"
  shows "preserves v (choose_image sv u img p)"
  unfolding choose_image_def requested_image_def commit_image_def Let_def
  by (intro preserves_intros assms)

lemma preserves_chosen_options [preserves_intros]:
  assumes "quiet_launch v sv"
  shows "preserves v (chosen_options sv u a)"
  unfolding chosen_options_def Let_def launch_options_def
  by (auto split: options_arg.split intro!: preserves_intros assms)

lemma preserves_storage_by_id [preserves_intros]:
  assumes "quiet_http v http"
  shows "preserves v (get_storage_by_id http url u e i)" "preserves v (validate_storage_configuration http url c)"
  unfolding get_storage_by_id_def get_data_connector_by_id_def validate_storage_configuration_def Let_def
  by (intro preserves_intros assms)+

lemma preserves_mapC [preserves_intros]: "(\<And>x. preserves v (f x)) \<Longrightarrow> preserves v (mapC f xs)"
  by (induction xs) (auto intro!: preserves_intros)

lemma preserves_storages [preserves_intros]:
  assumes "quiet_launch v sv"
  shows "preserves v (launch_storages sv u e wd rs)"
proof -
  have h: "quiet_http v (sv_http (service.truncate sv))"
    using quiet_launch_http [OF assms] by (simp add: service.truncate_def)
  have "preserves v (cfg_get_storage (service.truncate sv) x y z)" "preserves v (cfg_validate_configuration (service.truncate sv) c)"
    for x y z c
    unfolding cfg_get_storage_def cfg_validate_configuration_def
    by (simp_all add: dummy_get_storage_by_id_def dummy_validate_storage_configuration_def preserves_intros h)
  then have "preserves v (storage_from_schema (cfg_get_storage (service.truncate sv)) (cfg_validate_configuration (service.truncate sv))
      r u e p key)" for r p key
    unfolding storage_from_schema_def by (intro preserves_intros)
  then show ?thesis
    unfolding launch_storages_def get_user_key_def Let_def
    by (auto intro!: preserves_intros assms split: exc.split)
qed

lemma preserves_prepare_server [preserves_intros]:
  assumes "quiet_launch v sv"
  shows "preserves v (prepare_server sv u n a kind)"
  unfolding prepare_server_def Let_def by (intro preserves_intros assms)

lemma preserves_start_errors [preserves_intros]:
  assumes "quiet_launch v sv"
  shows "preserves v (get_start_errors (launch_lookup sv kind) s)"
proof -
  have "preserves v (get_branch (launch_lookup sv kind) n)" "preserves v (get_commit (launch_lookup sv kind) n)" for n
    using assms by (simp_all add: quiet_launch_def launch_lookup_def)
  then show ?thesis
    unfolding get_start_errors_def branch_exists_def commit_sha_exists_def verified_def
    by (auto intro!: preserves_intros split: server_kind.split)
qed

lemma preserves_session_manifest [preserves_intros]:
  assumes "quiet_launch v sv"
  shows "preserves v (get_session_manifest cfg (cfg_git_providers c (sv_http sv) u) s)"
  unfolding get_session_manifest_def get_patches_def resolve_repositories_def
  by (intro preserves_intros assms)

section \<open>What a launch changes\<close>

text \<open>
  The law of creation for one namespace: a created object is stored under the name in its manifest, which
  must have been free, with the label and the state of the manifest; a refused one changes nothing.
\<close>

definition creating :: "'w cluster_view \<Rightarrow> string \<Rightarrow> 'w ns_client \<Rightarrow> bool" where
  "creating v label c \<longleftrightarrow>
     (\<forall>m w r w'. create_object c m w = (r, w') \<longrightarrow>
        (case r of
           Inl _ \<Rightarrow> v w' = v w
         | Inr _ \<Rightarrow> \<exists>n j. jpath m [''metadata'', ''name''] JNull = Inr (JStr n) \<and> v w (namespace c) n = None
             \<and> v w' = put (v w) (namespace c) n (Some j)
             \<and> server_owner label j = server_owner label m
             \<and> currently_hibernated (Some j) = currently_hibernated (Some m)))"

text \<open>A session that runs under the name, for the user; with one namespace the name was free.\<close>

definition launched :: "bool \<Rightarrow> string \<Rightarrow> string \<Rightarrow> string \<Rightarrow> (string \<Rightarrow> json option) \<Rightarrow> (string \<Rightarrow> json option) \<Rightarrow> bool" where
  "launched one label u n S S' \<longleftrightarrow> (one \<longrightarrow> S n = None)
   \<and> (\<exists>j. server_owner label j = Inr (JStr u) \<and> currently_hibernated (Some j) = Inr False \<and> S' = S(n := Some j))"

lemma launched_phase:
  "launched one label u n S S' \<Longrightarrow> phase_of label u S' n = Running \<and> (one \<longrightarrow> S n = None) \<and> (\<forall>n'. n' \<noteq> n \<longrightarrow> S' n' = S n')"
  by (auto simp: launched_def phase_of_def)

lemma phase_absent: "phase_of label u S n = Absent \<longleftrightarrow> \<not> (\<exists>m. owned label u S n m)"
  by (auto simp: phase_of_def owned_def split: option.split)

lemma bindC_cases:
  assumes "bindC m f w = (r, w')"
  obtains e where "m w = (Inl e, w')" "r = Inl e" | x w1 where "m w = (Inr x, w1)" "f x w1 = (r, w')"
  using assms by (cases "m w"; cases "fst (m w)") (auto simp: bindC_def)

lemma preserves_retry: "preserves v f \<Longrightarrow> (\<And>d. preserves v (sl d)) \<Longrightarrow> preserves v (retry_default sl again name f)"
proof -
  assume f: "preserves v f" and sl: "\<And>d. preserves v (sl d)"
  have "preserves v (retry_loop sl wait again f t i n)" for wait t i n
    by (induction n arbitrary: i) (auto intro!: preserves_intros f sl)
  then show ?thesis by (simp add: retry_default_def retry_with_exponential_backoff_def)
qed

lemma sessions_created:
  "sessions k (put V (namespace (preferred_client k)) n (Some j)) = (sessions k V)(n := Some j)"
  by (auto simp: sessions_def preferred_client_def put_def fun_eq_iff split: option.split)

lemma preferred_faithful: "faithful_cluster v k \<Longrightarrow> faithful v (preferred_client k)"
  by (auto simp: faithful_cluster_def preferred_client_def split: option.split)

lemma preserves_get: "faithful v c \<Longrightarrow> preserves v (ns_get_server c n)"
  unfolding preserves_def by (blast dest: faithful_get)

lemma client_create:
  assumes "faithful_cluster v k" and "creating v (username_label k) (preferred_client k)"
    and "\<And>d. preserves v (sleep k d)"
    and "jpath m [''metadata'', ''name''] JNull = Inr (JStr n)"
    and "server_owner (username_label k) m = Inr (JStr u)" and "currently_hibernated (Some m) = Inr False"
    and "\<not> (\<exists>m. owned (username_label k) u (sessions k (v w)) n m)"
    and "create_server k m u w = (r, w')"
  shows "(\<exists>e. r = Inl e) \<and> sessions k (v w') = sessions k (v w)
    \<or> launched (session_ns_client k = None) (username_label k) u n (sessions k (v w)) (sessions k (v w'))"
proof -
  let ?c = "preferred_client k"
  from assms(8) have "bindC (get_server k n u) (\<lambda>server. case server of
         Some s \<Rightarrow> if truthy s then ret (Some s) else ns_create_server (sleep k) ?c m
       | None \<Rightarrow> ns_create_server (sleep k) ?c m) w = (r, w')"
    by (simp add: create_server_def assms(4) del: jpath.simps)
  then show ?thesis
  proof (cases rule: bindC_cases)
    case (1 e)
    with client_lookup [OF assms(1) 1(1)] show ?thesis by simp
  next
    case (2 x w1)
    note l = client_lookup [OF assms(1) 2(1)]
    with assms(7) have x: "x = None" by (cases x) auto
    obtain r2 w2 where c: "create_object ?c m w1 = (r2, w2)" by fastforce
    from assms(2) c have law: "case r2 of
           Inl _ \<Rightarrow> v w2 = v w1
         | Inr _ \<Rightarrow> \<exists>n j. jpath m [''metadata'', ''name''] JNull = Inr (JStr n) \<and> v w1 (namespace ?c) n = None
             \<and> v w2 = put (v w1) (namespace ?c) n (Some j)
             \<and> server_owner (username_label k) j = server_owner (username_label k) m
             \<and> currently_hibernated (Some j) = currently_hibernated (Some m)"
      unfolding creating_def by blast
    have run: "bindC (catch_api (create_object ?c m) (\<lambda>_.
         raise (api CannotStartServerError (''Cannot start the session '' @ py_str (JStr n)))))
       (\<lambda>_. retry_default (sleep k) (\<lambda>x. x = None) ''get_server'' (ns_get_server ?c (py_str (JStr n)))) w1 = (r, w')"
      using 2(2) by (simp add: x ns_create_server_def assms(4) del: jpath.simps)
    have keeps: "preserves v (retry_default (sleep k) (\<lambda>x. x = None) ''get_server'' (ns_get_server ?c n))"
      by (intro preserves_retry preserves_get preferred_faithful assms(1, 3))
    show ?thesis
    proof (cases r2)
      case (Inl e)
      with run c law l show ?thesis
        by (auto simp: catch_api_def catchC_eval bindC_def split: exc.splits prod.splits sum.splits)
    next
      case (Inr y)
      with law l assms(4) obtain j where free: "v w (namespace ?c) n = None" and j: "v w2 = put (v w) (namespace ?c) n (Some j)"
        "server_owner (username_label k) j = server_owner (username_label k) m"
        "currently_hibernated (Some j) = currently_hibernated (Some m)"
        by (auto simp del: jpath.simps)
      from run c Inr have "retry_default (sleep k) (\<lambda>x. x = None) ''get_server'' (ns_get_server ?c n) w2 = (r, w')"
        by (simp add: catch_api_def catchC_eval bindC_eval)
      with keeps have "v w' = v w2" by (rule preservesD)
      moreover from free have "session_ns_client k = None \<Longrightarrow> sessions k (v w) n = None"
        by (simp add: sessions_def preferred_client_def)
      ultimately show ?thesis using j by (auto simp: launched_def sessions_created assms(5, 6))
    qed
  qed
qed

text \<open>A computation that leaves the sessions alone, or fails and has taken one away.\<close>

definition may_remove :: "string \<Rightarrow> ('w \<Rightarrow> string \<Rightarrow> json option) \<Rightarrow> ('w, 'a) eff \<Rightarrow> bool" where
  "may_remove n S m \<longleftrightarrow> (\<forall>w r w'. m w = (r, w') \<longrightarrow> S w' = S w \<or> (\<exists>e. r = Inl e) \<and> S w' = (S w)(n := None))"

lemma may_removeD: "may_remove n S m \<Longrightarrow> m w = (r, w') \<Longrightarrow> S w' = S w \<or> (\<exists>e. r = Inl e) \<and> S w' = (S w)(n := None)"
  unfolding may_remove_def by blast

lemma may_remove_keeps: "preserves S m \<Longrightarrow> may_remove n S m"
  by (auto simp: preserves_def may_remove_def)

lemma may_remove_bindC:
  assumes "may_remove n S m" and "\<And>x. may_remove n S (f x)"
  shows "may_remove n S (bindC m f)"
  unfolding may_remove_def
proof (intro allI impI)
  fix w r w'
  assume "bindC m f w = (r, w')"
  then show "S w' = S w \<or> (\<exists>e. r = Inl e) \<and> S w' = (S w)(n := None)"
  proof (cases rule: bindC_cases)
    case (1 e)
    with may_removeD [OF assms(1) 1(1)] show ?thesis by simp
  next
    case (2 x w1)
    with may_removeD [OF assms(1) 2(1)] may_removeD [OF assms(2) 2(2)] show ?thesis by simp
  qed
qed

lemma may_remove_after: "preserves S m \<Longrightarrow> (\<And>x. may_remove n S (f x)) \<Longrightarrow> may_remove n S (bindC m f)"
  by (rule may_remove_bindC [OF may_remove_keeps])

lemma may_remove_each: "(\<And>x. may_remove n S (f x)) \<Longrightarrow> may_remove n S (each f xs)"
  by (induction xs) (auto intro: may_remove_bindC may_remove_keeps)

lemma may_remove_option:
  "may_remove n S x \<Longrightarrow> (\<And>a. may_remove n S (f a)) \<Longrightarrow> may_remove n S (case z of None \<Rightarrow> x | Some a \<Rightarrow> f a)"
  by (simp split: option.split)

lemma may_remove_if: "may_remove n S x \<Longrightarrow> may_remove n S y \<Longrightarrow> may_remove n S (if b then x else y)"
  by simp

lemma may_remove_on_error:
  assumes "faithful_cluster v (sv_k8s sv)"
  shows "may_remove n (\<lambda>w. sessions (sv_k8s sv) (v w)) (on_secret_error sv u n msg)"
  unfolding may_remove_def
proof (intro allI impI)
  fix w r w'
  assume run: "on_secret_error sv u n msg w = (r, w')"
  obtain d w1 where d: "delete_server (sv_k8s sv) n (user_safe_username u) True w = (d, w1)" by fastforce
  from run d have "(\<exists>e. r = Inl e) \<and> w' = w1"
    by (cases d) (auto simp: on_secret_error_def bindC_def raise_def)
  with store.delete_law [OF assms d]
  show "sessions (sv_k8s sv) (v w') = sessions (sv_k8s sv) (v w)
    \<or> (\<exists>e. r = Inl e) \<and> sessions (sv_k8s sv) (v w') = (sessions (sv_k8s sv) (v w))(n := None)"
    by (cases d) auto
qed

lemma may_remove_secret:
  assumes "faithful_cluster v (sv_k8s sv)" and "quiet_launch v sv"
  shows "may_remove n (\<lambda>w. sessions (sv_k8s sv) (v w)) (create_secret sv u n payload msg)"
proof -
  have h: "quiet_http v (sv_http sv)" using assms(2) by (rule quiet_launch_http)
  have "preserves v (catchC (bindC (http_post (sv_http sv) url h b) (\<lambda>r. ret (Some r)))
      (\<lambda>e. if e = RequestsError ''ConnectionError'' then ret None else raise e))" for url h b
    by (intro preserves_catchC preserves_bindC quiet_requests(2) [OF h]) auto
  note p = preserves_sessions [OF this]
  show ?thesis
    unfolding create_secret_def
    by (intro may_remove_after [OF p] may_remove_option may_remove_if may_remove_on_error assms(1)
        may_remove_after [OF preserves_liftE] may_remove_keeps [OF preserves_ret])
qed

lemma may_remove_secrets:
  assumes "faithful_cluster v (sv_k8s sv)" and "quiet_launch v sv" and "srv_name s = n"
  shows "may_remove n (\<lambda>w. sessions (sv_k8s sv) (v w)) (create_secrets sv u s uid)"
  unfolding create_secrets_def Let_def assms(3)
  by (intro may_remove_bindC may_remove_each)
    (auto intro!: may_remove_secret assms(1, 2) may_remove_keeps [OF preserves_ret] split: option.split)

section \<open>A launch is a step of the life cycle\<close>

text \<open>Starting a prepared session: it fails and changes nothing, or the session is there afterwards.\<close>

lemma start_launches:
  assumes "faithful_cluster v (sv_k8s sv)" and "creating v username_label_name (preferred_client (sv_k8s sv))"
    and "quiet_launch v sv" and "username_label (sv_k8s sv) = username_label_name"
    and "srv_name s = n" and "srv_user s = u"
    and "phase_of username_label_name (user_safe_username u) (sessions (sv_k8s sv) (v w)) n = Absent"
    and "start (sv_cfg sv) (sv_k8s sv) (launch_lookup sv kind) (cfg_git_providers c (sv_http sv) x) s w = (r, w')"
  shows "(\<exists>e. r = Inl e) \<and> sessions (sv_k8s sv) (v w') = sessions (sv_k8s sv) (v w)
    \<or> launched (session_ns_client (sv_k8s sv) = None) username_label_name (user_safe_username u) n (sessions (sv_k8s sv) (v w)) (sessions (sv_k8s sv) (v w'))"
  using assms(8) unfolding start_def
proof (cases rule: bindC_cases)
  case (1 e)
  then show ?thesis using preservesD [OF preserves_start_errors [OF assms(3)] 1(1)] by simp
next
  case (2 errors w1)
  note w1 = preservesD [OF preserves_start_errors [OF assms(3)] 2(1)]
  show ?thesis
  proof (cases "errors = []")
    case False
    with 2 w1 show ?thesis by (auto simp: raise_def)
  next
    case True
    with 2(2) have "bindC (get_session_manifest (sv_cfg sv) (cfg_git_providers c (sv_http sv) x) s)
        (\<lambda>manifest. create_server (sv_k8s sv) manifest (user_safe_username (srv_user s))) w1 = (r, w')" by simp
    then show ?thesis
    proof (cases rule: bindC_cases)
      case (1 e)
      then show ?thesis using preservesD [OF preserves_session_manifest [OF assms(3)] 1(1)] w1 by simp
    next
      case (2 m w2)
      note w2 = preservesD [OF preserves_session_manifest [OF assms(3)] 2(1)]
      from 2(1) have m: "jpath m [''metadata'', ''name''] JNull = Inr (JStr n)"
        "server_owner (username_label (sv_k8s sv)) m = Inr (JStr (user_safe_username u))"
        "currently_hibernated (Some m) = Inr False"
        by (auto elim!: get_session_manifest_InrD simp: manifest_json_owner manifest_json_running assms(4-6) simp del: jpath.simps)
      have sl: "preserves v (sleep (sv_k8s sv) d)" for d using assms(3) by (simp add: quiet_launch_def)
      have none: "\<not> (\<exists>m. owned (username_label (sv_k8s sv)) (user_safe_username u) (sessions (sv_k8s sv) (v w2)) n m)"
        using assms(7) unfolding w2 w1 assms(4) phase_absent .
      from client_create [OF assms(1) assms(2) [folded assms(4)] sl m none] 2(2)
      show ?thesis by (simp add: assms(4, 6) w1 w2)
    qed
  qed
qed

text \<open>A launch of a session that the user does not have.\<close>

lemma launch_new_launches:
  assumes "faithful_cluster v (sv_k8s sv)" and "creating v username_label_name (preferred_client (sv_k8s sv))"
    and "quiet_launch v sv" and "username_label (sv_k8s sv) = username_label_name"
    and "phase_of username_label_name (user_safe_username u) (sessions (sv_k8s sv) (v w)) n = Absent"
    and "launch_new sv u n a kind w = (r, w')"
  shows "(\<forall>n'. n' \<noteq> n \<longrightarrow> sessions (sv_k8s sv) (v w') n' = sessions (sv_k8s sv) (v w) n')
    \<and> (session_ns_client (sv_k8s sv) = None \<and> sessions (sv_k8s sv) (v w) n \<noteq> None \<longrightarrow>
        sessions (sv_k8s sv) (v w') = sessions (sv_k8s sv) (v w))
    \<and> (case r of
         Inr (j, st) \<Rightarrow> st = 201
           \<and> phase_of username_label_name (user_safe_username u) (sessions (sv_k8s sv) (v w')) n = Running
       | Inl e \<Rightarrow> phase_of username_label_name (user_safe_username u) (sessions (sv_k8s sv) (v w')) n \<noteq> Hibernated)"
proof -
  let ?k = "sv_k8s sv" and ?u = "user_safe_username u"
  let ?S = "\<lambda>w. sessions ?k (v w)"
  let ?start = "start (sv_cfg sv) ?k (launch_lookup sv kind) (cfg_git_providers (sv_cfg sv) (sv_http sv) (Some u))"
  let ?finish = "\<lambda>s started. case started of
         None \<Rightarrow> raise (TypeError ''NoneType object is not subscriptable'')
       | Some manifest \<Rightarrow>
           bindC (liftE (jitems manifest [''metadata'', ''uid''])) (\<lambda>uid.
           bindC (create_secrets sv u s uid) (\<lambda>_.
           bindC (respond (service.truncate sv) manifest) (\<lambda>j. ret (j, 201 :: int))))"
  have respond: "preserves ?S (respond (service.truncate sv) m)" for m
    using assms(3) by (intro preserves_sessions preserves_respond) (simp add: quiet_launch_def)
  have finish: "may_remove n ?S (?finish s started)" if "srv_name s = n" for s started
    by (intro may_remove_option may_remove_after preserves_liftE may_remove_bindC may_remove_secrets assms that
        may_remove_keeps [OF preserves_ret] may_remove_keeps [OF preserves_raise] respond)
  have created: "st = 201" if "?finish s started w1 = (Inr (j, st), w2)" for s started w1 j st w2
    using that by (auto simp: bindC_Inr_iff split: option.splits)
  note prepare = preserves_sessions [OF preserves_prepare_server [OF assms(3)], of "sv_k8s sv"]
  show ?thesis
    using assms(6) unfolding launch_new_def
  proof (cases rule: bindC_cases)
    case (1 e)
    then show ?thesis using preservesD [OF prepare 1(1)] assms(5) by simp
  next
    case (2 s w1)
    from 2(1) have s: "srv_name s = n" "srv_user s = u" by (auto elim: prepare_server_InrD)
    note w1 = preservesD [OF prepare 2(1)]
    from 2(2) show ?thesis
    proof (cases rule: bindC_cases)
      case (1 e)
      with start_launches [OF assms(1-4) s _ 1(1)] w1 assms(5) launched_phase show ?thesis by fastforce
    next
      case (2 started w2)
      with start_launches [OF assms(1-4) s _ 2(1)] w1 assms(5)
      have "launched (session_ns_client ?k = None) username_label_name ?u n (?S w) (?S w2)" by auto
      note w2 = launched_phase [OF this]
      from may_removeD [OF finish [OF s(1)] 2(2)] show ?thesis
        using w2 created [of s started w2 _ _ w'] 2(2) by (cases r) (auto simp: phase_of_def)
    qed
  qed
qed

text \<open>A launch, whether the user has the session or not.\<close>

lemma launch_steps:
  assumes "faithful_cluster v (sv_k8s sv)" and "creating v username_label_name (preferred_client (sv_k8s sv))"
    and "quiet_launch v sv" and "username_label (sv_k8s sv) = username_label_name"
    and "launch_notebook_helper sv u n a kind w = (r, w')"
  shows "(\<forall>n'. n' \<noteq> n \<longrightarrow> sessions (sv_k8s sv) (v w') n' = sessions (sv_k8s sv) (v w) n')
    \<and> (session_ns_client (sv_k8s sv) = None \<and> sessions (sv_k8s sv) (v w) n \<noteq> None \<longrightarrow>
        sessions (sv_k8s sv) (v w') = sessions (sv_k8s sv) (v w))
    \<and> (if phase_of username_label_name (user_safe_username u) (sessions (sv_k8s sv) (v w)) n \<noteq> Absent
       then sessions (sv_k8s sv) (v w') = sessions (sv_k8s sv) (v w) \<and> (\<forall>j st. r = Inr (j, st) \<longrightarrow> st = 200)
       else case r of
         Inr (j, st) \<Rightarrow> st = 201
           \<and> phase_of username_label_name (user_safe_username u) (sessions (sv_k8s sv) (v w')) n = Running
       | Inl e \<Rightarrow> phase_of username_label_name (user_safe_username u) (sessions (sv_k8s sv) (v w')) n \<noteq> Hibernated)"
proof -
  let ?u = "user_safe_username u" and ?S = "\<lambda>w. sessions (sv_k8s sv) (v w)"
  have respond: "preserves ?S (respond (service.truncate sv) m)" for m
    using assms(3) by (intro preserves_sessions preserves_respond) (simp add: quiet_launch_def)
  show ?thesis
    using assms(5) unfolding launch_notebook_helper_def
  proof (cases rule: bindC_cases)
    case (1 e)
    from client_lookup [OF assms(1) 1(1)] 1(2) have "v w' = v w" "r = Inl e" by auto
    then show ?thesis by simp
  next
    case (2 found w1)
    note l = client_lookup [OF assms(1) 2(1), unfolded assms(4)]
    show ?thesis
    proof (cases "present found")
      case True
      then obtain m where m: "found = Some m" by (auto simp: present_def split: option.splits)
      with l have "phase_of username_label_name ?u (?S w) n \<noteq> Absent" by (auto simp: phase_absent)
      moreover have "preserves ?S (bindC (respond (service.truncate sv) m) (\<lambda>j. ret (j, 200 :: int)))"
        by (intro preserves_bindC respond preserves_ret)
      ultimately show ?thesis
        using True 2(2) l m preservesD by (fastforce simp: bindC_Inr_iff)
    next
      case False
      have "found = None"
      proof (cases found)
        case (Some m)
        with l have "?S w n = Some m" by (simp add: owned_def)
        with sessions_object [OF assms(1)] Some False show ?thesis
          by (auto simp: present_def dest: session_object_truthy)
      qed
      with l have none: "phase_of username_label_name ?u (?S w1) n = Absent" by (simp add: phase_absent)
      from False 2(2) have "launch_new sv u n a kind w1 = (r, w')" by simp
      from launch_new_launches [OF assms(1-4) none this] l none show ?thesis by simp
    qed
  qed
qed


section \<open>Sequences of requests\<close>

datatype cluster_request = Life session_request | Launching launch_args launch_kind

definition handle_any :: "'w launch_service \<Rightarrow> user \<Rightarrow> string \<Rightarrow> cluster_request \<Rightarrow> ('w, unit) eff" where
  "handle_any sv u n q =
     (case q of
        Life q \<Rightarrow> handle_request (service.truncate sv) u n q
      | Launching a kind \<Rightarrow> bindC (launch_notebook_helper sv u n a kind) (\<lambda>_. ret ()))"

fun serve_all :: "'w launch_service \<Rightarrow> (user \<times> string \<times> cluster_request) list \<Rightarrow> 'w \<Rightarrow> 'w" where
  "serve_all sv [] w = w"
| "serve_all sv ((u, n, q) # rs) w = serve_all sv rs (snd (handle_any sv u n q w))"

definition launches_name :: "string \<Rightarrow> string \<Rightarrow> cluster_request \<Rightarrow> bool" where
  "launches_name n n' q \<longleftrightarrow> n' = n \<and> (case q of Launching _ _ \<Rightarrow> True | Life _ \<Rightarrow> False)"

lemma any_keeps_others:
  assumes "faithful_cluster v (sv_k8s sv)" and "creating v username_label_name (preferred_client (sv_k8s sv))"
    and "quiet_launch v sv" and "username_label (sv_k8s sv) = username_label_name"
    and "owned username_label_name owner (sessions (sv_k8s sv) (v w)) n m" and "user_safe_username u \<noteq> owner"
    and "session_ns_client (sv_k8s sv) = None \<or> \<not> launches_name n n' q"
    and "handle_any sv u n' q w = (r, w')"
  shows "owned username_label_name owner (sessions (sv_k8s sv) (v w')) n m"
proof (cases q)
  case (Life p)
  have t: "sv_k8s (service.truncate sv) = sv_k8s sv" by (simp add: service.truncate_def)
  have e: "quiet_environment v (service.truncate sv)" using assms(3) by (simp add: quiet_launch_def)
  from Life assms(8) have "handle_request (service.truncate sv) u n' p w = (r, w')" by (simp add: handle_any_def)
  from others_keep [OF _ e _ assms(6) this, unfolded t assms(4), OF assms(1, 5)] show ?thesis .
next
  case (Launching a kind)
  with assms(8) obtain r' where "launch_notebook_helper sv u n' a kind w = (r', w')"
    by (auto simp: handle_any_def elim: bindC_cases)
  from launch_steps [OF assms(1-4) this] assms(5, 7) Launching show ?thesis
    by (cases "n' = n") (auto simp: owned_def launches_name_def)
qed


section \<open>An example\<close>

text \<open>The cluster of \<open>LaunchRun\<close> keeps these laws.\<close>

lemma live_cluster: "faithful_cluster strict_view (sv_k8s live_launch)"
proof -
  have "cache_get_server (js_cache_of live_client) n w = (Inl cache_unavailable, w)" for n w
    by (simp add: cache_get_server_def catch_requests_def http_get_def live_client_def example_client_def bindC_eval catchC_eval)
  moreover have "faithful strict_view (strict_client\<lparr>create_object := live_create\<rparr>)"
    using strict_faithful by (simp add: faithful_def cong: sum.case_cong)
  ultimately show ?thesis
    by (auto simp: faithful_cluster_def live_facts live_client_def example_client_def strict_view_def valid_session_object
        split: if_splits option.splits simp del: jpath.simps)
qed

lemma live_valid: "valid_session (running_session n u)"
  by (simp add: valid_session_def running_session_def is_object_def)

lemma live_session:
  "server_owner username_label_name (running_session n u) = Inr (JStr u)"
  "currently_hibernated (Some (running_session n u)) = Inr False"
  by (simp_all add: running_session_def server_owner_def username_label_name_def
      renku_annotation_prefix_def currently_hibernated_def py_get_def)

lemma jitems_jpath: "jitems m ks = Inr j \<Longrightarrow> jpath m ks d = Inr j"
  by (induction m ks d rule: jpath.induct) (auto simp: bindE_Inr_iff jitem_Inr_iff)

lemma live_creating: "creating strict_view username_label_name (preferred_client (sv_k8s live_launch))"
proof -
  have c: "create_object (preferred_client (sv_k8s live_launch)) = live_create" "namespace (preferred_client (sv_k8s live_launch)) = ''renku''"
    by (simp_all add: live_facts live_client_def preferred_client_def example_client_def strict_client_def)
  show ?thesis
    unfolding creating_def c
    by (auto simp: live_create_def strict_view_changes live_valid live_session strict_view_def jitems_jpath
        split: if_splits sum.splits json.splits simp del: jpath.simps jitems.simps)
qed

lemma live_quiet: "quiet_launch strict_view live_launch"
  by (simp add: quiet_launch_def quiet_environment_def live_launch_def service.truncate_def example_launch_def
      example_client_def live_client_def no_lookup_def)

lemma live_label: "username_label (sv_k8s live_launch) = username_label_name"
  by (simp add: live_facts live_client_def example_client_def username_label_name_def renku_annotation_prefix_def)



end
