(* ===== verification/Urls.thy ===== *)
theory Urls
  imports Http
begin

text \<open>
  \<open>urllib.parse\<close> as the git services use it (\<open>urlparse\<close>, its \<open>hostname\<close> and \<open>urljoin\<close> with a
  relative path), after CPython's implementation, and \<open>shlex.quote\<close>.  A host in brackets is only
  checked for balance.
\<close>

section \<open>Splitting\<close>

record url_parts =
  up_scheme :: string
  up_netloc :: string
  up_path :: string
  up_params :: string
  up_query :: string
  up_fragment :: string

definition scheme_char :: "char \<Rightarrow> bool" where
  "scheme_char c \<longleftrightarrow> is_letter c \<or> is_digit c \<or> c \<in> set ''+-.''"

text \<open>\<open>s.partition(c)\<close> without the separator.\<close>

definition cut :: "char \<Rightarrow> string \<Rightarrow> string \<times> string" where
  "cut c s = (takeWhile (\<lambda>d. d \<noteq> c) s, drop 1 (dropWhile (\<lambda>d. d \<noteq> c) s))"

definition url_clean :: "string \<Rightarrow> string" where
  "url_clean s = filter (\<lambda>c. code c \<notin> {9, 10, 13}) (dropWhile (\<lambda>c. code c \<le> 32) s)"

definition url_cut_scheme :: "string \<Rightarrow> string \<times> string" where
  "url_cut_scheme url =
     (let s = takeWhile (\<lambda>c. c \<noteq> CHR '':'') url; r = drop (length s) url in
      if s \<noteq> [] \<and> r \<noteq> [] \<and> is_letter (hd s) \<and> list_all scheme_char s then (lower s, tl r) else ([], url))"

definition uses_params :: "string list" where
  "uses_params = [[], ''ftp'', ''hdl'', ''prospero'', ''http'', ''https'', ''shttp'', ''rtsp'', ''rtspu'', ''sip'', ''sips'',
     ''mms'', ''sftp'', ''tel'']"

definition uses_relative :: "string list" where
  "uses_relative = [[], ''ftp'', ''http'', ''gopher'', ''nntp'', ''imap'', ''wais'', ''file'', ''https'', ''shttp'', ''mms'',
     ''prospero'', ''rtsp'', ''rtspu'', ''sftp'', ''svn'', ''svn+ssh'', ''ws'', ''wss'']"

text \<open>The parameters are cut off the last segment of the path.\<close>

definition cut_params :: "string \<Rightarrow> string \<times> string" where
  "cut_params p =
     (let segs = splits CHR ''/'' p; (l, params) = cut CHR '';'' (last segs)
      in (join ''/'' (butlast segs @ [l]), params))"

definition urlparse :: "string \<Rightarrow> url_parts res" where
  "urlparse url0 =
     (let (scheme, rest) = url_cut_scheme (url_clean url0);
          (netloc, tail) = (if startswith rest ''//''
             then (takeWhile (\<lambda>c. \<not> ends_host c) (drop 2 rest), dropWhile (\<lambda>c. \<not> ends_host c) (drop 2 rest))
             else ([], rest));
          (front, fragment) = cut CHR ''#'' tail;
          (whole, query) = cut CHR ''?'' front;
          (path, params) = (if scheme \<in> set uses_params then cut_params whole else (whole, []))
      in if (CHR ''['' \<in> set netloc) \<noteq> (CHR '']'' \<in> set netloc) then Inl (ValueError ''Invalid IPv6 URL'')
         else Inr \<lparr>up_scheme = scheme, up_netloc = netloc, up_path = path, up_params = params,
                   up_query = query, up_fragment = fragment\<rparr>)"

text \<open>\<open>parsed.hostname\<close>; \<open>None\<close> when there is none.\<close>

definition url_hostname :: "url_parts \<Rightarrow> string option" where
  "url_hostname p =
     (let n = up_netloc p;
          info = (if CHR ''@'' \<in> set n then rev (takeWhile (\<lambda>c. c \<noteq> CHR ''@'') (rev n)) else n);
          h = (if CHR ''['' \<in> set info then fst (cut CHR '']'' (snd (cut CHR ''['' info))) else fst (cut CHR '':'' info));
          (host, zone) = cut CHR ''%'' h
      in if h = [] then None else Some (lower host @ (if CHR ''%'' \<in> set h then ''%'' @ zone else [])))"

section \<open>Joining\<close>

definition urlunparse :: "url_parts \<Rightarrow> string" where
  "urlunparse p =
     (let path = (if up_params p = [] then up_path p else up_path p @ '';'' @ up_params p);
          body = (if up_netloc p \<noteq> []
            then ''//'' @ up_netloc p @ (if path \<noteq> [] \<and> hd path \<noteq> CHR ''/'' then ''/'' @ path else path) else path)
      in (if up_scheme p = [] then [] else up_scheme p @ '':'') @ body
         @ (if up_query p = [] then [] else ''?'' @ up_query p)
         @ (if up_fragment p = [] then [] else ''#'' @ up_fragment p))"

text \<open>
  \<open>urljoin(base, path)\<close> for a relative path without a query or fragment: the last segment of the
  base's path is replaced, empty inner segments vanish.
\<close>

definition url_join :: "string \<Rightarrow> string \<Rightarrow> string res" where
  "url_join base path =
     bindE (urlparse base) (\<lambda>b.
       if up_scheme b \<notin> set uses_relative then Inr path
       else
         (let base_parts = splits CHR ''/'' (up_path b);
              dirs = (if last base_parts \<noteq> [] then butlast base_parts else base_parts);
              segs = dirs @ splits CHR ''/'' path;
              inner = (if length segs \<le> 2 then segs
                else hd segs # filter (\<lambda>s. s \<noteq> []) (butlast (tl segs)) @ [last segs]);
              rs = resolve_segments [] inner;
              p = join ''/'' (if last inner \<in> {''.'', ''..''} then rs @ [[]] else rs)
          in Inr (urlunparse \<lparr>up_scheme = up_scheme b, up_netloc = up_netloc b, up_path = (if p = [] then ''/'' else p),
                    up_params = [], up_query = [], up_fragment = []\<rparr>)))"

section \<open>\<open>shlex.quote\<close>\<close>

definition shell_safe :: "char \<Rightarrow> bool" where
  "shell_safe c \<longleftrightarrow> is_letter c \<or> is_digit c \<or> c \<in> set ''_@%+=:,./-''"

definition quote_char :: char where "quote_char = char_of (39 :: nat)"

definition shlex_quote :: "string \<Rightarrow> string" where
  "shlex_quote s =
     (if s = [] then [quote_char, quote_char]
      else if list_all shell_safe s then s
      else quote_char # concat (map (\<lambda>c. if c = quote_char then [quote_char, CHR 0x22, quote_char, CHR 0x22, quote_char] else [c]) s)
             @ [quote_char])"

lemma shlex_quote_safe [simp]: "s \<noteq> [] \<Longrightarrow> list_all shell_safe s \<Longrightarrow> shlex_quote s = s"
  by (simp add: shlex_quote_def)

lemma length_quoted: "length s \<le> length (concat (map (\<lambda>c. if c = q then [q, d, q, d, q] else [c]) s))"
  by (induction s) auto

lemma shlex_quote_longer:
  assumes "s = [] \<or> \<not> list_all shell_safe s"
  shows "length s < length (shlex_quote s)"
  using assms length_quoted [of s quote_char "CHR 0x22"] by (auto simp: shlex_quote_def less_Suc_eq_le)

end
