(* ===== verification/GitCli.thy ===== *)
theory GitCli
  imports Urls Paths
begin

text \<open>
  The git command line as the git services call it (\<open>git_services/cli/__init__.py\<close>), the errors of the
  clone step (\<open>git_services/init/errors.py\<close>) and what the services ask of the operating system.
  Processes, files and the disk are a parameter: functions on an arbitrary world \<open>'w\<close>.
\<close>

section \<open>Errors\<close>

datatype clone_error =
    GitCloneGenericError | GitServerUnavailableError | NoDiskSpaceError | BranchDoesNotExistError
  | GitSubmoduleError | CloudStorageOverwritesExistingFilesError | CloudStorageMountPathNotAbsolute
  | GitFetchError

fun exit_code :: "clone_error \<Rightarrow> int" where
  "exit_code GitCloneGenericError = 200"
| "exit_code GitServerUnavailableError = 201"
| "exit_code NoDiskSpaceError = 203"
| "exit_code BranchDoesNotExistError = 204"
| "exit_code GitSubmoduleError = 205"
| "exit_code CloudStorageOverwritesExistingFilesError = 206"
| "exit_code CloudStorageMountPathNotAbsolute = 207"
| "exit_code GitFetchError = 208"

text \<open>
  \<open>OSError\<close>: what a call to the operating system raises, a child process's output that cannot be
  decoded included.  \<open>JsonRpc\<close>: an error of the sidecar's protocol with its code and message.
\<close>

datatype gexc =
    GitCommandError (ge_returncode: int) (ge_stdout: string) (ge_stderr: string)
  | RepoDirectoryDoesNotExistError
  | CloneExc clone_error
  | OSError string
  | PyExc exc
  | SidecarUserError string
  | SidecarError string
  | RenkuException "string option" string
  | JsonRpc int string

text \<open>A computation that depends on the state it starts in.\<close>

definition with_state :: "('s \<Rightarrow> ('s, 'e, 'a) comp) \<Rightarrow> ('s, 'e, 'a) comp" where
  "with_state f = (\<lambda>s. f s s)"

definition newline_char :: char where "newline_char = char_of (10 :: nat)"

type_synonym ('w, 'a) geff = "('w, gexc, 'a) comp"

section \<open>The operating system\<close>

text \<open>
  \<open>os_popen args cwd\<close> runs a process to its end and returns its exit code and decoded outputs, under
  \<open>subprocess\<close> and under \<open>gevent\<close> alike; \<open>os_mkdir\<close> makes the parents too and accepts an existing
  directory; \<open>os_write\<close> replaces a file, \<open>os_append\<close> extends it, \<open>os_unlink\<close> accepts a missing file;
  \<open>os_rmtree\<close> ignores errors; \<open>os_free\<close> is the free space in bytes.
\<close>

record 'w os =
  os_popen :: "string list \<Rightarrow> path \<Rightarrow> ('w, string, int \<times> string \<times> string) comp"
  os_exists :: "path \<Rightarrow> ('w, string, bool) comp"
  os_mkdir :: "path \<Rightarrow> ('w, string, unit) comp"
  os_write :: "path \<Rightarrow> string \<Rightarrow> ('w, string, unit) comp"
  os_append :: "path \<Rightarrow> string \<Rightarrow> ('w, string, unit) comp"
  os_unlink :: "path \<Rightarrow> ('w, string, unit) comp"
  os_free :: "path \<Rightarrow> ('w, string, int) comp"
  os_rmtree :: "path \<Rightarrow> 'w \<Rightarrow> 'w"

definition on_os :: "('w, string, 'a) comp \<Rightarrow> ('w, 'a) geff" where
  "on_os m = (\<lambda>w. case m w of (Inl e, w') \<Rightarrow> (Inl (OSError e), w') | (Inr x, w') \<Rightarrow> (Inr x, w'))"

text \<open>A computation of the service that raises Python's own exceptions.\<close>

definition on_py :: "('w, exc, 'a) comp \<Rightarrow> ('w, 'a) geff" where
  "on_py m = (\<lambda>w. case m w of (Inl e, w') \<Rightarrow> (Inl (PyExc e), w') | (Inr x, w') \<Rightarrow> (Inr x, w'))"

section \<open>\<open>GitCLI\<close>\<close>

datatype git_cli = GitCLI (repo_directory: path)

definition new_git_cli :: "('w, 'm) os_scheme \<Rightarrow> path \<Rightarrow> ('w, git_cli) geff" where
  "new_git_cli os repo_dir =
     bindC (on_os (os_exists os repo_dir)) (\<lambda>there.
       if \<not> there then raise RepoDirectoryDoesNotExistError else ret (GitCLI repo_dir))"

definition execute_command :: "('w, 'm) os_scheme \<Rightarrow> git_cli \<Rightarrow> string list \<Rightarrow> ('w, string) geff" where
  "execute_command os cli args =
     bindC (on_os (os_popen os args (repo_directory cli))) (\<lambda>(returncode, stdout, stderr).
       if 0 < length stderr \<and> returncode \<noteq> 0 then raise (GitCommandError returncode stdout stderr)
       else ret stdout)"

definition git_config :: "('w, 'm) os_scheme \<Rightarrow> string list \<Rightarrow> git_cli \<Rightarrow> ('w, string) geff" where
  "git_config os args cli = execute_command os cli ([''git'', ''config''] @ args)"

definition git_push :: "('w, 'm) os_scheme \<Rightarrow> string list \<Rightarrow> git_cli \<Rightarrow> ('w, string) geff" where
  "git_push os args cli = execute_command os cli ([''git'', ''push''] @ args)"

definition git_submodule :: "('w, 'm) os_scheme \<Rightarrow> string list \<Rightarrow> git_cli \<Rightarrow> ('w, string) geff" where
  "git_submodule os args cli = execute_command os cli ([''git'', ''submodule''] @ args)"

definition git_checkout :: "('w, 'm) os_scheme \<Rightarrow> string list \<Rightarrow> git_cli \<Rightarrow> ('w, string) geff" where
  "git_checkout os args cli = execute_command os cli ([''git'', ''checkout''] @ args)"

definition git_lfs :: "('w, 'm) os_scheme \<Rightarrow> string list \<Rightarrow> git_cli \<Rightarrow> ('w, string) geff" where
  "git_lfs os args cli = execute_command os cli ([''git'', ''lfs''] @ args)"

definition git_branch :: "('w, 'm) os_scheme \<Rightarrow> string list \<Rightarrow> git_cli \<Rightarrow> ('w, string) geff" where
  "git_branch os args cli = execute_command os cli ([''git'', ''branch''] @ args)"

definition git_remote :: "('w, 'm) os_scheme \<Rightarrow> string list \<Rightarrow> git_cli \<Rightarrow> ('w, string) geff" where
  "git_remote os args cli = execute_command os cli ([''git'', ''remote''] @ args)"

definition git_reset :: "('w, 'm) os_scheme \<Rightarrow> string list \<Rightarrow> git_cli \<Rightarrow> ('w, string) geff" where
  "git_reset os args cli = execute_command os cli ([''git'', ''reset''] @ args)"

definition git_fetch :: "('w, 'm) os_scheme \<Rightarrow> string list \<Rightarrow> git_cli \<Rightarrow> ('w, string) geff" where
  "git_fetch os args cli = execute_command os cli ([''git'', ''fetch''] @ args)"

definition git_rev_parse :: "('w, 'm) os_scheme \<Rightarrow> string list \<Rightarrow> git_cli \<Rightarrow> ('w, string) geff" where
  "git_rev_parse os args cli = execute_command os cli ([''git'', ''rev-parse''] @ args)"

definition git_init :: "('w, 'm) os_scheme \<Rightarrow> string list \<Rightarrow> git_cli \<Rightarrow> ('w, string) geff" where
  "git_init os args cli = execute_command os cli ([''git'', ''init''] @ args)"

definition git_status :: "('w, 'm) os_scheme \<Rightarrow> string list \<Rightarrow> git_cli \<Rightarrow> ('w, string) geff" where
  "git_status os args cli = execute_command os cli ([''git'', ''status''] @ args)"

definition git_add :: "('w, 'm) os_scheme \<Rightarrow> string list \<Rightarrow> git_cli \<Rightarrow> ('w, string) geff" where
  "git_add os args cli = execute_command os cli ([''git'', ''add''] @ args)"

definition git_commit :: "('w, 'm) os_scheme \<Rightarrow> string list \<Rightarrow> git_cli \<Rightarrow> ('w, string) geff" where
  "git_commit os args cli = execute_command os cli ([''git'', ''commit''] @ args)"

definition git_clean :: "('w, 'm) os_scheme \<Rightarrow> string list \<Rightarrow> git_cli \<Rightarrow> ('w, string) geff" where
  "git_clean os args cli = execute_command os cli ([''git'', ''clean''] @ args)"

definition git_pull :: "('w, 'm) os_scheme \<Rightarrow> string list \<Rightarrow> git_cli \<Rightarrow> ('w, string) geff" where
  "git_pull os args cli = execute_command os cli ([''git'', ''pull''] @ args)"

definition git_clone :: "('w, 'm) os_scheme \<Rightarrow> string list \<Rightarrow> git_cli \<Rightarrow> ('w, string) geff" where
  "git_clone os args cli = execute_command os cli ([''git'', ''clone''] @ args)"

definition git_diff :: "('w, 'm) os_scheme \<Rightarrow> string list \<Rightarrow> git_cli \<Rightarrow> ('w, string) geff" where
  "git_diff os args cli = execute_command os cli ([''git'', ''diff''] @ args)"

definition git_symbolic_ref :: "('w, 'm) os_scheme \<Rightarrow> string list \<Rightarrow> git_cli \<Rightarrow> ('w, string) geff" where
  "git_symbolic_ref os args cli = execute_command os cli ([''git'', ''symbolic-ref''] @ args)"

lemmas git_command_defs = git_config_def git_push_def git_submodule_def git_checkout_def git_lfs_def
  git_branch_def git_remote_def git_reset_def git_fetch_def git_rev_parse_def git_init_def git_status_def
  git_add_def git_commit_def git_clean_def git_pull_def git_clone_def git_diff_def git_symbolic_ref_def

section \<open>Facts\<close>

named_theorems raises_intros \<open>which errors a computation can raise\<close>

text \<open>\<open>raises Q m\<close>: an error that \<open>m\<close> ends with satisfies \<open>Q\<close>.\<close>

definition raises :: "('e \<Rightarrow> bool) \<Rightarrow> ('w, 'e, 'a) comp \<Rightarrow> bool" where
  "raises Q m \<longleftrightarrow> (\<forall>w e w'. m w = (Inl e, w') \<longrightarrow> Q e)"

lemma raisesD: "raises Q m \<Longrightarrow> m w = (Inl e, w') \<Longrightarrow> Q e"
  by (auto simp: raises_def)

lemma raises_mono: "raises Q m \<Longrightarrow> (\<And>e. Q e \<Longrightarrow> R e) \<Longrightarrow> raises R m"
  by (auto simp: raises_def)

lemma raises_ret [raises_intros]: "raises Q (ret x)"
  by (simp add: raises_def)

lemma raises_raise [raises_intros]: "Q e \<Longrightarrow> raises Q (raise e)"
  by (simp add: raises_def)

lemma raises_bindC [raises_intros]:
  "raises Q m \<Longrightarrow> (\<And>x. raises Q (f x)) \<Longrightarrow> raises Q (bindC m f)"
  unfolding raises_def bindC_def by (auto split: prod.splits sum.splits)

lemma raises_with_state [raises_intros]: "(\<And>s. raises Q (f s)) \<Longrightarrow> raises Q (with_state f)"
  by (auto simp: raises_def with_state_def)

lemma raises_option [raises_intros]:
  "raises Q m \<Longrightarrow> (\<And>x. raises Q (f x)) \<Longrightarrow> raises Q (case v of None \<Rightarrow> m | Some x \<Rightarrow> f x)"
  by (cases v) simp_all

lemma raises_catchC:
  assumes "raises R m" and "\<And>e. R e \<Longrightarrow> raises Q (h e)"
  shows "raises Q (catchC m h)"
  unfolding raises_def
proof (intro allI impI)
  fix w e w'
  assume run: "catchC m h w = (Inl e, w')"
  obtain r w1 where m: "m w = (r, w1)" by (cases "m w")
  with run obtain e1 where "r = Inl e1" "h e1 w1 = (Inl e, w')" by (cases r) (simp_all add: catchC_def)
  with assms m show "Q e" by (blast dest: raisesD)
qed

text \<open>
  \<open>allows E\<close>: the errors of the clone step in \<open>E\<close> and every error of git, of the operating system and of
  Python.  Neither a git command nor a call to the operating system raises one of the former.
\<close>

definition allows :: "clone_error set \<Rightarrow> gexc \<Rightarrow> bool" where
  "allows E e \<longleftrightarrow> (case e of CloneExc k \<Rightarrow> k \<in> E | JsonRpc _ _ \<Rightarrow> False | _ \<Rightarrow> True)"

lemma allows_simps [simp]:
  "allows E (GitCommandError a b c)" "allows E RepoDirectoryDoesNotExistError" "allows E (OSError x)"
  "allows E (PyExc y)" "allows E (SidecarUserError m)" "allows E (SidecarError m)" "allows E (RenkuException q n)"
  "\<not> allows E (JsonRpc d m)" "allows E (CloneExc k) \<longleftrightarrow> k \<in> E"
  by (simp_all add: allows_def)

lemma raises_on_os [raises_intros]: "raises (allows E) (on_os m)"
  by (auto simp: raises_def on_os_def split: prod.splits sum.splits)

lemma raises_on_py [raises_intros]: "raises (allows E) (on_py m)"
  by (auto simp: raises_def on_py_def split: prod.splits sum.splits)

lemma raises_if [raises_intros]:
  "(b \<Longrightarrow> raises Q m) \<Longrightarrow> (\<not> b \<Longrightarrow> raises Q m') \<Longrightarrow> raises Q (if b then m else m')"
  by simp

lemma raises_execute_command [raises_intros]: "raises (allows E) (execute_command os cli args)"
  unfolding execute_command_def split_beta by (intro raises_intros) simp

lemma raises_new_git_cli [raises_intros]: "raises (allows E) (new_git_cli os p)"
  unfolding new_git_cli_def by (intro raises_intros) simp

text \<open>\<open>keeps P m\<close>: \<open>P\<close> of the state survives \<open>m\<close>, whether it returns or raises.\<close>

named_theorems keeps_intros \<open>which properties of the state a computation keeps\<close>

definition keeps :: "('w \<Rightarrow> bool) \<Rightarrow> ('w, 'e, 'a) comp \<Rightarrow> bool" where
  "keeps P m \<longleftrightarrow> (\<forall>w. P w \<longrightarrow> P (snd (m w)))"

lemma keepsD: "keeps P m \<Longrightarrow> m w = (r, w') \<Longrightarrow> P w \<Longrightarrow> P w'"
  by (auto simp: keeps_def dest: spec [of _ w])

lemma keeps_pure [keeps_intros]: "keeps P (ret x)" "keeps P (raise e)" "keeps P (liftE r)"
  by (simp_all add: keeps_def)

lemma keeps_bindC [keeps_intros]:
  assumes "keeps P m" and "\<And>x. keeps P (f x)"
  shows "keeps P (bindC m f)"
  unfolding keeps_def
proof (intro allI impI)
  fix w
  assume "P w"
  moreover obtain r w1 where m: "m w = (r, w1)" by (cases "m w")
  ultimately have "P w1" using assms(1) by (blast dest: keepsD)
  with m assms(2) show "P (snd (bindC m f w))" by (cases r) (simp_all add: bindC_def keeps_def)
qed

lemma keeps_catchC [keeps_intros]:
  assumes "keeps P m" and "\<And>e. keeps P (h e)"
  shows "keeps P (catchC m h)"
  unfolding keeps_def
proof (intro allI impI)
  fix w
  assume "P w"
  moreover obtain r w1 where m: "m w = (r, w1)" by (cases "m w")
  ultimately have "P w1" using assms(1) by (blast dest: keepsD)
  with m assms(2) show "P (snd (catchC m h w))" by (cases r) (simp_all add: catchC_def keeps_def)
qed

lemma keeps_with_state [keeps_intros]: "(\<And>s. P s \<Longrightarrow> keeps P (f s)) \<Longrightarrow> keeps P (with_state f)"
  by (auto simp: keeps_def with_state_def)

lemma keeps_option [keeps_intros]:
  "keeps P m \<Longrightarrow> (\<And>x. keeps P (f x)) \<Longrightarrow> keeps P (case v of None \<Rightarrow> m | Some x \<Rightarrow> f x)"
  by (cases v) simp_all

lemma keeps_if [keeps_intros]:
  "(b \<Longrightarrow> keeps P m) \<Longrightarrow> (\<not> b \<Longrightarrow> keeps P m') \<Longrightarrow> keeps P (if b then m else m')"
  by simp

lemma snd_on_os [simp]: "snd (on_os m w) = snd (m w)"
  by (simp add: on_os_def split: prod.splits sum.splits)

lemma keeps_on_os [keeps_intros]: "keeps P m \<Longrightarrow> keeps P (on_os m)"
  by (simp add: keeps_def snd_on_os)

lemma snd_on_py [simp]: "snd (on_py m w) = snd (m w)"
  by (simp add: on_py_def split: prod.splits sum.splits)

lemma keeps_on_py [keeps_intros]: "keeps P m \<Longrightarrow> keeps P (on_py m)"
  by (simp add: keeps_def snd_on_py)

lemma keeps_execute_command [keeps_intros]:
  "keeps P (os_popen os args (repo_directory cli)) \<Longrightarrow> keeps P (execute_command os cli args)"
  unfolding execute_command_def split_beta by (intro keeps_intros)

lemma keeps_new_git_cli [keeps_intros]: "keeps P (os_exists os p) \<Longrightarrow> keeps P (new_git_cli os p)"
  unfolding new_git_cli_def by (intro keeps_intros)

end
