(* ===== verification/GitConfig.thy ===== *)
theory GitConfig
  imports GitCli Codec
begin

text \<open>
  The configuration of the clone step (\<open>git_services/init/config.py\<close>, \<open>git_services/cli/sentry.py\<close>):
  the dataclasses that \<open>dataconf\<close> fills from the environment, and what their \<open>__post_init__\<close> methods
  check and rewrite.  Reading the environment is the package's: the model starts from the fields.
\<close>

section \<open>Flags\<close>

datatype flag = FStr string | FBool bool

fun flag_on :: "flag \<Rightarrow> bool" where
  "flag_on (FBool b) = b"
| "flag_on (FStr s) = (s \<noteq> [])"

definition check_bool_flag :: "string \<Rightarrow> flag \<Rightarrow> gexc + flag" where
  "check_bool_flag attr v =
     (case v of
        FBool b \<Rightarrow> Inr v
      | FStr s \<Rightarrow>
          if s \<notin> {''0'', ''1''} then Inl (PyExc (ValueError (attr @ '' can only be a string with values '0' or '1' '')))
          else Inr (FBool (s = ''1'')))"

section \<open>Sentry\<close>

record sentry_config =
  se_enabled :: flag
  se_dsn :: "string option"
  se_environment :: "string option"
  se_sample_rate :: rat

definition none_if_empty :: "string option \<Rightarrow> string option" where
  "none_if_empty s = (if s = Some [] then None else s)"

definition sentry_post_init :: "sentry_config \<Rightarrow> sentry_config" where
  "sentry_post_init c =
     c\<lparr>se_enabled := (case se_enabled c of FStr s \<Rightarrow> FBool (lower s = ''true'') | FBool b \<Rightarrow> FBool b),
       se_dsn := none_if_empty (se_dsn c), se_environment := none_if_empty (se_environment c)\<rparr>"

section \<open>The clone step\<close>

record clone_user =
  cu_username :: string
  cu_full_name :: "string option"
  cu_email :: "string option"
  cu_renku_token :: "string option"

definition user_post_init :: "clone_user \<Rightarrow> clone_user" where
  "user_post_init u =
     u\<lparr>cu_full_name := map_option shlex_quote (cu_full_name u), cu_email := map_option shlex_quote (cu_email u)\<rparr>"

definition is_anonymous :: "clone_user \<Rightarrow> bool" where
  "is_anonymous u \<longleftrightarrow> cu_renku_token u = None \<or> cu_renku_token u = Some []"

record config_repo =
  cr_url :: string
  cr_provider :: "string option"
  cr_dirname :: "string option"
  cr_branch :: "string option"
  cr_commit_sha :: "string option"

record provider =
  pr_id :: string
  pr_access_token_url :: string

record clone_config =
  cc_sentry :: sentry_config
  cc_mount_path :: string
  cc_user :: clone_user
  cc_repositories :: "config_repo list"
  cc_git_providers :: "provider list"
  cc_lfs_auto_fetch :: flag
  cc_storage_mounts :: "string list"
  cc_is_git_proxy_enabled :: flag
  cc_git_proxy_port :: int

definition config_post_init :: "clone_config \<Rightarrow> gexc + clone_config" where
  "config_post_init c =
     bindE (check_bool_flag ''lfs_auto_fetch'' (cc_lfs_auto_fetch c)) (\<lambda>lfs.
     bindE (check_bool_flag ''is_git_proxy_enabled'' (cc_is_git_proxy_enabled c)) (\<lambda>proxy.
       if list_all (\<lambda>m. is_absolute (path_of m)) (cc_storage_mounts c)
       then Inr (c\<lparr>cc_lfs_auto_fetch := lfs, cc_is_git_proxy_enabled := proxy\<rparr>)
       else Inl (CloneExc CloudStorageMountPathNotAbsolute)))"

text \<open>\<open>config_from_env\<close> over the fields that the environment sets: the nested objects are made first.\<close>

definition config_from_env :: "clone_config \<Rightarrow> gexc + clone_config" where
  "config_from_env settings =
     config_post_init (settings\<lparr>cc_sentry := sentry_post_init (cc_sentry settings), cc_user := user_post_init (cc_user settings)\<rparr>)"

lemma config_from_env_sel:
  assumes "config_from_env settings = Inr c"
  shows "cc_mount_path c = cc_mount_path settings" "cc_user c = user_post_init (cc_user settings)"
    "cc_repositories c = cc_repositories settings" "cc_storage_mounts c = cc_storage_mounts settings"
    "list_all (\<lambda>m. is_absolute (path_of m)) (cc_storage_mounts c)"
  using assms by (auto simp: config_from_env_def config_post_init_def bindE_Inr_iff split: if_splits)

end
