(* ===== verification/GitCloner.thy ===== *)
theory GitCloner
  imports GitConfig
begin

text \<open>
  The clone step of a session (\<open>git_services/init/cloner.py\<close> and \<open>git_services/init/clone.py\<close>, with
  the exception hook of \<open>init/errors.py\<close>).  A computation threads the world, the access tokens the
  cloner has cached, and the \<open>_git_cli\<close> field of the repository being processed.  Besides the operating
  system the parameters are the \<open>requests\<close> package, the text of a traceback and the three random
  characters of a directory name.
\<close>

section \<open>State\<close>

record repository =
  rp_url :: string
  rp_dirname :: string
  rp_absolute_path :: path
  rp_provider :: "string option"
  rp_branch :: "string option"
  rp_commit_sha :: "string option"

record 'w cstate =
  cs_world :: 'w
  cs_cli :: "git_cli option"
  cs_tokens :: "(string, json) dict"

record 'w clone_env = "'w os" +
  ce_http :: "'w http"
  ce_traceback :: "clone_error \<Rightarrow> string"

record cloner =
  cl_mount_path :: path
  cl_git_providers :: "(string, provider) dict"
  cl_user :: clone_user
  cl_repositories :: "repository list"
  cl_lfs_auto_fetch :: bool
  cl_is_git_proxy_enabled :: bool
  cl_proxy_url :: string

definition remote_name :: string where
  "remote_name = ''origin''"

type_synonym ('w, 'a) ceff = "('w cstate, gexc, 'a) comp"

definition on_world :: "('w, 'a) geff \<Rightarrow> ('w, 'a) ceff" where
  "on_world m = (\<lambda>s. case m (cs_world s) of (r, w) \<Rightarrow> (r, s\<lparr>cs_world := w\<rparr>))"

definition py_res :: "'a res \<Rightarrow> gexc + 'a" where
  "py_res r = (case r of Inl e \<Rightarrow> Inl (PyExc e) | Inr x \<Rightarrow> Inr x)"

definition some_text :: "string option \<Rightarrow> bool" where
  "some_text s \<longleftrightarrow> (case s of None \<Rightarrow> False | Some t \<Rightarrow> t \<noteq> [])"

section \<open>Repositories\<close>

definition removesuffix :: "string \<Rightarrow> string \<Rightarrow> string" where
  "removesuffix s x = (if x \<noteq> [] \<and> endswith s x then take (length s - length x) s else s)"

definition make_dirname :: "string \<Rightarrow> string \<Rightarrow> string res" where
  "make_dirname rand url =
     bindE (urlparse url) (\<lambda>parsed.
       let path = (if up_path parsed \<noteq> [] then up_path parsed
             else (case url_hostname parsed of Some h \<Rightarrow> h | None \<Rightarrow> []));
           path = removesuffix (removesuffix path ''.git'') ''/'';
           dirname = last (splits CHR ''/'' path)
       in Inr (if dirname \<noteq> [] then dirname else ''repo-'' @ rand))"

definition from_config_repo :: "string \<Rightarrow> config_repo \<Rightarrow> path \<Rightarrow> repository res" where
  "from_config_repo rand d mount_path =
     bindE (if some_text (cr_dirname d) then Inr (the (cr_dirname d)) else make_dirname rand (cr_url d)) (\<lambda>dirname.
     Inr \<lparr>rp_url = cr_url d, rp_dirname = dirname, rp_absolute_path = path_join mount_path (path_of dirname),
          rp_provider = cr_provider d, rp_branch = cr_branch d, rp_commit_sha = cr_commit_sha d\<rparr>)"

definition keep_cli :: "git_cli \<Rightarrow> ('w, git_cli) ceff" where
  "keep_cli c = (\<lambda>s. (Inr c, s\<lparr>cs_cli := Some c\<rparr>))"

definition repo_cli :: "('w, 'm) os_scheme \<Rightarrow> repository \<Rightarrow> ('w, git_cli) ceff" where
  "repo_cli os r =
     with_state (\<lambda>s. case cs_cli s of
        Some c \<Rightarrow> ret c
      | None \<Rightarrow>
          bindC (on_world (on_os (os_exists os (rp_absolute_path r)))) (\<lambda>there.
          bindC (if there then ret () else on_world (on_os (os_mkdir os (rp_absolute_path r)))) (\<lambda>_.
          bindC (on_world (new_git_cli os (rp_absolute_path r))) keep_cli)))"

text \<open>\<open>repository.git_cli.git_xxx(args)\<close>.\<close>

definition git ::
  "(('w, 'm) os_scheme \<Rightarrow> string list \<Rightarrow> git_cli \<Rightarrow> ('w, string) geff)
    \<Rightarrow> ('w, 'm) os_scheme \<Rightarrow> repository \<Rightarrow> string list \<Rightarrow> ('w, string) ceff" where
  "git command os r args = bindC (repo_cli os r) (\<lambda>c. on_world (command os args c))"

definition is_git_error :: "gexc \<Rightarrow> bool" where
  "is_git_error e \<longleftrightarrow> (case e of GitCommandError _ _ _ \<Rightarrow> True | _ \<Rightarrow> False)"

text \<open>\<open>try: m except GitCommandError as e: h(e)\<close>.\<close>

definition catch_git :: "('w, 'a) ceff \<Rightarrow> (gexc \<Rightarrow> ('w, 'a) ceff) \<Rightarrow> ('w, 'a) ceff" where
  "catch_git m h = catchC m (\<lambda>e. if is_git_error e then h e else raise e)"

definition repo_exists :: "('w, 'm) os_scheme \<Rightarrow> repository \<Rightarrow> ('w, bool) ceff" where
  "repo_exists os r =
     catch_git
       (bindC (git git_rev_parse os r [''--is-inside-work-tree'']) (\<lambda>out.
          ret (strip is_space (lower out) = ''true'')))
       (\<lambda>_. ret False)"

section \<open>The steps of the cloner\<close>

definition initialize_repo :: "('w, 'm) os_scheme \<Rightarrow> cloner \<Rightarrow> repository \<Rightarrow> ('w, unit) ceff" where
  "initialize_repo os c r =
     bindC (git git_init os r []) (\<lambda>_.
     bindC (case cu_email (cl_user c) of None \<Rightarrow> ret []
        | Some e \<Rightarrow> git git_config os r [''user.email'', e]) (\<lambda>_.
     bindC (case cu_full_name (cl_user c) of None \<Rightarrow> ret []
        | Some n \<Rightarrow> git git_config os r [''user.name'', n]) (\<lambda>_.
     bindC (git git_config os r [''push.default'', ''simple'']) (\<lambda>_. ret ()))))"

text \<open>\<open>a in b.parents\<close>.\<close>

definition inside :: "path \<Rightarrow> path \<Rightarrow> bool" where
  "inside b a \<longleftrightarrow> is_relative_to b a \<and> length (path_parts a) < length (path_parts b)"

definition relative_to :: "path \<Rightarrow> path \<Rightarrow> path" where
  "relative_to b a = Path [] (drop (length (path_parts a)) (path_parts b))"

definition exclude_lines :: "path \<Rightarrow> string list \<Rightarrow> string list" where
  "exclude_lines repo storages =
     map (\<lambda>m. path_str (relative_to (path_of m) repo)) (filter (\<lambda>m. inside (path_of m) repo) storages)"

definition exclude_storages_from_git :: "('w, 'm) os_scheme \<Rightarrow> repository \<Rightarrow> string list \<Rightarrow> ('w, unit) ceff" where
  "exclude_storages_from_git os r storages =
     (if storages = [] then ret ()
      else on_world (on_os (os_append os (path_join (rp_absolute_path r) (path_of ''.git/info/exclude''))
             (newline_char # concat (map (\<lambda>l. l @ [newline_char]) (exclude_lines (rp_absolute_path r) storages))))))"

definition store_token :: "string \<Rightarrow> json \<Rightarrow> ('w, json) ceff" where
  "store_token p t = (\<lambda>s. (Inr t, s\<lparr>cs_tokens := dset p t (cs_tokens s)\<rparr>))"

text \<open>Python's \<open>None\<close> and a token that is JSON \<open>null\<close> are both \<open>JNull\<close>.\<close>

definition get_access_token :: "'w clone_env \<Rightarrow> cloner \<Rightarrow> string \<Rightarrow> ('w, json) ceff" where
  "get_access_token env c provider_id =
     with_state (\<lambda>s. case dget (cs_tokens s) provider_id of
        Some t \<Rightarrow> ret t
      | None \<Rightarrow>
          (case dget (cl_git_providers c) provider_id of
             None \<Rightarrow> ret JNull
           | Some p \<Rightarrow>
               bindC (on_world (on_py (http_get (ce_http env) (pr_access_token_url p)
                 (Some [(''Authorization'', ''bearer '' @
                    (case cu_renku_token (cl_user c) of None \<Rightarrow> ''None'' | Some t \<Rightarrow> t))]) None))) (\<lambda>res.
               if resp_status res \<noteq> 200 then ret JNull
               else bindC (liftE (py_res (bindE (resp_body res) (\<lambda>token. jitem token ''access_token'')))) (\<lambda>t.
                    store_token provider_id t))))"

definition finallyC :: "('w, 'e, 'a) comp \<Rightarrow> ('w, 'e, unit) comp \<Rightarrow> ('w, 'e, 'a) comp" where
  "finallyC m cleanup = (\<lambda>w. case m w of (r, w') \<Rightarrow>
     (case cleanup w' of (Inl e, w'') \<Rightarrow> (Inl e, w'') | (Inr _, w'') \<Rightarrow> (r, w'')))"

definition credential_loc :: path where
  "credential_loc = path_of ''/tmp/git-credentials''"

text \<open>\<open>with self._temp_plaintext_credentials(repository, user, token): body\<close>.\<close>

definition temp_plaintext_credentials ::
  "('w, 'm) os_scheme \<Rightarrow> repository \<Rightarrow> string \<Rightarrow> string \<Rightarrow> ('w, 'a) ceff \<Rightarrow> ('w, 'a) ceff" where
  "temp_plaintext_credentials os r git_user git_access_token body =
     bindC (liftE (py_res (url_join (rp_url r @ ''/'') ''info/lfs.access''))) (\<lambda>access.
     let lfs_auth_setting = ''lfs.'' @ access in
     finallyC
       (bindC (liftE (py_res (urlparse (rp_url r)))) (\<lambda>parsed.
        bindC (on_world (on_os (os_write os credential_loc
            (''https://'' @ git_user @ '':'' @ git_access_token @ ''@'' @ up_netloc parsed)))) (\<lambda>_.
        bindC (git git_config os r [lfs_auth_setting, ''basic'']) (\<lambda>_.
        bindC (git git_config os r [''credential.helper'', ''store --file='' @ path_str credential_loc]) (\<lambda>_.
        body)))))
       (bindC (on_world (on_os (os_unlink os credential_loc))) (\<lambda>_.
        catch_git
          (bindC (git git_config os r [''--unset'', ''credential.helper'']) (\<lambda>_.
           bindC (git git_config os r [''--unset'', lfs_auth_setting]) (\<lambda>_. ret ())))
          (\<lambda>_. ret ()))))"

section \<open>Cloning\<close>

text \<open>\<open>size += f.get("size", 0)\<close>.\<close>

definition add_size :: "pynum \<Rightarrow> json \<Rightarrow> pynum res" where
  "add_size acc f =
     bindE (jget f ''size'' (JInt 0)) (\<lambda>v.
       if not_a_number v then Inl (TypeError ''unsupported operand type(s) for +='')
       else (case (acc, num_of v) of
           (PInt a, PInt b) \<Rightarrow> Inr (PInt (a + b))
         | (a, b) \<Rightarrow> Inr (PFloat (fl (val a + val b)))))"

definition get_lfs_total_size_bytes :: "('w, 'm) os_scheme \<Rightarrow> repository \<Rightarrow> ('w, pynum) ceff" where
  "get_lfs_total_size_bytes os r =
     bindC (catch_git (bindC (git git_lfs os r [''ls-files'', ''--json'']) (\<lambda>out. ret (Some out))) (\<lambda>_. ret None)) (\<lambda>out.
     case out of
       None \<Rightarrow> ret (PInt 0)
     | Some res \<Rightarrow> liftE (py_res (
         bindE (json_loads res) (\<lambda>j.
         bindE (jget j ''files'' (JArr [])) (\<lambda>files.
           if \<not> truthy files then Inr (PInt 0)
           else bindE (jiter files) (\<lambda>fs. foldE add_size (PInt 0) fs))))))"

definition lit_rx :: "string \<Rightarrow> rx list" where
  "lit_rx s = map (\<lambda>c. One (\<lambda>d. d = c)) s"

text \<open>\<open>^refs/remotes/origin/(?P<branch>.*)$\<close>.\<close>

definition head_rx :: rx where
  "head_rx = seqs (Bol # lit_rx ''refs/remotes/origin/'' @ [Group ''branch'' (Rep 0 (\<lambda>c. code c \<noteq> 10)), Eol])"

definition get_default_branch :: "('w, 'm) os_scheme \<Rightarrow> repository \<Rightarrow> string \<Rightarrow> ('w, string) ceff" where
  "get_default_branch os r remote =
     bindC (catch_git
        (bindC (git git_remote os r [''set-head'', remote, ''--auto'']) (\<lambda>_.
         git git_symbolic_ref os r [''refs/remotes/'' @ remote @ ''/HEAD'']))
        (\<lambda>_. raise (CloneExc BranchDoesNotExistError))) (\<lambda>res.
     case re_match head_rx res of
       None \<Rightarrow> raise (CloneExc BranchDoesNotExistError)
     | Some m \<Rightarrow> ret (group m ''branch''))"

definition on_checkout_error :: "gexc \<Rightarrow> ('w, string) ceff" where
  "on_checkout_error err =
     (if ge_returncode err \<noteq> 0 \<or> length (ge_stderr err) \<noteq> 0 then
        (if sublist ''no space left on device'' (lower (ge_stderr err)) then raise (CloneExc NoDiskSpaceError)
         else raise (CloneExc BranchDoesNotExistError))
      else ret [])"

definition fetch_lfs :: "('w, 'm) os_scheme \<Rightarrow> repository \<Rightarrow> ('w, unit) ceff" where
  "fetch_lfs os r =
     bindC (get_lfs_total_size_bytes os r) (\<lambda>bytes.
     bindC (on_world (on_os (os_free os (rp_absolute_path r)))) (\<lambda>free.
       if of_int free < val bytes then raise (CloneExc NoDiskSpaceError)
       else bindC (git git_lfs os r [''install'', ''--local'']) (\<lambda>_.
            bindC (git git_lfs os r [''pull'']) (\<lambda>_. ret ()))))"

definition clone_repo :: "('w, 'm) os_scheme \<Rightarrow> cloner \<Rightarrow> repository \<Rightarrow> ('w, unit) ceff" where
  "clone_repo os c r =
     bindC (git git_lfs os r (if cl_lfs_auto_fetch c then [''install'', ''--local'']
         else [''install'', ''--skip-smudge'', ''--local''])) (\<lambda>_.
     bindC (git git_remote os r [''add'', remote_name, rp_url r]) (\<lambda>_.
     bindC (catch_git (git git_fetch os r [remote_name]) (\<lambda>_. raise (CloneExc GitFetchError))) (\<lambda>_.
     bindC (if some_text (rp_branch r) then ret (the (rp_branch r)) else get_default_branch os r remote_name) (\<lambda>branch.
     bindC (catch_git (git git_checkout os r [branch]) on_checkout_error) (\<lambda>_.
     bindC (if cl_lfs_auto_fetch c then fetch_lfs os r else ret ()) (\<lambda>_.
     catch_git
       (bindC (git git_submodule os r [''init'']) (\<lambda>_.
        bindC (git git_submodule os r [''update'']) (\<lambda>_. ret ())))
       (\<lambda>_. ret ())))))))"

definition setup_proxy :: "('w, 'm) os_scheme \<Rightarrow> cloner \<Rightarrow> repository \<Rightarrow> ('w, unit) ceff" where
  "setup_proxy os c r =
     (if \<not> cl_is_git_proxy_enabled c then ret ()
      else bindC (git git_config os r [''http.proxy'', cl_proxy_url c]) (\<lambda>_.
           bindC (git git_config os r [''http.sslVerify'', ''false'']) (\<lambda>_. ret ())))"

text \<open>The loop over the mounts: the first that exists is an error.\<close>

fun check_mounts_free :: "('w, 'm) os_scheme \<Rightarrow> string list \<Rightarrow> ('w, unit) ceff" where
  "check_mounts_free os [] = ret ()"
| "check_mounts_free os (m # ms) =
     bindC (on_world (on_os (os_exists os (path_of m)))) (\<lambda>there.
       if there then raise (CloneExc CloudStorageOverwritesExistingFilesError) else check_mounts_free os ms)"

text \<open>The body of the \<open>try\<close>: the clone, with credentials when there is a token, and the reset to a commit.\<close>

definition clone_with_token :: "'w clone_env \<Rightarrow> cloner \<Rightarrow> repository \<Rightarrow> json \<Rightarrow> ('w, unit) ceff" where
  "clone_with_token env c r token =
     bindC (if is_anonymous (cl_user c) \<or> token = JNull then clone_repo env c r
            else temp_plaintext_credentials env r ''oauth2'' (py_str token) (clone_repo env c r)) (\<lambda>_.
     if some_text (rp_commit_sha r) then bindC (git git_reset env r [''--hard'', the (rp_commit_sha r)]) (\<lambda>_. ret ())
     else ret ())"

text \<open>
  The two \<open>except\<close> clauses: after a failed fetch the error is written into the repository's directory
  and the repository is done (\<open>False\<close>), after a missing branch the steps below still run (\<open>True\<close>).
\<close>

definition on_clone_error :: "'w clone_env \<Rightarrow> repository \<Rightarrow> gexc \<Rightarrow> ('w, bool) ceff" where
  "on_clone_error env r e =
     (if e = CloneExc GitFetchError then
        bindC (on_world (on_os (os_write env (path_join (rp_absolute_path r) (path_of ''ERROR''))
           (ce_traceback env GitFetchError)))) (\<lambda>_. ret False)
      else if e = CloneExc BranchDoesNotExistError then ret True
      else raise e)"

definition run_helper :: "'w clone_env \<Rightarrow> cloner \<Rightarrow> string list \<Rightarrow> repository \<Rightarrow> ('w, unit) ceff" where
  "run_helper env c storage_mounts r =
     bindC (repo_exists env r) (\<lambda>there.
     if there then setup_proxy env c r
     else
       bindC (if some_text (rp_provider r) then get_access_token env c (the (rp_provider r)) else ret JNull) (\<lambda>token.
       bindC (initialize_repo env c r) (\<lambda>_.
       bindC (catchC (bindC (clone_with_token env c r token) (\<lambda>_. ret True)) (on_clone_error env r)) (\<lambda>go_on.
       if \<not> go_on then ret ()
       else
         bindC (check_mounts_free env storage_mounts) (\<lambda>_.
         bindC (if storage_mounts \<noteq> [] then exclude_storages_from_git env r storage_mounts else ret ()) (\<lambda>_.
         setup_proxy env c r))))))"

text \<open>Each repository starts without a \<open>_git_cli\<close>.\<close>

definition fresh_cli :: "('w, unit) ceff" where
  "fresh_cli = (\<lambda>s. (Inr (), s\<lparr>cs_cli := None\<rparr>))"

fun run_repos :: "'w clone_env \<Rightarrow> cloner \<Rightarrow> string list \<Rightarrow> repository list \<Rightarrow> ('w, unit) ceff" where
  "run_repos env c storage_mounts [] = ret ()"
| "run_repos env c storage_mounts (r # rs) =
     bindC fresh_cli (\<lambda>_. bindC (run_helper env c storage_mounts r) (\<lambda>_. run_repos env c storage_mounts rs))"

definition run :: "'w clone_env \<Rightarrow> cloner \<Rightarrow> string list \<Rightarrow> ('w, unit) ceff" where
  "run env c storage_mounts = run_repos env c storage_mounts (cl_repositories c)"

section \<open>The process\<close>

definition make_cloner :: "(nat \<Rightarrow> string) \<Rightarrow> clone_config \<Rightarrow> gexc + cloner" where
  "make_cloner rand cfg =
     (let base_path = path_of (cc_mount_path cfg) in
      bindE (py_res (mapE (\<lambda>(i, r). from_config_repo (rand i) r base_path)
         (zip [0..<length (cc_repositories cfg)] (cc_repositories cfg)))) (\<lambda>repos.
      Inr \<lparr>cl_mount_path = base_path,
           cl_git_providers = fold (\<lambda>p. dset (pr_id p) p) (cc_git_providers cfg) [],
           cl_user = cc_user cfg, cl_repositories = repos, cl_lfs_auto_fetch = flag_on (cc_lfs_auto_fetch cfg),
           cl_is_git_proxy_enabled = flag_on (cc_is_git_proxy_enabled cfg),
           cl_proxy_url = ''http://localhost:'' @ show_int (cc_git_proxy_port cfg)\<rparr>))"

definition clone_main :: "'w clone_env \<Rightarrow> (nat \<Rightarrow> string) \<Rightarrow> clone_config \<Rightarrow> 'w \<Rightarrow> (gexc + unit) \<times> 'w" where
  "clone_main env rand settings w =
     (case bindE (config_from_env settings) (\<lambda>cfg. bindE (make_cloner rand cfg) (\<lambda>c. Inr (cfg, c))) of
        Inl e \<Rightarrow> (Inl e, w)
      | Inr (cfg, c) \<Rightarrow>
          (case run env c (cc_storage_mounts cfg) \<lparr>cs_world = w, cs_cli = None, cs_tokens = []\<rparr> of
             (r, s) \<Rightarrow> (r, cs_world s)))"

text \<open>
  \<open>handle_exception\<close>, the \<open>sys.excepthook\<close>: the exit code and the world after it.  An exception inside
  the hook makes the interpreter exit with 1.
\<close>

definition handle_exception_hook :: "('w, 'm) os_scheme \<Rightarrow> clone_config \<Rightarrow> gexc \<Rightarrow> 'w \<Rightarrow> int \<times> 'w" where
  "handle_exception_hook os settings exc_value w =
     (case config_from_env settings of
        Inl _ \<Rightarrow> (1, w)
      | Inr cfg \<Rightarrow>
          ((case exc_value of CloneExc e \<Rightarrow> exit_code e | _ \<Rightarrow> 200), os_rmtree os (path_of (cc_mount_path cfg)) w))"

definition clone_process :: "'w clone_env \<Rightarrow> (nat \<Rightarrow> string) \<Rightarrow> clone_config \<Rightarrow> 'w \<Rightarrow> int \<times> 'w" where
  "clone_process env rand settings w =
     (case clone_main env rand settings w of
        (Inr _, w') \<Rightarrow> (0, w')
      | (Inl e, w') \<Rightarrow> handle_exception_hook env settings e w')"

end
