(* ===== verification/GitFacts.thy ===== *)
theory GitFacts
  imports GitCloner
begin

text \<open>
  Facts about the clone step: the exit codes a session's clone container can end with, the removal of
  the temporary credentials, what a resumed session's repositories go through, the paths excluded from
  git and the reuse of access tokens.
\<close>

section \<open>Computations over the cloner's state\<close>

text \<open>The commands of \<open>GitCLI\<close> that the cloner uses.\<close>

definition git_subcommands ::
  "(('w, 'm) os_scheme \<Rightarrow> string list \<Rightarrow> git_cli \<Rightarrow> ('w, string) geff) set" where
  "git_subcommands = {git_config, git_submodule, git_checkout, git_lfs, git_remote, git_reset, git_fetch, git_rev_parse,
     git_init, git_symbolic_ref}"

lemma in_subcommands [simp, intro]:
  "git_config \<in> git_subcommands" "git_submodule \<in> git_subcommands" "git_checkout \<in> git_subcommands"
  "git_lfs \<in> git_subcommands" "git_remote \<in> git_subcommands" "git_reset \<in> git_subcommands"
  "git_fetch \<in> git_subcommands" "git_rev_parse \<in> git_subcommands" "git_init \<in> git_subcommands"
  "git_symbolic_ref \<in> git_subcommands"
  by (simp_all add: git_subcommands_def)

lemma raises_subcommand: "cmd \<in> git_subcommands \<Longrightarrow> raises (allows E) (cmd os args cli)"
  by (auto simp: git_subcommands_def git_command_defs intro: raises_intros)

lemma raises_on_world [raises_intros]: "raises Q m \<Longrightarrow> raises Q (on_world m)"
  by (auto simp: raises_def on_world_def split: prod.splits)

lemma raises_liftE_py [raises_intros]: "raises (allows E) (liftE (py_res r))"
  by (cases r) (simp_all add: raises_def py_res_def)

lemma raises_repo_cli [raises_intros]: "raises (allows E) (repo_cli os r)"
  unfolding repo_cli_def by (intro raises_intros) (simp add: raises_def keep_cli_def)

lemma raises_git [raises_intros]: "cmd \<in> git_subcommands \<Longrightarrow> raises (allows E) (git cmd os r args)"
  unfolding git_def by (intro raises_intros raises_subcommand)

lemma raises_catch_git [raises_intros]:
  "raises Q m \<Longrightarrow> (\<And>e. is_git_error e \<Longrightarrow> raises Q (h e)) \<Longrightarrow> raises Q (catch_git m h)"
  unfolding catch_git_def by (rule raises_catchC, assumption) (auto intro: raises_intros)

lemma raises_finallyC [raises_intros]: "raises Q m \<Longrightarrow> raises Q c \<Longrightarrow> raises Q (finallyC m c)"
  by (auto simp: raises_def finallyC_def split: prod.splits sum.splits) blast+

section \<open>Exit codes\<close>

lemma raises_get_access_token [raises_intros]: "raises (allows E) (get_access_token env c p)"
  unfolding get_access_token_def by (intro raises_intros) (simp add: raises_def store_token_def)

lemma raises_clone_repo: "raises (allows {GitFetchError, BranchDoesNotExistError, NoDiskSpaceError}) (clone_repo os c r)"
  unfolding clone_repo_def get_default_branch_def on_checkout_error_def fetch_lfs_def get_lfs_total_size_bytes_def
  by (intro raises_intros) simp_all

lemma raises_clone_with_token:
  "raises (allows {GitFetchError, BranchDoesNotExistError, NoDiskSpaceError}) (clone_with_token env c r token)"
  unfolding clone_with_token_def temp_plaintext_credentials_def Let_def
  by (intro raises_intros raises_clone_repo) simp_all

lemma raises_check_mounts_free [raises_intros]:
  "raises (allows {NoDiskSpaceError, CloudStorageOverwritesExistingFilesError}) (check_mounts_free os ms)"
proof (induction ms)
  case (Cons m ms)
  show ?case unfolding check_mounts_free.simps by (intro raises_intros Cons) simp
qed (simp only: check_mounts_free.simps raises_ret)

lemma raises_setup_proxy [raises_intros]: "raises (allows E) (setup_proxy os c r)"
  unfolding setup_proxy_def by (intro raises_intros) simp_all

lemma raises_run_helper:
  "raises (allows {NoDiskSpaceError, CloudStorageOverwritesExistingFilesError}) (run_helper env c mounts r)"
proof -
  have attempt: "raises (allows {NoDiskSpaceError, CloudStorageOverwritesExistingFilesError})
      (catchC (bindC (clone_with_token env c r token) (\<lambda>_. ret True)) (on_clone_error env r))" for token
  proof (rule raises_catchC)
    show "raises (allows {GitFetchError, BranchDoesNotExistError, NoDiskSpaceError})
        (bindC (clone_with_token env c r token) (\<lambda>_. ret True))"
      by (intro raises_intros raises_clone_with_token)
    show "raises (allows {NoDiskSpaceError, CloudStorageOverwritesExistingFilesError}) (on_clone_error env r e)"
      if "allows {GitFetchError, BranchDoesNotExistError, NoDiskSpaceError} e" for e
      using that unfolding on_clone_error_def
      by (intro raises_intros) (cases e; auto)
  qed
  show ?thesis
    unfolding run_helper_def initialize_repo_def repo_exists_def exclude_storages_from_git_def
    by (intro raises_intros attempt) simp_all
qed

lemma raises_run:
  "raises (allows {NoDiskSpaceError, CloudStorageOverwritesExistingFilesError}) (run env c mounts)"
proof -
  have "raises (allows {NoDiskSpaceError, CloudStorageOverwritesExistingFilesError}) (run_repos env c mounts rs)" for rs
  proof (induction rs)
    case (Cons r rs)
    have "raises Q fresh_cli" for Q by (simp add: raises_def fresh_cli_def)
    then show ?case unfolding run_repos.simps by (intro raises_intros raises_run_helper Cons)
  qed (simp only: run_repos.simps raises_ret)
  then show ?thesis unfolding run_def .
qed

lemma exit_code_of_process:
  "fst (clone_process env rand settings w) \<in> {0, 200, 203, 206}
   \<or> (fst (clone_process env rand settings w) = 1 \<and> (\<exists>e. config_from_env settings = Inl e))"
proof (cases "config_from_env settings")
  case (Inl e)
  then show ?thesis by (simp add: clone_process_def clone_main_def handle_exception_hook_def)
next
  case (Inr cfg)
  have code: "fst (handle_exception_hook env settings e w') \<in> {200, 203, 206}"
    if "allows {NoDiskSpaceError, CloudStorageOverwritesExistingFilesError} e" for e w'
    using that Inr by (auto simp: handle_exception_hook_def split: gexc.splits)
  show ?thesis
  proof (cases "clone_main env rand settings w")
    case (Pair r w')
    have "allows {NoDiskSpaceError, CloudStorageOverwritesExistingFilesError} e" if "r = Inl e" for e
      using Pair that Inr raisesD [OF raises_run]
      by (fastforce simp: clone_main_def make_cloner_def Let_def py_res_def bindE_def split: sum.splits prod.splits)
    with code [of _ w'] Pair show ?thesis
      by (cases r) (auto simp: clone_process_def)
  qed
qed

text \<open>
  C24. The clone container ends with 0, 200, 203 or 206, or with 1 when its configuration is invalid: the
  exit codes 201, 204, 205, 207 and 208 that the error classes declare are never produced, although a
  missing branch, a failing fetch, a failing submodule and a relative mount path all occur.
\<close>

theorem clone_exit_codes:
  "fst (clone_process env rand settings w) \<in> {0, 200, 203, 206}
   \<or> (fst (clone_process env rand settings w) = 1 \<and> (\<exists>e. config_from_env settings = Inl e))"
  by (rule exit_code_of_process)

section \<open>What a computation keeps\<close>

abbreviation in_world :: "('w \<Rightarrow> bool) \<Rightarrow> 'w cstate \<Rightarrow> bool" where
  "in_world P s \<equiv> P (cs_world s)"

lemma keeps_on_world [keeps_intros]: "keeps P m \<Longrightarrow> keeps (in_world P) (on_world m)"
  by (simp add: keeps_def on_world_def split_beta)

lemma keeps_keep_cli [keeps_intros]: "keeps (in_world P) (keep_cli c)"
  by (simp add: keeps_def keep_cli_def)

lemma keeps_repo_cli [keeps_intros]:
  assumes "\<And>p. keeps P (os_exists os p)" and "\<And>p. keeps P (os_mkdir os p)"
  shows "keeps (in_world P) (repo_cli os r)"
  unfolding repo_cli_def by (intro keeps_intros assms)

lemma keeps_catch_git [keeps_intros]:
  "keeps P m \<Longrightarrow> (\<And>e. keeps P (h e)) \<Longrightarrow> keeps P (catch_git m h)"
  unfolding catch_git_def by (intro keeps_intros)

lemma keeps_git_config:
  assumes "\<And>p. keeps P (os_exists os p)" and "\<And>p. keeps P (os_mkdir os p)"
    and "\<And>cwd. keeps P (os_popen os (''git'' # ''config'' # args) cwd)"
  shows "keeps (in_world P) (git git_config os r args)"
  unfolding git_def git_config_def by (intro keeps_intros assms) (simp add: assms(3))

section \<open>Temporary credentials\<close>

lemma finallyC_after:
  assumes "\<And>s. P (snd (cleanup s))"
  shows "P (snd (finallyC m cleanup s))"
  using assms by (auto simp: finallyC_def split: prod.splits sum.splits) (metis snd_conv)+

text \<open>
  C22. The plaintext credentials never survive the block that needs them: if removing the file always
  leaves it gone and neither \<open>git config\<close> nor looking at and making directories brings it back, then the
  file is gone after the block whatever its body did, errors of git and of the operating system included.
\<close>

theorem temp_credentials_removed:
  assumes "url_join (rp_url r @ ''/'') ''info/lfs.access'' = Inr access"
    and "\<And>w. \<exists>w'. os_unlink os credential_loc w = (Inr (), w') \<and> gone w'"
    and "\<And>args cwd. keeps gone (os_popen os (''git'' # ''config'' # args) cwd)"
    and "\<And>p. keeps gone (os_exists os p)" and "\<And>p. keeps gone (os_mkdir os p)"
  shows "gone (cs_world (snd (temp_plaintext_credentials os r git_user token body s)))"
proof -
  let ?unset = "catch_git
          (bindC (git git_config os r [''--unset'', ''credential.helper'']) (\<lambda>_.
           bindC (git git_config os r [''--unset'', ''lfs.'' @ access]) (\<lambda>_. ret ())))
          (\<lambda>_. ret ())"
  have unset: "keeps (in_world gone) ?unset"
    by (intro keeps_intros keeps_git_config assms)
  have "gone (cs_world (snd (bindC (on_world (on_os (os_unlink os credential_loc))) (\<lambda>_. ?unset) s)))" for s
  proof -
    obtain w' where "os_unlink os credential_loc (cs_world s) = (Inr (), w')" "gone w'" using assms(2) by blast
    then have "on_world (on_os (os_unlink os credential_loc)) s = (Inr (), s\<lparr>cs_world := w'\<rparr>)"
      by (simp add: on_world_def on_os_def)
    with unset \<open>gone w'\<close> show ?thesis by (simp add: bindC_eval keeps_def)
  qed
  then show ?thesis
    using assms(1) by (simp add: temp_plaintext_credentials_def py_res_def Let_def finallyC_after [of "in_world gone"])
qed

section \<open>Access tokens\<close>

lemma keeps_tokens_on_world [keeps_intros]: "keeps (\<lambda>s. Q (cs_tokens s)) (on_world m)"
  by (simp add: keeps_def on_world_def split: prod.splits)

lemma keeps_tokens_repo_cli [keeps_intros]: "keeps (\<lambda>s. Q (cs_tokens s)) (repo_cli os r)"
  unfolding repo_cli_def by (intro keeps_intros) (simp add: keeps_def keep_cli_def)

lemma keeps_tokens_git [keeps_intros]: "keeps (\<lambda>s. Q (cs_tokens s)) (git cmd os r args)"
  unfolding git_def by (intro keeps_intros)

lemma keeps_finallyC [keeps_intros]: "keeps P m \<Longrightarrow> keeps P c \<Longrightarrow> keeps P (finallyC m c)"
  by (auto simp: keeps_def finallyC_def split_beta split: sum.splits)

lemma keeps_check_mounts_free [keeps_intros]: "keeps (\<lambda>s. Q (cs_tokens s)) (check_mounts_free os ms)"
proof (induction ms)
  case (Cons m ms)
  show ?case unfolding check_mounts_free.simps by (intro keeps_intros Cons)
qed (simp only: check_mounts_free.simps keeps_pure)

lemma keeps_get_access_token [keeps_intros]:
  "keeps (\<lambda>s. dget (cs_tokens s) p = Some t) (get_access_token env c q)"
  unfolding get_access_token_def
proof (rule keeps_with_state)
  fix s :: "'a cstate"
  assume s: "dget (cs_tokens s) p = Some t"
  have "keeps (\<lambda>s. dget (cs_tokens s) p = Some t) (store_token q v)" if "q \<noteq> p" for v
    using that by (simp add: keeps_def store_token_def)
  moreover have "q \<noteq> p" if "dget (cs_tokens s) q = None" using that s by auto
  ultimately show "keeps (\<lambda>s. dget (cs_tokens s) p = Some t) (case dget (cs_tokens s) q of
        Some t \<Rightarrow> ret t
      | None \<Rightarrow>
          (case dget (cl_git_providers c) q of
             None \<Rightarrow> ret JNull
           | Some p \<Rightarrow>
               bindC (on_world (on_py (http_get (ce_http env) (pr_access_token_url p)
                 (Some [(''Authorization'', ''bearer '' @
                    (case cu_renku_token (cl_user c) of None \<Rightarrow> ''None'' | Some t \<Rightarrow> t))]) None))) (\<lambda>res.
               if resp_status res \<noteq> 200 then ret JNull
               else bindC (liftE (py_res (bindE (resp_body res) (\<lambda>token. jitem token ''access_token'')))) (\<lambda>t.
                    store_token q t))))"
    by (cases "dget (cs_tokens s) q") (auto intro!: keeps_intros simp del: comp_simps)
qed

lemma keeps_run_helper:
  "keeps (\<lambda>s. dget (cs_tokens s) p = Some t) (run_helper env c mounts r)"
  unfolding run_helper_def repo_exists_def initialize_repo_def clone_with_token_def temp_plaintext_credentials_def
    clone_repo_def get_default_branch_def on_checkout_error_def fetch_lfs_def get_lfs_total_size_bytes_def
    on_clone_error_def exclude_storages_from_git_def setup_proxy_def Let_def
  by (intro keeps_intros)

lemma keeps_run_repos:
  assumes "\<And>r. r \<in> set rs \<Longrightarrow> keeps P (bindC fresh_cli (\<lambda>_. run_helper env c mounts r))"
  shows "keeps P (run_repos env c mounts rs)"
  using assms
proof (induction rs)
  case (Cons r rs)
  have "run_repos env c mounts (r # rs) =
      bindC (bindC fresh_cli (\<lambda>_. run_helper env c mounts r)) (\<lambda>_. run_repos env c mounts rs)"
    by (simp add: bindC_def fun_eq_iff split: prod.splits sum.splits)
  moreover have "keeps P \<dots>" using Cons by (intro keeps_bindC [where m = "bindC _ _"]) simp_all
  ultimately show ?case by simp
qed (simp only: run_repos.simps keeps_pure)

text \<open>
  A provider is asked for a token at most until it has given one: once a token is cached, no step of the
  cloner, failing ones included, forgets or replaces it, and every later use takes the cached token
  without a request.
\<close>

theorem token_reused:
  assumes "dget (cs_tokens s) p = Some t"
  shows "get_access_token env c p (snd (run_repos env c mounts rs s)) = (Inr t, snd (run_repos env c mounts rs s))"
proof -
  have "keeps (\<lambda>s. dget (cs_tokens s) p = Some t) (run_repos env c mounts rs)"
    by (intro keeps_run_repos keeps_intros keeps_run_helper) (simp add: keeps_def fresh_cli_def)
  with assms show ?thesis by (simp add: keeps_def get_access_token_def with_state_def)
qed

section \<open>Resuming a session\<close>

lemma git_popen:
  assumes "cs_cli s = Some (GitCLI p)"
  shows "git git_config os r args s = (case os_popen os (''git'' # ''config'' # args) p (cs_world s) of
    (Inl e, w) \<Rightarrow> (Inl (OSError e), s\<lparr>cs_world := w\<rparr>)
  | (Inr (rc, out, err), w) \<Rightarrow> (if err \<noteq> [] \<and> rc \<noteq> 0 then Inl (GitCommandError rc out err) else Inr out, s\<lparr>cs_world := w\<rparr>))"
  using assms
  by (simp add: git_def repo_cli_def with_state_def git_config_def execute_command_def on_world_def on_os_def bindC_def
      split: prod.splits sum.splits)

definition resume_commands :: "cloner \<Rightarrow> string list set" where
  "resume_commands c = {[''git'', ''rev-parse'', ''--is-inside-work-tree''], [''git'', ''config'', ''http.proxy'', cl_proxy_url c],
     [''git'', ''config'', ''http.sslVerify'', ''false'']}"

text \<open>The directory is there and git answers that it is a work tree.\<close>

definition is_work_tree :: "('w, 'm) os_scheme \<Rightarrow> path \<Rightarrow> 'w \<Rightarrow> bool" where
  "is_work_tree os p w \<longleftrightarrow> fst (os_exists os p w) = Inr True \<and>
     (case os_popen os [''git'', ''rev-parse'', ''--is-inside-work-tree''] p w of
        (Inr (rc, out, err), _) \<Rightarrow> (err = [] \<or> rc = 0) \<and> strip is_space (lower out) = ''true''
      | _ \<Rightarrow> False)"

lemma keeps_git:
  assumes "\<And>p. keeps P (os_exists os p)" and "\<And>p. keeps P (os_mkdir os p)"
    and "\<And>cli. keeps P (cmd os args cli)"
  shows "keeps (in_world P) (git cmd os r args)"
  unfolding git_def by (intro keeps_intros assms)

lemma keeps_setup_proxy:
  assumes "\<And>p. keeps P (os_exists os p)" and "\<And>p. keeps P (os_mkdir os p)"
    and "\<And>args cwd. args \<in> resume_commands c \<Longrightarrow> keeps P (os_popen os args cwd)"
  shows "keeps (in_world P) (setup_proxy os c r)"
  unfolding setup_proxy_def
  by (intro keeps_intros keeps_git_config assms) (simp_all add: resume_commands_def)

lemma repo_exists_work_tree:
  assumes "\<And>p. keeps P (os_exists os p)" and "keeps P (os_popen os [''git'', ''rev-parse'', ''--is-inside-work-tree''] (rp_absolute_path r))"
    and "\<And>w. P w \<Longrightarrow> is_work_tree os (rp_absolute_path r) w"
    and "P (cs_world s)" and "cs_cli s = None"
  shows "\<exists>s'. repo_exists os r s = (Inr True, s') \<and> P (cs_world s') \<and> cs_cli s' = Some (GitCLI (rp_absolute_path r))"
proof -
  let ?p = "rp_absolute_path r"
  obtain w1 where w1: "os_exists os ?p (cs_world s) = (Inr True, w1)" "P w1"
    using assms(1, 3, 4) by (metis is_work_tree_def keepsD prod.collapse)
  obtain w2 where w2: "os_exists os ?p w1 = (Inr True, w2)" "P w2"
    using assms(1, 3) w1(2) by (metis is_work_tree_def keepsD prod.collapse)
  obtain rc out err w3 where w3: "os_popen os [''git'', ''rev-parse'', ''--is-inside-work-tree''] ?p w2 = (Inr (rc, out, err), w3)"
      "err = [] \<or> rc = 0" "strip is_space (lower out) = ''true''"
    using assms(3) [OF w2(2)] by (auto simp: is_work_tree_def split: prod.splits sum.splits)
  then have "P w3" using assms(2) w2(2) by (blast dest: keepsD)
  with assms(5) w1(1) w2(1) w3 show ?thesis
    by (simp add: repo_exists_def catch_git_def catchC_def git_def repo_cli_def with_state_def on_world_def on_os_def
        new_git_cli_def keep_cli_def git_rev_parse_def execute_command_def bindC_def)
qed

text \<open>
  C23. Resuming a session leaves the user's work alone: when every repository is a git work tree already,
  the cloner runs no other command than the question whether it is one and the two settings of the
  git proxy, and neither clones, writes nor removes a file.  So every property of the world that
  these commands and looking at directories keep holds after the run, however it ends.
\<close>

theorem resume_preserves_work:
  fixes env :: "'w clone_env"
  assumes "\<And>args cwd. args \<in> resume_commands c \<Longrightarrow> keeps P (os_popen env args cwd)"
    and "\<And>p. keeps P (os_exists env p)" and "\<And>p. keeps P (os_mkdir env p)"
    and "\<And>r w. r \<in> set (cl_repositories c) \<Longrightarrow> P w \<Longrightarrow> is_work_tree env (rp_absolute_path r) w"
    and "P (cs_world s)"
  shows "P (cs_world (snd (run env c mounts s)))"
proof -
  have step: "keeps (in_world P) (bindC fresh_cli (\<lambda>_. run_helper env c mounts r))" if "r \<in> set (cl_repositories c)" for r
    unfolding keeps_def
  proof (intro allI impI)
    fix s :: "'w cstate"
    assume "P (cs_world s)"
    have "keeps P (os_popen env [''git'', ''rev-parse'', ''--is-inside-work-tree''] (rp_absolute_path r))"
      by (rule assms(1)) (simp add: resume_commands_def)
    moreover have "\<And>w. P w \<Longrightarrow> is_work_tree env (rp_absolute_path r) w" using assms(4) that by blast
    ultimately obtain s' where s': "repo_exists env r (s\<lparr>cs_cli := None\<rparr>) = (Inr True, s')" "P (cs_world s')"
      using repo_exists_work_tree [OF assms(2), of r "s\<lparr>cs_cli := None\<rparr>"] \<open>P (cs_world s)\<close> by auto
    then have "bindC fresh_cli (\<lambda>_. run_helper env c mounts r) s = setup_proxy env c r s'"
      by (simp add: bindC_def fresh_cli_def run_helper_def)
    then show "P (cs_world (snd (bindC fresh_cli (\<lambda>_. run_helper env c mounts r) s)))"
      using keeps_setup_proxy [OF assms(2, 3, 1), where r = r] s'(2) by (simp add: keeps_def)
  qed
  have "keeps (in_world P) (run env c mounts)"
    unfolding run_def by (rule keeps_run_repos [OF step])
  with assms(5) show ?thesis by (simp add: keeps_def)
qed

text \<open>
  C21. When the proxy of a repository that exists already cannot be configured, the clone container
  fails with 200 and its exception hook removes the whole mount path: resuming a session can delete
  the uncommitted work that the check for an existing repository is there to protect.
\<close>

theorem failed_resume_deletes_work:
  assumes "config_from_env settings = Inr cfg" and "make_cloner rand cfg = Inr c"
    and "cl_repositories c = r # rs" and "cl_is_git_proxy_enabled c"
    and "repo_exists env r \<lparr>cs_world = w, cs_cli = None, cs_tokens = []\<rparr> = (Inr True, s)"
    and "git git_config env r [''http.proxy'', cl_proxy_url c] s = (Inl e, s')"
  shows "clone_process env rand settings w = (200, os_rmtree env (path_of (cc_mount_path settings)) (cs_world s'))"
proof -
  have "clone_main env rand settings w = (Inl e, cs_world s')"
    using assms by (simp add: clone_main_def run_def fresh_cli_def run_helper_def setup_proxy_def bindC_def)
  moreover have "allows {} e" using raisesD [OF raises_git assms(6)] by simp
  ultimately show ?thesis
    using config_from_env_sel(1) [OF assms(1)] assms(1)
    by (simp add: clone_process_def handle_exception_hook_def allows_def split: gexc.splits)
qed

section \<open>Excluded paths\<close>

lemma inside_join:
  assumes "inside (path_of m) repo"
  shows "path_join repo (path_of (path_str (relative_to (path_of m) repo))) = path_of m"
proof -
  let ?q = "relative_to (path_of m) repo"
  have "wf_path (path_of m)" by simp
  then have "wf_path ?q" by (auto simp: wf_path_def relative_to_def dest: in_set_dropD)
  then have "path_of (path_str ?q) = ?q" by (rule path_roundtrip)
  moreover have "path_root (path_of m) = path_root repo"
    "take (length (path_parts repo)) (path_parts (path_of m)) = path_parts repo"
    using assms by (simp_all add: inside_def is_relative_to_def)
  ultimately show ?thesis
    by (cases "path_of m", cases repo)
      (simp add: path_join_def is_absolute_def relative_to_def, metis append_take_drop_id)
qed

text \<open>
  The lines added to a repository's exclude file are exactly the mounts inside the repository: joined to
  the repository's path they give back those mounts, in their order, and no line is written for any other mount.
\<close>

theorem excluded_paths_exact:
  "map (\<lambda>line. path_join repo (path_of line)) (exclude_lines repo mounts)
   = filter (\<lambda>m. inside m repo) (map path_of mounts)"
  by (induction mounts) (simp_all add: exclude_lines_def inside_join)

section \<open>Directories\<close>

lemma make_dirname_segment:
  assumes "make_dirname rand url = Inr n" and "CHR ''/'' \<notin> set rand"
  shows "n \<noteq> []" "CHR ''/'' \<notin> set n"
  using assms splits_no_sep [OF last_in_set [OF splits_nonempty]]
  by (auto simp: make_dirname_def bindE_Inr_iff Let_def split: if_splits)

text \<open>
  A repository for which no directory is configured is cloned into the mount path or directly below it:
  whatever its URL, the directory's name is one segment, so that no URL reaches outside of the session's
  volume but by the name \<open>..\<close>.
\<close>

theorem cloned_below_mount:
  assumes "from_config_repo rand d mount = Inr r" and "\<not> some_text (cr_dirname d)"
    and "CHR ''/'' \<notin> set rand"
  shows "rp_absolute_path r = mount
    \<or> rp_absolute_path r = Path (path_root mount) (path_parts mount @ [rp_dirname r])"
proof -
  have n: "make_dirname rand (cr_url d) = Inr (rp_dirname r)" "rp_absolute_path r = path_join mount (path_of (rp_dirname r))"
    using assms(1, 2) by (auto simp: from_config_repo_def bindE_Inr_iff)
  from make_dirname_segment [OF n(1) assms(3)] have "path_of (rp_dirname r) = Path [] (filter (\<lambda>p. p \<noteq> ''.'') [rp_dirname r])"
    by (cases "rp_dirname r") (auto simp: path_of_def splits_id)
  with n(2) show ?thesis by (cases mount) (auto simp: path_join_def is_absolute_def split: if_splits)
qed

section \<open>The user's name\<close>

text \<open>
  A name or address with a character that a shell treats specially reaches \<open>git config\<close> in quotes, which no
  shell removes: the identity stored in the repository is not the user's.
\<close>

theorem quoted_identity:
  assumes "config_from_env settings = Inr cfg" and "cu_full_name (cc_user settings) = Some n"
    and "n = [] \<or> \<not> list_all shell_safe n"
  shows "\<exists>q. cu_full_name (cc_user cfg) = Some q \<and> length n < length q"
  using assms config_from_env_sel(2) [OF assms(1)] shlex_quote_longer by (simp add: user_post_init_def)

section \<open>Witnesses\<close>

text \<open>A world with a log of commands and a few files, on which every command answers as \<open>reply\<close> says.\<close>

record disk =
  dk_log :: "string list list"
  dk_files :: "(string, string) dict"

definition example_env :: "(string list \<Rightarrow> int \<times> string \<times> string) \<Rightarrow> string list \<Rightarrow> disk clone_env" where
  "example_env reply dirs =
     \<lparr>os_popen = (\<lambda>args cwd w. (Inr (reply args), w\<lparr>dk_log := dk_log w @ [args]\<rparr>)),
      os_exists = (\<lambda>p w. (Inr (path_str p \<in> set dirs), w)),
      os_mkdir = (\<lambda>p w. (Inr (), w)),
      os_write = (\<lambda>p t w. (Inr (), w\<lparr>dk_files := dset (path_str p) t (dk_files w)\<rparr>)),
      os_append = (\<lambda>p t w. (Inr (), w\<lparr>dk_files := dset (path_str p)
        ((case dget (dk_files w) (path_str p) of None \<Rightarrow> [] | Some u \<Rightarrow> u) @ t) (dk_files w)\<rparr>)),
      os_unlink = (\<lambda>p w. (Inr (), w\<lparr>dk_files := filter (\<lambda>(q, _). q \<noteq> path_str p) (dk_files w)\<rparr>)),
      os_free = (\<lambda>p w. (Inr 0, w)),
      os_rmtree = (\<lambda>p w. w\<lparr>dk_files := filter (\<lambda>(q, _). \<not> startswith q (path_str p)) (dk_files w)\<rparr>),
      ce_http = (\<lambda>rq w. (Inr (ok_json (JObj [(''access_token'', JStr ''t'')])), w)),
      ce_traceback = (\<lambda>_. [])\<rparr>"

definition work_tree_reply :: "string list \<Rightarrow> int \<times> string \<times> string" where
  "work_tree_reply args =
     (if args = [''git'', ''rev-parse'', ''--is-inside-work-tree''] then (0, ''true'', []) else (1, [], ''locked''))"

definition example_settings :: clone_config where
  "example_settings =
     \<lparr>cc_sentry = \<lparr>se_enabled = FStr ''false'', se_dsn = None, se_environment = None, se_sample_rate = 0\<rparr>,
      cc_mount_path = ''/work'', cc_user = \<lparr>cu_username = ''jane'', cu_full_name = None, cu_email = None, cu_renku_token = None\<rparr>,
      cc_repositories = [\<lparr>cr_url = ''https://git.io/a/b.git'', cr_provider = None, cr_dirname = Some ''b'', cr_branch = None,
        cr_commit_sha = None\<rparr>],
      cc_git_providers = [], cc_lfs_auto_fetch = FStr ''0'', cc_storage_mounts = [], cc_is_git_proxy_enabled = FStr ''1'',
      cc_git_proxy_port = 8080\<rparr>"

definition example_repo :: repository where
  "example_repo = \<lparr>rp_url = ''https://git.io/a/b.git'', rp_dirname = ''b'', rp_absolute_path = path_of ''/work/b'',
     rp_provider = None, rp_branch = None, rp_commit_sha = None\<rparr>"

definition example_cloner :: cloner where
  "example_cloner = \<lparr>cl_mount_path = path_of ''/work'', cl_git_providers = [],
     cl_user = \<lparr>cu_username = ''jane'', cu_full_name = None, cu_email = None, cu_renku_token = None\<rparr>,
     cl_repositories = [example_repo], cl_lfs_auto_fetch = False, cl_is_git_proxy_enabled = True,
     cl_proxy_url = ''http://localhost:'' @ show_int 8080\<rparr>"

definition user_disk :: disk where
  "user_disk = \<lparr>dk_log = [], dk_files = [(''/work/b/notes.txt'', ''draft'')]\<rparr>"

theorem temp_credentials_removed_witness:
  "dget (dk_files (cs_world (snd (temp_plaintext_credentials (example_env work_tree_reply [''/work/b'']) example_repo ''oauth2'' ''t''
     (raise (CloneExc NoDiskSpaceError)) \<lparr>cs_world = user_disk, cs_cli = None, cs_tokens = []\<rparr>)))) (path_str credential_loc) = None"
proof (rule temp_credentials_removed)
  show "url_join (rp_url example_repo @ ''/'') ''info/lfs.access'' = Inr ''https://git.io/a/b.git/info/lfs.access''"
    by code_simp
  have "dget (filter (\<lambda>(q, _). q \<noteq> k) d) k = None" for k and d :: "(string, string) dict"
    by (induction d) auto
  then show "\<exists>w'. os_unlink (example_env work_tree_reply [''/work/b'']) credential_loc w = (Inr (), w')
      \<and> dget (dk_files w') (path_str credential_loc) = None" for w
    by (simp add: example_env_def)
qed (simp_all add: keeps_def example_env_def)

theorem token_reused_witness:
  "get_access_token (example_env work_tree_reply [''/work/b'']) example_cloner ''p''
     (snd (run_repos (example_env work_tree_reply [''/work/b'']) example_cloner [] [example_repo]
        \<lparr>cs_world = user_disk, cs_cli = None, cs_tokens = [(''p'', JStr ''t'')]\<rparr>))
   = (Inr (JStr ''t''), snd (run_repos (example_env work_tree_reply [''/work/b'']) example_cloner [] [example_repo]
        \<lparr>cs_world = user_disk, cs_cli = None, cs_tokens = [(''p'', JStr ''t'')]\<rparr>))"
  by (rule token_reused) simp

theorem resume_preserves_work_witness:
  "dk_files (cs_world (snd (run (example_env work_tree_reply [''/work/b'']) example_cloner []
     \<lparr>cs_world = user_disk, cs_cli = None, cs_tokens = []\<rparr>))) = dk_files user_disk"
  by (rule resume_preserves_work)
    (auto simp: keeps_def example_env_def example_cloner_def example_repo_def is_work_tree_def work_tree_reply_def
       strip_def lstrip_def rstrip_def is_space_def path_str_def path_of_def code_def lower_char_def is_upper_def)

theorem failed_resume_deletes_work_witness:
  "clone_process (example_env work_tree_reply [''/work/b'']) (\<lambda>_. ''abc'') example_settings user_disk
   = (200, \<lparr>dk_log = [[''git'', ''rev-parse'', ''--is-inside-work-tree''], [''git'', ''config'', ''http.proxy'', cl_proxy_url example_cloner]],
            dk_files = []\<rparr>)"
proof -
  let ?env = "example_env work_tree_reply [''/work/b'']"
  let ?log = "[''git'', ''rev-parse'', ''--is-inside-work-tree'']"
  define cfg where "cfg = example_settings\<lparr>cc_lfs_auto_fetch := FBool False, cc_is_git_proxy_enabled := FBool True,
    cc_sentry := sentry_post_init (cc_sentry example_settings)\<rparr>"
  have path: "path_of ''/work/b'' = Path ''/'' [''work'', ''b'']" "path_of ''/work'' = Path ''/'' [''work'']" "path_of ''b'' = Path [] [''b'']"
    by code_simp+
  have f1: "config_from_env example_settings = Inr cfg"
    by (simp add: config_from_env_def config_post_init_def check_bool_flag_def cfg_def example_settings_def user_post_init_def)
  have f2: "make_cloner (\<lambda>_. ''abc'') cfg = Inr example_cloner"
    by (simp add: make_cloner_def cfg_def example_settings_def example_cloner_def example_repo_def from_config_repo_def
        some_text_def py_res_def path path_join_def is_absolute_def)
  have f5: "repo_exists ?env example_repo \<lparr>cs_world = user_disk, cs_cli = None, cs_tokens = []\<rparr>
      = (Inr True, \<lparr>cs_world = user_disk\<lparr>dk_log := [?log]\<rparr>, cs_cli = Some (GitCLI (path_of ''/work/b'')), cs_tokens = []\<rparr>)"
    by code_simp
  have f6: "git git_config ?env example_repo [''http.proxy'', cl_proxy_url example_cloner]
      \<lparr>cs_world = user_disk\<lparr>dk_log := [?log]\<rparr>, cs_cli = Some (GitCLI (path_of ''/work/b'')), cs_tokens = []\<rparr>
      = (Inl (GitCommandError 1 [] ''locked''), \<lparr>cs_world = user_disk\<lparr>dk_log := [?log, [''git'', ''config'', ''http.proxy'', cl_proxy_url example_cloner]]\<rparr>,
          cs_cli = Some (GitCLI (path_of ''/work/b'')), cs_tokens = []\<rparr>)"
    by (simp add: git_popen example_env_def work_tree_reply_def)
  have f3: "cl_repositories example_cloner = [example_repo]" and f4: "cl_is_git_proxy_enabled example_cloner"
    by (simp_all add: example_cloner_def)
  from failed_resume_deletes_work [OF f1 f2 f3 f4 f5 f6] show ?thesis
    by (simp add: example_env_def example_settings_def path path_str_def user_disk_def)
qed

theorem cloned_below_mount_witness:
  "rp_absolute_path example_repo = path_of ''/work''
    \<or> rp_absolute_path example_repo = Path (path_root (path_of ''/work'')) (path_parts (path_of ''/work'') @ [rp_dirname example_repo])"
  by (rule cloned_below_mount [where rand = "''abc''" and d = "\<lparr>cr_url = ''https://git.io/a/b.git'', cr_provider = None,
      cr_dirname = None, cr_branch = None, cr_commit_sha = None\<rparr>"]) code_simp+

end
