(* ===== verification/Sidecar.thy ===== *)
theory Sidecar
  imports GitCli Manifest
begin

text \<open>
  The git sidecar (\<open>git_services/sidecar\<close>): the commands on the repository of a session
  (\<open>commands/base.py\<close>), the RPC methods over them with their error conversion (\<open>rpc_methods.py\<close>,
  \<open>errors.py\<close>), the configuration and the URLs they are served under (\<open>config.py\<close>, \<open>app.py\<close>).  Running a
  command of the Renku CLI and the name of an exception's type are parameters.
\<close>

section \<open>Parsing the status\<close>

text \<open>\<open>str.splitlines()\<close> for the line boundaries of ASCII.\<close>

definition is_break :: "char \<Rightarrow> bool" where
  "is_break c \<longleftrightarrow> code c \<in> {10, 11, 12, 13, 28, 29, 30}"

definition drop_break :: "string \<Rightarrow> string" where
  "drop_break r = (case r of [] \<Rightarrow> [] | c # cs \<Rightarrow>
     if code c = 13 \<and> cs \<noteq> [] \<and> code (hd cs) = 10 then tl cs else cs)"

lemma length_drop_break: "r \<noteq> [] \<Longrightarrow> length (drop_break r) < length r"
  by (cases r) (auto simp: drop_break_def)

function split_lines :: "string \<Rightarrow> string list" where
  "split_lines s =
     (if s = [] then []
      else takeWhile (\<lambda>c. \<not> is_break c) s # split_lines (drop_break (dropWhile (\<lambda>c. \<not> is_break c) s)))"
  by pat_completeness auto
termination
proof (relation "measure length")
  fix s :: string
  assume s: "s \<noteq> []"
  let ?r = "dropWhile (\<lambda>c. \<not> is_break c) s"
  have le: "length ?r \<le> length s" by (rule length_dropWhile_le)
  have "length (drop_break ?r) < length s"
  proof (cases ?r)
    case Nil
    with s show ?thesis by (simp only: drop_break_def) simp
  next
    case (Cons c cs)
    then show ?thesis using le length_drop_break [of ?r] by simp
  qed
  then show "(drop_break ?r, s) \<in> measure length" by simp
qed simp

declare split_lines.simps [simp del]

text \<open>\<open>int(text)\<close>: blanks around, a sign, digits with single underscores between them.\<close>

definition py_int :: "string \<Rightarrow> int res" where
  "py_int text =
     (let t = strip is_space text;
          (neg, ds) = (case t of c # cs \<Rightarrow> if c = CHR ''-'' then (True, cs) else if c = CHR ''+'' then (False, cs) else (False, t)
             | [] \<Rightarrow> (False, []));
          groups = splits CHR ''_'' ds
      in if list_all (\<lambda>g. g \<noteq> [] \<and> list_all is_digit g) groups
         then Inr (if neg then - int (parse_digits (concat groups)) else int (parse_digits (concat groups)))
         else Inl (ValueError (''invalid literal for int() with base 10: '' @ text)))"

record status_info =
  si_clean :: bool
  si_ahead :: int
  si_behind :: int
  si_branch :: string
  si_commit :: string

definition ahead_behind_prefix :: string where "ahead_behind_prefix = ''# branch.ab ''"
definition branch_prefix :: string where "branch_prefix = ''# branch.head ''"
definition commit_prefix :: string where "commit_prefix = ''# branch.oid ''"

definition status_line :: "status_info \<Rightarrow> string \<Rightarrow> status_info res" where
  "status_line i line =
     (if line = [] then Inr i
      else if startswith line ahead_behind_prefix then
        (case splits CHR '' '' (drop (length ahead_behind_prefix) line) of
           [a, b] \<Rightarrow> bindE (py_int (drop 1 a)) (\<lambda>ahead. bindE (py_int (drop 1 b)) (\<lambda>behind.
             Inr (i\<lparr>si_ahead := ahead, si_behind := behind\<rparr>)))
         | _ \<Rightarrow> Inl (ValueError ''values to unpack (expected 2)''))
      else if startswith line branch_prefix then Inr (i\<lparr>si_branch := drop (length branch_prefix) line\<rparr>)
      else if startswith line commit_prefix then Inr (i\<lparr>si_commit := drop (length commit_prefix) line\<rparr>)
      else if hd line \<in> set ''12?'' then Inr (i\<lparr>si_clean := False\<rparr>)
      else Inr i)"

definition parse_status :: "string \<Rightarrow> status_info res" where
  "parse_status out =
     foldE status_line \<lparr>si_clean = True, si_ahead = 0, si_behind = 0, si_branch = [], si_commit = []\<rparr> (split_lines out)"

section \<open>Commands\<close>

definition lift_py :: "'a res \<Rightarrow> ('w, 'a) geff" where
  "lift_py r = liftE (case r of Inl e \<Rightarrow> Inl (PyExc e) | Inr x \<Rightarrow> Inr x)"

definition status_json :: "status_info \<Rightarrow> string \<Rightarrow> json" where
  "status_json i out =
     JObj [(''clean'', JBool (si_clean i)), (''ahead'', JInt (si_ahead i)), (''behind'', JInt (si_behind i)),
           (''branch'', JStr (si_branch i)), (''commit'', JStr (si_commit i)), (''status'', JStr out)]"

definition status :: "('w, 'm) os_scheme \<Rightarrow> path \<Rightarrow> ('w, json) geff" where
  "status os p =
     bindC (new_git_cli os p) (\<lambda>cli.
     bindC (git_fetch os [] cli) (\<lambda>_.
     bindC (git_status os [''--porcelain=v2'', ''--branch''] cli) (\<lambda>out.
     bindC (lift_py (parse_status out)) (\<lambda>i. ret (status_json i out)))))"

datatype renku_command_name = Save

definition all_names :: "(string \<times> renku_command_name) list" where
  "all_names = [(''save'', Save)]"

text \<open>
  \<open>run os directory command kwargs\<close> builds and executes the command of the Renku package and serialises
  its output.
\<close>

definition renku_run ::
  "(string \<Rightarrow> renku_command_name \<Rightarrow> json \<Rightarrow> ('w, string) geff) \<Rightarrow> path \<Rightarrow> string \<Rightarrow> json \<Rightarrow> ('w, string) geff" where
  "renku_run execute p command_name kwargs =
     (case dget all_names command_name of
        None \<Rightarrow> raise (SidecarUserError (''Command '' @ command_name @ '' is not recognized, allowed commands are ''
          @ join '', '' (map fst all_names) @ ''.''))
      | Some c \<Rightarrow> execute (path_str p) c kwargs)"

definition discard_unsaved_changes :: "('w, 'm) os_scheme \<Rightarrow> path \<Rightarrow> ('w, unit) geff" where
  "discard_unsaved_changes os p =
     bindC (new_git_cli os p) (\<lambda>cli.
     bindC (git_fetch os [''--all''] cli) (\<lambda>_.
     bindC (git_rev_parse os [''@'' @ ''{u}''] cli) (\<lambda>out.
     bindC (git_reset os [''--hard'', strip is_space out] cli) (\<lambda>_.
     bindC (git_clean os [''-fd''] cli) (\<lambda>_. ret ())))))"

definition pull :: "('w, 'm) os_scheme \<Rightarrow> path \<Rightarrow> bool \<Rightarrow> ('w, unit) geff" where
  "pull os p fast_forward_only =
     bindC (new_git_cli os p) (\<lambda>cli.
     bindC (git_fetch os [''--all''] cli) (\<lambda>_.
     bindC (git_pull os (if fast_forward_only then [''--ff-only''] else [''--ff'']) cli) (\<lambda>_. ret ())))"

section \<open>Errors of the protocol\<close>

definition generic_code :: int where "generic_code = -32603"
definition programming_code :: int where "programming_code = -32000"
definition user_code :: int where "user_code = -32001"

text \<open>\<open>getattr(e, "message", default)\<close>: of the exceptions below only the service's own have a message.\<close>

definition message_of :: "(gexc \<Rightarrow> string) \<Rightarrow> gexc \<Rightarrow> string" where
  "message_of type_text e =
     (case e of PyExc (Api a) \<Rightarrow> err_message a
      | _ \<Rightarrow> ''Failed with an unexpected error of type '' @ type_text e)"

definition json_rpc_errors :: "(gexc \<Rightarrow> string) \<Rightarrow> ('w, 'a) geff \<Rightarrow> ('w, 'a) geff" where
  "json_rpc_errors type_text m =
     catchC m (\<lambda>e. case e of
        JsonRpc c t \<Rightarrow> raise e
      | SidecarUserError t \<Rightarrow> raise (JsonRpc user_code t)
      | SidecarError t \<Rightarrow> raise (JsonRpc programming_code t)
      | RenkuException t ty \<Rightarrow> raise (JsonRpc programming_code (case t of Some t \<Rightarrow> t
          | None \<Rightarrow> ''Something went wrong running a Renku command, this resulted from Renku error '' @ ty))
      | GitCommandError rc out err \<Rightarrow> raise (JsonRpc programming_code
          (''Running a git command failed with the error: '' @ err))
      | _ \<Rightarrow> raise (JsonRpc generic_code (message_of type_text e)))"

section \<open>Configuration\<close>

datatype text_or_int = TText string | TInt int

text \<open>\<open>int(float(val))\<close>.\<close>

definition parse_value_as_int :: "text_or_int \<Rightarrow> int res" where
  "parse_value_as_int v =
     (case v of
        TInt i \<Rightarrow> Inr (pn_trunc (PFloat (fl (of_int i))))
      | TText s \<Rightarrow> (case float_of_text s of
            Some x \<Rightarrow> Inr (pn_trunc (PFloat x))
          | None \<Rightarrow> Inl (ValueError (''could not convert string to float: '' @ s))))"

record side_settings =
  ss_port :: text_or_int
  ss_url_prefix :: string
  ss_mount_path :: string
  ss_git_proxy_health_port :: text_or_int

record side_config =
  sd_port :: int
  sd_url_prefix :: string
  sd_mount_path :: path
  sd_git_proxy_health_port :: int

definition side_config_from_env :: "side_settings \<Rightarrow> side_config res" where
  "side_config_from_env ss =
     bindE (parse_value_as_int (ss_port ss)) (\<lambda>port.
     bindE (parse_value_as_int (ss_git_proxy_health_port ss)) (\<lambda>health.
     Inr \<lparr>sd_port = port, sd_url_prefix = ss_url_prefix ss, sd_mount_path = path_of (ss_mount_path ss),
          sd_git_proxy_health_port = health\<rparr>))"

section \<open>The methods\<close>

record 'w sidecar = "'w os" +
  sc_settings :: side_settings
  sc_execute :: "string \<Rightarrow> renku_command_name \<Rightarrow> json \<Rightarrow> ('w, string) geff"
  sc_type_text :: "gexc \<Rightarrow> string"

definition with_mount :: "'w sidecar \<Rightarrow> (path \<Rightarrow> ('w, json) geff) \<Rightarrow> ('w, json) geff" where
  "with_mount sc f = bindC (lift_py (side_config_from_env (sc_settings sc))) (\<lambda>c. f (sd_mount_path c))"

definition rpc_status :: "'w sidecar \<Rightarrow> ('w, json) geff" where
  "rpc_status sc = json_rpc_errors (sc_type_text sc) (with_mount sc (status sc))"

definition rpc_renku :: "'w sidecar \<Rightarrow> string \<Rightarrow> json \<Rightarrow> ('w, json) geff" where
  "rpc_renku sc command_name kwargs = json_rpc_errors (sc_type_text sc) (with_mount sc (\<lambda>p.
     bindC (renku_run (sc_execute sc) p command_name kwargs) (\<lambda>out. ret (JStr out))))"

definition rpc_error :: "'w sidecar \<Rightarrow> ('w, json) geff" where
  "rpc_error sc = json_rpc_errors (sc_type_text sc) (raise (JsonRpc generic_code ''Something went wrong''))"

definition rpc_discard_unsaved_changes :: "'w sidecar \<Rightarrow> ('w, json) geff" where
  "rpc_discard_unsaved_changes sc = json_rpc_errors (sc_type_text sc) (with_mount sc (\<lambda>p.
     bindC (discard_unsaved_changes sc p) (\<lambda>_. ret JNull)))"

definition rpc_pull :: "'w sidecar \<Rightarrow> ('w, json) geff" where
  "rpc_pull sc = json_rpc_errors (sc_type_text sc) (with_mount sc (\<lambda>p. bindC (pull sc p True) (\<lambda>_. ret JNull)))"

text \<open>The dispatcher's table, and the prefixes of the two blueprints.\<close>

definition rpc_methods :: "'w sidecar \<Rightarrow> string \<Rightarrow> json \<Rightarrow> (string \<times> ('w, json) geff) list" where
  "rpc_methods sc command_name kwargs =
     [(''git/get_status'', rpc_status sc), (''git/discard_unsaved_changes'', rpc_discard_unsaved_changes sc),
      (''git/pull'', rpc_pull sc), (''renku/run'', rpc_renku sc command_name kwargs), (''dummy/get_error'', rpc_error sc)]"

definition blueprint_prefixes :: "side_config \<Rightarrow> (string \<times> string) res" where
  "blueprint_prefixes c =
     bindE (url_join (sd_url_prefix c) ''jsonrpc'') (\<lambda>j. bindE (url_join (sd_url_prefix c) ''health'') (\<lambda>h. Inr (j, h)))"

end
