(* ===== verification/SidecarFacts.thy ===== *)
theory SidecarFacts
  imports Sidecar
begin

text \<open>
  Facts about the git sidecar: what its status parser makes of the output that git documents for
  \<open>git status --porcelain=v2 --branch\<close>, which errors its methods end with, and the URLs they are served
  under.
\<close>

section \<open>The output of git status\<close>

datatype entry = Changed string | Renamed string | Unmerged string | Untracked string | Ignored string

record work_tree =
  wt_oid :: string
  wt_head :: string
  wt_upstream :: "(string \<times> nat \<times> nat) option"
  wt_entries :: "entry list"

fun entry_line :: "entry \<Rightarrow> string" where
  "entry_line (Changed r) = ''1 '' @ r"
| "entry_line (Renamed r) = ''2 '' @ r"
| "entry_line (Unmerged r) = ''u '' @ r"
| "entry_line (Untracked r) = ''? '' @ r"
| "entry_line (Ignored r) = ''! '' @ r"

definition porcelain_lines :: "work_tree \<Rightarrow> string list" where
  "porcelain_lines t =
     [''# branch.oid '' @ wt_oid t, ''# branch.head '' @ wt_head t]
     @ (case wt_upstream t of None \<Rightarrow> []
        | Some (u, a, b) \<Rightarrow> [''# branch.upstream '' @ u, ''# branch.ab +'' @ show_nat a @ '' -'' @ show_nat b])
     @ map entry_line (wt_entries t)"

definition porcelain :: "work_tree \<Rightarrow> string" where
  "porcelain t = concat (map (\<lambda>l. l @ [newline_char]) (porcelain_lines t))"

definition one_line :: "string \<Rightarrow> bool" where
  "one_line s \<longleftrightarrow> list_all (\<lambda>c. \<not> is_break c) s"

definition wf_tree :: "work_tree \<Rightarrow> bool" where
  "wf_tree t \<longleftrightarrow> list_all one_line (porcelain_lines t)"

text \<open>The entries that the parser counts as changes: a conflict is not among them.\<close>

fun counted :: "entry \<Rightarrow> bool" where
  "counted (Unmerged r) = False"
| "counted (Ignored r) = False"
| "counted _ = True"

lemma split_lines_concat:
  "list_all one_line ls \<Longrightarrow> split_lines (concat (map (\<lambda>l. l @ [newline_char]) ls)) = ls"
proof (induction ls)
  case Nil
  show ?case by (simp add: split_lines.simps)
next
  case (Cons l ls)
  let ?rest = "concat (map (\<lambda>l. l @ [newline_char]) ls)"
  have nl: "is_break newline_char" "code newline_char = 10" by (simp_all add: newline_char_def is_break_def)
  have l: "\<forall>c \<in> set l. \<not> is_break c" using Cons.prems by (simp add: one_line_def list_all_iff)
  have "takeWhile (\<lambda>c. \<not> is_break c) (l @ newline_char # ?rest) = l"
    "dropWhile (\<lambda>c. \<not> is_break c) (l @ newline_char # ?rest) = newline_char # ?rest"
    using l nl by (simp_all add: takeWhile_append2 dropWhile_append2)
  moreover have "drop_break (newline_char # ?rest) = ?rest" by (simp add: drop_break_def nl)
  ultimately show ?case
    using Cons by (simp add: split_lines.simps [of "l @ newline_char # ?rest"])
qed

lemma py_int_digits: "py_int (show_nat n) = Inr (int n)"
proof -
  have d: "list_all is_digit (show_nat n)" by (rule show_nat_digits)
  obtain c cs where c: "show_nat n = c # cs" by (cases "show_nat n") auto
  have "strip is_space (show_nat n) = show_nat n" by (rule strip_digits [OF d])
  moreover have "CHR ''_'' \<notin> set (show_nat n)" using d by (auto simp: list_all_iff is_digit_def code_def)
  moreover have "c \<noteq> CHR ''-''" "c \<noteq> CHR ''+''" using d c by (auto simp: is_digit_def code_def)
  ultimately show ?thesis
    using d c parse_show_nat [of n] by (auto simp: py_int_def Let_def splits_id)
qed

lemmas status_prefixes = ahead_behind_prefix_def branch_prefix_def commit_prefix_def

lemma status_line_entry:
  "status_line i (entry_line e) = Inr (if counted e then i\<lparr>si_clean := False\<rparr> else i)"
  by (cases e) (simp_all add: status_line_def status_prefixes)

lemma status_entries:
  "foldE status_line i (map entry_line es) = Inr (i\<lparr>si_clean := si_clean i \<and> list_all (\<lambda>e. \<not> counted e) es\<rparr>)"
  by (induction es arbitrary: i) (simp_all add: status_line_entry)

lemma status_line_head:
  "status_line i (''# branch.oid '' @ x) = Inr (i\<lparr>si_commit := x\<rparr>)"
  "status_line i (''# branch.head '' @ x) = Inr (i\<lparr>si_branch := x\<rparr>)"
  "status_line i (''# branch.upstream '' @ x) = Inr i"
  by (simp_all add: status_line_def status_prefixes)

lemma status_line_ab:
  "status_line i (''# branch.ab +'' @ show_nat a @ '' -'' @ show_nat b)
     = Inr (i\<lparr>si_ahead := int a, si_behind := int b\<rparr>)"
proof -
  have no: "CHR '' '' \<notin> set (show_nat n)" for n
    using show_nat_digits [of n] by (auto simp: list_all_iff is_digit_def code_def)
  have "splits CHR '' '' ((CHR ''+'' # show_nat a) @ CHR '' '' # (CHR ''-'' # show_nat b))
      = [CHR ''+'' # show_nat a, CHR ''-'' # show_nat b]"
    using no [of a] no [of b] by (subst splits_append_sep) (auto simp: splits_id)
  then show ?thesis by (simp add: status_line_def status_prefixes py_int_digits)
qed

text \<open>
  C25. The sidecar reads back what git prints: for every work tree, the parser of \<open>git status\<close> finds the
  branch, the commit and the numbers of commits ahead and behind (0 without an upstream); it calls the tree
  clean when there is no changed, renamed or untracked file.  Files in conflict do not count: a
  repository in the middle of a merge with nothing but conflicts is reported clean.
\<close>

theorem status_roundtrip:
  assumes "wf_tree t"
  shows "parse_status (porcelain t) =
    Inr \<lparr>si_clean = list_all (\<lambda>e. \<not> counted e) (wt_entries t),
         si_ahead = (case wt_upstream t of None \<Rightarrow> 0 | Some (_, a, _) \<Rightarrow> int a),
         si_behind = (case wt_upstream t of None \<Rightarrow> 0 | Some (_, _, b) \<Rightarrow> int b),
         si_branch = wt_head t, si_commit = wt_oid t\<rparr>"
proof -
  have "parse_status (porcelain t) = foldE status_line
      \<lparr>si_clean = True, si_ahead = 0, si_behind = 0, si_branch = [], si_commit = []\<rparr> (porcelain_lines t)"
    using assms by (simp only: parse_status_def porcelain_def wf_tree_def split_lines_concat)
  then show ?thesis
    by (auto simp: porcelain_lines_def foldE_append status_entries status_line_head [unfolded append.simps]
        status_line_ab [unfolded append.simps] split: option.splits)
qed

theorem status_roundtrip_witness:
  "parse_status (porcelain \<lparr>wt_oid = ''55234e'', wt_head = ''main'', wt_upstream = Some (''origin/main'', 2, 1),
      wt_entries = [Unmerged ''UU N... a.txt'']\<rparr>)
   = Inr \<lparr>si_clean = True, si_ahead = 2, si_behind = 1, si_branch = ''main'', si_commit = ''55234e''\<rparr>"
proof -
  have "wf_tree \<lparr>wt_oid = ''55234e'', wt_head = ''main'', wt_upstream = Some (''origin/main'', 2, 1),
      wt_entries = [Unmerged ''UU N... a.txt'']\<rparr>"
    by (simp add: wf_tree_def porcelain_lines_def one_line_def is_break_def show_nat.simps digit_char_def code_def)
  from status_roundtrip [OF this] show ?thesis by simp
qed

section \<open>Errors\<close>

definition protocol_error :: "gexc \<Rightarrow> bool" where
  "protocol_error e \<longleftrightarrow> (case e of JsonRpc c m \<Rightarrow> c \<in> {-32603, -32000, -32001} | _ \<Rightarrow> False)"

lemma json_rpc_errors_raises:
  assumes "raises (\<lambda>e. \<forall>c m. e = JsonRpc c m \<longrightarrow> c = generic_code) m"
  shows "raises protocol_error (json_rpc_errors ty m)"
  unfolding json_rpc_errors_def
proof (rule raises_catchC [OF assms])
  fix e :: gexc
  assume "\<forall>c m. e = JsonRpc c m \<longrightarrow> c = generic_code"
  then show "raises protocol_error (case e of
        JsonRpc c t \<Rightarrow> raise e
      | SidecarUserError t \<Rightarrow> raise (JsonRpc user_code t)
      | SidecarError t \<Rightarrow> raise (JsonRpc programming_code t)
      | RenkuException t ty \<Rightarrow> raise (JsonRpc programming_code (case t of Some t \<Rightarrow> t
          | None \<Rightarrow> ''Something went wrong running a Renku command, this resulted from Renku error '' @ ty))
      | GitCommandError rc out err \<Rightarrow> raise (JsonRpc programming_code
          (''Running a git command failed with the error: '' @ err))
      | _ \<Rightarrow> raise (JsonRpc generic_code (message_of ty e)))"
    by (cases e) (auto simp: raises_def protocol_error_def generic_code_def programming_code_def user_code_def)
qed

lemma not_rpc_mono: "raises (allows E) m \<Longrightarrow> raises (\<lambda>e. \<forall>c m. e = JsonRpc c m \<longrightarrow> c = generic_code) m"
  by (erule raises_mono) auto

lemma raises_lift_py [raises_intros]: "raises (allows E) (lift_py r)"
  by (cases r) (simp_all add: lift_py_def raises_def)

lemma raises_with_mount:
  "(\<And>p. raises (allows E) (f p)) \<Longrightarrow> raises (allows E) (with_mount sc f)"
  unfolding with_mount_def by (intro raises_intros)

lemma raises_renku_run:
  "(\<And>c. raises (allows E) (execute (path_str p) c kwargs)) \<Longrightarrow> raises (allows E) (renku_run execute p n kwargs)"
  unfolding renku_run_def by (intro raises_intros) simp_all

lemma raises_sidecar [raises_intros]:
  "raises (allows E) (status os p)" "raises (allows E) (discard_unsaved_changes os p)" "raises (allows E) (pull os p b)"
  unfolding status_def discard_unsaved_changes_def pull_def git_command_defs by (intro raises_intros)+

text \<open>
  C26. Whatever goes wrong in a method of the sidecar, a missing repository, a failing git or Renku command, a
  status that cannot be parsed or an invalid configuration, the client receives an error of the JSON-RPC
  protocol with one of the codes -32603, -32000 and -32001, as long as the Renku package itself raises none of
  the protocol's errors.
\<close>

theorem rpc_methods_raise_protocol_errors:
  assumes "(name, m) \<in> set (rpc_methods sc command_name kwargs)"
    and "\<And>p c. raises (allows {}) (sc_execute sc p c kwargs)"
    and "m w = (Inl e, w')"
  shows "protocol_error e"
proof -
  have "raises protocol_error m"
    using assms(1)
    unfolding rpc_methods_def rpc_status_def rpc_discard_unsaved_changes_def rpc_pull_def rpc_renku_def rpc_error_def
    by (auto intro!: json_rpc_errors_raises intro!: not_rpc_mono [where E = "{}"] raises_with_mount raises_renku_run
        raises_intros assms(2) simp: raises_def [of _ "raise _"])
  from raisesD [OF this assms(3)] show ?thesis .
qed

section \<open>URLs\<close>

lemma takeWhile_dropWhile_all: "list_all P s \<Longrightarrow> takeWhile P s = s" "list_all P s \<Longrightarrow> dropWhile P s = []"
  by (induction s) auto

lemma cut_absent: "c \<notin> set s \<Longrightarrow> cut c s = (s, [])"
  by (induction s) (auto simp: cut_def)

text \<open>An absolute path of lower-case words, digits and hyphens parses to itself.\<close>

definition word_char :: "char \<Rightarrow> bool" where
  "word_char c \<longleftrightarrow> label_char c \<or> c = CHR ''/''"

lemma word_char_facts:
  assumes "list_all word_char s"
  shows "\<And>c. c \<in> set '':#?;[]'' \<Longrightarrow> c \<notin> set s" and "filter (\<lambda>c. code c \<notin> {9, 10, 13}) s = s"
    and "dropWhile (\<lambda>c. code c \<le> 32) s = s"
proof -
  have bad: "\<not> word_char c" if "c \<in> set '':#?;[]''" for c
    using that by (auto simp: word_char_def label_char_def is_lower_def is_digit_def code_def)
  then show "\<And>c. c \<in> set '':#?;[]'' \<Longrightarrow> c \<notin> set s" using assms by (auto simp: list_all_iff)
  have high: "32 < code c" if "word_char c" for c
    using that by (auto simp: word_char_def label_char_def is_lower_def is_digit_def code_def)
  show "filter (\<lambda>c. code c \<notin> {9, 10, 13}) s = s"
    using assms high by (intro filter_all_id) (force simp: list_all_iff)
  show "dropWhile (\<lambda>c. code c \<le> 32) s = s"
    using assms high by (cases s) (auto dest!: high simp flip: not_less)
qed

lemma urlparse_path:
  assumes "list_all word_char s" and "\<not> startswith s ''//''"
  shows "urlparse s = Inr \<lparr>up_scheme = [], up_netloc = [], up_path = s, up_params = [], up_query = [], up_fragment = []\<rparr>"
proof -
  note f = word_char_facts [OF assms(1)]
  have clean: "url_clean s = s" using f(2, 3) by (simp add: url_clean_def)
  have "takeWhile (\<lambda>c. c \<noteq> CHR '':'') s = s" using f(1) by (auto simp: takeWhile_eq_all_conv)
  then have scheme: "url_cut_scheme s = ([], s)" by (simp only: url_cut_scheme_def Let_def) simp
  have "CHR '';'' \<notin> set (last (splits CHR ''/'' s))"
  proof
    assume "CHR '';'' \<in> set (last (splits CHR ''/'' s))"
    moreover have "set (last (splits CHR ''/'' s)) \<subseteq> set s"
    proof -
      have "w \<in> set (splits d s) \<Longrightarrow> set w \<subseteq> set s" for w d
        by (induction s arbitrary: w) (auto split: if_splits list.splits, blast)
      then show ?thesis by (metis last_in_set splits_nonempty)
    qed
    ultimately show False using f(1) by auto
  qed
  then have params: "cut_params s = (s, [])"
    using join_splits [of "CHR ''/''" s] by (simp add: cut_params_def cut_absent)
  show ?thesis
    using assms(2) f(1) by (simp add: urlparse_def clean scheme params cut_absent uses_params_def)
qed

text \<open>
  The sidecar is served where the pod expects it: with the URL prefix that the session's patches set, it
  registers the JSON-RPC methods and the health endpoint under exactly the paths that the probes of its
  container ask and that the authentication proxy lets through, for every valid server name.
\<close>

theorem sidecar_served_where_probed:
  assumes "dns_label (srv_name s)" and "sd_url_prefix c = sidecar_url s []"
  shows "blueprint_prefixes c = Inr (sidecar_url s ''jsonrpc'', sidecar_url s ''health'')"
proof -
  let ?n = "srv_name s"
  have n: "?n \<noteq> []" "list_all label_char ?n" using assms(1) by (auto simp: dns_label_def)
  then have chars: "CHR ''/'' \<notin> set ?n" "CHR ''.'' \<notin> set ?n"
    by (auto simp: list_all_iff label_char_def is_lower_def is_digit_def code_def)
  then have dots: "?n \<noteq> ''.''" "?n \<noteq> ''..''" by auto
  have word: "list_all word_char (sidecar_url s [])"
    using n(2) by (auto simp: sidecar_url_def word_char_def label_char_def is_lower_def code_def list_all_iff)
  have parts: "splits CHR ''/'' (sidecar_url s []) = [[], ''sessions'', ?n, ''sidecar'', []]"
    using chars by (simp add: sidecar_url_def splits_append_sep)
  have "url_join (sidecar_url s []) w = Inr (sidecar_url s w)" if "w \<in> {''jsonrpc'', ''health''}" for w
  proof -
    have w: "splits CHR ''/'' w = [w]" "w \<noteq> ''.''" "w \<noteq> ''..''" using that by auto
    have "urlparse (sidecar_url s []) = Inr \<lparr>up_scheme = [], up_netloc = [], up_path = sidecar_url s [],
        up_params = [], up_query = [], up_fragment = []\<rparr>"
      by (rule urlparse_path [OF word]) (simp add: sidecar_url_def)
    then show ?thesis
      using n(1) dots w by (simp add: url_join_def parts uses_relative_def urlunparse_def) (simp add: sidecar_url_def)
  qed
  then show ?thesis by (simp add: blueprint_prefixes_def assms(2))
qed

section \<open>Witnesses\<close>

definition example_sidecar :: "unit sidecar" where
  "example_sidecar =
     \<lparr>os_popen = (\<lambda>args cwd w. (Inr (128, [], ''fatal: unable to access''), w)), os_exists = (\<lambda>p w. (Inr True, w)),
      os_mkdir = (\<lambda>p w. (Inr (), w)), os_write = (\<lambda>p t w. (Inr (), w)), os_append = (\<lambda>p t w. (Inr (), w)),
      os_unlink = (\<lambda>p w. (Inr (), w)), os_free = (\<lambda>p w. (Inr 0, w)), os_rmtree = (\<lambda>p w. w),
      sc_settings = \<lparr>ss_port = TInt 0, ss_url_prefix = ''/'', ss_mount_path = ''/work'', ss_git_proxy_health_port = TInt 0\<rparr>,
      sc_execute = (\<lambda>p c a w. (Inl (RenkuException None ''E''), w)), sc_type_text = (\<lambda>e. ''E'')\<rparr>"

theorem rpc_methods_raise_protocol_errors_witness:
  "protocol_error (JsonRpc programming_code (''Running a git command failed with the error: '' @ ''fatal: unable to access''))"
proof (rule rpc_methods_raise_protocol_errors)
  show "(''git/pull'', rpc_pull example_sidecar) \<in> set (rpc_methods example_sidecar [] JNull)"
    by (simp add: rpc_methods_def)
  show "raises (allows {}) (sc_execute example_sidecar p c JNull)" for p c
    by (simp add: raises_def example_sidecar_def)
  show "rpc_pull example_sidecar ()
      = (Inl (JsonRpc programming_code (''Running a git command failed with the error: '' @ ''fatal: unable to access'')), ())"
    by (simp add: rpc_pull_def json_rpc_errors_def catchC_def with_mount_def lift_py_def side_config_from_env_def
        parse_value_as_int_def example_sidecar_def pull_def new_git_cli_def on_os_def bindC_def git_fetch_def
        execute_command_def)
qed

theorem sidecar_served_where_probed_witness:
  "blueprint_prefixes \<lparr>sd_port = 4000, sd_url_prefix = sidecar_url example_server [], sd_mount_path = path_of ''/work'',
      sd_git_proxy_health_port = 8081\<rparr>
   = Inr (sidecar_url example_server ''jsonrpc'', sidecar_url example_server ''health'')"
  by (rule sidecar_served_where_probed) code_simp+

end
