(* ===== verification/Schemas.thy ===== *)
theory Schemas
  imports Launch ErrorResponses
begin

text \<open>
  The schemas of the bodies that requests carry (\<open>api/schemas/servers_post.py\<close>, \<open>servers_patch.py\<close>,
  \<open>secrets.py\<close>, \<open>repository.py\<close>, \<open>cloud_storage.py\<close> and \<open>server_options.py\<close>).  A schema collects the
  messages of all its fields under their names, in the order of the declarations; an exception other
  than \<open>ValidationError\<close> leaves a deserializer at once and ends the request.
\<close>

section \<open>Loading\<close>

text \<open>
  What loading a value can end with: messages, which are a list of texts for a field and a dictionary
  for a schema, a list or a mapping; or an exception of Python that nothing catches.
\<close>

datatype load_error = Invalid json | Raised exc

type_synonym 'a loaded = "load_error + 'a"

definition messages :: "string \<Rightarrow> json" where
  "messages m = JArr [JStr m]"

definition invalid :: "string \<Rightarrow> 'a loaded" where
  "invalid m = Inl (Invalid (messages m))"

definition loaded :: "'a res \<Rightarrow> 'a loaded" where
  "loaded r = (case r of Inr x \<Rightarrow> Inr x | Inl (Validation m) \<Rightarrow> invalid m | Inl e \<Rightarrow> Inl (Raised e))"

definition below :: "string \<Rightarrow> 'a loaded \<Rightarrow> 'a loaded" where
  "below k r = (case r of Inl (Invalid m) \<Rightarrow> Inl (Invalid (JObj [(k, m)])) | _ \<Rightarrow> r)"

definition mapL :: "('a \<Rightarrow> 'b) \<Rightarrow> 'a loaded \<Rightarrow> 'b loaded" where
  "mapL f r = map_sum id f r"

fun merge_messages :: "json \<Rightarrow> json \<Rightarrow> json" where
  "merge_messages (JObj a) (JObj b) = JObj (a @ b)"
| "merge_messages a _ = a"

text \<open>One more field: the messages of both sides are kept, an exception of the first comes first.\<close>

definition alsoL :: "('a \<Rightarrow> 'b) loaded \<Rightarrow> 'a loaded \<Rightarrow> 'b loaded" where
  "alsoL f x =
     (case f of
        Inl (Raised e) \<Rightarrow> Inl (Raised e)
      | Inl (Invalid a) \<Rightarrow>
          (case x of
             Inl (Raised e) \<Rightarrow> Inl (Raised e)
           | Inl (Invalid b) \<Rightarrow> Inl (Invalid (merge_messages a b))
           | Inr _ \<Rightarrow> Inl (Invalid a))
      | Inr g \<Rightarrow> mapL g x)"

text \<open>
  A field of a schema under its name in the body: what a missing field and \<open>null\<close> stand for, if
  they are allowed.
\<close>

definition get_field ::
  "(string, json) dict \<Rightarrow> string \<Rightarrow> 'a option \<Rightarrow> 'a option \<Rightarrow> (json \<Rightarrow> 'a loaded) \<Rightarrow> 'a loaded" where
  "get_field d k missing nul deser =
     below k
       (case dget d k of
          None \<Rightarrow> (case missing of None \<Rightarrow> invalid ''Missing data for required field.'' | Some x \<Rightarrow> Inr x)
        | Some v \<Rightarrow>
            if v = JNull then (case nul of None \<Rightarrow> invalid ''Field may not be null.'' | Some x \<Rightarrow> Inr x)
            else deser v)"

definition required_field :: "(string, json) dict \<Rightarrow> string \<Rightarrow> (json \<Rightarrow> 'a loaded) \<Rightarrow> 'a loaded" where
  "required_field d k = get_field d k None None"

definition default_field :: "(string, json) dict \<Rightarrow> string \<Rightarrow> 'a \<Rightarrow> (json \<Rightarrow> 'a loaded) \<Rightarrow> 'a loaded" where
  "default_field d k x = get_field d k (Some x) None"

text \<open>\<open>required=False\<close> without a default, and \<open>load_default=None\<close>, which allows \<open>null\<close> too.\<close>

definition optional_field :: "(string, json) dict \<Rightarrow> string \<Rightarrow> (json \<Rightarrow> 'a loaded) \<Rightarrow> 'a option loaded" where
  "optional_field d k f = get_field d k (Some None) None (\<lambda>v. mapL Some (f v))"

definition nullable_field :: "(string, json) dict \<Rightarrow> string \<Rightarrow> (json \<Rightarrow> 'a loaded) \<Rightarrow> 'a option loaded" where
  "nullable_field d k f = get_field d k (Some None) (Some None) (\<lambda>v. mapL Some (f v))"

text \<open>
  A schema refuses names it does not declare unless its \<open>Meta\<close> excludes them.  The messages for them
  come in the order of the body; Python goes through them as a set.
\<close>

definition no_unknown :: "string list \<Rightarrow> (string, json) dict \<Rightarrow> 'a \<Rightarrow> 'a loaded" where
  "no_unknown known d x =
     (case filter (\<lambda>k. k \<notin> set known) (map fst d) of
        [] \<Rightarrow> Inr x
      | ks \<Rightarrow> Inl (Invalid (JObj (map (\<lambda>k. (k, messages ''Unknown field.'')) ks))))"

definition schema :: "((string, json) dict \<Rightarrow> 'a loaded) \<Rightarrow> json \<Rightarrow> 'a loaded" where
  "schema f v = (case v of JObj d \<Rightarrow> f d | _ \<Rightarrow> below ''_schema'' (invalid ''Invalid input type.''))"

section \<open>Field types\<close>

fun load_str :: "json \<Rightarrow> string loaded" where
  "load_str (JStr s) = Inr s"
| "load_str _ = invalid ''Not a valid string.''"

definition load_int :: "json \<Rightarrow> int loaded" where
  "load_int v = loaded (int_field v)"

definition load_bool :: "json \<Rightarrow> bool loaded" where
  "load_bool v =
     (case v of
        JBool b \<Rightarrow> Inr b
      | JStr s \<Rightarrow>
          if s \<in> set truthy_words then Inr True else if s \<in> set falsy_words then Inr False
          else invalid ''Not a valid boolean.''
      | JInt i \<Rightarrow> if i = 1 then Inr True else if i = 0 then Inr False else invalid ''Not a valid boolean.''
      | JFloat q \<Rightarrow> if q = 1 then Inr True else if q = 0 then Inr False else invalid ''Not a valid boolean.''
      | _ \<Rightarrow> invalid ''Not a valid boolean.'')"

text \<open>The elements of a list and the values of a mapping are fields of their own.\<close>

definition element :: "(json \<Rightarrow> 'a loaded) \<Rightarrow> json \<Rightarrow> 'a loaded" where
  "element f v = (if v = JNull then invalid ''Field may not be null.'' else f v)"

fun load_items :: "(json \<Rightarrow> 'a loaded) \<Rightarrow> nat \<Rightarrow> json list \<Rightarrow> 'a list loaded" where
  "load_items f i [] = Inr []"
| "load_items f i (x # xs) =
     alsoL (mapL (\<lambda>y ys. y # ys) (below (show_nat i) (element f x))) (load_items f (Suc i) xs)"

definition load_list :: "(json \<Rightarrow> 'a loaded) \<Rightarrow> json \<Rightarrow> 'a list loaded" where
  "load_list f v = (case v of JArr xs \<Rightarrow> load_items f 0 xs | _ \<Rightarrow> invalid ''Not a valid list.'')"

fun load_entries :: "(json \<Rightarrow> 'a loaded) \<Rightarrow> (string, json) dict \<Rightarrow> (string, 'a) dict loaded" where
  "load_entries f [] = Inr []"
| "load_entries f ((k, v) # d) =
     alsoL (mapL (\<lambda>y ys. (k, y) # ys) (below k (below ''value'' (element f v)))) (load_entries f d)"

definition load_mapping :: "(json \<Rightarrow> 'a loaded) \<Rightarrow> json \<Rightarrow> (string, 'a) dict loaded" where
  "load_mapping f v = (case v of JObj d \<Rightarrow> load_entries f d | _ \<Rightarrow> invalid ''Not a valid mapping type.'')"

section \<open>The parts of a launch\<close>

text \<open>\<open>UserSecrets\<close>; \<open>ulid\<close> is \<open>ULID.from_str\<close>, with what it raises.\<close>

definition load_path :: "json \<Rightarrow> string loaded" where
  "load_path v =
     (case v of
        JStr s \<Rightarrow> loaded (path_field_deserialize s)
      | _ \<Rightarrow> Inl (Raised (TypeError ''argument should be a str or an os.PathLike object'')))"

definition load_ulid :: "(json \<Rightarrow> string res) \<Rightarrow> json \<Rightarrow> string loaded" where
  "load_ulid ulid v = loaded (ulid v)"

definition load_user_secrets :: "(json \<Rightarrow> string res) \<Rightarrow> (string, json) dict \<Rightarrow> (string list \<times> string) loaded" where
  "load_user_secrets ulid d =
     (let f0 = Inr (\<lambda>ids mount u. (ids, mount));
          f1 = alsoL f0 (required_field d ''user_secret_ids'' (load_list (load_ulid ulid)));
          f2 = alsoL f1 (required_field d ''mount_path'' load_path)
      in alsoL f2 (no_unknown [''user_secret_ids'', ''mount_path''] d ()))"

text \<open>\<open>Repository\<close>: the fields that are given, as the handler reads them.\<close>

definition given :: "string \<Rightarrow> string option \<Rightarrow> (string, json) dict" where
  "given k v = (case v of None \<Rightarrow> [] | Some s \<Rightarrow> [(k, JStr s)])"

definition load_repository :: "(string, json) dict \<Rightarrow> json loaded" where
  "load_repository d =
     (let f0 = Inr (\<lambda>url dirname branch commit u.
            JObj ((''url'', JStr url) # given ''dirname'' dirname @ given ''branch'' branch @ given ''commit_sha'' commit));
          f1 = alsoL f0 (required_field d ''url'' load_str);
          f2 = alsoL f1 (optional_field d ''dirname'' load_str);
          f3 = alsoL f2 (optional_field d ''branch'' load_str);
          f4 = alsoL f3 (optional_field d ''commit_sha'' load_str)
      in alsoL f4 (no_unknown [''url'', ''dirname'', ''branch'', ''commit_sha''] d ()))"

text \<open>
  \<open>RCloneStorageRequest\<close>, which ignores other names.  The schema's own validation runs when its
  fields are valid.
\<close>

definition check_storage :: "storage_request \<Rightarrow> storage_request loaded" where
  "check_storage r = below ''_schema'' (mapL (\<lambda>_. r) (loaded (validate_storage r)))"

definition load_storage :: "(string, json) dict \<Rightarrow> storage_request loaded" where
  "load_storage d =
     (let f0 = Inr (\<lambda>src tgt conf i ro. \<lparr>sr_source_path = src, sr_target_path = tgt, sr_configuration = conf,
            sr_storage_id = i, sr_readonly = ro\<rparr>);
          f1 = alsoL f0 (optional_field d ''source_path'' load_str);
          f2 = alsoL f1 (optional_field d ''target_path'' load_str);
          f3 = alsoL f2 (get_field d ''configuration'' (Some (Some [])) (Some None) (\<lambda>v. mapL Some (load_mapping Inr v)));
          f4 = alsoL f3 (nullable_field d ''storage_id'' load_str);
          f5 = alsoL f4 (default_field d ''readonly'' True load_bool)
      in bindE f5 check_storage)"

text \<open>\<open>LaunchNotebookRequestServerOptions\<close>, made an object by \<open>make_dataclass\<close>.\<close>

definition option_names :: "string list" where
  "option_names = [''defaultUrl'', ''cpu_request'', ''mem_request'', ''disk_request'', ''lfs_auto_fetch'', ''gpu_request'']"

definition load_options_request :: "options_defaults \<Rightarrow> (string, json) dict \<Rightarrow> server_options loaded" where
  "load_options_request cfg d =
     (let dflt = default_request cfg;
          f0 = Inr (\<lambda>u c m s l g x. from_request cfg
            \<lparr>rq_defaultUrl = u, rq_cpu_request = c, rq_mem_request = m, rq_disk_request = s,
             rq_lfs_auto_fetch = l, rq_gpu_request = g\<rparr>);
          f1 = alsoL f0 (default_field d ''defaultUrl'' (rq_defaultUrl dflt) load_str);
          f2 = alsoL f1 (default_field d ''cpu_request'' (rq_cpu_request dflt) (\<lambda>v. loaded (cpu_deserialize v)));
          f3 = alsoL f2 (default_field d ''mem_request'' (rq_mem_request dflt) (\<lambda>v. mapL PInt (loaded (byte_size_deserialize v))));
          f4 = alsoL f3 (default_field d ''disk_request'' (rq_disk_request dflt) (\<lambda>v. mapL PInt (loaded (byte_size_deserialize v))));
          f5 = alsoL f4 (default_field d ''lfs_auto_fetch'' (rq_lfs_auto_fetch dflt) load_bool);
          f6 = alsoL f5 (default_field d ''gpu_request'' (rq_gpu_request dflt) (\<lambda>v. mapL PInt (loaded (gpu_deserialize v))))
      in alsoL f6 (no_unknown option_names d ()))"

section \<open>The bodies\<close>

text \<open>\<open>LaunchNotebookRequestWithoutStorageBase\<close>; \<open>notebook\<close> is checked and then unused.\<close>

definition base_args ::
  "string option \<Rightarrow> server_options option \<Rightarrow> int option \<Rightarrow> int \<Rightarrow> bool \<Rightarrow> string \<Rightarrow> (string, string) dict \<Rightarrow>
   (string list \<times> string) option \<Rightarrow> launch_args" where
  "base_args notebook options rc st lfs url env secrets =
     \<lparr>la_image = None, la_resource_class_id = rc, la_storage = Some (PInt st), la_environment_variables = env,
      la_user_secrets = secrets, la_default_url = Some url, la_lfs_auto_fetch = Some lfs, la_cloudstorage = [],
      la_server_options = (case options of None \<Rightarrow> NoOptions | Some o' \<Rightarrow> LoadedOptions o')\<rparr>"

definition load_base :: "options_defaults \<Rightarrow> (json \<Rightarrow> string res) \<Rightarrow> (string, json) dict \<Rightarrow> launch_args loaded" where
  "load_base cfg ulid d =
     (let f1 = alsoL (Inr base_args) (nullable_field d ''notebook'' load_str);
          f2 = alsoL f1 (optional_field d ''serverOptions'' (schema (load_options_request cfg)));
          f3 = alsoL f2 (nullable_field d ''resource_class_id'' load_int);
          f4 = alsoL f3 (default_field d ''storage'' 1 load_int);
          f5 = alsoL f4 (default_field d ''lfs_auto_fetch'' (lfs_default cfg) load_bool);
          f6 = alsoL f5 (default_field d ''default_url'' (defaultUrl cfg) load_str);
          f7 = alsoL f6 (default_field d ''environment_variables'' [] (load_mapping load_str))
      in alsoL f7 (nullable_field d ''user_secrets'' (schema (load_user_secrets ulid))))"

definition base_names :: "string list" where
  "base_names = [''notebook'', ''serverOptions'', ''resource_class_id'', ''storage'', ''lfs_auto_fetch'', ''default_url'',
     ''environment_variables'', ''user_secrets'']"

text \<open>\<open>LowercaseString\<close>, whose \<open>super\<close> is the string field.\<close>

definition load_lowercase :: "json \<Rightarrow> string loaded" where
  "load_lowercase v = loaded (lowercase_string query_text v)"

definition load_storages :: "(string, json) dict \<Rightarrow> storage_request list loaded" where
  "load_storages d = default_field d ''cloudstorage'' [] (load_list (schema load_storage))"

text \<open>
  \<open>LaunchNotebookRequest\<close>: the class with \<open>cloudstorage\<close> is chosen when cloud storage is enabled; in the
  other one the name is unknown.
\<close>

record renku1_request =
  r1_namespace :: string
  r1_project :: string
  r1_branch :: string
  r1_commit_sha :: string
  r1_args :: launch_args

definition launch_names :: "bool \<Rightarrow> string list" where
  "launch_names storage_enabled =
     base_names @ [''namespace'', ''project'', ''branch'', ''commit_sha'', ''image'']
     @ (if storage_enabled then [''cloudstorage''] else [])"

definition load_launch_request ::
  "bool \<Rightarrow> options_defaults \<Rightarrow> (json \<Rightarrow> string res) \<Rightarrow> (string, json) dict \<Rightarrow> renku1_request loaded" where
  "load_launch_request storage_enabled cfg ulid d =
     (let f0 = mapL (\<lambda>a ns project branch commit image storages u.
            \<lparr>r1_namespace = ns, r1_project = project, r1_branch = branch, r1_commit_sha = commit,
             r1_args = a\<lparr>la_image := image, la_cloudstorage := storages\<rparr>\<rparr>) (load_base cfg ulid d);
          f1 = alsoL f0 (required_field d ''namespace'' load_lowercase);
          f2 = alsoL f1 (required_field d ''project'' load_lowercase);
          f3 = alsoL f2 (default_field d ''branch'' ''master'' load_str);
          f4 = alsoL f3 (required_field d ''commit_sha'' load_str);
          f5 = alsoL f4 (nullable_field d ''image'' load_str);
          f6 = alsoL f5 (if storage_enabled then load_storages d else Inr [])
      in alsoL f6 (no_unknown (launch_names storage_enabled) d ()))"

text \<open>\<open>Renku2LaunchNotebookRequest\<close>.\<close>

record renku2_request =
  r2_project_id :: string
  r2_launcher_id :: string
  r2_repositories :: "json list"
  r2_args :: launch_args

definition load_renku2_request ::
  "options_defaults \<Rightarrow> (json \<Rightarrow> string res) \<Rightarrow> (string, json) dict \<Rightarrow> renku2_request loaded" where
  "load_renku2_request cfg ulid d =
     (let f0 = mapL (\<lambda>a project_id launcher_id image repositories storages u.
            \<lparr>r2_project_id = project_id, r2_launcher_id = launcher_id, r2_repositories = repositories,
             r2_args = a\<lparr>la_image := Some image, la_cloudstorage := storages\<rparr>\<rparr>) (load_base cfg ulid d);
          f1 = alsoL f0 (required_field d ''project_id'' load_str);
          f2 = alsoL f1 (required_field d ''launcher_id'' load_str);
          f3 = alsoL f2 (required_field d ''image'' load_str);
          f4 = alsoL f3 (default_field d ''repositories'' [] (load_list (schema load_repository)));
          f5 = alsoL f4 (load_storages d)
      in alsoL f5 (no_unknown (base_names @ [''project_id'', ''launcher_id'', ''image'', ''repositories'', ''cloudstorage'']) d ()))"

text \<open>\<open>PatchServerRequest\<close>, which ignores other names.\<close>

definition load_state :: "json \<Rightarrow> string loaded" where
  "load_state v = bindE (load_str v) (\<lambda>s.
     if s \<in> set patch_states then Inr s else invalid ''Must be one of: running, hibernated.'')"

definition load_class_id :: "json \<Rightarrow> int loaded" where
  "load_class_id v = bindE (load_int v) (\<lambda>i. if 0 < i then Inr i else invalid ''Invalid value.'')"

definition load_patch_request :: "(string, json) dict \<Rightarrow> patch_body loaded" where
  "load_patch_request d =
     (let f0 = Inr (\<lambda>st rc. \<lparr>pb_state = st, pb_resource_class_id = rc\<rparr>);
          f1 = alsoL f0 (optional_field d ''state'' load_state)
      in alsoL f1 (optional_field d ''resource_class_id'' load_class_id))"

end
