(* ===== verification/Users.thy ===== *)
theory Users
  imports Manifest
begin

text \<open>
  The users of a request (\<open>api/classes/user.py\<close>) and the decorator that every handler stands behind
  (\<open>api/auth.py\<close>): how the headers that the gateway sets become a registered or an anonymous user.  The
  escaping of names by \<open>escapism\<close> and the decoding of a token by \<open>PyJWT\<close> are parameters.
\<close>

section \<open>Headers\<close>

text \<open>Header names are compared without their case.  \<open>headers[name]\<close> raises on a name that is missing.\<close>

type_synonym headers = "(string, string) dict"

definition header_get :: "headers \<Rightarrow> string \<Rightarrow> string option" where
  "header_get hs name = dget (map (\<lambda>(k, v). (lower k, v)) hs) (lower name)"

definition header_item :: "headers \<Rightarrow> string \<Rightarrow> string res" where
  "header_item hs name = (case header_get hs name of None \<Rightarrow> Inl (KeyError name) | Some v \<Rightarrow> Inr v)"

definition access_header :: string where "access_header = ''Renku-Auth-Access-Token''"
definition id_header :: string where "id_header = ''Renku-Auth-Id-Token''"
definition refresh_header :: string where "refresh_header = ''Renku-Auth-Refresh-Token''"
definition git_header :: string where "git_header = ''Renku-Auth-Git-Credentials''"
definition anon_header :: string where "anon_header = ''Renku-Auth-Anon-Id''"

definition auth_headers :: "string list" where
  "auth_headers = [access_header, id_header]"

section \<open>Git credentials\<close>

text \<open>\<open>^[^\s]+\ ([^\s]+)$\<close>.\<close>

definition token_rx :: rx where
  "token_rx = seqs [Bol, Rep 1 (\<lambda>c. \<not> is_space c), One (\<lambda>c. c = CHR '' ''), Group ''1'' (Rep 1 (\<lambda>c. \<not> is_space c)), Eol]"

definition git_token_of :: "json \<Rightarrow> string option res" where
  "git_token_of v =
     (case v of
        JStr s \<Rightarrow> Inr (case re_match token_rx s of None \<Rightarrow> None | Some m \<Rightarrow> Some (group m ''1''))
      | _ \<Rightarrow> Inl (TypeError ''expected string or bytes-like object''))"

text \<open>
  \<open>float(x)\<close> and \<open>floor\<close>: \<open>None\<close> and a text that is no number become -1.  The texts for infinities and for
  not-a-number pass \<open>float\<close>; \<open>floor\<close> refuses them outside the \<open>try\<close> (an \<open>OverflowError\<close> and a
  \<open>ValueError\<close>; both are carried as a \<open>ValueError\<close> here).
\<close>

definition not_finite :: "string \<Rightarrow> bool" where
  "not_finite text \<longleftrightarrow> lower (snd (split_sign (strip is_space text))) \<in> {''inf'', ''infinity'', ''nan''}"

definition expires_at_of :: "json \<Rightarrow> int res" where
  "expires_at_of v =
     (case v of
        JNull \<Rightarrow> Inr (-1)
      | JStr s \<Rightarrow>
          if not_finite s then Inl (ValueError ''cannot convert float to integer'')
          else Inr (case float_of_text s of None \<Rightarrow> -1 | Some x \<Rightarrow> \<lfloor>x\<rfloor>)
      | JInt i \<Rightarrow> Inr \<lfloor>fl (of_int i)\<rfloor>
      | JFloat x \<Rightarrow> Inr \<lfloor>x\<rfloor>
      | JBool b \<Rightarrow> Inr (if b then 1 else 0)
      | _ \<Rightarrow> Inl (TypeError ''float() argument must be a string or a real number''))"

record git_creds =
  gc_url :: string
  gc_auth_header :: json
  gc_token :: "string option"
  gc_expires_at :: int

definition git_creds_from_headers :: "headers \<Rightarrow> git_creds res" where
  "git_creds_from_headers hs =
     bindE (header_item hs git_header) (\<lambda>raw.
     bindE (b64_json_loads raw) (\<lambda>parsed.
     case parsed of
       JObj [] \<Rightarrow> Inl StopIteration
     | JObj ((url, creds) # _) \<Rightarrow>
         bindE (jitem creds ''AuthorizationHeader'') (\<lambda>auth.
         bindE (git_token_of auth) (\<lambda>token.
         bindE (jitem creds ''AccessTokenExpiresAt'') (\<lambda>expires.
         bindE (expires_at_of expires) (\<lambda>n.
         Inr \<lparr>gc_url = url, gc_auth_header = auth, gc_token = token, gc_expires_at = n\<rparr>))))
     | _ \<Rightarrow> Inl (AttributeError ''items'')))"

section \<open>The two classes\<close>

text \<open>
  A claim of the identity token that becomes an attribute.  The attributes are texts wherever the token is
  the one that Keycloak issues; a claim of another type stops the model with a \<open>TypeError\<close>.
\<close>

definition claim :: "json \<Rightarrow> string \<Rightarrow> string res" where
  "claim token k = bindE (jitem token k) (\<lambda>v. case v of JStr s \<Rightarrow> Inr s | _ \<Rightarrow> Inl (TypeError k))"

text \<open>\<open>None\<close> is a \<open>RegisteredUser\<close> whose only attribute is \<open>authenticated = False\<close>.\<close>

definition registered_user ::
  "(string \<Rightarrow> string) \<Rightarrow> (string \<Rightarrow> json res) \<Rightarrow> headers \<Rightarrow> user option res" where
  "registered_user escape decode hs =
     (if \<not> list_all (\<lambda>h. header_get hs h \<noteq> None) auth_headers then Inr None
      else if header_get hs git_header = None \<or> header_get hs git_header = Some [] then
        Inl (api AuthenticationError
          ''Your Gitlab credentials are invalid or expired, please login Renku, or fully log out and log back in.'')
      else
        bindE (bindE (header_item hs id_header) decode) (\<lambda>token.
        bindE (claim token ''email'') (\<lambda>email.
        bindE (claim token ''name'') (\<lambda>name.
        bindE (claim token ''preferred_username'') (\<lambda>username.
        bindE (claim token ''iss'') (\<lambda>iss.
        bindE (claim token ''sub'') (\<lambda>sub.
        bindE (header_item hs access_header) (\<lambda>access.
        bindE (header_item hs refresh_header) (\<lambda>refresh.
        bindE (git_creds_from_headers hs) (\<lambda>git.
        Inr (Some \<lparr>user_anonymous = False, user_authenticated = True, user_username = username,
          user_safe_username = lower (escape username), user_id = sub, user_full_name = Some name,
          user_email = Some email, user_oidc_issuer = Some iss, user_access_token = Some access,
          user_refresh_token = Some refresh, user_git_url = gc_url git, user_git_token = gc_token git,
          user_git_token_expires_at = gc_expires_at git\<rparr>)))))))))))"

definition anonymous_user :: "notebooks_config \<Rightarrow> (string \<Rightarrow> string) \<Rightarrow> headers \<Rightarrow> user option res" where
  "anonymous_user cfg escape hs =
     (if \<not> anonymous_sessions_enabled cfg then Inl (api ConfigurationError ''Anonymous sessions are not enabled.'')
      else case header_get hs anon_header of
        None \<Rightarrow> Inr None
      | Some i \<Rightarrow>
          if i = [] \<or> \<not> (is_letter (hd i) \<or> is_digit (hd i)) then Inr None
          else Inr (Some \<lparr>user_anonymous = True, user_authenticated = True, user_username = i,
            user_safe_username = lower (escape i), user_id = i, user_full_name = None, user_email = None,
            user_oidc_issuer = None, user_access_token = None, user_refresh_token = None,
            user_git_url = cfg_git_url cfg, user_git_token = None, user_git_token_expires_at = 0\<rparr>))"

section \<open>The decorator\<close>

definition repr_str :: "string \<Rightarrow> string" where
  "repr_str s = char_of (39 :: nat) # s @ [char_of (39 :: nat)]"

definition login_error :: exc where
  "login_error = Api (new_error AuthenticationError None (Some (Some
     (''The required authentication headers ['' @ repr_str access_header @ '', '' @ repr_str id_header @ ''] are missing. ''
      @ ''If anonymous user sessions are supported then the header '' @ anon_header @ '' can also be used.''))))"

definition current_user ::
  "notebooks_config \<Rightarrow> (string \<Rightarrow> string) \<Rightarrow> (string \<Rightarrow> json res) \<Rightarrow> headers \<Rightarrow> user option res" where
  "current_user cfg escape decode hs =
     bindE (registered_user escape decode hs) (\<lambda>u.
       if anonymous_sessions_enabled cfg \<and> u = None then anonymous_user cfg escape hs else Inr u)"

definition authenticated ::
  "notebooks_config \<Rightarrow> (string \<Rightarrow> string) \<Rightarrow> (string \<Rightarrow> json res) \<Rightarrow> headers \<Rightarrow> (user \<Rightarrow> ('w, 'a) eff) \<Rightarrow> ('w, 'a) eff" where
  "authenticated cfg escape decode hs f =
     bindC (liftE (current_user cfg escape decode hs)) (\<lambda>u.
       case u of Some u \<Rightarrow> f u | None \<Rightarrow> raise login_error)"

section \<open>Facts\<close>

lemma registered_user_SomeD:
  assumes "registered_user escape decode hs = Inr (Some u)"
  shows "user_authenticated u" "\<not> user_anonymous u" "header_get hs access_header = user_access_token u"
    "header_get hs refresh_header = user_refresh_token u" "user_access_token u \<noteq> None"
    "user_safe_username u = lower (escape (user_username u))"
  using assms
  by (auto simp: registered_user_def bindE_Inr_iff header_item_def split: if_splits option.splits)

lemma registered_user_NoneD:
  "registered_user escape decode hs = Inr None \<Longrightarrow> header_get hs access_header = None \<or> header_get hs id_header = None"
  by (auto simp: registered_user_def bindE_Inr_iff auth_headers_def split: if_splits)

lemma anonymous_user_SomeD:
  assumes "anonymous_user cfg escape hs = Inr (Some u)"
  shows "user_authenticated u" "user_anonymous u" "anonymous_sessions_enabled cfg"
    "header_get hs anon_header = Some (user_id u)" "user_access_token u = None" "user_git_token u = None"
    "user_id u \<noteq> []"
  using assms by (auto simp: anonymous_user_def split: if_splits option.splits)

text \<open>
  No handler runs without a user: behind the decorator a handler runs, if at all, exactly once, for a user
  that is authenticated.  A registered user's access token is the one of the request; an anonymous user
  exists only when the configuration allows them, only on a request without the headers of a registered
  one, has the identity that the request names and no token of any kind.  Otherwise the request ends with an
  error and changes nothing.
\<close>

theorem handlers_run_authenticated:
  assumes "authenticated cfg escape decode hs f w = (r, w')"
  shows "(w' = w \<and> (\<exists>e. r = Inl e))
    \<or> (\<exists>u. f u w = (r, w') \<and> user_authenticated u
        \<and> (if user_anonymous u
            then anonymous_sessions_enabled cfg \<and> header_get hs anon_header = Some (user_id u)
              \<and> user_access_token u = None \<and> user_git_token u = None
              \<and> (header_get hs access_header = None \<or> header_get hs id_header = None)
            else user_access_token u \<noteq> None \<and> header_get hs access_header = user_access_token u))"
proof (cases "current_user cfg escape decode hs")
  case (Inl e)
  with assms show ?thesis by (auto simp: authenticated_def)
next
  case (Inr v)
  show ?thesis
  proof (cases v)
    case None
    with Inr assms show ?thesis by (auto simp: authenticated_def)
  next
    case (Some u)
    then have run: "f u w = (r, w')" using Inr assms by (simp add: authenticated_def)
    from Inr Some consider
        "registered_user escape decode hs = Inr (Some u)"
      | "registered_user escape decode hs = Inr None" "anonymous_user cfg escape hs = Inr (Some u)"
      by (auto simp: current_user_def bindE_Inr_iff split: if_splits)
    then show ?thesis
      by cases (use run registered_user_SomeD registered_user_NoneD anonymous_user_SomeD in fastforce)+
  qed
qed

definition anonymous_config :: notebooks_config where
  "anonymous_config = example_config\<lparr>anonymous_sessions_enabled := True\<rparr>"

theorem handlers_run_authenticated_witness:
  "\<exists>u :: user. (Inr (user_id u), 5) = (Inr ''a1'' :: string res, 5 :: int) \<and> user_anonymous u \<and> user_git_token u = None"
proof -
  let ?hs = "[(''renku-auth-anon-id'', ''a1'')]"
  have h: "header_get ?hs access_header = None" "header_get ?hs anon_header = Some ''a1''" by code_simp+
  have enabled: "anonymous_sessions_enabled anonymous_config" by (simp add: anonymous_config_def)
  have "is_letter CHR ''a''" by code_simp
  then obtain u where "current_user anonymous_config id (\<lambda>_. Inr JNull) ?hs = Inr (Some u)" "user_id u = ''a1''"
    using h enabled by (simp add: current_user_def registered_user_def auth_headers_def anonymous_user_def)
  then have run: "authenticated anonymous_config id (\<lambda>_. Inr JNull) ?hs (\<lambda>u w. (Inr (user_id u), w)) (5 :: int) = (Inr ''a1'', 5)"
    by (simp add: authenticated_def)
  from handlers_run_authenticated [OF run] show ?thesis
  proof (elim disjE conjE exE)
    fix u :: user
    assume "(Inr (user_id u), 5) = (Inr ''a1'' :: string res, 5 :: int)"
      and c: "if user_anonymous u
            then anonymous_sessions_enabled anonymous_config \<and> header_get ?hs anon_header = Some (user_id u)
              \<and> user_access_token u = None \<and> user_git_token u = None
              \<and> (header_get ?hs access_header = None \<or> header_get ?hs id_header = None)
            else user_access_token u \<noteq> None \<and> header_get ?hs access_header = user_access_token u"
    moreover from c h(1) have "user_anonymous u \<and> user_git_token u = None" by (cases "user_anonymous u") auto
    ultimately show ?thesis by blast
  qed simp
qed

text \<open>
  A request that carries the two headers of a registered user and valid credentials, but no refresh token,
  is not answered as unauthenticated: reading the header raises a \<open>KeyError\<close>, an internal error.
\<close>

theorem missing_refresh_token:
  assumes "header_get hs access_header = Some a" and "header_get hs id_header = Some t"
    and "header_get hs git_header = Some g" and "g \<noteq> []" and "header_get hs refresh_header = None"
    and "decode t = Inr (JObj token)"
    and "list_all (\<lambda>k. \<exists>s. dget token k = Some (JStr s)) [''email'', ''name'', ''preferred_username'', ''iss'', ''sub'']"
  shows "authenticated cfg escape decode hs f w = (Inl (KeyError refresh_header), w)"
proof -
  obtain e n p i u where "dget token ''email'' = Some (JStr e)" "dget token ''name'' = Some (JStr n)"
    "dget token ''preferred_username'' = Some (JStr p)" "dget token ''iss'' = Some (JStr i)" "dget token ''sub'' = Some (JStr u)"
    using assms(7) by (simp only: list.pred_inject) blast
  then have "registered_user escape decode hs = Inl (KeyError refresh_header)"
    using assms(1-6) by (simp add: registered_user_def auth_headers_def header_item_def claim_def)
  then show ?thesis by (simp add: authenticated_def current_user_def)
qed

text \<open>The token of a repository's credentials is what follows the scheme of the authorization header.\<close>

lemma git_token_found:
  assumes "scheme \<noteq> []" and "t \<noteq> []" and "list_all (\<lambda>c. \<not> is_space c) scheme" and "list_all (\<lambda>c. \<not> is_space c) t"
  shows "git_token_of (JStr (scheme @ '' '' @ t)) = Inr (Some t)"
proof -
  let ?s = "scheme @ '' '' @ t"
  have blank: "is_space CHR '' ''" by (simp add: is_space_def code_def)
  have word: "takeWhile (\<lambda>c. \<not> is_space c) (w @ CHR '' '' # v) = w" if "list_all (\<lambda>c. \<not> is_space c) w" for w v
    using that blank by (simp add: takeWhile_append2 list_all_iff)
  have split: "w = scheme \<and> v = t \<and> r = []"
    if "?s = w @ CHR '' '' # v @ r" "list_all (\<lambda>c. \<not> is_space c) w" "at_end r" for w v r
  proof -
    from word [OF assms(3), of t] word [OF that(2), of "v @ r"] that(1) have "w = scheme" by simp
    with that(1) have t: "t = v @ r" by simp
    moreover have "r = []"
    proof (cases r)
      case (Cons x xs)
      with that(3) have "is_space x" by (simp add: at_end_Cons is_space_def)
      with t Cons assms(4) show ?thesis by simp
    qed simp
    ultimately show ?thesis using \<open>w = scheme\<close> by simp
  qed
  have "re_match token_rx ?s = Some [(''1'', t)]"
  proof (rule re_match_unique)
    show "(rev ?s, [], [(''1'', t)]) \<in> set (mt token_rx ([], ?s, []))"
      using assms by (simp add: token_rx_def rx_iff Suc_le_eq)
        (rule exI [of _ "rev scheme"], rule exI [of _ "CHR '' '' # t"], rule exI [of _ "[]"], simp)
    fix b' a' c'
    assume "(b', a', c') \<in> set (mt token_rx ([], ?s, []))"
    then obtain w v where "?s = w @ CHR '' '' # v @ a'" "list_all (\<lambda>c. \<not> is_space c) w" "at_end a'"
      "c' = dset ''1'' (take (length (v @ a') - length a') (v @ a')) []"
      by (auto simp: token_rx_def rx_iff)
    with split show "c' = [(''1'', t)]" by fastforce
  qed
  then show ?thesis by (simp add: git_token_of_def group_def)
qed

end
