(* ===== verification/Requests.thy ===== *)
theory Requests
  imports Schemas Users
begin

text \<open>
  The service behind its routes (\<open>api/notebooks.py\<close>, \<open>errors/utils.py\<close>): what the decorators of a handler
  do, in their order, and the exception handler around all of them.  A request's arguments are read before
  its user is: \<open>use_args\<close> is the outer decorator.
\<close>

section \<open>The application\<close>

text \<open>
  What the handlers reach, and what packages bring: the decoder of the identity token, \<open>ULID.from_str\<close>,
  and the description that werkzeug gives an error by its status.  \<open>web_choices\<close> are the choices loaded from
  \<open>config.server_options.ui_choices_path\<close>.
\<close>

record 'w web = "'w launch_service" +
  web_decode :: "string \<Rightarrow> json res"
  web_ulid :: "json \<Rightarrow> string res"
  web_description :: "int \<Rightarrow> string"
  web_choices :: "(string, json) dict"

definition web_launch :: "'w web \<Rightarrow> 'w launch_service" where
  "web_launch web = launch_service.truncate web"

definition web_service :: "'w web \<Rightarrow> 'w service" where
  "web_service web = service.truncate web"

type_synonym ('w, 'a) app = "('w, app_exception, 'a) comp"

definition in_app :: "('w, 'a) eff \<Rightarrow> ('w, 'a) app" where
  "in_app m = (\<lambda>w. case m w of (Inl e, w') \<Rightarrow> (Inl (Other e), w') | (Inr x, w') \<Rightarrow> (Inr x, w'))"

section \<open>Arguments\<close>

text \<open>A body that is absent counts as an empty one; one that is no JSON is refused.\<close>

datatype body = NoBody | BadBody | Body json

definition bad_json :: "'w web \<Rightarrow> app_exception" where
  "bad_json web = HTTPException \<lparr>http_code = 400, http_description = web_description web 400, http_detail = None,
     http_data = Some (JObj [(''messages'', JObj [(''json'', messages ''Invalid JSON body.'')])])\<rparr>"

text \<open>The messages of a failed validation travel with the error, under the part of the request they are about.\<close>

definition unprocessable :: "'w web \<Rightarrow> string \<Rightarrow> json \<Rightarrow> app_exception" where
  "unprocessable web location m = HTTPException \<lparr>http_code = 422, http_description = web_description web 422,
     http_detail = None, http_data = Some (JObj [(''messages'', JObj [(location, m)])])\<rparr>"

definition use_args :: "'w web \<Rightarrow> string \<Rightarrow> 'a loaded \<Rightarrow> ('a \<Rightarrow> ('w, 'b) app) \<Rightarrow> ('w, 'b) app" where
  "use_args web location r f =
     (case r of
        Inr x \<Rightarrow> f x
      | Inl (Invalid m) \<Rightarrow> raise (unprocessable web location m)
      | Inl (Raised e) \<Rightarrow> raise (Other e))"

definition use_body ::
  "'w web \<Rightarrow> ((string, json) dict \<Rightarrow> 'a loaded) \<Rightarrow> body \<Rightarrow> ('a \<Rightarrow> ('w, 'b) app) \<Rightarrow> ('w, 'b) app" where
  "use_body web f b k =
     (case b of
        BadBody \<Rightarrow> raise (bad_json web)
      | NoBody \<Rightarrow> use_args web ''json'' (f []) k
      | Body j \<Rightarrow> use_args web ''json'' (schema f j) k)"

text \<open>\<open>ServersGetRequest\<close> and the other queries; names that a query's schema does not declare are ignored.\<close>

definition load_servers_query :: "(string, json) dict \<Rightarrow> (string, json) dict loaded" where
  "load_servers_query q =
     (let text = (\<lambda>k attribute f. mapL (\<lambda>v. case v of None \<Rightarrow> [] | Some s \<Rightarrow> [(attribute, JStr s)]) (optional_field q k f));
          f0 = Inr (\<lambda>a b c e. a @ b @ c @ e);
          f1 = alsoL f0 (text ''project'' ''projectName'' load_lowercase);
          f2 = alsoL f1 (text ''commit_sha'' ''commit-sha'' load_str);
          f3 = alsoL f2 (text ''namespace'' ''namespace'' load_lowercase)
      in alsoL f3 (text ''branch'' ''branch'' load_str))"

definition load_forced :: "(string, json) dict \<Rightarrow> bool loaded" where
  "load_forced q = default_field q ''forced'' False load_bool"

definition load_max_lines :: "(string, json) dict \<Rightarrow> int loaded" where
  "load_max_lines q = default_field q ''max_lines'' 250 (\<lambda>v. bindE (load_int v) (\<lambda>i.
     if 0 \<le> i then Inr i else invalid ''Must be greater than or equal to 0.''))"

definition load_image_url :: "(string, json) dict \<Rightarrow> string loaded" where
  "load_image_url q = required_field q ''image_url'' load_str"

section \<open>Endpoints\<close>

definition with_user :: "'w web \<Rightarrow> headers \<Rightarrow> (user \<Rightarrow> ('w, 'a) eff) \<Rightarrow> ('w, 'a) app" where
  "with_user web hs f = in_app (authenticated (sv_cfg web) (ls_escape web) (web_decode web) hs f)"

text \<open>An answer without a status has the status 200.\<close>

definition ok :: "('w, json) eff \<Rightarrow> ('w, json \<times> int) eff" where
  "ok m = bindC m (\<lambda>j. ret (j, 200))"

definition text_answer :: "('w, string \<times> int) eff \<Rightarrow> ('w, json \<times> int) eff" where
  "text_answer m = bindC m (\<lambda>(t, st). ret (JStr t, st))"

datatype request =
    Version
  | ListServers "(string, json) dict"
  | GetServer string
  | Launch body
  | Launch2 body
  | PatchServer string body
  | StopServer string "(string, json) dict"
  | GetOptions
  | GetLogs string "(string, json) dict"
  | CheckImage "(string, json) dict"

definition storage_enabled :: "'w web \<Rightarrow> bool" where
  "storage_enabled web = truthy (cloud_storage_enabled (sv_cfg web))"

definition post_servers :: "'w web \<Rightarrow> headers \<Rightarrow> body \<Rightarrow> ('w, json \<times> int) app" where
  "post_servers web hs b =
     use_body web (load_launch_request (storage_enabled web) (sv_defaults web) (web_ulid web)) b (\<lambda>r.
     with_user web hs (\<lambda>u.
       launch_notebook (web_launch web) u (r1_namespace r) (r1_project r) (r1_branch r) (r1_commit_sha r) (r1_args r)))"

definition post_servers2 :: "'w web \<Rightarrow> headers \<Rightarrow> body \<Rightarrow> ('w, json \<times> int) app" where
  "post_servers2 web hs b =
     use_body web (load_renku2_request (sv_defaults web) (web_ulid web)) b (\<lambda>r.
     with_user web hs (\<lambda>u.
       renku_2_launch_notebook_helper (web_launch web) u (r2_project_id r) (r2_launcher_id r) (r2_repositories r) (r2_args r)))"

definition get_servers :: "'w web \<Rightarrow> headers \<Rightarrow> (string, json) dict \<Rightarrow> ('w, json \<times> int) app" where
  "get_servers web hs q =
     use_args web ''query'' (load_servers_query q) (\<lambda>attrs.
     with_user web hs (\<lambda>u. ok (user_servers (web_service web) u attrs)))"

text \<open>The name of a session in a path is always there: its schema cannot fail.\<close>

definition get_server_named :: "'w web \<Rightarrow> headers \<Rightarrow> string \<Rightarrow> ('w, json \<times> int) app" where
  "get_server_named web hs name = with_user web hs (\<lambda>u. ok (user_server (web_service web) u name))"

definition patch_server_named :: "'w web \<Rightarrow> headers \<Rightarrow> string \<Rightarrow> body \<Rightarrow> ('w, json \<times> int) app" where
  "patch_server_named web hs name b =
     use_body web load_patch_request b (\<lambda>p. with_user web hs (\<lambda>u. patch_server (web_service web) u name p))"

definition delete_server_named :: "'w web \<Rightarrow> headers \<Rightarrow> string \<Rightarrow> (string, json) dict \<Rightarrow> ('w, json \<times> int) app" where
  "delete_server_named web hs name q =
     use_args web ''query'' (load_forced q) (\<lambda>forced.
     with_user web hs (\<lambda>u. text_answer (stop_server (web_service web) u forced name)))"

definition get_server_options :: "'w web \<Rightarrow> headers \<Rightarrow> ('w, json \<times> int) app" where
  "get_server_options web hs =
     with_user web hs (\<lambda>u. ok (liftE (server_options_response (sv_cfg web) (web_choices web))))"

definition get_logs_named :: "'w web \<Rightarrow> headers \<Rightarrow> string \<Rightarrow> (string, json) dict \<Rightarrow> ('w, json \<times> int) app" where
  "get_logs_named web hs name q =
     use_args web ''query'' (load_max_lines q) (\<lambda>n. with_user web hs (\<lambda>u. ok (server_logs (web_service web) u n name)))"

definition get_images :: "'w web \<Rightarrow> headers \<Rightarrow> (string, json) dict \<Rightarrow> ('w, json \<times> int) app" where
  "get_images web hs q =
     use_args web ''query'' (load_image_url q) (\<lambda>url.
     with_user web hs (\<lambda>u. text_answer (check_docker_image (web_service web) u url)))"

text \<open>The routes.\<close>

fun handle :: "'w web \<Rightarrow> headers \<Rightarrow> request \<Rightarrow> ('w, json \<times> int) app" where
  "handle web hs Version = ret (version_response (sv_cfg web))"
| "handle web hs (ListServers q) = get_servers web hs q"
| "handle web hs (GetServer name) = get_server_named web hs name"
| "handle web hs (Launch b) = post_servers web hs b"
| "handle web hs (Launch2 b) = post_servers2 web hs b"
| "handle web hs (PatchServer name b) = patch_server_named web hs name b"
| "handle web hs (StopServer name q) = delete_server_named web hs name q"
| "handle web hs GetOptions = get_server_options web hs"
| "handle web hs (GetLogs name q) = get_logs_named web hs name q"
| "handle web hs (CheckImage q) = get_images web hs q"

lemmas endpoint_defs = post_servers_def post_servers2_def get_servers_def get_server_named_def patch_server_named_def
  delete_server_named_def get_server_options_def get_logs_named_def get_images_def

text \<open>\<open>app.errorhandler(Exception)(handle_exception)\<close>: what a client is answered.\<close>

definition serve :: "'w web \<Rightarrow> headers \<Rightarrow> request \<Rightarrow> 'w \<Rightarrow> (json \<times> int) res \<times> 'w" where
  "serve web hs rq w =
     (case handle web hs rq w of
        (Inr answer, w') \<Rightarrow> (Inr answer, w')
      | (Inl e, w') \<Rightarrow> (handle_exception e, w'))"

end
