(* ===== verification/RequestFacts.thy ===== *)
theory RequestFacts
  imports Requests LaunchFacts
begin

text \<open>
  What holds of every request: it is answered, its arguments are checked before anything else happens, and
  without a user nothing happens at all; and what a launch can rely on in the arguments it gets.
\<close>

section \<open>Messages that can be sent\<close>

text \<open>The handler joins the texts of a list and goes through dictionaries; it takes no other message.\<close>

fun sendable :: "json \<Rightarrow> bool" where
  "sendable (JArr xs) = list_all (\<lambda>x. \<exists>s. x = JStr s) xs"
| "sendable (JObj kvs) = list_all (\<lambda>(k, v). sendable v) kvs"
| "sendable _ = False"

text \<open>\<open>answers D r\<close>: the messages of \<open>r\<close> can be sent; with \<open>D\<close> they are a dictionary.\<close>

definition answers :: "bool \<Rightarrow> 'a loaded \<Rightarrow> bool" where
  "answers D r \<longleftrightarrow> (\<forall>m. r = Inl (Invalid m) \<longrightarrow> sendable m \<and> (D \<longrightarrow> (\<exists>d. m = JObj d)))"

named_theorems answers_intros

lemma answers_weaken: "answers True r \<Longrightarrow> answers False r"
  by (simp add: answers_def)

lemma answers_Inr [simp, answers_intros]: "answers D (Inr x)"
  by (simp add: answers_def)

lemma answers_Raised [simp, answers_intros]: "answers D (Inl (Raised e))"
  by (simp add: answers_def)

lemma answers_invalid [simp, answers_intros]: "answers False (invalid m)"
  by (simp add: answers_def invalid_def messages_def)

lemma answers_loaded [simp, answers_intros]: "answers False (loaded r)"
  by (auto simp: loaded_def split: sum.splits exc.splits)

lemma answers_below [answers_intros]: "answers False r \<Longrightarrow> answers True (below k r)"
  by (auto simp: answers_def below_def split: sum.splits load_error.splits)

lemma answers_mapL [answers_intros]: "answers D r \<Longrightarrow> answers D (mapL f r)"
  by (cases r) (auto simp: answers_def mapL_def)

lemma answers_alsoL [answers_intros]: "answers True f \<Longrightarrow> answers True x \<Longrightarrow> answers True (alsoL f x)"
  by (cases f; cases x) (auto simp: answers_def alsoL_def mapL_def split: load_error.splits)

lemma answers_bindE [answers_intros]: "answers D r \<Longrightarrow> (\<And>x. answers D (f x)) \<Longrightarrow> answers D (bindE r f)"
  by (cases r) (auto simp: answers_def)

lemma answers_get_field:
  assumes "\<And>v. answers False (f v)"
  shows "answers True (get_field d k missing nul f)"
  unfolding get_field_def by (intro answers_below) (auto simp: assms split: option.split)

lemma answers_fields [answers_intros]:
  assumes "\<And>v. answers False (f v)"
  shows "answers True (required_field d k f)" "answers True (default_field d k x f)"
    "answers True (optional_field d k f)" "answers True (nullable_field d k f)"
  unfolding required_field_def default_field_def optional_field_def nullable_field_def
  by (intro answers_get_field answers_mapL assms)+

lemma answers_no_unknown [answers_intros]: "answers True (no_unknown known d x)"
  by (auto simp: answers_def no_unknown_def list_all_iff messages_def split: list.splits)

lemma answers_schema: "(\<And>d. answers True (f d)) \<Longrightarrow> answers True (schema f v)"
  by (cases v) (auto simp: schema_def intro!: answers_below)

lemma answers_element: "(\<And>v. answers False (f v)) \<Longrightarrow> answers False (element f v)"
  by (simp add: element_def)

lemma answers_load_items: "(\<And>v. answers False (f v)) \<Longrightarrow> answers True (load_items f i xs)"
  by (induction xs arbitrary: i) (auto intro!: answers_alsoL answers_mapL answers_below answers_element)

lemma answers_load_entries: "(\<And>v. answers False (f v)) \<Longrightarrow> answers True (load_entries f d)"
  by (induction d) (auto intro!: answers_alsoL answers_mapL answers_below answers_element answers_weaken [OF answers_below])

lemma answers_containers [answers_intros]:
  assumes "\<And>v. answers False (f v)"
  shows "answers False (load_list f v)" "answers False (load_mapping f v)"
  using answers_load_items [OF assms] answers_load_entries [OF assms]
  by (auto simp: load_list_def load_mapping_def answers_weaken split: json.split)

lemma answers_nested [answers_intros]: "(\<And>d. answers True (f d)) \<Longrightarrow> answers False (schema f v)"
  by (rule answers_weaken [OF answers_schema])

lemma answers_types [simp, answers_intros]:
  "answers False (load_str v)" "answers False (load_int v)" "answers False (load_bool v)"
  "answers False (load_path v)" "answers False (load_ulid ulid v)" "answers False (load_lowercase v)"
  by (cases v; simp add: load_int_def load_bool_def load_path_def load_ulid_def load_lowercase_def)+

lemma answers_user_secrets [answers_intros]: "answers True (load_user_secrets ulid d)"
  unfolding load_user_secrets_def Let_def by (intro answers_intros)

lemma answers_repository [answers_intros]: "answers True (load_repository d)"
  unfolding load_repository_def Let_def by (intro answers_intros)

lemma answers_storage [answers_intros]: "answers True (load_storage d)"
  unfolding load_storage_def Let_def check_storage_def by (intro answers_intros answers_get_field)

lemma answers_options [answers_intros]: "answers True (load_options_request cfg d)"
  unfolding load_options_request_def Let_def by (intro answers_intros)

lemma answers_base [answers_intros]: "answers True (load_base cfg ulid d)"
  unfolding load_base_def Let_def by (intro answers_intros)

lemma answers_storages [answers_intros]: "answers True (load_storages d)"
  unfolding load_storages_def by (intro answers_intros)

lemma answers_if [answers_intros]: "(b \<Longrightarrow> answers D x) \<Longrightarrow> (\<not> b \<Longrightarrow> answers D y) \<Longrightarrow> answers D (if b then x else y)"
  by simp

lemma answers_launch_request: "answers True (load_launch_request storage cfg ulid d)"
  unfolding load_launch_request_def Let_def by (intro answers_intros)

lemma answers_renku2_request: "answers True (load_renku2_request cfg ulid d)"
  unfolding load_renku2_request_def Let_def by (intro answers_intros)

lemma answers_patch_request: "answers True (load_patch_request d)"
  unfolding load_patch_request_def load_state_def load_class_id_def Let_def by (intro answers_intros)

lemmas answers_bodies = answers_launch_request answers_renku2_request answers_patch_request

section \<open>Every request is answered\<close>

text \<open>An exception that the handler makes an error response of.\<close>

definition answered :: "app_exception \<Rightarrow> bool" where
  "answered e \<longleftrightarrow> (\<exists>j status c. handle_exception e = Inr (j, status) \<and> response_code j = Inr c)"

definition answering :: "('w, 'a) app \<Rightarrow> bool" where
  "answering m \<longleftrightarrow> (\<forall>w e w'. m w = (Inl e, w') \<longrightarrow> answered e)"

lemma sendable_leaves: "sendable m \<Longrightarrow> (p, l) \<in> set (leaves m) \<Longrightarrow> \<exists>t. field_message (k, l) = Inr t"
proof (induction m arbitrary: p rule: sendable.induct)
  case (1 xs)
  have "mapE (\<lambda>x. case x of JStr s \<Rightarrow> Inr s | _ \<Rightarrow> Inl (TypeError e)) ys = Inr (map (\<lambda>x. case x of JStr s \<Rightarrow> s) ys)"
    if "list_all (\<lambda>x. \<exists>s. x = JStr s) ys" for e and ys :: "json list"
    using that by (induction ys) auto
  with 1 show ?case by (simp add: field_message_def join_errors_def)
next
  case (2 kvs)
  then show ?case by (fastforce simp: list_all_iff)
qed auto

lemma mapE_Inr_ex: "(\<And>x. x \<in> set xs \<Longrightarrow> \<exists>y. f x = Inr y) \<Longrightarrow> \<exists>ys. mapE f xs = Inr ys"
  by (induction xs) (auto, metis bindE_simps(2))

lemma sendable_messages:
  assumes "sendable (JObj d)"
  shows "\<exists>ms. mapE field_message (flatten_dict d ''.'' [''_schema'']) = Inr ms"
proof (rule mapE_Inr_ex)
  fix x assume x: "x \<in> set (flatten_dict d ''.'' [''_schema''])"
  obtain k l where kl: "x = (k, l)" by (cases x)
  with x obtain k' v p where v: "(k', v) \<in> set d" "(p, l) \<in> set (leaves v)"
    by (auto simp: flatten_dict_leaves [THEN conjunct1])
  with assms have "sendable v" by (auto simp: list_all_iff)
  with kl v(2) sendable_leaves show "\<exists>t. field_message x = Inr t" by blast
qed

lemma answered_unprocessable:
  assumes "location = ''query'' \<or> sendable m \<and> (\<exists>d. m = JObj d)"
  shows "answered (unprocessable web location m)"
proof (cases "location = ''json''")
  case False
  then show ?thesis
    by (simp add: answered_def unprocessable_def handle_exception_def dump_http_error_def Let_def)
next
  case True
  with assms obtain d where d: "m = JObj d" "sendable m" by auto
  with sendable_messages obtain ms where ms: "mapE field_message (flatten_dict d ''.'' [''_schema'']) = Inr ms" by blast
  show ?thesis
    using True d(1) ms
    by (simp add: answered_def unprocessable_def handle_exception_def dump_http_error_def)
qed

lemma answered_Other: "answered (Other e)"
proof (cases "\<exists>err. e = Api err")
  case True
  with handle_exception_response show ?thesis unfolding answered_def by blast
next
  case False
  with handle_exception_response show ?thesis unfolding answered_def by blast
qed

lemma answered_bad_json: "answered (bad_json web)"
  by (simp add: answered_def bad_json_def handle_exception_def dump_http_error_def status_code_map_def)

named_theorems answering_intros

lemma answering_ret [answering_intros]: "answering (ret x)"
  by (simp add: answering_def)

lemma answering_raise [answering_intros]: "answered e \<Longrightarrow> answering (raise e)"
  by (simp add: answering_def)

lemma answering_in_app [answering_intros]: "answering (in_app m)"
  by (auto simp: answering_def in_app_def answered_Other split: prod.splits sum.splits)

lemma answering_with_user [answering_intros]: "answering (with_user web hs f)"
  by (simp add: with_user_def answering_in_app)

lemma answering_use_args:
  assumes "\<And>x. answering (k x)" and "location = ''query'' \<or> answers True r"
  shows "answering (use_args web location r k)"
proof -
  have "answered (unprocessable web location m)" if "r = Inl (Invalid m)" for m
    using assms(2) that by (intro answered_unprocessable) (auto simp: answers_def)
  then show ?thesis
    using assms(1)
    by (auto simp: use_args_def answered_Other intro!: answering_raise split: sum.split load_error.split)
qed

lemma answering_query [answering_intros]: "(\<And>x. answering (k x)) \<Longrightarrow> answering (use_args web ''query'' r k)"
  by (simp add: answering_use_args)

lemma answering_use_body [answering_intros]:
  assumes "\<And>x. answering (k x)" and "\<And>d. answers True (f d)"
  shows "answering (use_body web f b k)"
  using assms answers_schema [of f]
  by (auto simp: use_body_def answered_bad_json intro!: answering_raise answering_use_args split: body.split)

lemma answering_handle: "answering (handle web hs rq)"
  by (cases rq) (simp_all add: endpoint_defs answers_bodies answering_intros)

text \<open>
  C8. Every request is answered, whatever it carries and whatever the services behind the handler do: either
  by its handler, or by the exception handler with an error body that has a code.  In particular the
  exception handler never fails itself: the messages of every failed validation can be joined and sent.
\<close>

theorem every_request_answered:
  "\<exists>j status. fst (serve web hs rq w) = Inr (j, status)
     \<and> (fst (handle web hs rq w) = Inr (j, status) \<or> (\<exists>c. response_code j = Inr c))"
proof (cases "fst (handle web hs rq w)")
  case (Inl e)
  then have "answered e"
    using answering_handle [of web hs rq] by (auto simp: answering_def) (metis prod.collapse)
  with Inl show ?thesis by (auto simp: answered_def serve_def split: prod.splits)
qed (auto simp: serve_def split: prod.splits)

section \<open>Arguments and users come first\<close>

text \<open>\<open>guarded m\<close>: a run of \<open>m\<close> that has no user fails and changes nothing.\<close>

definition guarded :: "'w web \<Rightarrow> headers \<Rightarrow> ('w, 'a) app \<Rightarrow> bool" where
  "guarded web hs m \<longleftrightarrow>
     (\<forall>w. (\<exists>e. m w = (Inl e, w)) \<or> (\<exists>u. current_user (sv_cfg web) (ls_escape web) (web_decode web) hs = Inr (Some u)))"

named_theorems guarded_intros

lemma guarded_raise [guarded_intros]: "guarded web hs (raise e)"
  by (simp add: guarded_def)

lemma guarded_with_user [guarded_intros]: "guarded web hs (with_user web hs f)"
  by (cases "current_user (sv_cfg web) (ls_escape web) (web_decode web) hs")
    (auto simp: guarded_def with_user_def in_app_def authenticated_def split: option.splits)

lemma guarded_use_args [guarded_intros]: "(\<And>x. guarded web hs (k x)) \<Longrightarrow> guarded web hs (use_args web location r k)"
  by (auto simp: use_args_def intro!: guarded_raise split: sum.split load_error.split)

lemma guarded_use_body [guarded_intros]: "(\<And>x. guarded web hs (k x)) \<Longrightarrow> guarded web hs (use_body web f b k)"
  by (auto simp: use_body_def intro!: guarded_raise guarded_use_args split: body.split)

lemma guarded_handle: "rq \<noteq> Version \<Longrightarrow> guarded web hs (handle web hs rq)"
  by (cases rq) (simp_all add: endpoint_defs guarded_intros)

lemma current_user_authenticated:
  assumes "current_user cfg escape decode hs = Inr (Some u)"
  shows "user_authenticated u \<and> (user_anonymous u \<longrightarrow> anonymous_sessions_enabled cfg)"
  using assms registered_user_SomeD(1,2) anonymous_user_SomeD(1,3)
  by (fastforce simp: current_user_def bindE_Inr_iff split: if_splits)

text \<open>
  C7. Behind every route but the one for the version stands a user: a request whose headers make none, or
  make an error of one, is answered with an error, and nothing has been changed, in the cluster or
  elsewhere.  A request that does anything has an authenticated user, who is anonymous only where the
  configuration allows it.
\<close>

theorem requests_need_user:
  assumes "handle web hs rq w = (r, w')" and "rq \<noteq> Version"
  shows "(w' = w \<and> (\<exists>e. r = Inl e))
    \<or> (\<exists>u. current_user (sv_cfg web) (ls_escape web) (web_decode web) hs = Inr (Some u) \<and> user_authenticated u
         \<and> (user_anonymous u \<longrightarrow> anonymous_sessions_enabled (sv_cfg web)))"
  using guarded_handle [OF assms(2), of web hs] assms(1) current_user_authenticated
  unfolding guarded_def by (metis prod.inject)

text \<open>
  C13. The body of a launch is checked before anything else: if its fields are invalid, the answer is 422 with
  code 1422 and one sentence for each of them, under the path that leads to it, whatever the headers say;
  no user is read, and nothing is asked of any service.
\<close>

theorem invalid_launch_reported:
  assumes "load_launch_request (storage_enabled web) (sv_defaults web) (web_ulid web) d = Inl (Invalid m)"
  shows "\<exists>kvs ms. m = JObj kvs
    \<and> mapE field_message
        (concat (map (\<lambda>(k, v). map (\<lambda>(p, l). (leaf_key ''.'' [''_schema''] k p, l)) (leaves v)) kvs)) = Inr ms
    \<and> serve web hs (Launch (Body (JObj d))) w =
        (Inr (error_response (web_description web 422) (Some (join '' '' ms)) 1422, 422), w)"
proof -
  from assms answers_launch_request [of "storage_enabled web" "sv_defaults web" "web_ulid web" d]
  obtain kvs where kvs: "m = JObj kvs" "sendable m" by (auto simp: answers_def)
  obtain ms where ms: "mapE field_message (flatten_dict kvs ''.'' [''_schema'']) = Inr ms"
    using kvs sendable_messages by blast
  have "serve web hs (Launch (Body (JObj d))) w = (handle_exception (unprocessable web ''json'' m), w)"
    using assms by (simp add: serve_def post_servers_def use_body_def schema_def use_args_def)
  with kvs(1) ms show ?thesis
    by (simp add: unprocessable_def validation_error_response flatten_dict_leaves [THEN conjunct1])
qed

section \<open>What a launch can rely on\<close>

named_theorems loaded_iff

lemma alsoL_Inr_iff [loaded_iff]: "alsoL f x = Inr y \<longleftrightarrow> (\<exists>g v. f = Inr g \<and> x = Inr v \<and> y = g v)"
  by (cases f; cases x) (auto simp: alsoL_def mapL_def split: load_error.split)

lemma mapL_Inr_iff [loaded_iff]: "mapL f r = Inr y \<longleftrightarrow> (\<exists>x. r = Inr x \<and> y = f x)"
  by (cases r) (auto simp: mapL_def)

lemma below_Inr_iff [loaded_iff]: "below k r = Inr y \<longleftrightarrow> r = Inr y"
  by (auto simp: below_def split: sum.split load_error.split)

lemma invalid_Inr [simp]: "invalid m \<noteq> Inr y"
  by (simp add: invalid_def)

lemma loaded_Inr_iff [loaded_iff]: "loaded r = Inr y \<longleftrightarrow> r = Inr y"
  by (auto simp: loaded_def split: sum.split exc.split)

lemma no_unknown_Inr_iff [loaded_iff]: "no_unknown known d x = Inr y \<longleftrightarrow> x = y \<and> set (map fst d) \<subseteq> set known"
proof -
  have "filter (\<lambda>k. k \<notin> set known) (map fst d) = [] \<longleftrightarrow> set (map fst d) \<subseteq> set known"
    by (auto simp: filter_empty_conv)
  then show ?thesis by (auto simp: no_unknown_def split: list.split)
qed

lemma get_field_InrD:
  "get_field d k missing nul f = Inr y \<Longrightarrow> missing = Some y \<or> nul = Some y \<or> (\<exists>v. f v = Inr y)"
  by (auto simp: get_field_def below_Inr_iff split: option.splits if_splits)

lemma field_InrD:
  "required_field d k f = Inr y \<Longrightarrow> \<exists>v. f v = Inr y"
  "default_field d k x f = Inr y \<Longrightarrow> y = x \<or> (\<exists>v. f v = Inr y)"
  "optional_field d k f = Inr (Some z) \<Longrightarrow> \<exists>v. f v = Inr z"
  "nullable_field d k f = Inr (Some z) \<Longrightarrow> \<exists>v. f v = Inr z"
  by (auto simp: required_field_def default_field_def optional_field_def nullable_field_def mapL_Inr_iff
      dest!: get_field_InrD)

lemma schema_Inr_iff [loaded_iff]: "schema f v = Inr y \<longleftrightarrow> (\<exists>d. v = JObj d \<and> f d = Inr y)"
  by (cases v) (auto simp: schema_def below_Inr_iff)

lemma load_items_Inr: "load_items f i xs = Inr ys \<Longrightarrow> \<forall>y \<in> set ys. \<exists>v. f v = Inr y"
  by (induction xs arbitrary: i ys) (auto simp: loaded_iff element_def split: if_splits)

lemma load_list_Inr: "load_list f v = Inr ys \<Longrightarrow> \<forall>y \<in> set ys. \<exists>v. f v = Inr y"
  by (cases v) (auto simp: load_list_def dest: load_items_Inr)

lemma load_lowercase_Inr: "load_lowercase v = Inr s \<Longrightarrow> lower s = s"
  by (auto simp: load_lowercase_def loaded_iff lowercase_string_def query_text_def bindE_Inr_iff split: json.splits)

lemma load_path_Inr: "load_path v = Inr s \<Longrightarrow> \<exists>p. is_absolute p \<and> s = path_str p"
  by (cases v) (auto simp: load_path_def loaded_iff path_field_deserialize_def Let_def split: if_splits)

lemma load_storage_Inr: "load_storage d = Inr r \<Longrightarrow> validate_storage r = Inr ()"
  by (auto simp: load_storage_def Let_def bindE_Inr_iff check_storage_def loaded_iff)

lemma load_options_Inr: "load_options_request cfg d = Inr r \<Longrightarrow> wf_options r"
  by (auto simp: load_options_request_def Let_def loaded_iff)

lemma load_user_secrets_Inr: "load_user_secrets ulid d = Inr (ids, mount) \<Longrightarrow> \<exists>p. is_absolute p \<and> mount = path_str p"
  by (auto simp: load_user_secrets_def Let_def loaded_iff dest!: field_InrD(1) [where f = load_path] load_path_Inr)

lemma load_base_Inr:
  assumes "load_base cfg ulid d = Inr a"
  shows "(\<exists>n. la_storage a = Some (PInt n)) \<and> la_default_url a \<noteq> None \<and> la_lfs_auto_fetch a \<noteq> None
    \<and> (la_server_options a = NoOptions \<or> (\<exists>o'. la_server_options a = LoadedOptions o' \<and> wf_options o'))
    \<and> (\<forall>ids mount. la_user_secrets a = Some (ids, mount) \<longrightarrow> (\<exists>p. is_absolute p \<and> mount = path_str p))"
proof -
  from assms obtain nb opts rc n lfs url env secrets where
    opts: "optional_field d ''serverOptions'' (schema (load_options_request cfg)) = Inr opts"
    and secrets: "nullable_field d ''user_secrets'' (schema (load_user_secrets ulid)) = Inr secrets"
    and a: "a = base_args nb opts rc n lfs url env secrets"
    by (auto simp: load_base_def Let_def alsoL_Inr_iff)
  have "wf_options o'" if "opts = Some o'" for o'
    using opts that by (auto simp: loaded_iff dest!: field_InrD(3) load_options_Inr)
  moreover have "\<exists>p. is_absolute p \<and> mount = path_str p" if "secrets = Some (ids, mount)" for ids mount
    using secrets that by (auto simp: loaded_iff dest!: field_InrD(4) load_user_secrets_Inr)
  ultimately show ?thesis by (auto simp: a base_args_def split: option.split)
qed

text \<open>
  C14. What a launch gets from a body that is accepted: namespace and project in lower case, a number of
  gigabytes, a default URL and the LFS flag, options that are complete and ordered when there are any,
  secrets below an absolute path, storages that do not name both a stored storage and paths of their
  own, and none where cloud storage is disabled; and the body has no name that the schema does not declare.
\<close>

theorem launch_arguments_typed:
  assumes "load_launch_request storage cfg ulid d = Inr r"
  shows "lower (r1_namespace r) = r1_namespace r \<and> lower (r1_project r) = r1_project r
    \<and> (\<exists>n. la_storage (r1_args r) = Some (PInt n)) \<and> la_default_url (r1_args r) \<noteq> None
    \<and> la_lfs_auto_fetch (r1_args r) \<noteq> None
    \<and> (la_server_options (r1_args r) = NoOptions
        \<or> (\<exists>o'. la_server_options (r1_args r) = LoadedOptions o' \<and> wf_options o'))
    \<and> (\<forall>ids mount. la_user_secrets (r1_args r) = Some (ids, mount) \<longrightarrow> (\<exists>p. is_absolute p \<and> mount = path_str p))
    \<and> (\<forall>s \<in> set (la_cloudstorage (r1_args r)). validate_storage s = Inr ())
    \<and> (la_cloudstorage (r1_args r) = [] \<or> storage)
    \<and> set (map fst d) \<subseteq> set (launch_names storage)"
proof -
  from assms obtain a ns project branch commit image storages where
    a: "load_base cfg ulid d = Inr a"
    and ns: "required_field d ''namespace'' load_lowercase = Inr ns"
    and project: "required_field d ''project'' load_lowercase = Inr project"
    and st: "(if storage then load_storages d else Inr []) = Inr storages"
    and names: "set (map fst d) \<subseteq> set (launch_names storage)"
    and r: "r = \<lparr>r1_namespace = ns, r1_project = project, r1_branch = branch, r1_commit_sha = commit,
       r1_args = a\<lparr>la_image := image, la_cloudstorage := storages\<rparr>\<rparr>"
    unfolding load_launch_request_def Let_def alsoL_Inr_iff mapL_Inr_iff no_unknown_Inr_iff by blast
  have "\<forall>s \<in> set storages. validate_storage s = Inr ()" "storages = [] \<or> storage"
    using st load_list_Inr load_storage_Inr
    by (fastforce simp: load_storages_def loaded_iff dest!: field_InrD(2) split: if_splits)+
  moreover have "lower ns = ns" "lower project = project"
    using ns project by (auto dest!: field_InrD(1) load_lowercase_Inr)
  ultimately show ?thesis using load_base_Inr [OF a] names by (simp add: r)
qed

section \<open>Every launch can be asked for\<close>

text \<open>The body that asks for a launch, for arguments without old-style options.\<close>

definition storage_body :: "storage_request \<Rightarrow> json" where
  "storage_body s =
     JObj (given ''source_path'' (sr_source_path s) @ given ''target_path'' (sr_target_path s) @
       [(''configuration'', conf_json (sr_configuration s)), (''storage_id'', jopt (sr_storage_id s)),
        (''readonly'', JBool (sr_readonly s))])"

definition secrets_body :: "(string list \<times> string) option \<Rightarrow> json" where
  "secrets_body s =
     (case s of None \<Rightarrow> JNull
      | Some (ids, mount) \<Rightarrow> JObj [(''user_secret_ids'', JArr (map JStr ids)), (''mount_path'', JStr mount)])"

definition launch_body :: "renku1_request \<Rightarrow> (string, json) dict" where
  "launch_body r =
     (let a = r1_args r in
      [(''namespace'', JStr (r1_namespace r)), (''project'', JStr (r1_project r)), (''branch'', JStr (r1_branch r)),
       (''commit_sha'', JStr (r1_commit_sha r)), (''image'', jopt (la_image a)),
       (''resource_class_id'', case la_resource_class_id a of None \<Rightarrow> JNull | Some i \<Rightarrow> JInt i),
       (''storage'', jnum (the (la_storage a))), (''lfs_auto_fetch'', JBool (the (la_lfs_auto_fetch a))),
       (''default_url'', JStr (the (la_default_url a))),
       (''environment_variables'', JObj (map (\<lambda>(k, v). (k, JStr v)) (la_environment_variables a))),
       (''user_secrets'', secrets_body (la_user_secrets a)),
       (''cloudstorage'', JArr (map storage_body (la_cloudstorage a)))])"

definition expressible_storage :: "storage_request \<Rightarrow> bool" where
  "expressible_storage s \<longleftrightarrow> validate_storage s = Inr ()
     \<and> (case sr_configuration s of None \<Rightarrow> True | Some d \<Rightarrow> list_all (\<lambda>(k, v). v \<noteq> JNull) d)"

definition expressible :: "(json \<Rightarrow> string res) \<Rightarrow> renku1_request \<Rightarrow> bool" where
  "expressible ulid r \<longleftrightarrow>
     (let a = r1_args r in
      lower (r1_namespace r) = r1_namespace r \<and> lower (r1_project r) = r1_project r
      \<and> (\<exists>n. la_storage a = Some (PInt n)) \<and> la_default_url a \<noteq> None \<and> la_lfs_auto_fetch a \<noteq> None
      \<and> la_server_options a = NoOptions
      \<and> (case la_user_secrets a of None \<Rightarrow> True
         | Some (ids, mount) \<Rightarrow> list_all (\<lambda>i. ulid (JStr i) = Inr i) ids \<and> path_field_deserialize mount = Inr mount)
      \<and> list_all expressible_storage (la_cloudstorage a))"

lemma loaded_Inr [simp]: "mapL f (Inr x) = Inr (f x)" "alsoL (Inr g) (Inr x) = Inr (g x)"
  by (simp_all add: mapL_def alsoL_def)

lemma load_items_map:
  assumes "list_all (\<lambda>x. g x \<noteq> JNull \<and> f (g x) = Inr x) xs"
  shows "load_items f i (map g xs) = Inr xs"
  using assms by (induction xs arbitrary: i) (simp_all add: element_def below_def alsoL_def mapL_def)

lemma load_list_map:
  "list_all (\<lambda>x. g x \<noteq> JNull \<and> f (g x) = Inr x) xs \<Longrightarrow> load_list f (JArr (map g xs)) = Inr xs"
  by (simp add: load_list_def load_items_map)

lemma load_entries_map:
  assumes "list_all (\<lambda>(k, x). g x \<noteq> JNull \<and> f (g x) = Inr x) d"
  shows "load_entries f (map (\<lambda>(k, x). (k, g x)) d) = Inr d"
  using assms by (induction d) (auto simp: element_def below_def alsoL_def mapL_def)

lemmas load_simps = get_field_def required_field_def default_field_def optional_field_def nullable_field_def
  below_def mapL_def alsoL_def

lemma load_entries_id: "list_all (\<lambda>(k, v). v \<noteq> JNull) d \<Longrightarrow> load_entries Inr d = Inr d"
  using load_entries_map [of id Inr d] by simp

lemma load_storage_body:
  assumes "expressible_storage s"
  shows "schema load_storage (storage_body s) = Inr s"
proof -
  have conf: "get_field d k (Some (Some [])) (Some None) (\<lambda>v. mapL Some (load_mapping Inr v)) = Inr (sr_configuration s)"
    if "dget d k = Some (conf_json (sr_configuration s))" for d k
    using that assms
    by (cases "sr_configuration s")
      (simp_all add: load_simps conf_json_def load_mapping_def load_entries_id expressible_storage_def)
  have sid: "nullable_field d k load_str = Inr (sr_storage_id s)" if "dget d k = Some (jopt (sr_storage_id s))" for d k
    using that by (cases "sr_storage_id s") (simp_all add: load_simps)
  have opt: "optional_field d k load_str = Inr x" if "dget d k = map_option JStr x" for d k x
    using that by (cases x) (simp_all add: load_simps)
  obtain d where d: "storage_body s = JObj d" "dget d ''source_path'' = map_option JStr (sr_source_path s)"
    "dget d ''target_path'' = map_option JStr (sr_target_path s)"
    "dget d ''configuration'' = Some (conf_json (sr_configuration s))"
    "dget d ''storage_id'' = Some (jopt (sr_storage_id s))" "dget d ''readonly'' = Some (JBool (sr_readonly s))"
    by (simp add: storage_body_def given_def dget_append split: option.split)
  have ro: "default_field d ''readonly'' True load_bool = Inr (sr_readonly s)"
    by (simp add: load_simps d load_bool_def)
  have eta: "\<lparr>sr_source_path = sr_source_path s, sr_target_path = sr_target_path s,
      sr_configuration = sr_configuration s, sr_storage_id = sr_storage_id s, sr_readonly = sr_readonly s\<rparr> = s"
    by simp
  have "check_storage s = Inr s"
    using assms by (simp add: check_storage_def expressible_storage_def loaded_def below_def mapL_def)
  then show ?thesis
    by (simp add: d(1) schema_def load_storage_def Let_def opt [OF d(2)] opt [OF d(3)] conf [OF d(4)] sid [OF d(5)] ro
        eta)
qed

text \<open>
  C15. The schema of a launch loses nothing: every launch that the handler can be given, with storages and
  secrets that are valid and without old-style options, can be asked for, and the body that asks for it is
  loaded as exactly its arguments.
\<close>

theorem launch_request_roundtrip:
  assumes "expressible ulid r"
  shows "load_launch_request True cfg ulid (launch_body r) = Inr r"
proof -
  obtain ns project branch commit image rc n env secrets url lfs storages where
    r: "r = \<lparr>r1_namespace = ns, r1_project = project, r1_branch = branch, r1_commit_sha = commit,
       r1_args = \<lparr>la_image = image, la_resource_class_id = rc, la_storage = Some (PInt n), la_environment_variables = env,
         la_user_secrets = secrets, la_default_url = Some url, la_lfs_auto_fetch = Some lfs, la_cloudstorage = storages,
         la_server_options = NoOptions\<rparr>\<rparr>"
    using assms by (cases r; cases "r1_args r") (auto simp: expressible_def)
  let ?d = "launch_body r"
  have st: "load_storages ?d = Inr storages"
    using assms load_storage_body
    by (simp add: load_storages_def load_simps launch_body_def r load_list_map expressible_def list_all_iff storage_body_def)
  have env: "load_mapping load_str (JObj (map (\<lambda>(k, v). (k, JStr v)) env)) = Inr env"
    using load_entries_map [of JStr load_str env] by (simp add: load_mapping_def list_all_iff case_prod_unfold)
  have secrets: "nullable_field ?d ''user_secrets'' (schema (load_user_secrets ulid)) = Inr secrets"
    using assms
    by (cases secrets) (auto simp: load_simps launch_body_def r secrets_body_def schema_def load_user_secrets_def
        load_list_map list_all_iff expressible_def load_ulid_def load_path_def loaded_def no_unknown_def)
  have img: "nullable_field ?d ''image'' load_str = Inr image"
    by (cases image) (simp_all add: load_simps launch_body_def r)
  have rc: "nullable_field ?d ''resource_class_id'' load_int = Inr rc"
    by (cases rc) (simp_all add: load_simps launch_body_def r load_int_def int_field_def loaded_def)
  have "load_base cfg ulid ?d = Inr (base_args None None rc n lfs url env secrets)"
    unfolding load_base_def Let_def secrets rc
    by (simp add: load_simps launch_body_def r load_int_def int_field_def loaded_def load_bool_def env)
  moreover have "no_unknown (launch_names True) ?d () = Inr ()"
    by (simp add: no_unknown_Inr_iff launch_body_def Let_def launch_names_def base_names_def)
  moreover have "required_field ?d ''namespace'' load_lowercase = Inr ns" "required_field ?d ''project'' load_lowercase = Inr project"
    using assms by (simp_all add: load_simps launch_body_def r expressible_def load_lowercase_def lowercase_string_def
        query_text_def loaded_def)
  moreover have "default_field ?d ''branch'' ''master'' load_str = Inr branch" "required_field ?d ''commit_sha'' load_str = Inr commit"
    by (simp_all add: load_simps launch_body_def r)
  ultimately show ?thesis
    by (simp add: load_launch_request_def Let_def st img base_args_def) (simp add: r)
qed

section \<open>Secrets that are refused as an internal error\<close>

definition secrets_request :: "string \<Rightarrow> string \<Rightarrow> string \<Rightarrow> json \<Rightarrow> json \<Rightarrow> request" where
  "secrets_request n p c i mount = Launch (Body (JObj [(''namespace'', JStr n), (''project'', JStr p), (''commit_sha'', JStr c),
     (''user_secrets'', JObj [(''user_secret_ids'', JArr [i]), (''mount_path'', mount)])]))"

text \<open>
  A launch whose secret id is no ULID, or whose mount path is no text, is invalid input, but it is not
  answered as such: what the two fields raise is no \<open>ValidationError\<close>, so the answer is the generic
  error with status 500 and code 2000.
\<close>

theorem malformed_secrets_internal_error:
  assumes "web_ulid web i = Inl (ValueError e)" and "i \<noteq> JNull" and "web_ulid web i' = Inr k" and "i' \<noteq> JNull"
  shows "serve web hs (secrets_request n p c i (JStr ''/secrets'')) w =
      (Inr (dump_generic_error (new_error GenericError None None), 500), w)
    \<and> serve web hs (secrets_request n p c i' (JInt 7)) w =
      (Inr (dump_generic_error (new_error GenericError None None), 500), w)"
  using assms
  by (simp_all add: serve_def secrets_request_def post_servers_def use_body_def use_args_def schema_def
      load_launch_request_def load_base_def Let_def load_user_secrets_def load_simps load_list_def element_def
      load_ulid_def loaded_def load_path_def handle_exception_def)

section \<open>A request on a concrete cluster\<close>

definition example_web :: "cluster web" where
  "example_web = launch_service.extend (example_launch any_image)
     \<lparr>web_decode = (\<lambda>_. Inl (ValueError ''token'')),
      web_ulid = (\<lambda>v. case v of JStr s \<Rightarrow> if length s = 26 then Inr s else Inl (ValueError ''ULID'') | _ \<Rightarrow> Inl (TypeError ''len'')),
      web_description = (\<lambda>_. ''Invalid''), web_choices = []\<rparr>"

lemma example_web_facts:
  "sv_cfg example_web = sv_cfg (example_launch any_image)" "sv_defaults example_web = \<lparr>defaultUrl = ''/lab'', lfs_default = False\<rparr>"
  "web_description example_web = (\<lambda>_. ''Invalid'')"
  "web_ulid example_web = (\<lambda>v. case v of JStr s \<Rightarrow> if length s = 26 then Inr s else Inl (ValueError ''ULID'') | _ \<Rightarrow> Inl (TypeError ''len''))"
  by (simp_all add: example_web_def launch_service.defs example_launch_def)

theorem requests_need_user_witness:
  "\<exists>e. handle example_web [] GetOptions example_cluster = (Inl e, example_cluster)"
proof -
  have none: "current_user (sv_cfg example_web) esc dec [] \<noteq> Inr (Some u)" for esc dec u
    by (simp add: current_user_def registered_user_def anonymous_user_def auth_headers_def header_get_def)
  obtain r w' where "handle example_web [] GetOptions example_cluster = (r, w')" by (metis surj_pair)
  from requests_need_user [OF this] this none show ?thesis by auto
qed

definition refused_body :: "(string, json) dict" where
  "refused_body = [(''namespace'', JStr ''Jane''), (''storage'', JStr ''many'')]"

lemma refused_loaded:
  "load_launch_request storage cfg ulid refused_body =
     Inl (Invalid (JObj [(''storage'', messages ''Not a valid integer.''), (''project'', messages ''Missing data for required field.''),
       (''commit_sha'', messages ''Missing data for required field.'')]))"
proof -
  have "int_of_text ''many'' = None" by code_simp
  moreover have "load_lowercase (JStr ''Jane'') = Inr ''jane''" by code_simp
  ultimately show ?thesis
    by (simp add: refused_body_def load_launch_request_def load_base_def Let_def load_simps load_int_def loaded_def
        int_field_def invalid_def load_storages_def no_unknown_def launch_names_def base_names_def)
qed

theorem invalid_launch_reported_witness:
  "\<exists>ms. serve example_web [] (Launch (Body (JObj refused_body))) example_cluster =
     (Inr (error_response ''Invalid'' (Some (join '' '' ms)) 1422, 422), example_cluster) \<and> length ms = 3"
proof -
  from invalid_launch_reported [OF refused_loaded, of example_web "[]" example_cluster] obtain kvs ms where
    "JObj [(''storage'', messages ''Not a valid integer.''), (''project'', messages ''Missing data for required field.''),
       (''commit_sha'', messages ''Missing data for required field.'')] = JObj kvs"
    and ms: "mapE field_message
        (concat (map (\<lambda>(k, v). map (\<lambda>(p, l). (leaf_key ''.'' [''_schema''] k p, l)) (leaves v)) kvs)) = Inr ms"
    and answer: "serve example_web [] (Launch (Body (JObj refused_body))) example_cluster =
      (Inr (error_response (web_description example_web 422) (Some (join '' '' ms)) 1422, 422), example_cluster)"
    by blast
  then have "length ms = 3" using mapE_Inr_length [OF ms] by (auto simp: messages_def)
  with answer show ?thesis by (simp only: example_web_facts) blast
qed

definition example_request :: renku1_request where
  "example_request =
     \<lparr>r1_namespace = ''jane'', r1_project = ''flights'', r1_branch = ''main'', r1_commit_sha = ''0a1b2c3'',
      r1_args = \<lparr>la_image = None, la_resource_class_id = Some 2, la_storage = Some (PInt 10),
        la_environment_variables = [(''LANG'', ''C'')],
        la_user_secrets = Some ([''01ARZ3NDEKTSV4RRFFQ69G5FAV''], ''/secrets''), la_default_url = Some ''/lab'',
        la_lfs_auto_fetch = Some True,
        la_cloudstorage = [\<lparr>sr_source_path = Some ''bucket'', sr_target_path = Some ''data'',
          sr_configuration = Some [(''type'', JStr ''s3'')], sr_storage_id = None, sr_readonly = True\<rparr>],
        la_server_options = NoOptions\<rparr>\<rparr>"

lemma example_expressible: "expressible (web_ulid example_web) example_request"
proof -
  have "path_field_deserialize ''/secrets'' = Inr ''/secrets''" by code_simp
  moreover have "lower ''jane'' = ''jane''" "lower ''flights'' = ''flights''" by code_simp+
  ultimately show ?thesis
    by (auto simp: expressible_def example_request_def example_web_facts expressible_storage_def validate_storage_def
        str_truthy_def)
qed

theorem launch_request_roundtrip_witness:
  "load_launch_request True (sv_defaults example_web) (web_ulid example_web) (launch_body example_request) = Inr example_request"
  by (rule launch_request_roundtrip [OF example_expressible])

lemma example_loaded:
  "load_launch_request True cfg (web_ulid example_web)
     [(''namespace'', JStr ''Jane''), (''project'', JStr ''p''), (''commit_sha'', JStr ''c'')] =
   Inr \<lparr>r1_namespace = ''jane'', r1_project = ''p'', r1_branch = ''master'', r1_commit_sha = ''c'',
     r1_args = base_args None None None 1 (lfs_default cfg) (defaultUrl cfg) [] None\<rparr>"
proof -
  have "load_lowercase (JStr ''Jane'') = Inr ''jane''" "load_lowercase (JStr ''p'') = Inr ''p''" by code_simp+
  then show ?thesis
    by (simp add: load_launch_request_def load_base_def Let_def load_simps load_storages_def no_unknown_def
        launch_names_def base_names_def base_args_def)
qed

theorem launch_arguments_typed_witness:
  "lower ''jane'' = ''jane''
    \<and> la_storage (base_args None None None 1 False ''/lab'' [] None) \<noteq> None
    \<and> {''namespace'', ''project'', ''commit_sha''} \<subseteq> set (launch_names True)"
  using launch_arguments_typed [OF example_loaded [of "\<lparr>defaultUrl = ''/lab'', lfs_default = False\<rparr>"]] by auto

theorem malformed_secrets_internal_error_witness:
  "serve example_web [] (secrets_request ''n'' ''p'' ''c'' (JStr ''x'') (JStr ''/secrets'')) example_cluster =
      (Inr (dump_generic_error (new_error GenericError None None), 500), example_cluster)"
  by (rule malformed_secrets_internal_error
      [where i' = "JStr ''01ARZ3NDEKTSV4RRFFQ69G5FAV''" and k = "''01ARZ3NDEKTSV4RRFFQ69G5FAV''", THEN conjunct1])
    (simp_all add: example_web_facts)

end
