(* ===== verification/Settings.thy ===== *)
theory Settings
  imports Schemas Users
begin

text \<open>
  How the configuration comes about (\<open>config/dynamic.py\<close>, \<open>config/__init__.py\<close>,
  \<open>api/schemas/config_server_options.py\<close>): the defaults in the source, what a file and the environment lay
  over them, the constructors of the dataclasses with their conversions, and the one value that is set
  afterwards.
\<close>

section \<open>What packages bring\<close>

text \<open>
  \<open>dataconf\<close> merges a file and the variables \<open>NB_...\<close> into a tree and reads an enumeration; \<open>PyYAML\<close> reads
  texts; \<open>read_json\<close> is the content of a file of options, parsed.
\<close>

record loaders =
  merge_file :: "json \<Rightarrow> string \<Rightarrow> json res"
  merge_env :: "json \<Rightarrow> json res"
  load_enum :: "json \<Rightarrow> cpu_enforcement res"
  yaml_load :: "string \<Rightarrow> json res"
  read_json :: "string \<Rightarrow> json res"

section \<open>Conversions\<close>

text \<open>
  \<open>float(val)\<close>.  The texts for infinities and for not-a-number are refused here; in the code it is the
  conversion to \<open>int\<close> that refuses them, with an \<open>OverflowError\<close> or a \<open>ValueError\<close>.
\<close>

definition parse_value_as_float :: "json \<Rightarrow> rat res" where
  "parse_value_as_float v =
     (case v of
        JInt i \<Rightarrow> Inr (fl (of_int i))
      | JFloat x \<Rightarrow> Inr x
      | JBool b \<Rightarrow> Inr (if b then 1 else 0)
      | JStr s \<Rightarrow>
          if not_finite s then Inl (ValueError ''not finite'')
          else (case float_of_text s of Some x \<Rightarrow> Inr x | None \<Rightarrow> Inl (ValueError ''could not convert string to float''))
      | _ \<Rightarrow> Inl (TypeError ''float() argument must be a string or a real number''))"

definition parse_value_as_int :: "json \<Rightarrow> int res" where
  "parse_value_as_int v = bindE (parse_value_as_float v) (\<lambda>x. Inr (pn_trunc (PFloat x)))"

section \<open>Constructors\<close>

text \<open>
  A section of the tree holds the keyword arguments of a dataclass; a field without a default has to be
  there.  Names that a dataclass does not have are \<open>dataconf\<close>'s to refuse.
\<close>

definition arg :: "json \<Rightarrow> string \<Rightarrow> json \<Rightarrow> json res" where
  "arg d k x = jget d k x"

definition req :: "json \<Rightarrow> string \<Rightarrow> json res" where
  "req d k = bindE (as_dict d) (\<lambda>kvs. case dget kvs k of Some v \<Rightarrow> Inr v | None \<Rightarrow> Inl (TypeError k))"

definition text_arg :: "json \<Rightarrow> string \<Rightarrow> string \<Rightarrow> string res" where
  "text_arg d k x = bindE (arg d k (JStr x)) as_str"

definition opt_text :: "json \<Rightarrow> string \<Rightarrow> string option res" where
  "opt_text d k = bindE (arg d k JNull) (\<lambda>v. if v = JNull then Inr None else bindE (as_str v) (\<lambda>s. Inr (Some s)))"

definition req_text :: "json \<Rightarrow> string \<Rightarrow> string res" where
  "req_text d k = bindE (req d k) as_str"

definition int_arg :: "json \<Rightarrow> string \<Rightarrow> int \<Rightarrow> int res" where
  "int_arg d k x = bindE (arg d k (JInt x)) parse_value_as_int"

definition bool_arg :: "json \<Rightarrow> string \<Rightarrow> bool \<Rightarrow> bool res" where
  "bool_arg d k x = bindE (arg d k (JBool x)) parse_str_as_bool"

definition text_list :: "json \<Rightarrow> string list res" where
  "text_list v = bindE (jiter v) (mapE as_str)"

text \<open>\<open>yaml.safe_load\<close> of an argument that is a text.\<close>

definition yaml_arg :: "loaders \<Rightarrow> json \<Rightarrow> string \<Rightarrow> string \<Rightarrow> json res" where
  "yaml_arg ld d k x = bindE (text_arg d k x) (yaml_load ld)"

definition sentry_of :: "json \<Rightarrow> sentry_config res" where
  "sentry_of d =
     bindE (bindE (req d ''enabled'') parse_str_as_bool) (\<lambda>enabled.
     bindE (opt_text d ''dsn'') (\<lambda>dsn.
     bindE (opt_text d ''env'') (\<lambda>env.
     bindE (bindE (arg d ''sample_rate'' (JFloat (fl (1 / 5)))) parse_value_as_float) (\<lambda>rate.
     Inr \<lparr>sentry_enabled = enabled, sentry_dsn = dsn, sentry_env = env, sentry_sample_rate = rate\<rparr>))))"

definition no_sentry :: json where
  "no_sentry = JObj [(''enabled'', JBool False)]"

definition git_proxy_of :: "json \<Rightarrow> git_proxy_config res" where
  "git_proxy_of d =
     bindE (req_text d ''renku_client_secret'') (\<lambda>secret.
     bindE (int_arg d ''port'' 8080) (\<lambda>port.
     bindE (int_arg d ''health_port'' 8081) (\<lambda>health.
     bindE (text_arg d ''image'' ''renku/git-https-proxy:latest'') (\<lambda>img.
     bindE (bindE (arg d ''sentry'' no_sentry) sentry_of) (\<lambda>_.
     bindE (text_arg d ''renku_client_id'' ''renku'') (\<lambda>client.
     Inr \<lparr>gpx_renku_client_secret = secret, gpx_port = port, gpx_health_port = health, gpx_image = img,
          gpx_renku_client_id = client\<rparr>))))))"

definition git_rpc_of :: "json \<Rightarrow> git_rpc_config res" where
  "git_rpc_of d =
     bindE (text_arg d ''host'' ''0.0.0.0'') (\<lambda>host.
     bindE (int_arg d ''port'' 4000) (\<lambda>port.
     bindE (text_arg d ''image'' ''renku/git-rpc-server:latest'') (\<lambda>img.
     bindE (bindE (arg d ''sentry'' no_sentry) sentry_of) (\<lambda>sentry.
     Inr \<lparr>rpc_host = host, rpc_port = port, rpc_image = img, rpc_sentry = sentry\<rparr>))))"

definition git_clone_of :: "json \<Rightarrow> git_clone_config res" where
  "git_clone_of d =
     bindE (text_arg d ''image'' ''renku/git-clone:latest'') (\<lambda>img.
     bindE (bindE (arg d ''sentry'' no_sentry) sentry_of) (\<lambda>sentry.
     Inr \<lparr>gcl_image = img, gcl_sentry = sentry\<rparr>))"

text \<open>The thresholds for pending and failed sessions are converted and then unused.\<close>

definition culling_of :: "json \<Rightarrow> culling_config res" where
  "culling_of d =
     bindE (int_arg d ''idle_seconds'' 86400) (\<lambda>idle.
     bindE (int_arg d ''max_age_seconds'' 0) (\<lambda>age.
     bindE (int_arg d ''pending_seconds'' 0) (\<lambda>_.
     bindE (int_arg d ''failed_seconds'' 0) (\<lambda>_.
     bindE (int_arg d ''hibernated_seconds'' 86400) (\<lambda>hibernated.
     Inr \<lparr>idle_seconds = idle, max_age_seconds = age, hibernated_seconds = hibernated\<rparr>)))))"

definition ssh_of :: "json \<Rightarrow> ssh_config res" where
  "ssh_of d =
     bindE (bool_arg d ''enabled'' False) (\<lambda>enabled.
     bindE (int_arg d ''service_port'' 22) (\<lambda>service_port.
     bindE (int_arg d ''container_port'' 2022) (\<lambda>container_port.
     bindE (opt_text d ''host_key_secret'') (\<lambda>secret.
     bindE (text_arg d ''host_key_location'' ''/opt/ssh/ssh_host_keys'') (\<lambda>location.
     Inr \<lparr>ssh_enabled = enabled, ssh_service_port = service_port, ssh_container_port = container_port,
          ssh_host_key_secret = secret, ssh_host_key_location = location\<rparr>)))))"

text \<open>The parts of \<open>_SessionConfig\<close> that the model keeps without a record of their own.\<close>

definition ingress_of :: "loaders \<Rightarrow> json \<Rightarrow> (string \<times> string option \<times> json) res" where
  "ingress_of ld d =
     bindE (req_text d ''host'') (\<lambda>host.
     bindE (opt_text d ''tls_secret'') (\<lambda>tls.
     bindE (arg d ''annotations'' (JStr ''{}'')) (\<lambda>a.
     bindE (case a of JStr s \<Rightarrow> yaml_load ld s | _ \<Rightarrow> Inr a) (\<lambda>annotations.
     Inr (host, tls, annotations)))))"

definition ca_certs_of :: "loaders \<Rightarrow> json \<Rightarrow> (string \<times> string \<times> json list) res" where
  "ca_certs_of ld d =
     bindE (text_arg d ''image'' ''renku/certificates:0.0.2'') (\<lambda>img.
     bindE (text_arg d ''path'' ''/usr/local/share/ca-certificates'') (\<lambda>path.
     bindE (bindE (yaml_arg ld d ''secrets'' ''[]'') jiter) (\<lambda>secrets.
     Inr (img, path, secrets))))"

definition oidc_of :: "json \<Rightarrow> (string \<times> string \<times> bool) res" where
  "oidc_of d =
     bindE (req_text d ''client_secret'') (\<lambda>secret.
     bindE (req_text d ''token_url'') (\<lambda>_.
     bindE (req_text d ''auth_url'') (\<lambda>_.
     bindE (text_arg d ''client_id'' ''renku-jupyterserver'') (\<lambda>client.
     bindE (bool_arg d ''allow_unverified_email'' False) (\<lambda>unverified.
     bindE (text_arg d ''config_url'' ''/auth/realms/Renku/.well-known/openid-configuration'') (\<lambda>_.
     Inr (client, secret, unverified)))))))"

definition storage_of :: "json \<Rightarrow> (bool \<times> string option \<times> bool) res" where
  "storage_of d =
     bindE (bool_arg d ''pvs_enabled'' True) (\<lambda>pvs.
     bindE (opt_text d ''pvs_storage_class'') (\<lambda>cls.
     bindE (bool_arg d ''use_empty_dir_size_limit'' False) (\<lambda>limit.
     Inr (pvs, cls, limit))))"

definition containers_of :: "json \<Rightarrow> (string list \<times> string list) res" where
  "containers_of d =
     bindE (bindE (req d ''anonymous'') text_list) (\<lambda>anonymous.
     bindE (bindE (req d ''registered'') text_list) (\<lambda>registered.
     Inr (anonymous, registered)))"

definition default_init_containers :: json where
  "default_init_containers = JArr [JStr ''init-certificates'', JStr ''download-image'', JStr ''git-clone'']"

definition sessions_of :: "loaders \<Rightarrow> json \<Rightarrow> sessions_config res" where
  "sessions_of ld d =
     bindE (req d ''culling'') (\<lambda>culling.
     bindE (bindE (req culling ''anonymous'') culling_of) (\<lambda>c_anonymous.
     bindE (bindE (req culling ''registered'') culling_of) (\<lambda>c_registered.
     bindE (bindE (req d ''git_proxy'') git_proxy_of) (\<lambda>proxy.
     bindE (bindE (req d ''git_rpc_server'') git_rpc_of) (\<lambda>rpc.
     bindE (bindE (req d ''git_clone'') git_clone_of) (\<lambda>clone.
     bindE (bindE (req d ''ingress'') (ingress_of ld)) (\<lambda>(host, tls, annotations).
     bindE (bindE (req d ''ca_certs'') (ca_certs_of ld)) (\<lambda>(ca_img, ca_dir, ca_names).
     bindE (bindE (req d ''oidc'') oidc_of) (\<lambda>(client, secret, unverified).
     bindE (bindE (req d ''storage'') storage_of) (\<lambda>(pvs, cls, limit).
     bindE (bindE (req d ''containers'') containers_of) (\<lambda>(anonymous, registered).
     bindE (bindE (req d ''ssh'') ssh_of) (\<lambda>ssh.
     bindE (text_arg d ''default_image'' ''renku/singleuser:latest'') (\<lambda>img.
     bindE (case d of JObj kvs \<Rightarrow> (case dget kvs ''enforce_cpu_limits'' of Some v \<Rightarrow> load_enum ld v | None \<Rightarrow> Inr OFF)
            | _ \<Rightarrow> Inl (TypeError ''mapping'')) (\<lambda>cpu.
     bindE (bindE (arg d ''termination_warning_duration_seconds'' (JInt (12 * 60 * 60)))
         (\<lambda>v. case v of JInt i \<Rightarrow> Inr i | _ \<Rightarrow> Inl (TypeError ''int''))) (\<lambda>warning.
     bindE (yaml_arg ld d ''node_selector'' ''{}'') (\<lambda>selector.
     bindE (yaml_arg ld d ''affinity'' ''{}'') (\<lambda>affinity.
     bindE (bindE (yaml_arg ld d ''tolerations'' ''[]'') jiter) (\<lambda>tolerations.
     bindE (bindE (arg d ''init_containers'' default_init_containers) text_list) (\<lambda>inits.
     Inr \<lparr>culling_anonymous = c_anonymous, culling_registered = c_registered, cfg_git_proxy = proxy, cfg_git_rpc = rpc,
          cfg_git_clone = clone, ingress_host = host, ingress_tls_secret = tls, ingress_annotations = annotations,
          ca_image = ca_img, ca_path = ca_dir, ca_secrets = ca_names, oidc_client_id = client, oidc_client_secret = secret,
          oidc_allow_unverified_email = unverified, pvs_enabled = pvs, pvs_storage_class = cls,
          use_empty_dir_size_limit = limit, containers_anonymous = anonymous, containers_registered = registered,
          cfg_ssh = ssh, default_image = img, enforce_cpu_limits = cpu, node_selector = selector,
          cfg_affinity = affinity, cfg_tolerations = tolerations, termination_warning_seconds = warning,
          init_container_list = inits\<rparr>)))))))))))))))))))"

definition git_of :: "json \<Rightarrow> (string \<times> string) res" where
  "git_of d =
     bindE (req_text d ''url'') (\<lambda>url.
     bindE (req_text d ''registry'') (\<lambda>registry. Inr (url, registry)))"

definition amalthea_of :: "json \<Rightarrow> (string \<times> string \<times> string) res" where
  "amalthea_of d =
     bindE (req_text d ''cache_url'') (\<lambda>cache_url.
     bindE (text_arg d ''group'' ''amalthea.dev'') (\<lambda>grp.
     bindE (text_arg d ''version'' ''v1alpha1'') (\<lambda>vers.
     bindE (text_arg d ''plural'' ''jupyterservers'') (\<lambda>_. Inr (cache_url, grp, vers)))))"

definition k8s_of :: "json \<Rightarrow> (string \<times> string option \<times> bool \<times> bool) res" where
  "k8s_of d =
     bindE (req_text d ''renku_namespace'') (\<lambda>renku_namespace.
     bindE (opt_text d ''sessions_namespace'') (\<lambda>sessions_namespace.
     bindE (bool_arg d ''enabled'' True) (\<lambda>enabled.
     bindE (bool_arg d ''bypass_cache_on_failure'' True) (\<lambda>bypass.
     Inr (renku_namespace, sessions_namespace, enabled, bypass)))))"

text \<open>\<open>_CloudStorage\<close> keeps its flag as it was given.\<close>

definition cloud_storage_of :: "json \<Rightarrow> (json \<times> string) res" where
  "cloud_storage_of d =
     bindE (arg d ''enabled'' (JBool False)) (\<lambda>enabled.
     bindE (text_arg d ''storage_class'' ''csi-rclone'') (\<lambda>cls.
     bindE (text_arg d ''mount_folder'' ''/cloudstorage'') (\<lambda>_. Inr (enabled, cls))))"

definition user_secrets_of :: "json \<Rightarrow> (string \<times> string) res" where
  "user_secrets_of d =
     bindE (text_arg d ''image'' ''renku/secrets_mount:latest'') (\<lambda>img.
     bindE (text_arg d ''secrets_storage_service_url'' ''http://renku-secrets-storage'') (\<lambda>url.
     Inr (img, rstrip (\<lambda>c. c = CHR ''/'') url)))"

section \<open>The files of server options\<close>

definition base_option_names :: "string list" where
  "base_option_names = [''order'', ''displayName'', ''type'', ''default'']"

definition load_order :: "json \<Rightarrow> int loaded" where
  "load_order v = bindE (load_int v) (\<lambda>i. if 1 \<le> i then Inr i else invalid ''Invalid value.'')"

definition load_type :: "json \<Rightarrow> string loaded" where
  "load_type v = bindE (load_str v) (\<lambda>s.
     if s \<in> {''enum'', ''boolean''} then Inr s else invalid ''Must be one of: enum, boolean.'')"

definition choice :: "(string, json) dict \<Rightarrow> (json \<Rightarrow> json loaded) \<Rightarrow> (json \<Rightarrow> json) loaded" where
  "choice d dflt =
     (let f0 = Inr (\<lambda>order name type d rest. JObj ([(''order'', JInt order), (''displayName'', JStr name), (''type'', JStr type),
            (''default'', d)] @ (case rest of JNull \<Rightarrow> [] | _ \<Rightarrow> [(''options'', rest)])));
          f1 = alsoL f0 (required_field d ''order'' load_order);
          f2 = alsoL f1 (required_field d ''displayName'' load_str);
          f3 = alsoL f2 (required_field d ''type'' load_type)
      in alsoL f3 (required_field d ''default'' dflt))"

definition load_string_choice :: "(string, json) dict \<Rightarrow> json loaded" where
  "load_string_choice d =
     (let f1 = mapL (\<lambda>k rest u. k (case rest of None \<Rightarrow> JNull | Some xs \<Rightarrow> JArr (map JStr xs)))
            (choice d (\<lambda>v. mapL JStr (load_str v)));
          f2 = alsoL f1 (optional_field d ''options'' (load_list load_str))
      in alsoL f2 (no_unknown (base_option_names @ [''options'']) d ()))"

definition load_bool_choice :: "(string, json) dict \<Rightarrow> json loaded" where
  "load_bool_choice d =
     alsoL (mapL (\<lambda>k u. k JNull) (choice d (\<lambda>v. mapL JBool (load_bool v)))) (no_unknown base_option_names d ())"

text \<open>\<open>ServerOptionsChoices\<close> and \<open>ServerOptionsDefaults\<close>, which ignore other names.\<close>

definition load_choices :: "(string, json) dict \<Rightarrow> (string, json) dict loaded" where
  "load_choices d =
     (let some = (\<lambda>k v. case v of None \<Rightarrow> [] | Some j \<Rightarrow> [(k, j)]);
          f0 = Inr (\<lambda>url lfs. some ''defaultUrl'' url @ some ''lfs_auto_fetch'' lfs);
          f1 = alsoL f0 (optional_field d ''defaultUrl'' (schema load_string_choice))
      in alsoL f1 (optional_field d ''lfs_auto_fetch'' (schema load_bool_choice)))"

definition load_defaults :: "(string, json) dict \<Rightarrow> options_defaults loaded" where
  "load_defaults d =
     (let f0 = Inr (\<lambda>url lfs. \<lparr>defaultUrl = url, lfs_default = lfs\<rparr>);
          f1 = alsoL f0 (required_field d ''defaultUrl'' load_str)
      in alsoL f1 (required_field d ''lfs_auto_fetch'' load_bool))"

text \<open>A schema used outside of a request raises its messages.\<close>

definition or_raise :: "'a loaded \<Rightarrow> 'a res" where
  "or_raise r = (case r of Inr x \<Rightarrow> Inr x | Inl (Invalid m) \<Rightarrow> Inl (Validation (py_str m)) | Inl (Raised e) \<Rightarrow> Inl e)"

definition server_options_of :: "loaders \<Rightarrow> json \<Rightarrow> (options_defaults \<times> (string, json) dict) res" where
  "server_options_of ld d =
     bindE (req_text d ''defaults_path'') (\<lambda>defaults_path.
     bindE (req_text d ''ui_choices_path'') (\<lambda>ui_choices_path.
     bindE (bindE (read_json ld defaults_path) (\<lambda>j. or_raise (schema load_defaults j))) (\<lambda>defaults.
     bindE (bindE (read_json ld ui_choices_path) (\<lambda>j. or_raise (schema load_choices j))) (\<lambda>choices.
     Inr (defaults, choices)))))"

section \<open>The configuration\<close>

text \<open>
  What a start of the service has: the configuration, the server options and the path prefix of its routes,
  and whether the cluster is used.
\<close>

record settings =
  set_config :: notebooks_config
  set_defaults :: options_defaults
  set_choices :: "(string, json) dict"
  set_prefix :: string
  set_k8s_enabled :: bool
  set_renku_namespace :: string
  set_sessions_namespace :: "string option"

text \<open>\<open>_NotebooksConfig\<close>; release and working directory are the process's own.\<close>

definition settings_of :: "loaders \<Rightarrow> string option \<Rightarrow> path \<Rightarrow> json \<Rightarrow> settings res" where
  "settings_of ld release cwd d =
     bindE (bindE (req d ''server_options'') (server_options_of ld)) (\<lambda>(defaults, choices).
     bindE (bindE (req d ''sessions'') (sessions_of ld)) (\<lambda>sessions.
     bindE (bindE (req d ''amalthea'') amalthea_of) (\<lambda>(cache_url, grp, vers).
     bindE (bindE (req d ''sentry'') sentry_of) (\<lambda>_.
     bindE (bindE (req d ''git'') git_of) (\<lambda>(git_url, git_registry).
     bindE (bindE (req d ''k8s'') k8s_of) (\<lambda>(renku_namespace, sessions_namespace, k8s_enabled, bypass).
     bindE (bindE (req d ''cloud_storage'') cloud_storage_of) (\<lambda>(cloud_enabled, cloud_class).
     bindE (bindE (req d ''user_secrets'') user_secrets_of) (\<lambda>(secrets_image, secrets_url).
     bindE (arg d ''current_resource_schema_version'' (JInt 1)) (\<lambda>_.
     bindE (bool_arg d ''anonymous_sessions_enabled'' False) (\<lambda>anonymous.
     bindE (bool_arg d ''ssh_enabled'' False) (\<lambda>ssh.
     bindE (text_arg d ''service_prefix'' ''/notebooks'') (\<lambda>prefix.
     bindE (text_arg d ''version'' ''0.0.0'') (\<lambda>release_name.
     bindE (text_arg d ''keycloak_realm'' ''Renku'') (\<lambda>realm.
     bindE (text_arg d ''data_service_url'' ''http://renku-data-service'') (\<lambda>data_url.
     bindE (bool_arg d ''dummy_stores'' False) (\<lambda>dummy.
     Inr \<lparr>set_config =
            \<lparr>cfg_sessions = sessions, cfg_git_url = git_url, cfg_git_registry = git_registry, amalthea_group = grp,
             amalthea_version = vers, amalthea_cache_url = cache_url, cloud_storage_class = cloud_class,
             cloud_storage_enabled = cloud_enabled, service_version = release_name, cfg_ssh_enabled = ssh,
             user_secrets_image = secrets_image,
             secrets_storage_service_url = secrets_url, data_service_url = data_url,
             keycloak_realm = realm, cfg_bypass_cache = bypass, cfg_dummy_stores = dummy,
             anonymous_sessions_enabled = anonymous, cfg_sentry_release = release, cfg_cwd = cwd\<rparr>,
          set_defaults = defaults, set_choices = choices, set_prefix = prefix, set_k8s_enabled = k8s_enabled,
          set_renku_namespace = renku_namespace, set_sessions_namespace = sessions_namespace\<rparr>))))))))))))))))"

section \<open>The defaults of the source, and the module\<close>

text \<open>
  \<open>default_config\<close> as the tree that the text describes.  The switch \<open>off\<close> of the cpu limits is the word that
  it is in the text.
\<close>

definition default_culling :: json where
  "default_culling =
     JObj [(''registered'', JObj [(''idle_seconds'', JInt 86400), (''max_age_seconds'', JInt 0),
        (''pending_seconds'', JInt 0), (''failed_seconds'', JInt 0), (''hibernated_seconds'', JInt 259200)]),
        (''anonymous'', JObj [(''idle_seconds'', JInt 43200), (''max_age_seconds'', JInt 0),
        (''pending_seconds'', JInt 0), (''failed_seconds'', JInt 0), (''hibernated_seconds'', JInt 1)])]"

definition default_sentry :: json where
  "default_sentry = JObj [(''enabled'', JBool False), (''sample_rate'', JFloat (fl (1 / 5)))]"

definition default_sessions :: json where
  "default_sessions = JObj
     [(''culling'', default_culling),
      (''default_image'', JStr ''renku/singleuser:latest''),
      (''git_proxy'', JObj [(''port'', JInt 8080), (''health_port'', JInt 8081),
        (''image'', JStr ''renku/git-https-proxy:latest''), (''sentry'', no_sentry),
        (''renku_client_id'', JStr ''renku''), (''renku_client_secret'', JStr ''renku-client-secret'')]),
      (''git_clone'', JObj [(''image'', JStr ''renku/git-clone:latest''), (''sentry'', no_sentry)]),
      (''git_rpc_server'', JObj [(''host'', JStr ''0.0.0.0''), (''port'', JInt 4000),
        (''image'', JStr ''renku/git-rpc-server:latest''), (''sentry'', no_sentry)]),
      (''ingress'', JObj [(''annotations'', JStr ''{}'')]),
      (''ca_certs'', JObj [(''image'', JStr ''renku/certificates:latest''),
        (''path'', JStr ''/usr/local/share/ca-certificates''), (''secrets'', JStr ''[]'')]),
      (''oidc'', JObj [(''client_id'', JStr ''renku-jupyterserver''), (''allow_unverified_email'', JBool False),
        (''config_url'', JStr ''/auth/realms/Renku/.well-known/openid-configuration'')]),
      (''storage'', JObj [(''pvs_enabled'', JBool True)]),
      (''containers'', JObj [(''anonymous'', JArr [JStr ''jupyter-server'', JStr ''passthrough-proxy'',
        JStr ''git-proxy'']),
        (''registered'', JArr [JStr ''jupyter-server'', JStr ''oauth2-proxy'', JStr ''git-proxy'',
        JStr ''git-sidecar''])]),
      (''ssh'', JObj []),
      (''enforce_cpu_limits'', JStr ''off''),
      (''termination_warning_duration_seconds'', JInt 43200),
      (''image_default_workdir'', JStr ''/home/jovyan''),
      (''node_selector'', JStr ''{}''),
      (''affinity'', JStr ''{}''),
      (''tolerations'', JStr ''[]'')]"

definition default_config :: json where
  "default_config = JObj
     [(''server_options'', JObj [(''defaults_path'', JStr ''tests/unit/dummy_server_defaults.json''),
        (''ui_choices_path'', JStr ''tests/unit/dummy_server_options.json'')]),
      (''sessions'', default_sessions),
      (''amalthea'', JObj [(''group'', JStr ''amalthea.dev''), (''version'', JStr ''v1alpha1''),
        (''plural'', JStr ''jupyterservers''), (''cache_url'', JStr ''http://renku-k8s-watcher'')]),
      (''sentry'', default_sentry),
      (''git'', JObj [(''url'', JStr ''https://gitlab.com''), (''registry'', JStr ''registry.gitlab.com'')]),
      (''k8s'', JObj [(''enabled'', JBool True), (''renku_namespace'', JStr ''renku'')]),
      (''cloud_storage'', JObj [(''enabled'', JBool False), (''mount_folder'', JStr ''/cloudstorage'')]),
      (''user_secrets'', JObj [(''image'', JStr ''renku/secrets-mount:latest''),
        (''secrets_storage_service_url'', JStr ''http://renku-secrets-storage'')]),
      (''anonymous_sessions_enabled'', JBool False),
      (''ssh_enabled'', JBool False),
      (''service_prefix'', JStr ''/notebooks''),
      (''version'', JStr ''0.0.0''),
      (''keycloak_realm'', JStr ''Renku''),
      (''data_service_url'', JStr ''http://renku-data-service'')]"

text \<open>\<open>get_config\<close>; \<open>CONFIG_FILE\<close> counts when it is not empty.\<close>

definition get_config :: "loaders \<Rightarrow> string option \<Rightarrow> string option \<Rightarrow> path \<Rightarrow> settings res" where
  "get_config ld config_file release cwd =
     bindE (if str_truthy config_file then merge_file ld default_config (the config_file) else Inr default_config) (\<lambda>tree.
     bindE (merge_env ld tree) (settings_of ld release cwd))"

text \<open>The last line of the module.\<close>

definition limit_anonymous :: "settings \<Rightarrow> settings" where
  "limit_anonymous s = s\<lparr>set_config := (set_config s)\<lparr>cfg_sessions := (cfg_sessions (set_config s))
     \<lparr>culling_anonymous := (culling_anonymous (cfg_sessions (set_config s)))\<lparr>hibernated_seconds := 1\<rparr>\<rparr>\<rparr>\<rparr>"

definition module_config :: "loaders \<Rightarrow> string option \<Rightarrow> string option \<Rightarrow> path \<Rightarrow> settings res" where
  "module_config ld config_file release cwd =
     bindE (get_config ld config_file release cwd) (\<lambda>s. Inr (limit_anonymous s))"

end
