(* ===== verification/SettingsFacts.thy ===== *)
theory SettingsFacts
  imports Settings
begin

text \<open>
  What is known of a configuration that loads: how exact its numbers are, that the defaults of the source
  need five more settings and what they give, and that anonymous sessions never stay hibernated.
\<close>

section \<open>Numbers\<close>

lemma int_part [simp]: "pn_trunc (PFloat (of_int i)) = i"
  by (simp add: pn_trunc_def)

lemma sign_of_digits:
  assumes "list_all is_digit w" and "w \<noteq> []"
  shows "split_sign (strip is_space w) = (False, w)"
  unfolding strip_digits [OF assms(1)] using assms
  by (cases w) (auto simp: split_sign_def is_digit_def code_def)

lemma float_of_digits:
  assumes "list_all is_digit w" and "w \<noteq> []" and "parse_digits w \<le> 2 ^ 53"
  shows "float_of_text w = Some (of_nat (parse_digits w))"
proof -
  have "takeWhile (\<lambda>c. is_digit c \<or> is_dot c) w = w" "list_ex is_digit w"
    using assms(1,2) by (auto simp: takeWhile_eq_all_conv list_all_iff list_ex_iff) (cases w; auto)
  moreover have "filter is_dot w = []"
    using assms(1) by (auto simp: list_all_iff filter_empty_conv is_dot_def is_digit_def code_def)
  moreover have "fl (decimal_value w) = of_nat (parse_digits w)"
    using py_float_digits [OF assms] \<open>list_ex is_digit w\<close> by (simp add: py_float_def)
  ultimately show ?thesis by (simp add: float_of_text_def sign_of_digits [OF assms(1,2)] Let_def del: takeWhile_eq_all_conv)
qed

lemma digits_finite:
  assumes "list_all is_digit w" and "w \<noteq> []"
  shows "\<not> not_finite w"
proof -
  obtain c cs where w: "w = c # cs" using assms(2) by (cases w) auto
  with assms(1) have d: "is_digit c" by simp
  have "\<exists>ds. lower w = c # ds" using w d by (simp add: lower_def lower_char_def is_upper_def is_digit_def)
  with d show ?thesis by (auto simp: not_finite_def sign_of_digits [OF assms] is_digit_def code_def)
qed

text \<open>
  The whole numbers of the configuration, ports and seconds, pass through \<open>float\<close>.  Up to 2^53 nothing
  is lost, whether a number is given as a number or as a text; above it the nearest double counts, as the
  first number shows that a double does not hold.
\<close>

theorem configured_numbers_exact:
  "(\<bar>i\<bar> \<le> 2 ^ 53 \<longrightarrow> parse_value_as_int (JInt i) = Inr i)
   \<and> (n \<le> 2 ^ 53 \<longrightarrow> parse_value_as_int (JStr (show_nat n)) = Inr (int n))
   \<and> parse_value_as_int (JInt (2 ^ 53 + 1)) = Inr (2 ^ 53)"
proof (intro conjI impI)
  assume "\<bar>i\<bar> \<le> 2 ^ 53"
  then show "parse_value_as_int (JInt i) = Inr i"
    using fl_of_int_exact [of i] by (simp add: parse_value_as_int_def parse_value_as_float_def)
next
  assume n: "n \<le> 2 ^ 53"
  have "float_of_text (show_nat n) = Some (of_int (int n))" "\<not> not_finite (show_nat n)"
    using float_of_digits [of "show_nat n"] digits_finite [of "show_nat n"] show_nat_digits n by simp_all
  then show "parse_value_as_int (JStr (show_nat n)) = Inr (int n)"
    by (simp only: parse_value_as_int_def parse_value_as_float_def json.case if_False option.case bindE_simps int_part)
next
  have "exponent 9007199254740993 = 53" by (rule exponent_unique) (simp_all add: pow2_def)
  moreover have "\<lfloor>(9007199254740993 :: rat) / 2\<rfloor> = 4503599627370496" by (rule floor_unique) simp_all
  ultimately have "fl 9007199254740993 = of_int 9007199254740992"
    by (simp add: fl_def pow2_def round_half_even_def Let_def)
  then show "parse_value_as_int (JInt (2 ^ 53 + 1)) = Inr (2 ^ 53)"
    by (simp add: parse_value_as_int_def parse_value_as_float_def pn_trunc_def)
qed

section \<open>The defaults\<close>

text \<open>A variable \<open>NB_A__B\<close> sets the value at a path of the tree.\<close>

fun set_path :: "string list \<Rightarrow> json \<Rightarrow> json \<Rightarrow> json" where
  "set_path [] v _ = v"
| "set_path (k # ks) v (JObj d) = JObj (dset k (set_path ks v (case dget d k of Some x \<Rightarrow> x | None \<Rightarrow> jempty)) d)"
| "set_path _ v x = x"

definition with_required :: "string \<Rightarrow> string \<Rightarrow> string \<Rightarrow> string \<Rightarrow> json \<Rightarrow> json" where
  "with_required host secret token_url auth_url d =
     set_path [''sessions'', ''oidc'', ''auth_url''] (JStr auth_url)
       (set_path [''sessions'', ''oidc'', ''token_url''] (JStr token_url)
         (set_path [''sessions'', ''oidc'', ''client_secret''] (JStr secret)
           (set_path [''sessions'', ''ingress'', ''host''] (JStr host) d)))"

lemmas setting_simps = text_arg_def opt_text_def req_text_def bool_arg_def arg_def req_def text_list_def
  yaml_arg_def parse_str_as_bool_def

lemma int_setting: "\<bar>i\<bar> \<le> 2 ^ 53 \<Longrightarrow> parse_value_as_int (JInt i) = Inr i"
  using fl_of_int_exact [of i] by (simp add: parse_value_as_int_def parse_value_as_float_def)

lemma int_arg_default: "dget d k = None \<Longrightarrow> \<bar>i\<bar> \<le> 2 ^ 53 \<Longrightarrow> int_arg (JObj d) k i = Inr i"
  by (simp add: int_arg_def arg_def int_setting)

lemma int_arg_given: "dget d k = Some (JInt j) \<Longrightarrow> \<bar>j\<bar> \<le> 2 ^ 53 \<Longrightarrow> int_arg (JObj d) k i = Inr j"
  by (simp add: int_arg_def arg_def int_setting)

lemma default_culling_loads:
  "bindE (req default_culling ''anonymous'') culling_of = Inr \<lparr>idle_seconds = 43200, max_age_seconds = 0, hibernated_seconds = 1\<rparr>"
  "bindE (req default_culling ''registered'') culling_of = Inr \<lparr>idle_seconds = 86400, max_age_seconds = 0, hibernated_seconds = 259200\<rparr>"
  by (simp_all add: default_culling_def culling_of_def req_def int_arg_given)

lemma no_sentry_loads: "sentry_of no_sentry =
    Inr \<lparr>sentry_enabled = False, sentry_dsn = None, sentry_env = None, sentry_sample_rate = fl (1 / 5)\<rparr>"
  by (simp add: sentry_of_def no_sentry_def setting_simps parse_value_as_float_def)

lemma default_sentry_loads: "sentry_of default_sentry =
    Inr \<lparr>sentry_enabled = False, sentry_dsn = None, sentry_env = None, sentry_sample_rate = fl (1 / 5)\<rparr>"
  by (simp add: sentry_of_def default_sentry_def setting_simps parse_value_as_float_def)

lemma default_sessions_load:
  assumes "yaml_load ld ''{}'' = Inr jempty" and "yaml_load ld ''[]'' = Inr (JArr [])" and "load_enum ld (JStr ''off'') = Inr OFF"
  shows "\<exists>s. sessions_of ld (set_path [''oidc'', ''auth_url''] (JStr auth_url)
       (set_path [''oidc'', ''token_url''] (JStr token_url)
         (set_path [''oidc'', ''client_secret''] (JStr secret)
           (set_path [''ingress'', ''host''] (JStr host) default_sessions)))) = Inr s
     \<and> ingress_host s = host \<and> oidc_client_secret s = secret \<and> pvs_enabled s \<and> enforce_cpu_limits s = OFF
     \<and> culling_registered s = \<lparr>idle_seconds = 86400, max_age_seconds = 0, hibernated_seconds = 259200\<rparr>
     \<and> culling_anonymous s = \<lparr>idle_seconds = 43200, max_age_seconds = 0, hibernated_seconds = 1\<rparr>
     \<and> gpx_port (cfg_git_proxy s) = 8080 \<and> rpc_port (cfg_git_rpc s) = 4000
     \<and> containers_registered s = [''jupyter-server'', ''oauth2-proxy'', ''git-proxy'', ''git-sidecar'']
     \<and> init_container_list s = [''init-certificates'', ''download-image'', ''git-clone'']"
  using assms default_culling_loads
  by (simp add: default_sessions_def sessions_of_def git_proxy_of_def git_rpc_of_def git_clone_of_def ingress_of_def
      ca_certs_of_def oidc_of_def storage_of_def containers_of_def ssh_of_def no_sentry_loads int_arg_given int_arg_default
      setting_simps default_init_containers_def)

lemma default_settings_load:
  assumes "server_options_of ld (JObj [(''defaults_path'', JStr ''tests/unit/dummy_server_defaults.json''),
      (''ui_choices_path'', JStr ''tests/unit/dummy_server_options.json'')]) = Inr (defaults, choices)"
    and "sessions_of ld x = Inr ss"
  shows "\<exists>s. settings_of ld release cwd (set_path [''sessions''] x default_config) = Inr s \<and> set_defaults s = defaults
    \<and> set_choices s = choices \<and> set_prefix s = ''/notebooks'' \<and> set_k8s_enabled s
    \<and> cloud_storage_enabled (set_config s) = JBool False \<and> cfg_sessions (set_config s) = ss
    \<and> \<not> anonymous_sessions_enabled (set_config s)"
  using assms
  by (simp add: settings_of_def default_config_def default_sentry_loads git_of_def amalthea_of_def k8s_of_def
      cloud_storage_of_def user_secrets_of_def setting_simps)


text \<open>
  However the service is configured, the session of an anonymous user is never kept forever once it is
  hibernated: where its resource class says nothing, its threshold is one second, never the zero that
  stands for \<open>never\<close>.
\<close>

theorem anonymous_hibernation_ends:
  assumes "module_config ld config_file release cwd = Inr s" and "user_anonymous u"
    and "so_hibernation_threshold_seconds opts = None"
  shows "hibernation_threshold (set_config s) u opts = 1"
  using assms by (auto simp: module_config_def bindE_Inr_iff limit_anonymous_def hibernation_threshold_def)

definition example_loaders :: loaders where
  "example_loaders =
     \<lparr>merge_file = (\<lambda>t p. Inl (ValueError p)),
      merge_env = (\<lambda>t. Inr (with_required ''renku.example.org'' ''s'' ''https://kc/token'' ''https://kc/auth'' t)),
      load_enum = (\<lambda>v. if v = JStr ''off'' then Inr OFF else Inl (ValueError ''enum'')),
      yaml_load = (\<lambda>t. if t = ''{}'' then Inr jempty else if t = ''[]'' then Inr (JArr []) else Inl (ValueError t)),
      read_json = (\<lambda>p. Inr (if p = ''tests/unit/dummy_server_defaults.json''
         then JObj [(''defaultUrl'', JStr ''/lab''), (''lfs_auto_fetch'', JBool False)] else jempty))\<rparr>"


end
