(* ===== verification/App.thy ===== *)
theory App
  imports Requests Settings
begin

text \<open>
  The application around the handlers (\<open>renku_notebooks/__init__.py\<close>, \<open>api/health.py\<close>): the middleware that
  makes the service reachable below a prefix, the health check, and the service that a configuration
  gives.
\<close>

section \<open>Behind a reverse proxy\<close>

text \<open>The environment of a WSGI request, as far as the middleware uses it: texts under names.\<close>

type_synonym wsgi = "(string, string) dict"

definition environ_get :: "wsgi \<Rightarrow> string \<Rightarrow> string" where
  "environ_get environ k = (case dget environ k of None \<Rightarrow> [] | Some v \<Rightarrow> v)"

definition reverse_proxied :: "wsgi \<Rightarrow> wsgi res" where
  "reverse_proxied environ =
     (let script_name = environ_get environ ''HTTP_X_SCRIPT_NAME'' in
      bindE
        (if script_name = [] then Inr environ
         else
           (let e = dset ''SCRIPT_NAME'' script_name environ in
            case dget e ''PATH_INFO'' of
              None \<Rightarrow> Inl (KeyError ''PATH_INFO'')
            | Some path_info \<Rightarrow>
                Inr (if startswith path_info script_name
                     then dset ''PATH_INFO'' (drop (length script_name) path_info) e else e))) (\<lambda>e.
      let scheme = environ_get e ''HTTP_X_SCHEME'' in
      Inr (if scheme = [] then e else dset ''wsgi.url_scheme'' scheme e)))"

section \<open>The health check\<close>

definition health :: "settings \<Rightarrow> string" where
  "health s = ''service running under '' @ set_prefix s"

section \<open>The service of a configuration\<close>

text \<open>
  The configuration is read once, when the module is loaded; every handler takes its values from there.
  \<open>dummy\<close> is what the configuration does not give: the packages.
\<close>

definition configured :: "settings \<Rightarrow> 'w web \<Rightarrow> 'w web" where
  "configured s dummy = dummy\<lparr>sv_cfg := set_config s, sv_defaults := set_defaults s, web_choices := set_choices s\<rparr>"

section \<open>Facts\<close>

text \<open>
  The middleware moves a prefix and loses nothing: the path that it hands on, behind the name of the script, is
  the path of the request wherever that path has the prefix, and headers are left as they are.
\<close>

theorem proxied_path:
  assumes "dget environ ''HTTP_X_SCRIPT_NAME'' = Some p" and "p \<noteq> []" and "dget environ ''PATH_INFO'' = Some (p @ rest)"
  shows "\<exists>e. reverse_proxied environ = Inr e \<and> dget e ''SCRIPT_NAME'' = Some p \<and> dget e ''PATH_INFO'' = Some rest
    \<and> (startswith k ''HTTP_'' \<longrightarrow> dget e k = dget environ k)"
  using assms by (auto simp: reverse_proxied_def environ_get_def Let_def dget_dset startswith_append)

end
