(* ===== verification/Migrations.thy ===== *)
theory Migrations
  imports MergePatch Regex
begin

text \<open>
  The migrations of session objects (\<open>resource_schema_migrations\<close>): the loop over the pages of a listing,
  the patch of one session, and the choice of the pod that runs them.  The Kubernetes API is a parameter.
\<close>

section \<open>The patch of a session\<close>

record migration_args =
  ma_namespace :: string
  ma_dry_run :: bool
  ma_group :: string
  ma_api_version :: string
  ma_plural :: string
  ma_prefix :: string

definition schema_version_label_name :: string where
  "schema_version_label_name = ''schemaVersion''"

definition pagination_limit :: nat where
  "pagination_limit = 50"

definition annotation_keys :: "migration_args \<Rightarrow> string list" where
  "annotation_keys args = [ma_prefix args @ ''projectName'', ma_prefix args @ ''namespace'']"

text \<open>One turn of the loop over the keys; a \<open>KeyError\<close> of the annotations skips the key.\<close>

definition lower_annotation :: "json \<Rightarrow> (string, json) dict \<Rightarrow> string \<Rightarrow> (string, json) dict res" where
  "lower_annotation js patches k =
     bindE (jitems js [''metadata'', ''annotations'']) (\<lambda>annotations.
       case jitem annotations k of
         Inl (KeyError _) \<Rightarrow> Inr patches
       | Inl e \<Rightarrow> Inl e
       | Inr v \<Rightarrow> bindE (jstr v) (\<lambda>s. Inr (if s \<noteq> lower s then dset k (JStr (lower s)) patches else patches)))"

definition session_patch :: "migration_args \<Rightarrow> json \<Rightarrow> (string \<times> json) res" where
  "session_patch args js =
     bindE (jitems js [''metadata'', ''name'']) (\<lambda>js_name.
     bindE (foldE (lower_annotation js) [] (annotation_keys args)) (\<lambda>annotation_patches.
     Inr (py_str js_name, JObj [(''metadata'', JObj
       ([(''labels'', JObj [(ma_prefix args @ schema_version_label_name, JStr ''1'')])]
        @ (if annotation_patches = [] then [] else [(''annotations'', JObj annotation_patches)])))])))"

section \<open>The loop over the pages\<close>

text \<open>
  \<open>list_objects ka args selector limit token\<close> is a page of the listing from a continuation token on,
  \<open>patch_object ka args name body\<close> merges a body into an object.
\<close>

record 'w objects_api =
  list_objects :: "migration_args \<Rightarrow> string \<Rightarrow> nat \<Rightarrow> json \<Rightarrow> ('w, json) eff"
  patch_object :: "migration_args \<Rightarrow> string \<Rightarrow> json \<Rightarrow> ('w, json) eff"

fun migrate_items :: "'w objects_api \<Rightarrow> migration_args \<Rightarrow> json list \<Rightarrow> ('w, unit) eff" where
  "migrate_items ka args [] = ret ()"
| "migrate_items ka args (js # jss) =
     bindC (liftE (session_patch args js)) (\<lambda>(js_name, patch).
     bindC (if ma_dry_run args then ret JNull else patch_object ka args js_name patch) (\<lambda>_.
     migrate_items ka args jss))"

definition version_selector :: "migration_args \<Rightarrow> string" where
  "version_selector args = ''!'' @ ma_prefix args @ schema_version_label_name"

definition next_page_of :: "json \<Rightarrow> json res" where
  "next_page_of jss = bindE (jitem jss ''metadata'') (\<lambda>m. jget m ''continue'' JNull)"

definition migrate_page :: "'w objects_api \<Rightarrow> migration_args \<Rightarrow> json \<Rightarrow> ('w, json) eff" where
  "migrate_page ka args next_page =
     bindC (list_objects ka args (version_selector args) pagination_limit next_page) (\<lambda>jss.
     bindC (liftE (bindE (jitem jss ''items'') jiter)) (\<lambda>items.
     bindC (migrate_items ka args items) (\<lambda>_. liftE (next_page_of jss))))"

definition last_page :: "json \<Rightarrow> bool" where
  "last_page next_page \<longleftrightarrow> next_page = JNull \<or> next_page = JStr []"

text \<open>The \<open>while True\<close>; \<open>None\<close> is a loop that never ends.\<close>

partial_function (option) migrate_from ::
  "'w objects_api \<Rightarrow> migration_args \<Rightarrow> json \<Rightarrow> 'w \<Rightarrow> ((exc + unit) \<times> 'w) option" where
  "migrate_from ka args next_page w =
     (case migrate_page ka args next_page w of
        (Inl e, w') \<Rightarrow> Some (Inl e, w')
      | (Inr p, w') \<Rightarrow> if last_page p then Some (Inr (), w') else migrate_from ka args p w')"

definition adjust_annotations :: "'w objects_api \<Rightarrow> migration_args \<Rightarrow> 'w \<Rightarrow> ((exc + unit) \<times> 'w) option" where
  "adjust_annotations ka args w = migrate_from ka args (JStr []) w"

section \<open>The pod that migrates\<close>

text \<open>\<open>.*-0$\<close>.\<close>

definition first_pod_rx :: rx where
  "first_pod_rx = seqs [Rep 0 (\<lambda>c. code c \<noteq> 10), One (\<lambda>c. c = CHR ''-''), One (\<lambda>c. c = CHR ''0''), Eol]"

definition runs_migrations :: "string option \<Rightarrow> bool" where
  "runs_migrations pod_name = (case pod_name of None \<Rightarrow> False | Some n \<Rightarrow> re_match first_pod_rx n \<noteq> None)"

definition run_all :: "'w objects_api \<Rightarrow> migration_args \<Rightarrow> string option \<Rightarrow> 'w \<Rightarrow> ((exc + unit) \<times> 'w) option" where
  "run_all ka args pod_name w = (if runs_migrations pod_name then adjust_annotations ka args w else Some (Inr (), w))"

section \<open>Facts\<close>

text \<open>An annotation of a session that is a text.\<close>

definition annotation_of :: "json \<Rightarrow> string \<Rightarrow> string option" where
  "annotation_of js k = (case jitems js [''metadata'', ''annotations'', k] of Inr (JStr s) \<Rightarrow> Some s | _ \<Rightarrow> None)"

definition add_lower :: "json \<Rightarrow> string \<Rightarrow> (string, json) dict \<Rightarrow> (string, json) dict" where
  "add_lower js k ps = (case annotation_of js k of
     Some s \<Rightarrow> if s \<noteq> lower s then dset k (JStr (lower s)) ps else ps | None \<Rightarrow> ps)"

lemma annotation_of_eq:
  assumes "jitems js [''metadata'', ''annotations''] = Inr anns"
  shows "annotation_of js k = (case jitem anns k of Inr (JStr s) \<Rightarrow> Some s | _ \<Rightarrow> None)"
proof -
  from assms obtain m where "jitem js ''metadata'' = Inr m" "jitem m ''annotations'' = Inr anns"
    by (auto simp: bindE_Inr_iff)
  then show ?thesis by (simp add: annotation_of_def)
qed

lemma lower_annotation_Inr:
  assumes "lower_annotation js ps k = Inr qs"
  shows "qs = add_lower js k ps"
proof -
  from assms obtain anns where anns: "jitems js [''metadata'', ''annotations''] = Inr anns"
    and run: "(case jitem anns k of
         Inl (KeyError _) \<Rightarrow> Inr ps
       | Inl e \<Rightarrow> Inl e
       | Inr v \<Rightarrow> bindE (jstr v) (\<lambda>s. Inr (if s \<noteq> lower s then dset k (JStr (lower s)) ps else ps))) = Inr qs"
    unfolding lower_annotation_def bindE_Inr_iff by blast
  show ?thesis
  proof (cases "jitem anns k")
    case (Inl e)
    with run show ?thesis by (cases e) (simp_all add: add_lower_def annotation_of_eq [OF anns])
  next
    case (Inr v)
    with run show ?thesis by (cases v) (auto simp: add_lower_def annotation_of_eq [OF anns])
  qed
qed

lemma add_lower_texts:
  "distinct (map fst ps) \<and> list_all (\<lambda>(_, v). \<exists>s. v = JStr s) ps \<Longrightarrow>
   distinct (map fst (add_lower js k ps)) \<and> list_all (\<lambda>(_, v). \<exists>s. v = JStr s) (add_lower js k ps)"
proof -
  have "list_all (\<lambda>(_, v). \<exists>s. v = JStr s) ps \<Longrightarrow> list_all (\<lambda>(_, v). \<exists>s. v = JStr s) (dset k (JStr t) ps)" for t
    by (induction ps) auto
  then show "distinct (map fst ps) \<and> list_all (\<lambda>(_, v). \<exists>s. v = JStr s) ps \<Longrightarrow> ?thesis"
    by (auto simp: add_lower_def distinct_dset split: option.splits)
qed

definition annotation_patches :: "migration_args \<Rightarrow> json \<Rightarrow> (string, json) dict" where
  "annotation_patches args js = fold (add_lower js) (annotation_keys args) []"

lemma session_patch_Inr:
  assumes "session_patch args js = Inr (name, patch)"
  shows "patch = JObj [(''metadata'', JObj
       ([(''labels'', JObj [(ma_prefix args @ schema_version_label_name, JStr ''1'')])]
        @ (if annotation_patches args js = [] then [] else [(''annotations'', JObj (annotation_patches args js))])))]"
proof -
  from assms obtain ps qs where "lower_annotation js [] (ma_prefix args @ ''projectName'') = Inr ps"
    "lower_annotation js ps (ma_prefix args @ ''namespace'') = Inr qs"
    and patch: "patch = JObj [(''metadata'', JObj
       ([(''labels'', JObj [(ma_prefix args @ schema_version_label_name, JStr ''1'')])]
        @ (if qs = [] then [] else [(''annotations'', JObj qs)])))]"
    unfolding session_patch_def annotation_keys_def bindE_Inr_iff foldE.simps by blast
  then have "qs = annotation_patches args js"
    by (auto simp: annotation_patches_def annotation_keys_def dest!: lower_annotation_Inr)
  with patch show ?thesis by simp
qed

lemma annotation_patches_texts:
  "distinct (map fst (annotation_patches args js))"
  "list_all (\<lambda>(_, v). \<exists>s. v = JStr s) (annotation_patches args js)"
  using add_lower_texts [of "add_lower js k []" for k] add_lower_texts [of "[]"]
  by (simp_all add: annotation_patches_def annotation_keys_def)

lemma dget_annotation_patches:
  "dget (annotation_patches args js) k =
     (if k \<in> set (annotation_keys args)
      then (case annotation_of js k of Some s \<Rightarrow> if s \<noteq> lower s then Some (JStr (lower s)) else None | None \<Rightarrow> None)
      else None)"
  by (auto simp: annotation_patches_def annotation_keys_def add_lower_def split: option.splits)

text \<open>
  C31. A migrated session: after the cluster has merged the patch, the session carries the version label, its
  annotations for the project's name and namespace are the lower-case forms of what they were, and every other
  annotation is as before.
\<close>

theorem migrated_session:
  assumes "session_patch args js = Inr (name, patch)"
  shows "jitems (merge patch js) [''metadata'', ''labels'', ma_prefix args @ ''schemaVersion''] = Inr (JStr ''1'')
    \<and> annotation_of (merge patch js) k =
        (if k \<in> {ma_prefix args @ ''projectName'', ma_prefix args @ ''namespace''}
         then map_option lower (annotation_of js k) else annotation_of js k)"
proof -
  obtain ps where "lower_annotation js [] (ma_prefix args @ ''projectName'') = Inr ps"
    using assms unfolding session_patch_def annotation_keys_def bindE_Inr_iff foldE.simps by blast
  then obtain anns v where "jitems js [''metadata'', ''annotations''] = Inr anns"
    and "(case jitem anns (ma_prefix args @ ''projectName'') of
         Inl (KeyError _) \<Rightarrow> Inr []
       | Inl e \<Rightarrow> Inl e
       | Inr v \<Rightarrow> bindE (jstr v) (\<lambda>s. Inr (if s \<noteq> lower s then dset (ma_prefix args @ ''projectName'') (JStr (lower s)) [] else []))) = Inr v"
    unfolding lower_annotation_def bindE_Inr_iff by blast
  then obtain d meta ad where js: "js = JObj d" "dget d ''metadata'' = Some (JObj meta)" "dget meta ''annotations'' = Some (JObj ad)"
    by (cases anns) (auto simp: bindE_Inr_iff jitem_Inr_iff)
  let ?ps = "annotation_patches args js"
  have old: "annotation_of js q = (case dget ad q of Some (JStr s) \<Rightarrow> Some s | _ \<Rightarrow> None)" for q
    using js by (simp add: annotation_of_def split: option.splits)
  have label: "jitems (merge patch js) [''metadata'', ''labels'', ma_prefix args @ ''schemaVersion''] = Inr (JStr ''1'')"
    by (simp add: session_patch_Inr [OF assms] js schema_version_label_name_def)
  have "annotation_of (merge patch js) k = (case dget (merge_members ?ps ad) k of Some (JStr s) \<Rightarrow> Some s | _ \<Rightarrow> None)"
    by (cases "?ps = []") (simp_all add: annotation_of_def session_patch_Inr [OF assms] js split: option.splits)
  then have "annotation_of (merge patch js) k = (case dget ?ps k of Some (JStr s) \<Rightarrow> Some s | _ \<Rightarrow> annotation_of js k)"
    using annotation_patches_texts(2) [of args js]
    by (auto simp: dget_merge_texts annotation_patches_texts old dget_annotation_patches split: option.splits json.splits)
  also have "\<dots> = (if k \<in> {ma_prefix args @ ''projectName'', ma_prefix args @ ''namespace''}
         then map_option lower (annotation_of js k) else annotation_of js k)"
    by (auto simp: dget_annotation_patches annotation_keys_def split: option.splits)
  finally show ?thesis using label by simp
qed

section \<open>The loop\<close>

text \<open>
  C32. The migration ends: when the continuation tokens of the listing lead to a last page, each page's token
  being closer to it than the one that asked for the page, the loop returns, with the work done or an error.
\<close>

theorem migration_terminates:
  fixes distance :: "json \<Rightarrow> nat"
  assumes "\<And>p w q w'. migrate_page ka args p w = (Inr q, w') \<Longrightarrow> last_page q \<or> distance q < distance p"
  shows "\<exists>r w'. adjust_annotations ka args w = Some (r, w')"
proof -
  have "\<exists>r w'. migrate_from ka args p w = Some (r, w')" for p
  proof (induction "distance p" arbitrary: p w rule: less_induct)
    case less
    obtain r w1 where page: "migrate_page ka args p w = (r, w1)" by (cases "migrate_page ka args p w")
    show ?case
    proof (cases r)
      case (Inl e)
      with page show ?thesis by (simp add: migrate_from.simps)
    next
      case (Inr q)
      with page assms [of p w q w1] less [of q w1] show ?thesis
        by (subst migrate_from.simps) auto
    qed
  qed
  then show ?thesis by (simp add: adjust_annotations_def)
qed

lemma reads_only_migrate_page:
  assumes "ma_dry_run args" and "\<And>s l p. reads_only (list_objects ka args s l p)"
  shows "reads_only (migrate_page ka args p)"
proof -
  have "reads_only (migrate_items ka args items)" for items
  proof (induction items)
    case (Cons js items)
    then show ?case using assms(1) by (auto simp del: comp_simps intro!: reads_only_intros)
  qed (simp only: migrate_items.simps reads_only_intros)
  with assms(2) show ?thesis unfolding migrate_page_def by (intro reads_only_bindC reads_only_intros)
qed

lemma migrate_from_passive:
  assumes "migrate_from ka args p w = Some x"
  shows "(\<forall>q. reads_only (migrate_page ka args q)) \<longrightarrow> snd x = w"
proof (rule migrate_from.raw_induct [where P = "\<lambda>ka args p w x. (\<forall>q. reads_only (migrate_page ka args q)) \<longrightarrow> snd x = w"])
  fix loop and ka :: "'a objects_api" and args p w x
  assume IH: "\<And>ka args p w x. loop ka args p w = Some x \<Longrightarrow> (\<forall>q. reads_only (migrate_page ka args q)) \<longrightarrow> snd x = w"
    and run: "(case migrate_page ka args p w of
        (Inl e, w') \<Rightarrow> Some (Inl e, w')
      | (Inr p, w') \<Rightarrow> if last_page p then Some (Inr (), w') else loop ka args p w') = Some x"
  show "(\<forall>q. reads_only (migrate_page ka args q)) \<longrightarrow> snd x = w"
  proof
    assume quiet: "\<forall>q. reads_only (migrate_page ka args q)"
    obtain r w1 where page: "migrate_page ka args p w = (r, w1)" by (cases "migrate_page ka args p w")
    with quiet have "w1 = w" by (blast dest: reads_onlyD)
    with IH run page quiet show "snd x = w"
      by (cases r) (auto split: if_splits)
  qed
qed (rule assms)

text \<open>
  A dry run changes nothing: when listing the sessions does not change the cluster, the cluster after a
  dry run is the one before it, however many pages there are and however the run ends.
\<close>

theorem dry_run_changes_nothing:
  assumes "ma_dry_run args" and "\<And>s l p. reads_only (list_objects ka args s l p)"
    and "run_all ka args pod_name w = Some (r, w')"
  shows "w' = w"
  using migrate_from_passive [of ka args "JStr []" w "(r, w')"] assms reads_only_migrate_page [OF assms(1, 2)]
  by (auto simp: run_all_def adjust_annotations_def split: if_splits)

section \<open>Witnesses\<close>

definition old_session :: json where
  "old_session = JObj [(''metadata'', JObj [(''name'', JStr ''s''), (''annotations'', JObj
     [(''renku.io/projectName'', JStr ''My-Project''), (''renku.io/namespace'', JStr ''group''), (''renku.io/branch'', JStr ''Dev'')])])]"

definition default_args :: migration_args where
  "default_args = \<lparr>ma_namespace = ''default'', ma_dry_run = True, ma_group = ''amalthea.dev'', ma_api_version = ''v1alpha1'',
     ma_plural = ''jupyterservers'', ma_prefix = ''renku.io/''\<rparr>"

text \<open>Two pages over a world that counts the patches.\<close>

definition two_pages :: "nat objects_api" where
  "two_pages = \<lparr>list_objects = (\<lambda>a s l p w. (Inr (JObj [(''items'', JArr [old_session]),
       (''metadata'', JObj (if p = JStr [] then [(''continue'', JStr ''t'')] else []))]), w)),
     patch_object = (\<lambda>a n b w. (Inr JNull, Suc w))\<rparr>"

theorem migrated_session_witness:
  "\<exists>patch. session_patch default_args old_session = Inr (''s'', patch)
     \<and> annotation_of (merge patch old_session) ''renku.io/projectName'' = Some ''my-project''"
proof -
  obtain patch where p: "session_patch default_args old_session = Inr (''s'', patch)"
    by (simp add: session_patch_def annotation_keys_def lower_annotation_def default_args_def old_session_def)
  have k: "''renku.io/projectName'' \<in> {ma_prefix default_args @ ''projectName'', ma_prefix default_args @ ''namespace''}"
    by (simp add: default_args_def)
  have "annotation_of old_session ''renku.io/projectName'' = Some ''My-Project''"
    by (simp add: annotation_of_def old_session_def)
  moreover have "lower ''My-Project'' = ''my-project''" by code_simp
  ultimately have "annotation_of (merge patch old_session) ''renku.io/projectName'' = Some ''my-project''"
    using migrated_session [OF p, of "''renku.io/projectName''"] k by simp
  with p show ?thesis by blast
qed

lemma two_pages_next:
  "migrate_page two_pages default_args p w = (Inr q, w') \<Longrightarrow> q = (if p = JStr [] then JStr ''t'' else JNull)"
  by (auto simp: migrate_page_def bindC_Inr_iff two_pages_def next_page_of_def split: if_splits)

lemma two_pages_distance:
  "migrate_page two_pages default_args p w = (Inr q, w') \<Longrightarrow>
     last_page q \<or> (if q = JStr [] then 1 else 0) < (if p = JStr [] then 1 else (0 :: nat))"
  by (auto dest!: two_pages_next simp: last_page_def)

theorem migration_terminates_witness:
  "\<exists>r w'. adjust_annotations two_pages default_args 0 = Some (r, w')"
  by (rule migration_terminates [where distance = "\<lambda>p. if p = JStr [] then 1 else 0"]) (rule two_pages_distance)

lemma two_pages_run:
  "\<exists>r w'. run_all two_pages default_args (Some ''notebooks-0'') 0 = Some (r, w')"
proof -
  have first: "migrate_page two_pages default_args (JStr []) w = (Inr (JStr ''t''), w)"
    and second: "migrate_page two_pages default_args (JStr ''t'') w = (Inr JNull, w)" for w
    by (simp_all add: migrate_page_def two_pages_def next_page_of_def bindC_def session_patch_def annotation_keys_def
        lower_annotation_def default_args_def old_session_def)
  have "adjust_annotations two_pages default_args 0 = Some (Inr (), 0)"
    by (simp add: adjust_annotations_def migrate_from.simps first second last_page_def)
  moreover have "runs_migrations (Some ''notebooks-0'')" by code_simp
  ultimately show ?thesis by (simp add: run_all_def)
qed

theorem dry_run_changes_nothing_witness:
  "\<exists>r w'. run_all two_pages default_args (Some ''notebooks-0'') 0 = Some (r, w') \<and> w' = 0"
proof -
  from two_pages_run obtain r w' where run: "run_all two_pages default_args (Some ''notebooks-0'') 0 = Some (r, w')" by blast
  moreover have "w' = 0"
    by (rule dry_run_changes_nothing [OF _ _ run]) (simp_all add: default_args_def two_pages_def reads_only_def)
  ultimately show ?thesis by blast
qed

end
