(* ===== verification/Liveness.thy ===== *)
theory Liveness
  imports Paths Prelude "HOL-Library.Word" Pyfloat
begin

text \<open>
  The liveness detector (\<open>liveness_detector/activity_watcher.py\<close> and its endpoint): the time stamps of
  the last activity on files and terminals, and the inotify watches that feed them.  inotify itself is
  the environment: an event reaches the detector when it happens in a directory that is watched for it.
\<close>

unbundle bit_operations_syntax

section \<open>Masks\<close>

definition ACCESS :: "32 word" where "ACCESS = 0x1"
definition MODIFY :: "32 word" where "MODIFY = 0x2"
definition CREATE :: "32 word" where "CREATE = 0x100"
definition DELETE :: "32 word" where "DELETE = 0x200"
definition ISDIR :: "32 word" where "ISDIR = 0x40000000"

definition directory_created :: "32 word" where "directory_created = CREATE OR ISDIR"
definition directory_deleted :: "32 word" where "directory_deleted = DELETE OR ISDIR"
definition workdir_mask :: "32 word" where "workdir_mask = MODIFY OR CREATE OR DELETE"

lemmas mask_defs = ACCESS_def MODIFY_def CREATE_def DELETE_def ISDIR_def directory_created_def directory_deleted_def
  workdir_mask_def

definition has_mask :: "32 word \<Rightarrow> 32 word \<Rightarrow> bool" where
  "has_mask m k \<longleftrightarrow> m AND k = k"

section \<open>The watcher\<close>

text \<open>The watches: a mask for each watched path.  Adding a watch for a watched path replaces its mask.\<close>

record watcher =
  wa_last_tty :: rat
  wa_last_file :: rat
  wa_watches :: "(path, 32 word) dict"

definition last_file_activity :: "watcher \<Rightarrow> int" where
  "last_file_activity w = pn_trunc (PFloat (wa_last_file w))"

definition last_tty_activity :: "watcher \<Rightarrow> int" where
  "last_tty_activity w = pn_trunc (PFloat (wa_last_tty w))"

definition add_watch :: "path \<Rightarrow> 32 word \<Rightarrow> watcher \<Rightarrow> watcher" where
  "add_watch p m w = w\<lparr>wa_watches := dset p m (wa_watches w)\<rparr>"

definition rm_watch :: "path \<Rightarrow> watcher \<Rightarrow> watcher" where
  "rm_watch p w = w\<lparr>wa_watches := filter (\<lambda>kv. fst kv \<noteq> p) (wa_watches w)\<rparr>"

text \<open>
  \<open>__init__\<close> and the part of \<open>run_inotify\<close> before the loop: \<open>walked\<close> are the directories that
  \<open>workdir.walk()\<close> lists.
\<close>

definition start_watcher :: "rat \<Rightarrow> path \<Rightarrow> path list \<Rightarrow> watcher" where
  "start_watcher now workdir walked =
     fold (\<lambda>p. add_watch p workdir_mask) (workdir # walked)
       (add_watch (path_of ''/dev/pts'') ACCESS \<lparr>wa_last_tty = now, wa_last_file = now, wa_watches = []\<rparr>)"

record fs_event =
  ev_watch :: path
  ev_mask :: "32 word"
  ev_name :: string

definition on_event :: "rat \<Rightarrow> fs_event \<Rightarrow> watcher \<Rightarrow> watcher" where
  "on_event now e w =
     (let w1 = (if has_mask (ev_mask e) ACCESS then w\<lparr>wa_last_tty := now\<rparr> else w\<lparr>wa_last_file := now\<rparr>)
      in if has_mask (ev_mask e) directory_created
         then add_watch (path_join (ev_watch e) (path_of (ev_name e))) workdir_mask w1
         else if has_mask (ev_mask e) directory_deleted then rm_watch (ev_watch e) w1
         else w1)"

section \<open>The health check\<close>

definition healthz :: "rat \<Rightarrow> watcher \<Rightarrow> rat \<times> int \<times> int" where
  "healthz load w = (load, last_file_activity w, last_tty_activity w)"

section \<open>Runs\<close>

text \<open>
  What happens in the file system: \<open>(now, e)\<close> is the event \<open>e\<close> in the directory \<open>ev_watch e\<close> at the time
  \<open>now\<close>.  The detector sees it if the directory is watched for one of the event's bits.
\<close>

definition delivered :: "watcher \<Rightarrow> fs_event \<Rightarrow> bool" where
  "delivered w e \<longleftrightarrow> (case dget (wa_watches w) (ev_watch e) of None \<Rightarrow> False | Some m \<Rightarrow> ev_mask e AND m \<noteq> 0)"

inductive step :: "watcher \<Rightarrow> rat \<times> fs_event \<Rightarrow> watcher \<Rightarrow> bool" where
  seen: "delivered w e \<Longrightarrow> step w (now, e) (on_event now e w)"
| unseen: "\<not> delivered w e \<Longrightarrow> step w (now, e) w"

inductive runs :: "watcher \<Rightarrow> (rat \<times> fs_event) list \<Rightarrow> watcher \<Rightarrow> bool" where
  stop: "runs w [] w"
| more: "step w x w1 \<Longrightarrow> runs w1 xs w2 \<Longrightarrow> runs w (x # xs) w2"

inductive_cases stepE [elim]: "step w (now, e) w'"
inductive_cases runs_NilE [elim!]: "runs w [] w'"
inductive_cases runs_ConsE [elim]: "runs w (x # xs) w'"
inductive_simps runs_simps: "runs w [] w'" "runs w (x # xs) w'"

lemma runs_append: "runs w xs w1 \<Longrightarrow> runs w1 ys w2 \<Longrightarrow> runs w (xs @ ys) w2"
  by (induction rule: runs.induct) (auto intro: runs.intros)

lemma step_exists: "\<exists>w'. step w x w'"
  by (cases x) (metis seen unseen)

text \<open>An invariant of the steps is one of the runs.\<close>

lemma runs_invariant:
  assumes "runs w xs w'" and "P w"
    and "\<And>w x w'. x \<in> set xs \<Longrightarrow> P w \<Longrightarrow> step w x w' \<Longrightarrow> P w'"
  shows "P w'"
  using assms by (induction rule: runs.induct) auto

section \<open>Facts\<close>

definition watched :: "watcher \<Rightarrow> path \<Rightarrow> bool" where
  "watched w p \<longleftrightarrow> dget (wa_watches w) p \<noteq> None"

lemma watched_simps [simp]:
  "watched (add_watch p m w) q \<longleftrightarrow> q = p \<or> watched w q"
  "watched (w\<lparr>wa_last_tty := t\<rparr>) q = watched w q" "watched (w\<lparr>wa_last_file := t\<rparr>) q = watched w q"
  "wa_last_file (add_watch p m w) = wa_last_file w" "wa_last_tty (add_watch p m w) = wa_last_tty w"
  "wa_last_file (rm_watch p w) = wa_last_file w" "wa_last_tty (rm_watch p w) = wa_last_tty w"
  by (auto simp: watched_def add_watch_def rm_watch_def)

lemma watched_rm_watch [simp]: "watched (rm_watch p w) q \<longleftrightarrow> q \<noteq> p \<and> watched w q"
proof -
  have "dget (filter (\<lambda>kv. fst kv \<noteq> p) d) q = (if q = p then None else dget d q)" for d :: "(path, 32 word) dict"
    by (induction d) auto
  then show ?thesis by (simp add: watched_def rm_watch_def)
qed

lemma watched_start: "watched (start_watcher now workdir walked) p \<longleftrightarrow> p \<in> set (path_of ''/dev/pts'' # workdir # walked)"
proof -
  have "watched (fold (\<lambda>p. add_watch p m) ps w) p \<longleftrightarrow> p \<in> set ps \<or> watched w p" for ps m w
    by (induction ps arbitrary: w) auto
  then show ?thesis by (auto simp: start_watcher_def) (simp_all add: watched_def)
qed

text \<open>Every watch of a directory of the work tree listens to changes.\<close>

definition listening :: "watcher \<Rightarrow> bool" where
  "listening w \<longleftrightarrow> (\<forall>p m. dget (wa_watches w) p = Some m \<longrightarrow> p = path_of ''/dev/pts'' \<or> m = workdir_mask)"

lemma listening_step: "step w x w' \<Longrightarrow> listening w \<Longrightarrow> listening w'"
proof (induction rule: step.induct)
  case (seen w e now)
  have "dget (filter (\<lambda>kv. fst kv \<noteq> p) d) q = (if q = p then None else dget d q)" for p q and d :: "(path, 32 word) dict"
    by (induction d) auto
  with seen(2) show ?case
    by (auto simp: listening_def on_event_def add_watch_def rm_watch_def Let_def)
qed

lemma listening_reachable:
  assumes "runs (start_watcher t0 workdir walked) xs w"
  shows "listening w"
proof -
  have "listening (add_watch p workdir_mask v)" if "listening v" for p v
    using that by (auto simp: listening_def add_watch_def)
  then have "listening (fold (\<lambda>p. add_watch p workdir_mask) ps v)" if "listening v" for ps v
    using that by (induction ps arbitrary: v) auto
  moreover have "listening (add_watch (path_of ''/dev/pts'') ACCESS \<lparr>wa_last_tty = t0, wa_last_file = t0, wa_watches = []\<rparr>)"
    by (simp add: listening_def add_watch_def)
  ultimately have "listening (start_watcher t0 workdir walked)" unfolding start_watcher_def by blast
  with assms show ?thesis by (rule runs_invariant) (rule listening_step)
qed

lemma watched_mask:
  assumes "runs (start_watcher t0 workdir walked) xs w" and "watched w p" and "p \<noteq> path_of ''/dev/pts''"
  shows "dget (wa_watches w) p = Some workdir_mask"
  using listening_reachable [OF assms(1)] assms(2, 3) by (auto simp: listening_def watched_def)

text \<open>
  What the detector is for: every creation, change or deletion in a directory that it watches sets the
  time of the last file activity, and after a directory has been created there, it is watched as well.
\<close>

theorem activity_noticed:
  assumes "runs (start_watcher t0 workdir walked) xs w" and "watched w (ev_watch e)" and "ev_watch e \<noteq> path_of ''/dev/pts''"
    and "ev_mask e \<in> {MODIFY, CREATE, DELETE, directory_created, directory_deleted}" and "step w (now, e) w'"
  shows "wa_last_file w' = now
    \<and> (ev_mask e = directory_created \<longrightarrow> watched w' (path_join (ev_watch e) (path_of (ev_name e))))"
proof -
  have "dget (wa_watches w) (ev_watch e) = Some workdir_mask" using assms(1-3) by (rule watched_mask)
  then have "delivered w e" using assms(4) by (auto simp: delivered_def mask_defs)
  then have w': "w' = on_event now e w" using assms(5) by auto
  have "\<not> has_mask (ev_mask e) ACCESS" using assms(4) by (auto simp: has_mask_def mask_defs)
  then show ?thesis by (auto simp: w' on_event_def Let_def has_mask_def)
qed


section \<open>Witnesses\<close>

definition work :: path where "work = Path ''/'' [''work'']"
definition work_src :: path where "work_src = Path ''/'' [''work'', ''src'']"

lemma work_paths: "work \<noteq> path_of ''/dev/pts''" "path_join work (path_of ''src'') = work_src"
  by code_simp+

definition begun :: watcher where
  "begun = start_watcher 0 work [work]"

lemma begun_facts: "runs (start_watcher 0 work [work]) [] begun" "watched begun work"
  by (simp_all add: begun_def runs_simps watched_start)

definition changed :: "32 word \<Rightarrow> rat \<Rightarrow> watcher" where
  "changed m now = on_event now \<lparr>ev_watch = work, ev_mask = m, ev_name = ''src''\<rparr> begun"

lemma changed_step:
  assumes "m \<in> {MODIFY, CREATE, DELETE, directory_created, directory_deleted}"
  shows "step begun (now, \<lparr>ev_watch = work, ev_mask = m, ev_name = ''src''\<rparr>) (changed m now)"
proof -
  have "dget (wa_watches begun) work = Some workdir_mask"
    using watched_mask [OF begun_facts work_paths(1)] .
  with assms have "delivered begun \<lparr>ev_watch = work, ev_mask = m, ev_name = ''src''\<rparr>"
    by (auto simp: delivered_def mask_defs)
  then show ?thesis unfolding changed_def by (rule seen)
qed

theorem activity_noticed_witness:
  "wa_last_file (changed directory_created 7) = 7 \<and> watched (changed directory_created 7) work_src"
  using activity_noticed [OF begun_facts(1) _ _ _ changed_step [of directory_created 7]] begun_facts(2) work_paths
  by simp


end
