(* ===== verification/Secrets.thy ===== *)
theory Secrets
  imports Http Paths Codec
begin

text \<open>
  The init container that decrypts the user's secrets (\<open>secrets_mount/__main__.py\<close>).  Its files are the
  state; the key derivation and the decryption of the \<open>cryptography\<close> package and the HTTP service are
  parameters.
\<close>

section \<open>Files\<close>

text \<open>Directories, and the contents of the files in them.\<close>

record mount_fs =
  mf_dirs :: "path list"
  mf_files :: "(path, string) dict"

definition path_exists :: "mount_fs \<Rightarrow> path \<Rightarrow> bool" where
  "path_exists fs p \<longleftrightarrow> p \<in> set (mf_dirs fs) \<or> dget (mf_files fs) p \<noteq> None"

text \<open>\<open>p.iterdir()\<close>: the entries directly below a directory, each once.\<close>

definition iterdir :: "mount_fs \<Rightarrow> path \<Rightarrow> path list" where
  "iterdir fs p = filter (\<lambda>q. path_parts q \<noteq> [] \<and> path_parent q = p) (remdups (mf_dirs fs @ map fst (mf_files fs)))"

definition is_dir :: "mount_fs \<Rightarrow> path \<Rightarrow> bool" where
  "is_dir fs p \<longleftrightarrow> p \<in> set (mf_dirs fs)"

definition read_file :: "path \<Rightarrow> (mount_fs, string) eff" where
  "read_file p = (\<lambda>fs. case dget (mf_files fs) p of
     None \<Rightarrow> (Inl (RuntimeError ''FileNotFoundError''), fs) | Some t \<Rightarrow> (Inr t, fs))"

definition write_file :: "path \<Rightarrow> string \<Rightarrow> (mount_fs, unit) eff" where
  "write_file p t = (\<lambda>fs. (Inr (), fs\<lparr>mf_files := dset p t (mf_files fs)\<rparr>))"

section \<open>Keys\<close>

text \<open>\<open>kdf password salt\<close> is the PBKDF2 derivation with SHA-256, 32 bytes and 480000 rounds.\<close>

record crypto =
  kdf :: "string \<Rightarrow> string \<Rightarrow> nat list"
  fernet_decrypt :: "string \<Rightarrow> string \<Rightarrow> string res"

definition urlsafe :: "char \<Rightarrow> char" where
  "urlsafe c = (if c = CHR ''+'' then CHR ''-'' else if c = CHR ''/'' then CHR ''_'' else c)"

definition get_encryption_key :: "crypto \<Rightarrow> string \<Rightarrow> string \<Rightarrow> string" where
  "get_encryption_key cr password salt = map urlsafe (b64encode (kdf cr password salt))"

definition decrypt_string :: "crypto \<Rightarrow> string \<Rightarrow> string \<Rightarrow> string res" where
  "decrypt_string cr key d = fernet_decrypt cr key d"

definition decrypt_secret :: "crypto \<Rightarrow> path \<Rightarrow> path \<Rightarrow> string \<Rightarrow> (mount_fs, unit) eff" where
  "decrypt_secret cr file target key =
     bindC (read_file file) (\<lambda>content.
     bindC (liftE (decrypt_string cr key content)) (\<lambda>decrypted.
     write_file (path_join target (path_of (path_name file))) decrypted))"

definition get_user_key :: "crypto \<Rightarrow> mount_fs http \<Rightarrow> string \<Rightarrow> string \<Rightarrow> (mount_fs, string option) eff" where
  "get_user_key cr http data_svc_url access_token =
     (let hs = Some [(''Authorization'', ''Bearer '' @ access_token)] in
      bindC (http_get http (data_svc_url @ ''/user'') hs None) (\<lambda>r1.
      if resp_status r1 \<noteq> 200 then bindC (liftE (resp_body r1)) (\<lambda>_. ret None)
      else
        bindC (liftE (bindE (resp_body r1) (\<lambda>user_info. jitem user_info ''id''))) (\<lambda>user_id.
        bindC (http_get http (data_svc_url @ ''/user/secret_key'') hs None) (\<lambda>r2.
        if resp_status r2 \<noteq> 200 then bindC (liftE (resp_body r2)) (\<lambda>_. ret None)
        else
          bindC (liftE (bindE (resp_body r2) (\<lambda>user_key. bindE (jitem user_key ''secret_key'') jstr))) (\<lambda>secret.
          bindC (liftE (jstr user_id)) (\<lambda>salt.
          ret (Some (get_encryption_key cr secret salt))))))))"

section \<open>The program\<close>

fun decrypt_entries :: "crypto \<Rightarrow> path \<Rightarrow> string \<Rightarrow> path list \<Rightarrow> (mount_fs, unit) eff" where
  "decrypt_entries cr target key [] = ret ()"
| "decrypt_entries cr target key (entry # entries) =
     bindC (\<lambda>fs. (if is_dir fs entry then ret () else decrypt_secret cr entry target key) fs) (\<lambda>_.
     decrypt_entries cr target key entries)"

definition default_text :: "string \<Rightarrow> string option \<Rightarrow> string" where
  "default_text d v = (case v of None \<Rightarrow> d | Some t \<Rightarrow> t)"

definition mount_secrets :: "crypto \<Rightarrow> mount_fs http \<Rightarrow> (string, string) dict \<Rightarrow> (mount_fs, unit) eff" where
  "mount_secrets cr http environ =
     (case dget environ ''RENKU_ACCESS_TOKEN'' of
        None \<Rightarrow> ret ()
      | Some user_token \<Rightarrow>
          (case dget environ ''DATA_SERVICE_URL'' of
             None \<Rightarrow> ret ()
           | Some data_svc_url \<Rightarrow> (\<lambda>fs.
               (let encrypted = path_of (default_text ''/secrets_enc/'' (dget environ ''ENCRYPTED_SECRETS_MOUNT_PATH''));
                    decrypted = path_of (default_text ''/secrets/'' (dget environ ''DECRYPTED_SECRETS_MOUNT_PATH''))
                in if \<not> path_exists fs encrypted then ret ()
                   else if \<not> path_exists fs decrypted then ret ()
                   else bindC (get_user_key cr http data_svc_url user_token) (\<lambda>user_key.
                     case user_key of
                       None \<Rightarrow> ret ()
                     | Some key \<Rightarrow> (\<lambda>fs. decrypt_entries cr decrypted key (iterdir fs encrypted) fs))) fs)))"

section \<open>Facts\<close>

definition target_of :: "path \<Rightarrow> path \<Rightarrow> path" where
  "target_of target p = path_join target (path_of (path_name p))"

text \<open>An entry of a directory has a name without slashes.\<close>

definition named :: "path \<Rightarrow> bool" where
  "named p \<longleftrightarrow> path_parts p \<noteq> [] \<and> CHR ''/'' \<notin> set (path_name p) \<and> path_name p \<noteq> [] \<and> path_name p \<noteq> ''.''"

lemma target_of_named:
  "named p \<Longrightarrow> target_of target p = Path (path_root target) (path_parts target @ [path_name p])"
  by (cases "path_name p") (auto simp: named_def target_of_def path_of_def splits_id path_join_def is_absolute_def)

lemma target_of_inj:
  assumes "named p" "named q" "path_parent p = path_parent q" "target_of t p = target_of t q"
  shows "p = q"
proof -
  have "path_name p = path_name q" using assms(1, 2, 4) by (simp add: target_of_named)
  with assms show ?thesis
    by (cases p; cases q) (auto simp: path_name_def path_parent_def named_def split: if_splits; metis append_butlast_last_id)
qed

text \<open>The loop over entries of one directory that is not the target.\<close>

lemma decrypt_entries_result:
  assumes "decrypt_entries cr target key es fs = (Inr (), fs')"
    and "\<And>p. p \<in> set es \<Longrightarrow> named p \<and> path_parent p = source" and "source \<noteq> target" and "distinct es"
  shows "mf_dirs fs' = mf_dirs fs
    \<and> (\<forall>p \<in> set es. \<not> is_dir fs p \<longrightarrow> (\<exists>c d. dget (mf_files fs) p = Some c \<and> decrypt_string cr key c = Inr d
          \<and> dget (mf_files fs') (target_of target p) = Some d))
    \<and> (\<forall>q. q \<notin> target_of target ` set es \<longrightarrow> dget (mf_files fs') q = dget (mf_files fs) q)"
  using assms(1, 2, 4)
proof (induction es arbitrary: fs)
  case Nil
  then show ?case by (simp add: ret_def)
next
  case (Cons e es)
  then obtain fs1 where first: "(if is_dir fs e then ret () else decrypt_secret cr e target key) fs = (Inr (), fs1)"
    and rest: "decrypt_entries cr target key es fs1 = (Inr (), fs')"
    by (auto simp: bindC_Inr_iff)
  have e: "named e" "path_parent e = source" using Cons.prems(2) by auto
  have away: "target_of target p \<noteq> q" if "named p" "path_parent q = source" for p q
  proof
    assume "target_of target p = q"
    with that have "path_parent q = target" by (cases target) (auto simp: target_of_named path_parent_def)
    with that assms(3) show False by simp
  qed
  have IH: "mf_dirs fs' = mf_dirs fs1
    \<and> (\<forall>p \<in> set es. \<not> is_dir fs1 p \<longrightarrow> (\<exists>c d. dget (mf_files fs1) p = Some c \<and> decrypt_string cr key c = Inr d
          \<and> dget (mf_files fs') (target_of target p) = Some d))
    \<and> (\<forall>q. q \<notin> target_of target ` set es \<longrightarrow> dget (mf_files fs') q = dget (mf_files fs1) q)"
    using Cons.IH [OF rest] Cons.prems(2, 3) by simp
  have fresh: "target_of target e \<notin> target_of target ` set es"
    using Cons.prems(2, 3) e target_of_inj by fastforce
  show ?case
  proof (cases "is_dir fs e")
    case True
    with first have "fs1 = fs" by (simp add: ret_def)
    with IH True show ?thesis by auto
  next
    case False
    with first obtain c d where cd: "dget (mf_files fs) e = Some c" "decrypt_string cr key c = Inr d"
      and fs1: "fs1 = fs\<lparr>mf_files := dset (target_of target e) d (mf_files fs)\<rparr>"
      by (auto simp: decrypt_secret_def bindC_Inr_iff read_file_def write_file_def target_of_def split: option.splits)
    have same: "dget (mf_files fs1) p = dget (mf_files fs) p" if "p \<in> set es" for p
      using away [OF e(1), of p] Cons.prems(2) that by (auto simp: fs1)
    have "dget (mf_files fs') (target_of target e) = Some d"
      using IH fresh by (simp add: fs1)
    with IH cd same show ?thesis by (auto simp: fs1 is_dir_def)
  qed
qed

definition wf_fs :: "mount_fs \<Rightarrow> bool" where
  "wf_fs fs \<longleftrightarrow> list_all wf_path (mf_dirs fs) \<and> list_all (\<lambda>(p, _). wf_path p) (mf_files fs)"

lemma iterdir_named:
  assumes "wf_fs fs" and "q \<in> set (iterdir fs p)"
  shows "named q \<and> path_parent q = p"
proof -
  have "wf_path q" "path_parts q \<noteq> []" "path_parent q = p"
    using assms by (auto simp: iterdir_def wf_fs_def list_all_iff)
  moreover from this have "path_name q \<in> set (path_parts q)" by (simp add: path_name_def)
  ultimately show ?thesis by (auto simp: named_def wf_path_def)
qed

lemma distinct_iterdir: "distinct (iterdir fs p)"
  by (simp add: iterdir_def)

text \<open>
  C29. The secrets arrive: when the container ends without an error after it has obtained the user's key, every
  file of the encrypted directory has been decrypted with that key and its plain text stands under the same
  name in the target directory, and no file outside of the target directory has changed.
\<close>

theorem secrets_decrypted:
  assumes "wf_fs fs"
    and "dget environ ''RENKU_ACCESS_TOKEN'' = Some token" and "dget environ ''DATA_SERVICE_URL'' = Some url"
    and "dget environ ''ENCRYPTED_SECRETS_MOUNT_PATH'' = Some enc" and "dget environ ''DECRYPTED_SECRETS_MOUNT_PATH'' = Some dec"
    and "path_exists fs (path_of enc)" and "path_exists fs (path_of dec)" and "path_of enc \<noteq> path_of dec"
    and "get_user_key cr http url token fs = (Inr (Some key), fs)"
    and "mount_secrets cr http environ fs = (Inr (), fs')"
  shows "(\<forall>p c. dget (mf_files fs) p = Some c \<and> path_parts p \<noteq> [] \<and> path_parent p = path_of enc \<and> \<not> is_dir fs p \<longrightarrow>
           (\<exists>d. decrypt_string cr key c = Inr d
              \<and> dget (mf_files fs') (Path (path_root (path_of dec)) (path_parts (path_of dec) @ [path_name p])) = Some d))
    \<and> (\<forall>q. path_parent q \<noteq> path_of dec \<longrightarrow> dget (mf_files fs') q = dget (mf_files fs) q)"
proof -
  let ?es = "iterdir fs (path_of enc)"
  have "decrypt_entries cr (path_of dec) key ?es fs = (Inr (), fs')"
    using assms by (simp add: mount_secrets_def default_text_def Let_def bindC_eval)
  note r = decrypt_entries_result [OF this iterdir_named [OF assms(1)] assms(8) distinct_iterdir]
  have listed: "p \<in> set ?es" if "dget (mf_files fs) p = Some c" "path_parts p \<noteq> []" "path_parent p = path_of enc" for p c
    using that by (force simp: iterdir_def dget_def dest: map_of_SomeD)
  have outside: "q \<notin> target_of (path_of dec) ` set ?es" if "path_parent q \<noteq> path_of dec" for q
    using that iterdir_named [OF assms(1)] by (cases "path_of dec") (auto simp: target_of_named path_parent_def)
  show ?thesis
    using r listed outside iterdir_named [OF assms(1)] by (auto simp: target_of_named)
qed

definition example_fs :: mount_fs where
  "example_fs = \<lparr>mf_dirs = [path_of ''/enc'', path_of ''/dec''], mf_files = [(path_of ''/enc/db'', ''terces'')]\<rparr>"

definition example_crypto :: crypto where
  "example_crypto = \<lparr>kdf = (\<lambda>p s. []), fernet_decrypt = (\<lambda>k d. Inr (rev d))\<rparr>"

definition user_service :: "mount_fs http" where
  "user_service rq = ret (ok_json (JObj [(''id'', JStr ''u''), (''secret_key'', JStr ''k'')]))"

definition example_environ :: "(string, string) dict" where
  "example_environ = [(''RENKU_ACCESS_TOKEN'', ''t''), (''DATA_SERVICE_URL'', ''d''),
     (''ENCRYPTED_SECRETS_MOUNT_PATH'', ''/enc''), (''DECRYPTED_SECRETS_MOUNT_PATH'', ''/dec'')]"

theorem secrets_decrypted_witness:
  "\<exists>fs'. mount_secrets example_crypto user_service example_environ example_fs = (Inr (), fs')
     \<and> (\<exists>d. decrypt_string example_crypto [] ''terces'' = Inr d
          \<and> dget (mf_files fs') (Path (path_root (path_of ''/dec'')) (path_parts (path_of ''/dec'') @ [path_name (path_of ''/enc/db'')])) = Some d)"
proof -
  let ?fs' = "example_fs\<lparr>mf_files := [(path_of ''/enc/db'', ''terces''), (path_of ''/dec/db'', ''secret'')]\<rparr>"
  have wf: "wf_fs example_fs" by (simp add: wf_fs_def example_fs_def)
  have env: "dget example_environ ''RENKU_ACCESS_TOKEN'' = Some ''t''" "dget example_environ ''DATA_SERVICE_URL'' = Some ''d''"
    "dget example_environ ''ENCRYPTED_SECRETS_MOUNT_PATH'' = Some ''/enc''"
    "dget example_environ ''DECRYPTED_SECRETS_MOUNT_PATH'' = Some ''/dec''"
    by code_simp+
  have dirs: "path_exists example_fs (path_of ''/enc'')" "path_exists example_fs (path_of ''/dec'')" "path_of ''/enc'' \<noteq> path_of ''/dec''"
    by code_simp+
  have key: "get_user_key example_crypto user_service ''d'' ''t'' example_fs = (Inr (Some []), example_fs)" by code_simp
  have run: "mount_secrets example_crypto user_service example_environ example_fs = (Inr (), ?fs')" by code_simp
  have entry: "dget (mf_files example_fs) (path_of ''/enc/db'') = Some ''terces'' \<and> path_parts (path_of ''/enc/db'') \<noteq> []
    \<and> path_parent (path_of ''/enc/db'') = path_of ''/enc'' \<and> \<not> is_dir example_fs (path_of ''/enc/db'')"
    by code_simp
  from secrets_decrypted [OF wf env dirs key run] entry run show ?thesis by blast
qed

end
