(* ===== verification/Spec2Isabelle.thy ===== *)
theory Spec2Isabelle
  imports ErrorResponses Retries CustomFields LaunchLife GitFacts SidecarFacts RequestFacts SettingsFacts App
    Migrations Liveness Secrets
begin

text \<open>
  Renku Notebooks: the service that starts, lists, changes and stops interactive sessions on
  Kubernetes (\<open>renku_notebooks\<close>), and the programs that run beside or inside a session: the clone
  container and the git sidecar (\<open>git_services\<close>), the container that decrypts secrets
  (\<open>secrets-mount\<close>), the liveness detector and the migrations of session objects.

  \<^bold>\<open>How the parts interact.\<close>  A request's arguments are loaded by a schema; then the decorator
  \<open>authenticated\<close> makes a user of its headers, and the request reaches a handler, around which the exception
  handler makes a response of every error.  The handler looks sessions up through the cluster client, which asks a
  cache or the Kubernetes API and hands out only objects whose label names the user.  A launch chooses an
  image, asks the data service for a resource class, storages and git providers, builds a session object
  with the patches that add containers to Amalthea's defaults, creates it, and then creates its secrets.
  In the session's pod the init containers run in order (certificates, image download, secrets, clone),
  the clone container leaves an exit code, and the service reads status, exit codes and annotations of the
  object back into its responses.

  \<^bold>\<open>Theories.\<close>  Where a theory has a sibling \<open>...Facts\<close>, the sibling holds its properties.

  Foundations, without code of the repository of their own:
  \<^item> \<open>Prelude\<close>: results \<open>'e + 'a\<close>, computations \<open>'w \<Rightarrow> ('e + 'a) \<times> 'w\<close> over any world, Python's string
    methods, insertion-ordered dictionaries, decimals; \<open>Pyfloat\<close>: doubles as rationals with their rounding;
    \<open>Json\<close>, \<open>Codec\<close>, \<open>Regex\<close>, \<open>Paths\<close>, \<open>Urls\<close>, \<open>Http\<close>, \<open>Datetime\<close>, \<open>Md5\<close>, \<open>MergePatch\<close>: the standard library and
    the protocols as far as the code uses them.

  The service (\<open>src/renku_notebooks\<close>):
  \<^item> \<open>Exceptions\<close> (\<open>errors/\<close>) and \<open>ErrorResponses\<close> (\<open>errors/utils.py\<close>, \<open>api/schemas/errors.py\<close>): the class
    hierarchy, what a generated constructor stores, the bodies of error responses.
  \<^item> \<open>Users\<close> (\<open>api/auth.py\<close>, \<open>api/classes/user.py\<close>): users from headers; no handler runs without one.
  \<^item> \<open>Schemas\<close> (\<open>api/schemas/servers_post.py\<close>, \<open>servers_patch.py\<close>, \<open>secrets.py\<close>, \<open>repository.py\<close>): the bodies of requests,
    loaded field by field with the messages of all of them.
  \<^item> \<open>Requests\<close>, \<open>RequestFacts\<close> (the decorators of \<open>api/notebooks.py\<close>, \<open>errors/utils.py\<close>): every endpoint from its
    arguments to its answer.  \<open>answers\<close> (messages that can be sent), \<open>answering\<close> (errors that can be
    answered) and \<open>guarded\<close> (no effect without a user) are the predicates that its proofs compose; every
    request is answered, arguments come before users, and every launch can be asked for.
  \<^item> \<open>Settings\<close>, \<open>SettingsFacts\<close> (\<open>config/dynamic.py\<close>, \<open>config/__init__.py\<close>): the configuration from the defaults of
    the source to the values that the handlers read; \<open>App\<close> (\<open>renku_notebooks/__init__.py\<close>, \<open>api/health.py\<close>): the
    middleware for a reverse proxy.
  \<^item> \<open>CustomFields\<close>, \<open>ServerOptions\<close> (\<open>api/schemas\<close>): quantities and the options of a session, with the
    exactness of parsing, the order of options and the Kubernetes resources.
  \<^item> \<open>DataService\<close> (\<open>api/classes/data_service.py\<close>): the three clients, the choice of a resource class
    against a specification of the best one, and the options of a launch.
  \<^item> \<open>KubernetesUtil\<close>, \<open>Retries\<close> (\<open>util/\<close>): server names and waits that grow.
  \<^item> \<open>K8sClient\<close> (\<open>api/classes/k8s_client.py\<close>): the client of a namespace, the cache, the client over both;
    ownership, transparency of the cache, creation, token patches.
  \<^item> \<open>Image\<close> (\<open>api/classes/image.py\<close>): the nine patterns of an image name and the registry's protocol.
  \<^item> \<open>CloudStorage\<close> (\<open>api/schemas/cloud_storage.py\<close>, \<open>api/classes/cloud_storage\<close>), \<open>Config\<close> (\<open>config/\<close>).
  \<^item> \<open>Patches\<close> (\<open>api/amalthea_patches\<close>), \<open>Server\<close>, \<open>SessionFacts\<close> (\<open>api/classes/server.py\<close>): every patch
    generator, the session object, its start; environments are never overridden with another value,
    created sessions belong to their user, the init containers come in order.
  \<^item> \<open>Manifest\<close> (\<open>api/classes/server_manifest.py\<close>): reading a session back; the URL and the options that were
    stored are the ones that are read.
  \<^item> \<open>Responses\<close> (\<open>api/schemas/servers_get.py\<close>, \<open>config/static.py\<close>): status, messages, annotations.
  \<^item> \<open>Handlers\<close>, \<open>Launch\<close> (\<open>api/notebooks.py\<close> and the schemas of its requests): every handler.  \<open>LaunchRun\<close>
    composes a launch from end to end: preparation, manifest, creation, secrets and response.
  \<^item> \<open>ClusterStore\<close>, \<open>Lifecycle\<close>, \<open>LaunchLife\<close>: the cluster client and the handlers over a cluster that stores what
    it is sent.  An abstract machine over the sessions of all names (\<open>session_step\<close>: hibernated, resumed, stopped)
    is implemented by the handlers; a launch takes its user's session from absent to running (\<open>launched\<close>,
    \<open>creating\<close>); and no sequence of launches and requests of other users changes a session.

  Beside the service:
  \<^item> \<open>GitCli\<close>, \<open>GitConfig\<close>, \<open>GitCloner\<close>, \<open>GitFacts\<close> (\<open>src/git_services/git_services/cli\<close> and \<open>/init\<close>): the clone
    container from its configuration to its exit code.  \<open>raises\<close> and \<open>keeps\<close> are the two predicates on
    computations its proofs compose: which errors can leave one, and what of the state survives it.
  \<^item> \<open>Sidecar\<close>, \<open>SidecarFacts\<close> (\<open>/sidecar\<close>): git commands over JSON-RPC.
  \<^item> \<open>Secrets\<close> (\<open>src/secrets-mount\<close>), \<open>Liveness\<close> (\<open>src/liveness-detector\<close>, a step relation over file system
    events), \<open>Migrations\<close> (\<open>src/resource_schema_migrations\<close>, a loop over pages that need not end).

  \<^bold>\<open>State and parameters.\<close>  A world of any type stands for the cluster, the network, the clock and the
  file system; the functions of the client library, of \<open>requests\<close>, of a container registry and of the
  operating system are fields of records of parameters (\<open>k8s_client\<close>, \<open>service\<close>, \<open>launch_service\<close>, \<open>web\<close>, \<open>loaders\<close>, \<open>os\<close>,
  \<open>clone_env\<close>, \<open>sidecar\<close>, \<open>objects_api\<close>, \<open>crypto\<close>).  What a theorem needs of them is among its hypotheses, for
  example that reading does not change the cluster (\<open>reads_passive\<close>), that the cluster stores what it is sent
  (\<open>faithful_cluster\<close>: one request at a time, no other writer) or that deleting a file removes it;
  its witness runs the code on a concrete world.  Python exceptions are values, so every raise and every
  handler is a branch.

  \<^bold>\<open>Interfaces.\<close>  Four locales state contracts between components, each interpreted on the model's own
  definitions: \<open>owned_lookup\<close> (a lookup that only returns the user's sessions, for the operations that
  change them), \<open>session_store\<close> (lookup, patch and deletion as operations on a map of sessions, for the
  handlers), \<open>crc_validator\<close> (a validator that only returns well-formed options, for a launch) and
  \<open>patch_source\<close> (a generator of well-formed patches, composed into the manifest).

  \<^bold>\<open>Recursion, bounds and fuel.\<close>  Recursion is structural or has a termination proof, with two exceptions.
  The JSON reader takes the length of its text as fuel, which bounds its nesting; the migration loop is
  a \<^theory_text>\<open>partial_function\<close> whose \<open>None\<close> is a run that never ends, with a theorem that it ends when the
  listing does.  Integers are Python's and unbounded; MD5 and the masks of inotify are 32-bit words.
  Strings are bytes of UTF-8, and letters outside ASCII have no case.

  \<^bold>\<open>Not modelled.\<close>  The creation of the Flask objects, the matching of paths to routes and the OpenAPI
  document (\<open>renku_notebooks/__init__.py\<close>, \<open>wsgi.py\<close>): glue without logic of its own.  The merging of
  configurations by \<open>dataconf\<close>, YAML, decoding of tokens by PyJWT, ULIDs, the escaping of \<open>escapism\<close>, the
  GitLab client, the Renku CLI, cryptography: packages outside of the repository, which are parameters.
  Logging, tracing and the texts of docstrings.  The git HTTPS proxy and the cache (\<open>src/git-https-proxy\<close>,
  \<open>src/k8s-watcher\<close>) are Go programs; charts and tests are not programs of the service.
\<close>


end
